(* ===== verification/Prelude.thy ===== *)
theory Prelude
  imports Complex_Main "HOL-Library.Word"
begin

text \<open>
  Shared vocabulary of the development.

  \<^item> The error type of the Go code and the result type of its fallible functions.
    A Go function returning \<^verbatim>\<open>(T, error)\<close> is a HOL function into \<open>'a result\<close>; a run-time
    panic (nil dereference, integer division by zero) is the error value \<open>Panic\<close>, which
    \<^verbatim>\<open>fmt.Errorf("...: %w", err)\<close> cannot wrap because control never reaches the wrapping code.
    Only the fixed part of an error message is kept, not its formatted arguments.
  \<^item> The fragments of Go's standard library that the sources use on strings and slices.
  \<^item> The generic lemmas on results, lists and machine words that the component theories share.
\<close>

named_theorems result_simps \<open>unfolding of the result combinators\<close>
named_theorems go_string_simps \<open>facts about the modelled part of package strings\<close>


section \<open>Errors and results\<close>

datatype go_error =
    Err string
  | RPCError string
  | Wrap string go_error
  | Panic string

type_synonym 'a result = "go_error + 'a"

definition bindE :: "'a result \<Rightarrow> ('a \<Rightarrow> 'b result) \<Rightarrow> 'b result" where
  "bindE r f = (case r of Inl e \<Rightarrow> Inl e | Inr x \<Rightarrow> f x)"

fun wrap_error :: "string \<Rightarrow> go_error \<Rightarrow> go_error" where
  "wrap_error msg (Panic p) = Panic p"
| "wrap_error msg e = Wrap msg e"

definition wrapE :: "string \<Rightarrow> 'a result \<Rightarrow> 'a result" where
  "wrapE msg r = (case r of Inl e \<Rightarrow> Inl (wrap_error msg e) | Inr x \<Rightarrow> Inr x)"

definition mapE :: "('a \<Rightarrow> 'b) \<Rightarrow> 'a result \<Rightarrow> 'b result" where
  "mapE f r = (case r of Inl e \<Rightarrow> Inl e | Inr x \<Rightarrow> Inr (f x))"

text \<open>\<^verbatim>\<open>rpc.Errorf("...: %v", err)\<close>: the error becomes one whose message is sent to the client.\<close>

fun rpc_error :: "string \<Rightarrow> go_error \<Rightarrow> go_error" where
  "rpc_error msg (Panic p) = Panic p"
| "rpc_error msg e = RPCError msg"

definition rpcE :: "string \<Rightarrow> 'a result \<Rightarrow> 'a result" where
  "rpcE msg r = (case r of Inl e \<Rightarrow> Inl (rpc_error msg e) | Inr x \<Rightarrow> Inr x)"

text \<open>Reading through a pointer: a nil pointer panics.\<close>

definition derefE :: "'a option \<Rightarrow> 'a result" where
  "derefE p = (case p of None \<Rightarrow> Inl (Panic ''nil pointer dereference'') | Some x \<Rightarrow> Inr x)"

text \<open>A \<^verbatim>\<open>for\<close> loop whose body may return early with an error.\<close>

fun foldE :: "('a \<Rightarrow> 's \<Rightarrow> 's result) \<Rightarrow> 'a list \<Rightarrow> 's \<Rightarrow> 's result" where
  "foldE f [] s = Inr s"
| "foldE f (x # xs) s = bindE (f x s) (foldE f xs)"

fun mapME :: "('a \<Rightarrow> 'b result) \<Rightarrow> 'a list \<Rightarrow> 'b list result" where
  "mapME f [] = Inr []"
| "mapME f (x # xs) = bindE (f x) (\<lambda>y. bindE (mapME f xs) (\<lambda>ys. Inr (y # ys)))"

definition isOk :: "'a result \<Rightarrow> bool" where
  "isOk r = (case r of Inl _ \<Rightarrow> False | Inr _ \<Rightarrow> True)"

fun isPanic :: "'a result \<Rightarrow> bool" where
  "isPanic (Inl (Panic _)) = True"
| "isPanic _ = False"

text \<open>Evaluation by rewriting: with the case distinction in place of \<open>bindE\<close>, a continuation is not touched
  before its argument is known.\<close>

lemmas bindE_code [code_unfold] = bindE_def

lemma bindE_Inr [simp]: "bindE (Inr x) f = f x"
  by (simp add: bindE_def)

lemma bindE_Inl [simp]: "bindE (Inl e) f = Inl e"
  by (simp add: bindE_def)

lemma bindE_eq_Inr [simp]: "bindE r f = Inr y \<longleftrightarrow> (\<exists>x. r = Inr x \<and> f x = Inr y)"
  by (cases r) simp_all

lemma bindE_eq_Inl: "bindE r f = Inl e \<longleftrightarrow> r = Inl e \<or> (\<exists>x. r = Inr x \<and> f x = Inl e)"
  by (cases r) simp_all

lemma bindE_assoc [simp]: "bindE (bindE r f) g = bindE r (\<lambda>x. bindE (f x) g)"
  by (cases r) simp_all

lemma wrapE_Inr [simp]: "wrapE msg (Inr x) = Inr x"
  by (simp add: wrapE_def)

lemma wrapE_eq_Inr [simp]: "wrapE msg r = Inr x \<longleftrightarrow> r = Inr x"
  by (cases r) (simp_all add: wrapE_def)

lemma wrapE_Inl [simp]: "wrapE msg (Inl e) = Inl (wrap_error msg e)"
  by (simp add: wrapE_def)

lemma rpcE_Inr [simp]: "rpcE msg (Inr x) = Inr x"
  by (simp add: rpcE_def)

lemma rpcE_eq_Inr [simp]: "rpcE msg r = Inr x \<longleftrightarrow> r = Inr x"
  by (cases r) (simp_all add: rpcE_def)

lemma rpcE_Inl [simp]: "rpcE msg (Inl e) = Inl (rpc_error msg e)"
  by (simp add: rpcE_def)

lemma mapE_eq_Inr [simp]: "mapE f r = Inr y \<longleftrightarrow> (\<exists>x. r = Inr x \<and> y = f x)"
  by (cases r) (auto simp: mapE_def)

lemma mapE_simps [simp]: "mapE f (Inr x) = Inr (f x)" "mapE f (Inl e) = Inl e"
  by (simp_all add: mapE_def)

lemma derefE_eq_Inr [simp]: "derefE p = Inr x \<longleftrightarrow> p = Some x"
  by (cases p) (simp_all add: derefE_def)

lemma derefE_Some [simp]: "derefE (Some x) = Inr x"
  by (simp add: derefE_def)

lemma isOk_simps [simp]: "isOk (Inr x)" "\<not> isOk (Inl e)"
  by (simp_all add: isOk_def)

lemma isOk_iff: "isOk r \<longleftrightarrow> (\<exists>x. r = Inr x)"
  by (cases r) simp_all

lemma if_error_eq_Inr [simp]:
  "(if b then Inl e else r) = Inr x \<longleftrightarrow> \<not> b \<and> r = Inr x"
  "(if b then r else Inl e) = Inr x \<longleftrightarrow> b \<and> r = Inr x"
  by auto

lemma foldE_append: "foldE f (xs @ ys) s = bindE (foldE f xs s) (foldE f ys)"
proof (induction xs arbitrary: s)
  case (Cons x xs)
  then show ?case by (cases "f x s") simp_all
qed simp

text \<open>An invariant of the loop body is an invariant of the loop.\<close>

lemma foldE_invariant:
  assumes "foldE f xs s = Inr s'" and "P s"
    and "\<And>x s t. x \<in> set xs \<Longrightarrow> P s \<Longrightarrow> f x s = Inr t \<Longrightarrow> P t"
  shows "P s'"
  using assms
proof (induction xs arbitrary: s)
  case (Cons x xs)
  then obtain t where "f x s = Inr t" "foldE f xs t = Inr s'" by auto
  with Cons show ?case by (meson list.set_intros)
qed simp

lemma mapME_length: "mapME f xs = Inr ys \<Longrightarrow> length ys = length xs"
  by (induction xs arbitrary: ys) auto

lemma mapME_nth:
  "mapME f xs = Inr ys \<Longrightarrow> i < length xs \<Longrightarrow> f (xs ! i) = Inr (ys ! i)"
  by (induction xs arbitrary: ys i) (auto simp: nth_Cons split: nat.splits)


lemma mapME_in_set: "mapME f xs = Inr ys \<Longrightarrow> y \<in> set ys \<Longrightarrow> \<exists>x \<in> set xs. f x = Inr y"
  by (induction xs arbitrary: ys) auto


section \<open>Strings\<close>

text \<open>
  Go strings are byte strings; the identifiers, addresses and symbols of this program are
  ASCII, for which \<^verbatim>\<open>strings.ToLower\<close> maps the capital letters and keeps every other byte.
\<close>

definition lower_char :: "char \<Rightarrow> char" where
  "lower_char c = (let n = of_char c :: int in if 65 \<le> n \<and> n \<le> 90 then char_of (n + 32) else c)"

definition ToLower :: "string \<Rightarrow> string" where
  "ToLower s = map lower_char s"

definition EqualFold :: "string \<Rightarrow> string \<Rightarrow> bool" where
  "EqualFold s t = (ToLower s = ToLower t)"

fun HasPrefix :: "string \<Rightarrow> string \<Rightarrow> bool" where
  "HasPrefix s [] = True"
| "HasPrefix [] (p # ps) = False"
| "HasPrefix (c # s) (p # ps) = (c = p \<and> HasPrefix s ps)"

definition TrimPrefix :: "string \<Rightarrow> string \<Rightarrow> string" where
  "TrimPrefix s p = (if HasPrefix s p then drop (length p) s else s)"

definition is_space :: "char \<Rightarrow> bool" where
  "is_space c = (of_char c \<in> {9, 10, 11, 12, 13, 32 :: int})"

definition TrimSpace :: "string \<Rightarrow> string" where
  "TrimSpace s = rev (dropWhile is_space (rev (dropWhile is_space s)))"

text \<open>\<^verbatim>\<open>strconv.Atoi\<close>: an optional sign and at least one decimal digit; the value has to fit
  an \<^verbatim>\<open>int\<close>, which is 64 bits wide on the supported platforms.\<close>

definition is_digit :: "char \<Rightarrow> bool" where
  "is_digit c = (48 \<le> (of_char c :: int) \<and> (of_char c :: int) \<le> 57)"

definition digits_value :: "string \<Rightarrow> int" where
  "digits_value s = foldl (\<lambda>n c. 10 * n + ((of_char c :: int) - 48)) 0 s"

definition parse_int :: "string \<Rightarrow> int result" where
  "parse_int s =
     (let (neg, ds) = (case s of [] \<Rightarrow> (False, [])
                       | c # cs \<Rightarrow> if c = CHR ''-'' then (True, cs)
                                   else if c = CHR ''+'' then (False, cs) else (False, s))
      in if ds = [] \<or> \<not> list_all is_digit ds then Inl (Err ''invalid syntax'')
         else Inr (if neg then - digits_value ds else digits_value ds))"

definition Atoi :: "string \<Rightarrow> int result" where
  "Atoi s = bindE (parse_int s) (\<lambda>n.
     if n < - (2 ^ 63) \<or> 2 ^ 63 \<le> n then Inl (Err ''value out of range'') else Inr n)"

text \<open>\<^verbatim>\<open>strconv.ParseInt(s, 10, 64)\<close> agrees with \<^verbatim>\<open>Atoi\<close>; \<^verbatim>\<open>strconv.ParseUint(s, 10, 64)\<close> takes no sign.
  \<open>show_nat\<close> and \<open>show_int\<close> are \<^verbatim>\<open>FormatUint\<close> and \<^verbatim>\<open>FormatInt\<close>.\<close>

definition parse_uint :: "string \<Rightarrow> int result" where
  "parse_uint s =
     (if s = [] \<or> \<not> list_all is_digit s then Inl (Err ''invalid syntax'')
      else if 2 ^ 64 \<le> digits_value s then Inl (Err ''value out of range'')
      else Inr (digits_value s))"

fun show_nat :: "nat \<Rightarrow> string" where
  "show_nat n = (if n < 10 then [char_of (n + 48)] else show_nat (n div 10) @ [char_of (n mod 10 + 48)])"

declare show_nat.simps [simp del]

definition show_int :: "int \<Rightarrow> string" where
  "show_int i = (if i < 0 then CHR ''-'' # show_nat (nat (- i)) else show_nat (nat i))"

lemma digit_char: "d < 10 \<Longrightarrow> (of_char (char_of (d + 48)) :: int) = int d + 48" for d :: nat
  using of_nat_of_char [of "char_of (d + 48)", where ?'a = int] by (simp add: of_char_of)

lemma show_nat_digits: "list_all is_digit (show_nat n)"
proof (induction n rule: show_nat.induct)
  case (1 n)
  have "is_digit (char_of (d + 48))" if "d < 10" for d :: nat
    using that by (simp add: is_digit_def digit_char)
  then show ?case using 1 by (subst show_nat.simps) simp
qed

lemma show_nat_Nil [simp]: "show_nat n \<noteq> []"
  by (subst show_nat.simps) simp

lemma digits_value_snoc: "digits_value (s @ [c]) = 10 * digits_value s + (of_char c - 48)"
  by (simp add: digits_value_def)

lemma digits_value_show_nat [simp]: "digits_value (show_nat n) = int n"
proof (induction n rule: show_nat.induct)
  case (1 n)
  then show ?case
    by (subst show_nat.simps) (simp add: digits_value_snoc digit_char, simp add: digits_value_def digit_char, presburger)
qed

lemma show_nat_hd: "\<exists>c cs. show_nat n = c # cs \<and> is_digit c"
  using show_nat_digits [of n] by (cases "show_nat n") auto

lemma parse_int_show_int [simp]: "parse_int (show_int i) = Inr i"
proof (cases "i < 0")
  case True
  then show ?thesis using show_nat_digits [of "nat (- i)"] by (simp add: parse_int_def show_int_def)
next
  case False
  obtain c cs where c: "show_nat (nat i) = c # cs" "is_digit c" using show_nat_hd by blast
  then have "c \<noteq> CHR ''-''" "c \<noteq> CHR ''+''" by (auto simp: is_digit_def)
  moreover have "list_all is_digit (c # cs)" "digits_value (c # cs) = i"
    using show_nat_digits [of "nat i"] digits_value_show_nat [of "nat i"] False c by simp_all
  ultimately show ?thesis using False c(1) by (simp add: parse_int_def show_int_def)
qed

lemma parse_uint_show_nat: "n < 2 ^ 64 \<Longrightarrow> parse_uint (show_nat n) = Inr (int n)"
  using show_nat_digits [of n] by (simp add: parse_uint_def not_le)

lemma lower_char_idem [simp]: "lower_char (lower_char c) = lower_char c"
proof -
  have "lower_char c = c \<or> (97 \<le> (of_char (lower_char c) :: int) \<and> (of_char (lower_char c) :: int) \<le> 122)"
    by (auto simp: lower_char_def Let_def)
  then show ?thesis
  proof
    assume "lower_char c = c"
    then show ?thesis by simp
  next
    assume "97 \<le> (of_char (lower_char c) :: int) \<and> (of_char (lower_char c) :: int) \<le> 122"
    then show ?thesis by (simp add: lower_char_def [of "lower_char c"])
  qed
qed

lemma ToLower_idem [simp]: "ToLower (ToLower s) = ToLower s"
  by (simp add: ToLower_def)

lemma length_ToLower [simp]: "length (ToLower s) = length s"
  by (simp add: ToLower_def)

lemma ToLower_Nil [simp]: "ToLower [] = []" "ToLower s = [] \<longleftrightarrow> s = []"
  by (simp_all add: ToLower_def)

lemma HasPrefix_iff: "HasPrefix s p \<longleftrightarrow> take (length p) s = p"
  by (induction s p rule: HasPrefix.induct) auto


section \<open>Association lists standing for Go maps\<close>

text \<open>
  A Go map is a finite partial function with an unspecified iteration order. It is an
  association list with distinct keys, whose order stands for one iteration order.
\<close>

type_synonym ('k, 'v) gomap = "('k \<times> 'v) list"

definition gm_get :: "('k, 'v) gomap \<Rightarrow> 'k \<Rightarrow> 'v option" where
  "gm_get m k = map_of m k"

text \<open>\<^verbatim>\<open>m[k]\<close> used as a value: the zero value of the type when the key is absent.\<close>

definition gm_index :: "'v \<Rightarrow> ('k, 'v) gomap \<Rightarrow> 'k \<Rightarrow> 'v" where
  "gm_index zero m k = (case map_of m k of None \<Rightarrow> zero | Some v \<Rightarrow> v)"

fun gm_put :: "'k \<Rightarrow> 'v \<Rightarrow> ('k, 'v) gomap \<Rightarrow> ('k, 'v) gomap" where
  "gm_put k v [] = [(k, v)]"
| "gm_put k v ((k', v') # m) = (if k = k' then (k, v) # m else (k', v') # gm_put k v m)"

lemma map_of_gm_put [simp]: "map_of (gm_put k v m) = (map_of m)(k \<mapsto> v)"
  by (induction k v m rule: gm_put.induct) auto

lemma gm_get_put [simp]: "gm_get (gm_put k v m) k' = (if k' = k then Some v else gm_get m k')"
  by (simp add: gm_get_def)

lemma gm_index_put [simp]: "gm_index z (gm_put k v m) k' = (if k' = k then v else gm_index z m k')"
  by (simp add: gm_index_def)

lemma keys_gm_put: "fst ` set (gm_put k v m) = insert k (fst ` set m)"
  by (induction k v m rule: gm_put.induct) auto

lemma distinct_gm_put: "distinct (map fst m) \<Longrightarrow> distinct (map fst (gm_put k v m))"
  by (induction k v m rule: gm_put.induct) (auto simp: keys_gm_put)

lemma gm_get_key: "gm_get m k = Some v \<Longrightarrow> k \<in> set (map fst m)"
  by (force simp: gm_get_def dest: map_of_SomeD)

lemma gm_index_empty [simp]: "gm_index z [] k = z"
  by (simp add: gm_index_def)

lemma gm_get_empty [simp]: "gm_get [] k = None"
  by (simp add: gm_get_def)


section \<open>Lists and sums\<close>

lemma sum_list_map_update:
  fixes f :: "'a \<Rightarrow> 'b :: ab_group_add"
  shows "i < length xs \<Longrightarrow> (\<Sum>x\<leftarrow>xs[i := y]. f x) = (\<Sum>x\<leftarrow>xs. f x) - f (xs ! i) + f y"
  by (induction xs arbitrary: i) (auto simp: algebra_simps split: nat.splits)

lemma sum_list_filter_split:
  fixes f :: "'a \<Rightarrow> 'b :: comm_monoid_add"
  shows "(\<Sum>x\<leftarrow>xs. f x) = (\<Sum>x\<leftarrow>filter P xs. f x) + (\<Sum>x\<leftarrow>filter (\<lambda>x. \<not> P x) xs. f x)"
  by (induction xs) (auto simp: ac_simps)


section \<open>Machine words\<close>

type_synonym uint8 = "8 word"
type_synonym uint32 = "32 word"
type_synonym uint64 = "64 word"
type_synonym byte = "8 word"
type_synonym bytes = "byte list"

text \<open>Reading a wrapped sum never exceeds the true sum.\<close>

lemma unat_word_add_le: "unat (a + b :: 'a::len word) \<le> unat a + unat b"
  by (simp add: unat_word_ariths)

end
