(* ===== verification/Externals.thy ===== *)
theory Externals
  imports Prelude
begin

text \<open>
  The third-party packages the program calls, as one record of functions that every definition
  using them takes as its first argument: \<^verbatim>\<open>github.com/shopspring/decimal\<close> (fields \<open>d...\<close>, over an
  abstract type \<open>'d\<close> of decimals) and \<^verbatim>\<open>github.com/ethereum/go-ethereum\<close> (hashing, ABI coding, hex
  conversion, ECDSA). What the code relies on is stated by the locales \<open>decimal_spec\<close> and
  \<open>ecdsa_spec\<close>; their documented laws are hypotheses of the theorems that need them.
  The last section gives a reference implementation, a coefficient-exponent decimal as in
  \<^verbatim>\<open>shopspring/decimal\<close> together with simple stand-ins for the hash functions, shows that it obeys the laws and
  serves to evaluate the model on concrete inputs.
\<close>

section \<open>ABI values\<close>

text \<open>Arguments of \<^verbatim>\<open>abi.Arguments.Pack\<close>, tagged with the ABI type the code declares for them.\<close>

datatype abi_value =
    ABool bool
  | AUint nat int
  | AInt nat int
  | AAddress bytes
  | AFixedBytes bytes
  | ABytes bytes
  | AString string
  | ATuple "abi_value list"
  | AArray "abi_value list"

text \<open>The ABI type of a value, the values in the range of their type, and the types of fixed size.
  Arrays are left out: no injectivity is needed for them.\<close>

datatype abi_type =
    TBool | TUint nat | TInt nat | TAddress | TFixedBytes | TBytes | TString | TTuple "abi_type list" | TArray

fun abi_type_of :: "abi_value \<Rightarrow> abi_type" where
  "abi_type_of (ABool _) = TBool"
| "abi_type_of (AUint w _) = TUint w"
| "abi_type_of (AInt w _) = TInt w"
| "abi_type_of (AAddress _) = TAddress"
| "abi_type_of (AFixedBytes _) = TFixedBytes"
| "abi_type_of (ABytes _) = TBytes"
| "abi_type_of (AString _) = TString"
| "abi_type_of (ATuple vs) = TTuple (map abi_type_of vs)"
| "abi_type_of (AArray _) = TArray"

fun abi_wf :: "abi_value \<Rightarrow> bool" where
  "abi_wf (ABool _) = True"
| "abi_wf (AUint w n) = (w \<le> 256 \<and> 0 \<le> n \<and> n < 2 ^ w)"
| "abi_wf (AInt w n) = (0 < w \<and> w \<le> 256 \<and> - (2 ^ (w - 1)) \<le> n \<and> n < 2 ^ (w - 1))"
| "abi_wf (AAddress a) = (length a = 20)"
| "abi_wf (AFixedBytes b) = (length b = 32)"
| "abi_wf (ABytes _) = True"
| "abi_wf (AString _) = True"
| "abi_wf (ATuple vs) = list_all abi_wf vs"
| "abi_wf (AArray _) = False"

fun abi_static :: "abi_value \<Rightarrow> bool" where
  "abi_static (ABytes _) = False"
| "abi_static (AString _) = False"
| "abi_static (AArray _) = False"
| "abi_static (ATuple vs) = list_all abi_static vs"
| "abi_static _ = True"

section \<open>The library record\<close>

record 'd libs =
  dZero :: 'd
  dNew :: "int \<Rightarrow> int \<Rightarrow> 'd"
  dAdd :: "'d \<Rightarrow> 'd \<Rightarrow> 'd"
  dSub :: "'d \<Rightarrow> 'd \<Rightarrow> 'd"
  dMul :: "'d \<Rightarrow> 'd \<Rightarrow> 'd"
  dDiv :: "'d \<Rightarrow> 'd \<Rightarrow> 'd"
  dNeg :: "'d \<Rightarrow> 'd"
  dAbs :: "'d \<Rightarrow> 'd"
  dEqual :: "'d \<Rightarrow> 'd \<Rightarrow> bool"
  dLessThan :: "'d \<Rightarrow> 'd \<Rightarrow> bool"
  dIsInteger :: "'d \<Rightarrow> bool"
  dBigInt :: "'d \<Rightarrow> int"
  dIntPart :: "'d \<Rightarrow> 64 word"
  dExponent :: "'d \<Rightarrow> int"
  dString :: "'d \<Rightarrow> string"
  dNewFromString :: "string \<Rightarrow> 'd result"
  keccak256 :: "bytes \<Rightarrow> bytes"
  abiPack :: "abi_value list \<Rightarrow> bytes result"
  abiUnpackSessionKeySig :: "bytes \<Rightarrow> ((bytes \<times> bytes \<times> bytes) \<times> bytes) result"
  HexToHash :: "string \<Rightarrow> bytes"
  HexToAddress :: "string \<Rightarrow> bytes"
  IsHexAddress :: "string \<Rightarrow> bool"
  hashHex :: "bytes \<Rightarrow> string"
  addressHex :: "bytes \<Rightarrow> string"
  hexutilDecode :: "string \<Rightarrow> bytes result"
  hexutilEncode :: "bytes \<Rightarrow> string"
  ecSign :: "bytes \<Rightarrow> bytes \<Rightarrow> bytes result"
  ecPrivToAddress :: "bytes \<Rightarrow> bytes"
  ecSigToAddress :: "bytes \<Rightarrow> bytes \<Rightarrow> bytes result"

text \<open>The remaining comparison methods of \<^verbatim>\<open>decimal.Decimal\<close>, all defined there through \<^verbatim>\<open>Cmp\<close> and \<^verbatim>\<open>Sign\<close>.\<close>

definition dIsZero :: "'d libs \<Rightarrow> 'd \<Rightarrow> bool" where
  "dIsZero L d = dEqual L d (dZero L)"

definition dIsNegative :: "'d libs \<Rightarrow> 'd \<Rightarrow> bool" where
  "dIsNegative L d = dLessThan L d (dZero L)"

definition dIsPositive :: "'d libs \<Rightarrow> 'd \<Rightarrow> bool" where
  "dIsPositive L d = dLessThan L (dZero L) d"

definition dGreaterThan :: "'d libs \<Rightarrow> 'd \<Rightarrow> 'd \<Rightarrow> bool" where
  "dGreaterThan L a b = dLessThan L b a"

section \<open>Documented behaviour\<close>

text \<open>
  \<open>val\<close> is the rational number a decimal denotes: addition, subtraction, multiplication and
  comparison are exact, division is exact to sixteen places, \<^verbatim>\<open>IsInteger\<close>/\<^verbatim>\<open>BigInt\<close> recognise and extract integers, and a
  decimal is an integer multiple of \<open>10\<close> to the power of its \<^verbatim>\<open>Exponent\<close>.
\<close>

locale decimal_spec =
  fixes L :: "'d libs" and val :: "'d \<Rightarrow> rat"
  assumes val_Zero [simp]: "val (dZero L) = 0"
    and val_New [simp]: "val (dNew L c e) = of_int c * 10 powi e"
    and val_Add [simp]: "val (dAdd L a b) = val a + val b"
    and val_Sub [simp]: "val (dSub L a b) = val a - val b"
    and val_Mul [simp]: "val (dMul L a b) = val a * val b"
    and val_Neg [simp]: "val (dNeg L a) = - val a"
    and val_Abs [simp]: "val (dAbs L a) = \<bar>val a\<bar>"
    and Equal_iff [simp]: "dEqual L a b \<longleftrightarrow> val a = val b"
    and LessThan_iff [simp]: "dLessThan L a b \<longleftrightarrow> val a < val b"
    and IsInteger_iff [simp]: "dIsInteger L a \<longleftrightarrow> val a \<in> \<int>"
    and IntPart_val: "0 \<le> val a \<Longrightarrow> val a < 2 ^ 63 \<Longrightarrow> int (unat (dIntPart L a)) = \<lfloor>val a\<rfloor>"
    and Div_val: "val b \<noteq> 0 \<Longrightarrow> \<bar>val (dDiv L a b) - val a / val b\<bar> \<le> 1 / 10 ^ 16"
    and BigInt_val: "val a \<in> \<int> \<Longrightarrow> of_int (dBigInt L a) = val a"
    and Exponent_val: "\<exists>c. val a = of_int c * 10 powi (dExponent L a)"
    and String_val: "\<exists>b. dNewFromString L (dString L a) = Inr b \<and> val b = val a"
begin

lemma IsZero_iff [simp]: "dIsZero L a \<longleftrightarrow> val a = 0"
  by (simp add: dIsZero_def)

lemma IsNegative_iff [simp]: "dIsNegative L a \<longleftrightarrow> val a < 0"
  by (simp add: dIsNegative_def)

lemma IsPositive_iff [simp]: "dIsPositive L a \<longleftrightarrow> 0 < val a"
  by (simp add: dIsPositive_def)

lemma GreaterThan_iff [simp]: "dGreaterThan L a b \<longleftrightarrow> val b < val a"
  by (simp add: dGreaterThan_def)

text \<open>An amount with few enough decimal places is a whole number of the token's smallest unit.\<close>

lemma scaled_integer:
  assumes "- int n \<le> dExponent L a"
  shows "val a * 10 ^ n \<in> \<int>"
proof -
  obtain c where c: "val a = of_int c * 10 powi (dExponent L a)" using Exponent_val by blast
  have "(10::rat) powi (dExponent L a) * 10 ^ n = 10 powi (dExponent L a + int n)"
    by (simp add: power_int_add flip: power_int_of_nat)
  also have "\<dots> = of_int (10 ^ nat (dExponent L a + int n))"
    using assms by (simp add: power_int_def)
  finally show ?thesis by (simp add: c mult.assoc)
qed

end

text \<open>
  ECDSA as go-ethereum documents it: a signature has 65 bytes whose last one is 0 or 1, and
  recovery from a genuine signature yields the address of the signing key.
\<close>

locale ecdsa_spec =
  fixes L :: "'d libs" and valid_key :: "bytes \<Rightarrow> bool"
  assumes sign_length: "ecSign L h k = Inr s \<Longrightarrow> length s = 65 \<and> s ! 64 < 27"
    and address_length: "length (ecPrivToAddress L k) = 20"
    and recover_sign: "valid_key k \<Longrightarrow> ecSign L h k = Inr s \<Longrightarrow> ecSigToAddress L h s = Inr (ecPrivToAddress L k)"

text \<open>
  ABI coding: packing arguments of matching Go types does not fail, is injective on the values of
  given types, yields a fixed length for types of fixed size, and unpacking
  \<^verbatim>\<open>((address, bytes32, bytes), bytes)\<close> inverts packing. Hashes are 32 bytes long, and hex encoding
  is inverted by \<^verbatim>\<open>hexutil.Decode\<close>.
\<close>

locale abi_spec =
  fixes L :: "'d libs"
  assumes pack_ok: "\<exists>bs. abiPack L vs = Inr bs"
    and pack_inj: "\<lbrakk>abiPack L vs = Inr bs; abiPack L ws = Inr bs; map abi_type_of vs = map abi_type_of ws;
        list_all abi_wf vs; list_all abi_wf ws\<rbrakk> \<Longrightarrow> vs = ws"
    and pack_static_length: "\<lbrakk>abiPack L vs = Inr bs; abiPack L ws = Inr cs; map abi_type_of vs = map abi_type_of ws;
        list_all abi_static vs; list_all abi_wf vs; list_all abi_wf ws\<rbrakk> \<Longrightarrow> length bs = length cs"
    and unpack_pack: "\<lbrakk>abiPack L [ATuple [AAddress sk, AFixedBytes mh, ABytes asig], ABytes sg] = Inr bs;
        length sk = 20; length mh = 32\<rbrakk>
      \<Longrightarrow> abiUnpackSessionKeySig L bs = Inr ((sk, mh, asig), sg)"
    and keccak_length: "length (keccak256 L bs) = 32"
    and hexutil_inverse: "hexutilDecode L (hexutilEncode L bs) = Inr bs"
    and hexutil_zero: "hexutilEncode L [0] = ''0x00''"
    and HexToAddress_addressHex: "length a = 20 \<Longrightarrow> HexToAddress L (addressHex L a) = a"
    and HexToAddress_lower: "length a = 20 \<Longrightarrow> HexToAddress L (ToLower (addressHex L a)) = a"
    and HexToAddress_length: "length (HexToAddress L s) = 20"
    and HexToHash_length: "length (HexToHash L s) = 32"

section \<open>A reference implementation\<close>

text \<open>Coefficient and exponent: \<open>(c, e)\<close> denotes \<open>c * 10 ^ e\<close>.\<close>

type_synonym ref_decimal = "int \<times> int"

definition ref_val :: "ref_decimal \<Rightarrow> rat" where
  "ref_val d = of_int (fst d) * 10 powi (snd d)"

definition rescale :: "ref_decimal \<Rightarrow> int \<Rightarrow> int" where
  "rescale d e = fst d * 10 ^ nat (snd d - e)"

definition ref_add :: "ref_decimal \<Rightarrow> ref_decimal \<Rightarrow> ref_decimal" where
  "ref_add a b = (let e = min (snd a) (snd b) in (rescale a e + rescale b e, e))"

definition ref_sub :: "ref_decimal \<Rightarrow> ref_decimal \<Rightarrow> ref_decimal" where
  "ref_sub a b = (let e = min (snd a) (snd b) in (rescale a e - rescale b e, e))"

definition ref_mul :: "ref_decimal \<Rightarrow> ref_decimal \<Rightarrow> ref_decimal" where
  "ref_mul a b = (fst a * fst b, snd a + snd b)"

definition ref_div :: "ref_decimal \<Rightarrow> ref_decimal \<Rightarrow> ref_decimal" where
  "ref_div a b = (let e = min (snd a) (snd b) in
     ((rescale a e * 10 ^ 16) div rescale b e, - 16))"

definition ref_equal :: "ref_decimal \<Rightarrow> ref_decimal \<Rightarrow> bool" where
  "ref_equal a b = (let e = min (snd a) (snd b) in rescale a e = rescale b e)"

definition ref_less :: "ref_decimal \<Rightarrow> ref_decimal \<Rightarrow> bool" where
  "ref_less a b = (let e = min (snd a) (snd b) in rescale a e < rescale b e)"

definition ref_floor :: "ref_decimal \<Rightarrow> int" where
  "ref_floor d = (if 0 \<le> snd d then fst d * 10 ^ nat (snd d) else fst d div 10 ^ nat (- snd d))"

definition ref_is_integer :: "ref_decimal \<Rightarrow> bool" where
  "ref_is_integer d = (0 \<le> snd d \<or> 10 ^ nat (- snd d) dvd fst d)"

definition ref_bigint :: "ref_decimal \<Rightarrow> int" where
  "ref_bigint d = ref_floor d"

lemma ref_val_rescale:
  "e \<le> snd d \<Longrightarrow> ref_val d = of_int (rescale d e) * 10 powi e"
proof -
  assume "e \<le> snd d"
  then have "(10::rat) powi (snd d) = 10 ^ nat (snd d - e) * 10 powi e"
    by (simp flip: power_int_of_nat power_int_add)
  then show ?thesis by (simp add: ref_val_def rescale_def)
qed

lemma ref_val_min:
  "ref_val a = of_int (rescale a (min (snd a) (snd b))) * 10 powi (min (snd a) (snd b))"
  "ref_val b = of_int (rescale b (min (snd a) (snd b))) * 10 powi (min (snd a) (snd b))"
  by (rule ref_val_rescale; simp)+

lemma ref_add_val: "ref_val (ref_add a b) = ref_val a + ref_val b"
  by (subst ref_val_min(1) [of a b], subst ref_val_min(2) [of b a])
     (simp add: ref_add_def ref_val_def Let_def algebra_simps)

lemma ref_sub_val: "ref_val (ref_sub a b) = ref_val a - ref_val b"
  by (subst ref_val_min(1) [of a b], subst ref_val_min(2) [of b a])
     (simp add: ref_sub_def ref_val_def Let_def algebra_simps)

lemma ref_mul_val: "ref_val (ref_mul a b) = ref_val a * ref_val b"
  by (simp add: ref_mul_def ref_val_def power_int_add)

lemma ref_equal_val: "ref_equal a b \<longleftrightarrow> ref_val a = ref_val b"
  by (subst ref_val_min(1) [of a b], subst ref_val_min(2) [of b a])
     (simp add: ref_equal_def Let_def)

lemma ref_less_val: "ref_less a b \<longleftrightarrow> ref_val a < ref_val b"
  by (subst ref_val_min(1) [of a b], subst ref_val_min(2) [of b a])
     (simp add: ref_less_def Let_def)

lemma ref_val_neg_exp: "snd d < 0 \<Longrightarrow> ref_val d = of_int (fst d) / 10 ^ nat (- snd d)"
  by (simp add: ref_val_def power_int_def field_simps)

lemma ref_is_integer_val: "ref_is_integer d \<longleftrightarrow> ref_val d \<in> \<int>"
proof (cases "0 \<le> snd d")
  case True
  then show ?thesis by (simp add: ref_is_integer_def ref_val_def power_int_def)
next
  case False
  let ?p = "10 ^ nat (- snd d) :: int"
  have "ref_val d = of_int (fst d) / of_int ?p" using False by (simp add: ref_val_neg_exp)
  moreover have "(of_int (fst d) / of_int ?p :: rat) \<in> \<int> \<longleftrightarrow> ?p dvd fst d"
  proof
    assume "(of_int (fst d) / of_int ?p :: rat) \<in> \<int>"
    then obtain k where "(of_int (fst d) / of_int ?p :: rat) = of_int k" by (auto elim: Ints_cases)
    then have "(of_int (fst d) :: rat) = of_int (k * ?p)" by (simp add: field_simps)
    then show "?p dvd fst d" unfolding of_int_eq_iff by simp
  next
    assume "?p dvd fst d"
    then obtain k where "fst d = ?p * k" ..
    then show "(of_int (fst d) / of_int ?p :: rat) \<in> \<int>" by simp
  qed
  ultimately show ?thesis using False by (simp add: ref_is_integer_def)
qed

lemma ref_bigint_val: "ref_val d \<in> \<int> \<Longrightarrow> of_int (ref_bigint d) = ref_val d"
proof (cases "0 \<le> snd d")
  case True
  then show ?thesis by (simp add: ref_bigint_def ref_floor_def ref_val_def power_int_def)
next
  case False
  assume "ref_val d \<in> \<int>"
  then have "10 ^ nat (- snd d) dvd fst d" using False by (simp add: ref_is_integer_def flip: ref_is_integer_val)
  then show ?thesis using False by (auto simp: ref_bigint_def ref_floor_def ref_val_neg_exp)
qed

lemma ref_floor_val: "ref_floor d = \<lfloor>ref_val d\<rfloor>"
proof (cases "0 \<le> snd d")
  case True
  then have "ref_val d = of_int (ref_floor d)" by (simp add: ref_floor_def ref_val_def power_int_def)
  then show ?thesis by simp
next
  case False
  then have "ref_val d = of_int (fst d) / of_int (10 ^ nat (- snd d))" by (simp add: ref_val_neg_exp)
  then show ?thesis using False by (simp only: floor_divide_of_int_eq) (simp add: ref_floor_def)
qed

text \<open>Division truncates to sixteen places.\<close>

lemma ref_div_val:
  assumes "ref_val b \<noteq> 0"
  shows "\<bar>ref_val (ref_div a b) - ref_val a / ref_val b\<bar> \<le> 1 / 10 ^ 16"
proof -
  let ?e = "min (snd a) (snd b)" let ?x = "rescale a ?e" let ?y = "rescale b ?e"
  have q: "ref_val a / ref_val b = of_int ?x / of_int ?y"
    by (subst ref_val_min(1) [of a b], subst ref_val_min(2) [of b a]) simp
  have y: "?y \<noteq> 0" using assms ref_val_min(2) [of b a] by auto
  have r: "ref_val (ref_div a b) = of_int ((?x * 10 ^ 16) div ?y) / 10 ^ 16"
    by (simp add: ref_div_def Let_def ref_val_neg_exp)
  let ?q = "of_int (?x * 10 ^ 16) / of_int ?y :: rat"
  have f: "of_int ((?x * 10 ^ 16) div ?y) = (of_int \<lfloor>?q\<rfloor> :: rat)" by (simp only: floor_divide_of_int_eq)
  have "\<bar>of_int \<lfloor>?q\<rfloor> - ?q\<bar> \<le> 1" by linarith
  then have "\<bar>(of_int \<lfloor>?q\<rfloor> - ?q) / 10 ^ 16\<bar> \<le> 1 / 10 ^ 16" by (simp add: abs_divide divide_right_mono)
  moreover have "(of_int \<lfloor>?q\<rfloor> - ?q) / 10 ^ 16 = ref_val (ref_div a b) - ref_val a / ref_val b"
    unfolding r f q diff_divide_distrib by simp
  ultimately show ?thesis by (simp only:)
qed

subsection \<open>Text, bytes and hashes\<close>


definition split_at :: "char \<Rightarrow> string \<Rightarrow> string \<times> string" where
  "split_at c s = (takeWhile (\<lambda>x. x \<noteq> c) s, drop 1 (dropWhile (\<lambda>x. x \<noteq> c) s))"

definition ref_string :: "ref_decimal \<Rightarrow> string" where
  "ref_string d = show_int (fst d) @ ''e'' @ show_int (snd d)"

definition ref_from_string :: "string \<Rightarrow> ref_decimal result" where
  "ref_from_string s =
     (let (m, e) = split_at CHR ''e'' s; (ip, fp) = split_at CHR ''.'' m in
      bindE (parse_int (ip @ fp)) (\<lambda>c.
      bindE (if e = [] then Inr 0 else parse_int e) (\<lambda>x. Inr (c, x - int (length fp)))))"

definition string_bytes :: "string \<Rightarrow> bytes" where
  "string_bytes s = map of_char s"

fun be_bytes :: "nat \<Rightarrow> int \<Rightarrow> bytes" where
  "be_bytes 0 n = []"
| "be_bytes (Suc k) n = be_bytes k (n div 256) @ [of_int (n mod 256)]"

definition be_int :: "bytes \<Rightarrow> int" where
  "be_int bs = foldl (\<lambda>n b. 256 * n + uint b) 0 bs"

definition len_prefix :: "nat \<Rightarrow> bytes" where
  "len_prefix n = replicate n 1 @ [0]"

definition read_len :: "bytes \<Rightarrow> nat" where
  "read_len bs = length (takeWhile (\<lambda>b. b = 1) bs)"

fun abi_encode :: "abi_value \<Rightarrow> bytes" where
  "abi_encode (ABool b) = [if b then 1 else 0]"
| "abi_encode (AUint w n) = be_bytes 32 n"
| "abi_encode (AInt w n) = be_bytes 32 n"
| "abi_encode (AAddress b) = b"
| "abi_encode (AFixedBytes b) = b"
| "abi_encode (ABytes b) = len_prefix (length b) @ b"
| "abi_encode (AString s) = len_prefix (length s) @ string_bytes s"
| "abi_encode (ATuple vs) = concat (map abi_encode vs)"
| "abi_encode (AArray vs) = len_prefix (length vs) @ concat (map abi_encode vs)"

definition ref_unpack :: "bytes \<Rightarrow> ((bytes \<times> bytes \<times> bytes) \<times> bytes) result" where
  "ref_unpack bs =
     (let r1 = drop 52 bs; n1 = read_len r1; r2 = drop (2 * n1 + 1) r1;
          n2 = read_len r2; r3 = drop (n2 + 1) r2
      in if length bs < 52 \<or> length r1 \<le> 2 * n1 \<or> length r3 \<noteq> n2
         then Inl (Err ''abi: cannot unmarshal'')
         else Inr ((take 20 bs, take 32 (drop 20 bs), take n1 (drop (n1 + 1) r1)), r3))"

definition ref_keccak :: "bytes \<Rightarrow> bytes" where
  "ref_keccak bs = foldl (\<lambda>h b. drop 1 h @ [5 * h ! 0 + b]) (replicate 32 0) bs"

definition hex_char :: "int \<Rightarrow> char" where
  "hex_char n = char_of (if n < 10 then n + 48 else n + 87)"

definition hex_val :: "char \<Rightarrow> int option" where
  "hex_val c = (let n = of_char c :: int in
     if 48 \<le> n \<and> n \<le> 57 then Some (n - 48)
     else if 97 \<le> n \<and> n \<le> 102 then Some (n - 87)
     else if 65 \<le> n \<and> n \<le> 70 then Some (n - 55) else None)"

fun bytes_hex :: "bytes \<Rightarrow> string" where
  "bytes_hex [] = []"
| "bytes_hex (b # bs) = hex_char (uint b div 16) # hex_char (uint b mod 16) # bytes_hex bs"

fun hex_bytes :: "string \<Rightarrow> bytes option" where
  "hex_bytes [] = Some []"
| "hex_bytes [c] = None"
| "hex_bytes (c # d # s) = (case (hex_val c, hex_val d, hex_bytes s) of
     (Some x, Some y, Some bs) \<Rightarrow> Some (of_int (16 * x + y) # bs) | _ \<Rightarrow> None)"

definition ref_encode :: "bytes \<Rightarrow> string" where
  "ref_encode bs = ''0x'' @ bytes_hex bs"

definition ref_decode :: "string \<Rightarrow> bytes result" where
  "ref_decode s = (if s = [] then Inl (Err ''empty hex string'')
     else if \<not> HasPrefix s ''0x'' then Inl (Err ''hex string without 0x prefix'')
     else case hex_bytes (drop 2 s) of None \<Rightarrow> Inl (Err ''invalid hex string'') | Some bs \<Rightarrow> Inr bs)"

definition left_pad :: "nat \<Rightarrow> bytes \<Rightarrow> bytes" where
  "left_pad n bs = (if n \<le> length bs then drop (length bs - n) bs else replicate (n - length bs) 0 @ bs)"

definition from_hex :: "string \<Rightarrow> bytes" where
  "from_hex s = (let t = (if HasPrefix s ''0x'' \<or> HasPrefix s ''0X'' then drop 2 s else s);
                     u = (if odd (length t) then CHR ''0'' # t else t)
                 in case hex_bytes u of None \<Rightarrow> [] | Some bs \<Rightarrow> bs)"

definition ref_is_hex_address :: "string \<Rightarrow> bool" where
  "ref_is_hex_address s = (let t = (if HasPrefix s ''0x'' \<or> HasPrefix s ''0X'' then drop 2 s else s)
     in length t = 40 \<and> list_all (\<lambda>c. hex_val c \<noteq> None) t)"

definition ref_libs :: "ref_decimal libs" where
  "ref_libs = \<lparr> dZero = (0, 0), dNew = Pair, dAdd = ref_add, dSub = ref_sub, dMul = ref_mul, dDiv = ref_div,
     dNeg = (\<lambda>d. (- fst d, snd d)), dAbs = (\<lambda>d. (\<bar>fst d\<bar>, snd d)), dEqual = ref_equal,
     dLessThan = ref_less, dIsInteger = ref_is_integer, dBigInt = ref_bigint, dIntPart = (\<lambda>d. of_int (ref_floor d)), dExponent = snd,
     dString = ref_string, dNewFromString = ref_from_string, keccak256 = ref_keccak,
     abiPack = (\<lambda>vs. Inr (concat (map abi_encode vs))), abiUnpackSessionKeySig = ref_unpack,
     HexToHash = (\<lambda>s. left_pad 32 (from_hex s)), HexToAddress = (\<lambda>s. left_pad 20 (from_hex s)),
     IsHexAddress = ref_is_hex_address, hashHex = ref_encode, addressHex = ref_encode,
     hexutilDecode = ref_decode, hexutilEncode = ref_encode,
     ecSign = (\<lambda>h k. Inr (left_pad 32 k @ left_pad 32 h @ [0])),
     ecPrivToAddress = left_pad 20,
     ecSigToAddress = (\<lambda>h s. Inr (left_pad 20 (take 32 s))) \<rparr>"

lemma length_be_bytes [simp]: "length (be_bytes k n) = k"
  by (induction k arbitrary: n) simp_all

lemma be_int_snoc: "be_int (bs @ [b]) = 256 * be_int bs + uint b"
  by (simp add: be_int_def)

lemma be_int_be_bytes: "0 \<le> n \<Longrightarrow> n < 256 ^ k \<Longrightarrow> be_int (be_bytes k n) = n"
proof (induction k arbitrary: n)
  case (Suc k)
  have "n div 256 < 256 ^ k" using Suc.prems by auto
  moreover have "uint (of_int (n mod 256) :: byte) = n mod 256" by (simp add: unsigned_of_int take_bit_eq_mod)
  ultimately show ?case using Suc.IH Suc.prems by (simp add: be_int_snoc pos_imp_zdiv_nonneg_iff)
qed (simp add: be_int_def)

lemma be_int_be_bytes_mod: "be_int (be_bytes k n) = n mod 256 ^ k"
proof (induction k arbitrary: n)
  case (Suc k)
  have "uint (of_int (n mod 256) :: byte) = n mod 256" by (simp add: unsigned_of_int take_bit_eq_mod)
  moreover have "256 * (n div 256 mod 256 ^ k) + n mod 256 = n mod (256 * 256 ^ k)"
    by (simp add: zmod_zmult2_eq)
  ultimately show ?case using Suc by (simp add: be_int_snoc)
qed (simp add: be_int_def)

lemma numeral_256_32: "(2::int) ^ 256 = 256 ^ 32" "(256::int) ^ 8 = 2 ^ 64"
  by simp_all

lemma be_bytes_inj_nonneg:
  "be_bytes 32 m = be_bytes 32 n \<Longrightarrow> 0 \<le> m \<Longrightarrow> m < 2 ^ 256 \<Longrightarrow> 0 \<le> n \<Longrightarrow> n < 2 ^ 256 \<Longrightarrow> m = n"
  by (metis (no_types, lifting) be_int_be_bytes numeral_256_32)

lemma be_bytes_inj_signed:
  assumes "be_bytes 32 m = be_bytes 32 n" "- (2 ^ 255) \<le> m" "m < 2 ^ 255" "- (2 ^ 255) \<le> n" "n < 2 ^ 255"
  shows "m = n"
proof -
  have "m mod 2 ^ 256 = n mod 2 ^ 256"
    unfolding numeral_256_32 by (metis assms(1) be_int_be_bytes_mod)
  then have "2 ^ 256 dvd m - n" by (simp add: mod_eq_dvd_iff)
  moreover have "\<bar>m - n\<bar> < 2 ^ 256" using assms by simp
  ultimately have "m - n = 0" using dvd_imp_le_int [of "m - n" "2 ^ 256"] by (cases "m - n = 0") auto
  then show ?thesis by simp
qed

lemma power_le_256: "w \<le> 256 \<Longrightarrow> (n::int) < 2 ^ w \<Longrightarrow> n < 2 ^ 256"
  by (meson one_le_numeral order_less_le_trans power_increasing)

lemma power_le_255: "w \<le> 256 \<Longrightarrow> (2::int) ^ (w - 1) \<le> 2 ^ 255"
  by (rule power_increasing) auto

lemma string_bytes_inj: "string_bytes s = string_bytes t \<Longrightarrow> s = t"
proof -
  have "inj (of_char :: char \<Rightarrow> byte)"
  proof (rule injI)
    fix x y :: char
    assume "(of_char x :: byte) = of_char y"
    then have "unat (of_char x :: byte) = unat (of_char y :: byte)" by simp
    moreover have "unat (of_char z :: byte) = of_char z" for z
      by (subst of_nat_of_char [symmetric]) (simp add: unat_of_nat)
    ultimately show "x = y" by simp
  qed
  then show "string_bytes s = string_bytes t \<Longrightarrow> s = t" by (simp add: string_bytes_def inj_map_eq_map)
qed

lemma hex_val_char: "0 \<le> n \<Longrightarrow> n < 16 \<Longrightarrow> hex_val (hex_char n) = Some n"
  by (simp add: hex_val_def hex_char_def)

lemma hex_bytes_bytes_hex [simp]: "hex_bytes (bytes_hex bs) = Some bs"
proof (induction bs)
  case (Cons b bs)
  have "uint b < 256" using uint_bounded [of b] by simp
  then have "uint b div 16 < 16" "0 \<le> uint b div 16" by (auto simp: pos_imp_zdiv_nonneg_iff)
  then show ?case using Cons by (simp add: hex_val_char)
qed simp

lemma length_ref_keccak: "length (ref_keccak bs) = 32"
proof -
  have "length h = 32 \<Longrightarrow> length (foldl (\<lambda>h b. drop 1 h @ [5 * h ! 0 + b]) h bs) = 32" for h :: bytes
    by (induction bs arbitrary: h) auto
  then show ?thesis by (simp add: ref_keccak_def)
qed

lemma length_bytes_hex [simp]: "length (bytes_hex bs) = 2 * length bs"
  by (induction bs) simp_all

lemma length_left_pad [simp]: "length (left_pad n bs) = n"
  by (simp add: left_pad_def)

lemma left_pad_id [simp]: "length bs = n \<Longrightarrow> left_pad n bs = bs"
  by (simp add: left_pad_def)

lemma show_int_chars: "c \<in> set (show_int i) \<Longrightarrow> c = CHR ''-'' \<or> is_digit c"
  using show_nat_digits by (fastforce simp: show_int_def list_all_iff split: if_splits)

lemma ref_from_string_string [simp]: "ref_from_string (ref_string d) = Inr d"
proof -
  have e: "x \<noteq> CHR ''e'' \<and> x \<noteq> CHR ''.''" if "x \<in> set (show_int i)" for x i
    using show_int_chars [OF that] by (auto simp: is_digit_def)
  have ne: "show_int i \<noteq> []" for i by (simp add: show_int_def)
  have "split_at CHR ''e'' (ref_string d) = (show_int (fst d), show_int (snd d))"
    using e by (simp add: split_at_def ref_string_def takeWhile_append2 dropWhile_append2)
  moreover have "split_at CHR ''.'' (show_int (fst d)) = (show_int (fst d), [])"
    using e by (simp add: split_at_def takeWhile_eq_all_conv [THEN iffD2] dropWhile_eq_Nil_conv [THEN iffD2])
  ultimately show ?thesis using ne by (simp add: ref_from_string_def)
qed

interpretation ref_dec: decimal_spec ref_libs ref_val
proof
  fix a :: ref_decimal
  show "\<exists>b. dNewFromString ref_libs (dString ref_libs a) = Inr b \<and> ref_val b = ref_val a"
    by (simp add: ref_libs_def)
  show "\<exists>c. ref_val a = of_int c * 10 powi dExponent ref_libs a"
    by (rule exI [of _ "fst a"]) (simp add: ref_libs_def ref_val_def)
  show "of_int (dBigInt ref_libs a) = ref_val a" if "ref_val a \<in> \<int>"
    using that by (simp add: ref_libs_def ref_bigint_val)
  show "int (unat (dIntPart ref_libs a)) = \<lfloor>ref_val a\<rfloor>" if "0 \<le> ref_val a" "ref_val a < 2 ^ 63"
  proof -
    have "0 \<le> \<lfloor>ref_val a\<rfloor>" "\<lfloor>ref_val a\<rfloor> < 2 ^ 63" using that by (simp_all add: floor_less_iff)
    then show ?thesis by (simp add: ref_libs_def ref_floor_val unsigned_of_int take_bit_int_eq_self)
  qed
  fix b :: ref_decimal
  show "\<bar>ref_val (dDiv ref_libs a b) - ref_val a / ref_val b\<bar> \<le> 1 / 10 ^ 16" if "ref_val b \<noteq> 0"
    using ref_div_val [OF that] by (simp add: ref_libs_def)
qed (simp_all add: ref_libs_def ref_add_val ref_sub_val ref_mul_val ref_equal_val ref_less_val
      ref_is_integer_val, simp_all add: ref_val_def abs_mult)

interpretation ref_ecdsa: ecdsa_spec ref_libs "\<lambda>k. length k = 32"
  by unfold_locales (auto simp: ref_libs_def nth_append)

lemma read_len_prefix [simp]: "read_len (len_prefix n @ r) = n"
  by (induction n) (simp_all add: read_len_def len_prefix_def)

lemma length_len_prefix [simp]: "length (len_prefix n) = Suc n"
  by (simp add: len_prefix_def)

lemma len_prefix_inj: "len_prefix m @ r = len_prefix n @ r' \<Longrightarrow> m = n \<and> r = r'"
  by (metis append_eq_append_conv read_len_prefix)

lemma ref_unpack_encode:
  assumes "length sk = 20" "length mh = 32"
  shows "ref_unpack (sk @ mh @ len_prefix (length asig) @ asig @ len_prefix (length sg) @ sg)
         = Inr ((sk, mh, asig), sg)"
proof -
  let ?t = "len_prefix (length sg) @ sg"
  let ?r = "len_prefix (length asig) @ asig @ ?t"
  have d52: "drop 52 (sk @ mh @ ?r) = ?r" and t20: "take 20 (sk @ mh @ ?r) = sk"
    and t32: "take 32 (drop 20 (sk @ mh @ ?r)) = mh" using assms by simp_all
  have r2: "drop (2 * length asig + 1) ?r = ?t"
    and as: "take (length asig) (drop (length asig + 1) ?r) = asig"
    and sg: "drop (length sg + 1) ?t = sg" by (simp_all add: mult_2)
  have len: "\<not> length (sk @ mh @ ?r) < 52" "\<not> length ?r \<le> 2 * length asig" using assms by simp_all
  show ?thesis
    unfolding ref_unpack_def Let_def d52 t20 t32 read_len_prefix r2 as sg using len by simp
qed

text \<open>Encodings of values of one type are prefix-free.\<close>

lemma encode_list_prefix:
  assumes "\<And>v w r r'. v \<in> set vs \<Longrightarrow> abi_type_of v = abi_type_of w \<Longrightarrow> abi_wf v \<Longrightarrow> abi_wf w \<Longrightarrow>
      abi_encode v @ r = abi_encode w @ r' \<Longrightarrow> v = w \<and> r = r'"
    and "map abi_type_of vs = map abi_type_of ws" "list_all abi_wf vs" "list_all abi_wf ws"
    and "concat (map abi_encode vs) @ r = concat (map abi_encode ws) @ r'"
  shows "vs = ws \<and> r = r'"
  using assms
proof (induction vs arbitrary: ws)
  case (Cons x xs)
  then obtain y ys where ws: "ws = y # ys" by (cases ws) auto
  have xy: "x = y \<and> concat (map abi_encode xs) @ r = concat (map abi_encode ys) @ r'"
    using Cons.prems(2-5) by (intro Cons.prems(1)) (auto simp: ws)
  have "xs = ys \<and> r = r'"
    using Cons.prems xy by (intro Cons.IH) (auto simp: ws intro: Cons.prems(1))
  then show ?case using xy by (simp add: ws)
qed simp

lemma abi_encode_prefix:
  "abi_type_of v = abi_type_of w \<Longrightarrow> abi_wf v \<Longrightarrow> abi_wf w \<Longrightarrow> abi_encode v @ r = abi_encode w @ r' \<Longrightarrow> v = w \<and> r = r'"
proof (induction v arbitrary: w r r')
  case (ABool b)
  then show ?case by (cases w) (auto split: if_splits)
next
  case (AUint k n)
  then show ?case by (cases w) (auto dest!: be_bytes_inj_nonneg intro: power_le_256)
next
  case (AInt k n)
  from AInt.prems(1) obtain m where w: "w = AInt k m" by (cases w) auto
  have "be_bytes 32 n = be_bytes 32 m \<and> r = r'" using AInt.prems(4) by (simp add: w)
  moreover have "- (2 ^ 255) \<le> n" "n < 2 ^ 255" "- (2 ^ 255) \<le> m" "m < 2 ^ 255"
    using AInt.prems(2,3) power_le_255 [of k] by (auto simp: w)
  ultimately show ?case using be_bytes_inj_signed w by auto
next
  case (ABytes b)
  then show ?case by (cases w) (auto dest!: len_prefix_inj)
next
  case (AString s)
  from AString.prems(1) obtain t where w: "w = AString t" by (cases w) auto
  have "len_prefix (length s) @ string_bytes s @ r = len_prefix (length t) @ string_bytes t @ r'"
    using AString.prems(4) by (simp add: w)
  then have "length s = length t \<and> string_bytes s @ r = string_bytes t @ r'" by (rule len_prefix_inj)
  then have "string_bytes s = string_bytes t \<and> r = r'" by (auto simp: string_bytes_def)
  then show ?case using string_bytes_inj w by blast
next
  case (ATuple vs)
  from ATuple.prems(1) obtain ws where w: "w = ATuple ws" by (cases w) auto
  then have "vs = ws \<and> r = r'"
    using ATuple.prems by (intro encode_list_prefix [OF ATuple.IH]) auto
  then show ?case by (simp add: w)
qed (case_tac w; simp)+

lemma abi_encode_list_inj:
  assumes "concat (map abi_encode vs) = concat (map abi_encode ws)" "map abi_type_of vs = map abi_type_of ws"
    "list_all abi_wf vs" "list_all abi_wf ws"
  shows "vs = ws"
  using abi_encode_prefix [of "ATuple vs" "ATuple ws" "[]" "[]"] assms by simp

lemma abi_encode_static_length:
  "abi_type_of v = abi_type_of w \<Longrightarrow> abi_static v \<Longrightarrow> abi_wf v \<Longrightarrow> abi_wf w \<Longrightarrow> length (abi_encode v) = length (abi_encode w)"
proof (induction v arbitrary: w)
  case (ATuple vs)
  from ATuple.prems(1) obtain ws where w: "w = ATuple ws" by (cases w) auto
  have "\<lbrakk>map abi_type_of vs = map abi_type_of ws; list_all abi_static vs; list_all abi_wf vs; list_all abi_wf ws\<rbrakk>
      \<Longrightarrow> length (concat (map abi_encode vs)) = length (concat (map abi_encode ws))"
    using ATuple.IH
  proof (induction vs arbitrary: ws)
    case (Cons x xs)
    then obtain y ys where "ws = y # ys" by (cases ws) auto
    then show ?case using Cons by simp
  qed simp
  then show ?case using ATuple.prems by (simp add: w)
qed (case_tac w; simp)+

lemma ToLower_hex_char: "0 \<le> n \<Longrightarrow> n < 16 \<Longrightarrow> lower_char (hex_char n) = hex_char n"
  by (simp add: lower_char_def hex_char_def Let_def)

lemma ToLower_ref_encode: "ToLower (ref_encode bs) = ref_encode bs"
proof -
  have "map lower_char (bytes_hex bs) = bytes_hex bs"
  proof (induction bs)
    case (Cons b bs)
    have "uint b < 256" using uint_bounded [of b] by simp
    then have "uint b div 16 < 16" "0 \<le> uint b div 16" by (auto simp: pos_imp_zdiv_nonneg_iff)
    then show ?case using Cons by (simp add: ToLower_hex_char)
  qed simp
  then show ?thesis by (simp add: ref_encode_def ToLower_def lower_char_def)
qed

interpretation ref_abi: abi_spec ref_libs
proof
  fix bs :: bytes
  show "hexutilDecode ref_libs (hexutilEncode ref_libs bs) = Inr bs"
    by (simp add: ref_libs_def ref_decode_def ref_encode_def)
  show "hexutilEncode ref_libs [0] = ''0x00''"
    by code_simp
  fix vs ws :: "abi_value list" and cs :: bytes
  show "length bs = length cs" if "abiPack ref_libs vs = Inr bs" "abiPack ref_libs ws = Inr cs"
    "map abi_type_of vs = map abi_type_of ws" "list_all abi_static vs" "list_all abi_wf vs" "list_all abi_wf ws"
    using abi_encode_static_length [of "ATuple vs" "ATuple ws"] that by (simp add: ref_libs_def)
  show "vs = ws" if "abiPack ref_libs vs = Inr bs" "abiPack ref_libs ws = Inr bs"
    "map abi_type_of vs = map abi_type_of ws" "list_all abi_wf vs" "list_all abi_wf ws"
    using that by (intro abi_encode_list_inj) (auto simp: ref_libs_def)
  show "HexToAddress ref_libs (ToLower (addressHex ref_libs bs)) = bs" if "length bs = 20"
    using that by (simp add: ref_libs_def ToLower_ref_encode) (simp add: ref_encode_def from_hex_def)
qed (auto simp: ref_libs_def length_ref_keccak ref_encode_def from_hex_def ref_unpack_encode)

end
