(* ===== verification/Core_Types.thy ===== *)
theory Core_Types
  imports Externals
begin

text \<open>
  The data model of \<^verbatim>\<open>src/pkg/core/types.go\<close>: channel types and statuses, transition and
  transaction types, ledgers, transitions, states, channels, transactions, gated actions and
  pagination parameters, with the methods that need nothing but these types. The Go enumerations
  are \<^verbatim>\<open>uint8\<close> values that may hold any byte (they arrive from requests and from the database), so
  they are 8-bit words with named constants rather than datatypes; every \<^verbatim>\<open>default\<close> branch is kept.
\<close>

section \<open>Channel enumerations\<close>

type_synonym ChannelType = uint8

abbreviation (input) ChannelTypeHome :: ChannelType where "ChannelTypeHome \<equiv> 1"
abbreviation (input) ChannelTypeEscrow :: ChannelType where "ChannelTypeEscrow \<equiv> 2"

type_synonym ChannelStatus = uint8

abbreviation (input) ChannelStatusVoid :: ChannelStatus where "ChannelStatusVoid \<equiv> 0"
abbreviation (input) ChannelStatusOpen :: ChannelStatus where "ChannelStatusOpen \<equiv> 1"
abbreviation (input) ChannelStatusChallenged :: ChannelStatus where "ChannelStatusChallenged \<equiv> 2"
abbreviation (input) ChannelStatusClosed :: ChannelStatus where "ChannelStatusClosed \<equiv> 3"

definition ChannelStatus_String :: "ChannelStatus \<Rightarrow> string" where
  "ChannelStatus_String s =
     (if s = ChannelStatusVoid then ''void''
      else if s = ChannelStatusOpen then ''open''
      else if s = ChannelStatusChallenged then ''challenged''
      else if s = ChannelStatusClosed then ''closed''
      else ''unknown'')"

definition ChannelStatus_scanString :: "string \<Rightarrow> ChannelStatus result" where
  "ChannelStatus_scanString v0 =
     (let v = TrimSpace v0 in
      case Atoi v of
        Inr n \<Rightarrow> Inr (of_int n)
      | Inl _ \<Rightarrow>
          (let l = ToLower v in
           if l = ChannelStatus_String ChannelStatusVoid then Inr ChannelStatusVoid
           else if l = ChannelStatus_String ChannelStatusOpen then Inr ChannelStatusOpen
           else if l = ChannelStatus_String ChannelStatusChallenged then Inr ChannelStatusChallenged
           else if l = ChannelStatus_String ChannelStatusClosed then Inr ChannelStatusClosed
           else Inl (Err ''unknown ChannelStatus'')))"

text \<open>The dynamic type of the database driver's value.\<close>

datatype scan_src = SrcInt64 "64 word" | SrcInt32 "32 word" | SrcInt "64 word" | SrcString string | SrcOther

fun ChannelStatus_Scan :: "scan_src \<Rightarrow> ChannelStatus result" where
  "ChannelStatus_Scan (SrcInt64 v) = Inr (ucast v)"
| "ChannelStatus_Scan (SrcInt32 v) = Inr (ucast v)"
| "ChannelStatus_Scan (SrcInt v) = Inr (ucast v)"
| "ChannelStatus_Scan (SrcString v) = ChannelStatus_scanString v"
| "ChannelStatus_Scan SrcOther = Inl (Err ''unsupported ChannelStatus scan type'')"

abbreviation (input) INTENT_OPERATE :: uint8 where "INTENT_OPERATE \<equiv> 0"
abbreviation (input) INTENT_CLOSE :: uint8 where "INTENT_CLOSE \<equiv> 1"
abbreviation (input) INTENT_DEPOSIT :: uint8 where "INTENT_DEPOSIT \<equiv> 2"
abbreviation (input) INTENT_WITHDRAW :: uint8 where "INTENT_WITHDRAW \<equiv> 3"
abbreviation (input) INTENT_INITIATE_ESCROW_DEPOSIT :: uint8 where "INTENT_INITIATE_ESCROW_DEPOSIT \<equiv> 4"
abbreviation (input) INTENT_FINALIZE_ESCROW_DEPOSIT :: uint8 where "INTENT_FINALIZE_ESCROW_DEPOSIT \<equiv> 5"
abbreviation (input) INTENT_INITIATE_ESCROW_WITHDRAWAL :: uint8 where "INTENT_INITIATE_ESCROW_WITHDRAWAL \<equiv> 6"
abbreviation (input) INTENT_FINALIZE_ESCROW_WITHDRAWAL :: uint8 where "INTENT_FINALIZE_ESCROW_WITHDRAWAL \<equiv> 7"
abbreviation (input) INTENT_INITIATE_MIGRATION :: uint8 where "INTENT_INITIATE_MIGRATION \<equiv> 8"
abbreviation (input) INTENT_FINALIZE_MIGRATION :: uint8 where "INTENT_FINALIZE_MIGRATION \<equiv> 9"

section \<open>Transitions\<close>

type_synonym TransitionType = uint8

abbreviation (input) TransitionTypeVoid :: TransitionType where "TransitionTypeVoid \<equiv> 0"
abbreviation (input) TransitionTypeAcknowledgement :: TransitionType where "TransitionTypeAcknowledgement \<equiv> 1"
abbreviation (input) TransitionTypeHomeDeposit :: TransitionType where "TransitionTypeHomeDeposit \<equiv> 10"
abbreviation (input) TransitionTypeHomeWithdrawal :: TransitionType where "TransitionTypeHomeWithdrawal \<equiv> 11"
abbreviation (input) TransitionTypeEscrowDeposit :: TransitionType where "TransitionTypeEscrowDeposit \<equiv> 20"
abbreviation (input) TransitionTypeEscrowWithdraw :: TransitionType where "TransitionTypeEscrowWithdraw \<equiv> 21"
abbreviation (input) TransitionTypeTransferSend :: TransitionType where "TransitionTypeTransferSend \<equiv> 30"
abbreviation (input) TransitionTypeTransferReceive :: TransitionType where "TransitionTypeTransferReceive \<equiv> 31"
abbreviation (input) TransitionTypeCommit :: TransitionType where "TransitionTypeCommit \<equiv> 40"
abbreviation (input) TransitionTypeRelease :: TransitionType where "TransitionTypeRelease \<equiv> 41"
abbreviation (input) TransitionTypeMigrate :: TransitionType where "TransitionTypeMigrate \<equiv> 100"
abbreviation (input) TransitionTypeEscrowLock :: TransitionType where "TransitionTypeEscrowLock \<equiv> 110"
abbreviation (input) TransitionTypeMutualLock :: TransitionType where "TransitionTypeMutualLock \<equiv> 120"
abbreviation (input) TransitionTypeFinalize :: TransitionType where "TransitionTypeFinalize \<equiv> 200"

definition TransitionType_String :: "TransitionType \<Rightarrow> string" where
  "TransitionType_String t =
     (if t = TransitionTypeVoid then ''void''
      else if t = TransitionTypeAcknowledgement then ''acknowledgement''
      else if t = TransitionTypeTransferReceive then ''transfer_receive''
      else if t = TransitionTypeTransferSend then ''transfer_send''
      else if t = TransitionTypeRelease then ''release''
      else if t = TransitionTypeCommit then ''commit''
      else if t = TransitionTypeHomeDeposit then ''home_deposit''
      else if t = TransitionTypeHomeWithdrawal then ''home_withdrawal''
      else if t = TransitionTypeMutualLock then ''mutual_lock''
      else if t = TransitionTypeEscrowDeposit then ''escrow_deposit''
      else if t = TransitionTypeEscrowLock then ''escrow_lock''
      else if t = TransitionTypeEscrowWithdraw then ''escrow_withdraw''
      else if t = TransitionTypeMigrate then ''migrate''
      else if t = TransitionTypeFinalize then ''finalize''
      else ''unknown'')"

record 'd Transition =
  t_Type :: TransitionType
  t_TxID :: string
  t_AccountID :: string
  t_Amount :: 'd

definition NewTransition :: "TransitionType \<Rightarrow> string \<Rightarrow> string \<Rightarrow> 'd \<Rightarrow> 'd Transition" where
  "NewTransition transitionType txID accountID amount =
     \<lparr> t_Type = transitionType, t_TxID = txID, t_AccountID = accountID, t_Amount = amount \<rparr>"

definition Transition_Equal :: "'d libs \<Rightarrow> 'd Transition \<Rightarrow> 'd Transition \<Rightarrow> unit result" where
  "Transition_Equal L t1 t2 =
     (if t_Type t1 \<noteq> t_Type t2 then Inl (Err ''transition type mismatch'')
      else if t_TxID t1 \<noteq> t_TxID t2 then Inl (Err ''transaction ID mismatch'')
      else if t_AccountID t1 \<noteq> t_AccountID t2 then Inl (Err ''account ID mismatch'')
      else if \<not> dEqual L (t_Amount t1) (t_Amount t2) then Inl (Err ''amount mismatch'')
      else Inr ())"

section \<open>Ledgers\<close>

record 'd Ledger =
  l_TokenAddress :: string
  l_BlockchainID :: uint64
  l_UserBalance :: 'd
  l_UserNetFlow :: 'd
  l_NodeBalance :: 'd
  l_NodeNetFlow :: 'd

definition Ledger_Equal :: "'d libs \<Rightarrow> 'd Ledger \<Rightarrow> 'd Ledger \<Rightarrow> unit result" where
  "Ledger_Equal L l1 l2 =
     (if l_TokenAddress l1 \<noteq> l_TokenAddress l2 then Inl (Err ''token address mismatch'')
      else if l_BlockchainID l1 \<noteq> l_BlockchainID l2 then Inl (Err ''blockchain ID mismatch'')
      else if \<not> dEqual L (l_UserBalance l1) (l_UserBalance l2) then Inl (Err ''user balance mismatch'')
      else if \<not> dEqual L (l_UserNetFlow l1) (l_UserNetFlow l2) then Inl (Err ''user net flow mismatch'')
      else if \<not> dEqual L (l_NodeBalance l1) (l_NodeBalance l2) then Inl (Err ''node balance mismatch'')
      else if \<not> dEqual L (l_NodeNetFlow l1) (l_NodeNetFlow l2) then Inl (Err ''node net flow mismatch'')
      else Inr ())"

definition Ledger_Validate :: "'d libs \<Rightarrow> 'd Ledger \<Rightarrow> unit result" where
  "Ledger_Validate L l =
     (if l_TokenAddress l = '''' then Inl (Err ''invalid token address'')
      else if l_BlockchainID l = 0 then Inl (Err ''invalid blockchain ID'')
      else if dIsNegative L (l_UserBalance l) then Inl (Err ''user balance cannot be negative'')
      else if dIsNegative L (l_NodeBalance l) then Inl (Err ''node balance cannot be negative'')
      else
        let sumBalances = dAdd L (l_UserBalance l) (l_NodeBalance l);
            sumNetFlows = dAdd L (l_UserNetFlow l) (l_NodeNetFlow l)
        in if \<not> dEqual L sumBalances sumNetFlows then Inl (Err ''ledger balances do not match net flows'')
           else Inr ())"

section \<open>States, channels and transactions\<close>

record 'd State =
  s_ID :: string
  s_Transition :: "'d Transition"
  s_Asset :: string
  s_UserWallet :: string
  s_Epoch :: uint64
  s_Version :: uint64
  s_HomeChannelID :: "string option"
  s_EscrowChannelID :: "string option"
  s_HomeLedger :: "'d Ledger"
  s_EscrowLedger :: "'d Ledger option"
  s_UserSig :: "string option"
  s_NodeSig :: "string option"

record Channel =
  ch_ChannelID :: string
  ch_UserWallet :: string
  ch_Asset :: string
  ch_Type :: ChannelType
  ch_BlockchainID :: uint64
  ch_TokenAddress :: string
  ch_ChallengeDuration :: uint32
  ch_ChallengeExpiresAt :: "int option"
  ch_Nonce :: uint64
  ch_ApprovedSigValidators :: string
  ch_Status :: ChannelStatus
  ch_StateVersion :: uint64

definition NewChannel ::
  "string \<Rightarrow> string \<Rightarrow> string \<Rightarrow> ChannelType \<Rightarrow> uint64 \<Rightarrow> string \<Rightarrow> uint64 \<Rightarrow> uint32 \<Rightarrow> string \<Rightarrow> Channel" where
  "NewChannel channelID userWallet asset ChType blockchainID tokenAddress nonce challenge approvedSigValidators =
     \<lparr> ch_ChannelID = channelID, ch_UserWallet = userWallet, ch_Asset = asset, ch_Type = ChType,
       ch_BlockchainID = blockchainID, ch_TokenAddress = tokenAddress, ch_ChallengeDuration = challenge,
       ch_ChallengeExpiresAt = None, ch_Nonce = nonce, ch_ApprovedSigValidators = approvedSigValidators,
       ch_Status = ChannelStatusVoid, ch_StateVersion = 0 \<rparr>"

record ChannelDefinition =
  cd_Nonce :: uint64
  cd_Challenge :: uint32
  cd_ApprovedSigValidators :: string

type_synonym TransactionType = uint8

abbreviation (input) TransactionTypeHomeDeposit :: TransactionType where "TransactionTypeHomeDeposit \<equiv> 10"
abbreviation (input) TransactionTypeHomeWithdrawal :: TransactionType where "TransactionTypeHomeWithdrawal \<equiv> 11"
abbreviation (input) TransactionTypeEscrowDeposit :: TransactionType where "TransactionTypeEscrowDeposit \<equiv> 20"
abbreviation (input) TransactionTypeEscrowWithdraw :: TransactionType where "TransactionTypeEscrowWithdraw \<equiv> 21"
abbreviation (input) TransactionTypeTransfer :: TransactionType where "TransactionTypeTransfer \<equiv> 30"
abbreviation (input) TransactionTypeCommit :: TransactionType where "TransactionTypeCommit \<equiv> 40"
abbreviation (input) TransactionTypeRelease :: TransactionType where "TransactionTypeRelease \<equiv> 41"
abbreviation (input) TransactionTypeRebalance :: TransactionType where "TransactionTypeRebalance \<equiv> 42"
abbreviation (input) TransactionTypeMigrate :: TransactionType where "TransactionTypeMigrate \<equiv> 100"
abbreviation (input) TransactionTypeEscrowLock :: TransactionType where "TransactionTypeEscrowLock \<equiv> 110"
abbreviation (input) TransactionTypeMutualLock :: TransactionType where "TransactionTypeMutualLock \<equiv> 120"
abbreviation (input) TransactionTypeFinalize :: TransactionType where "TransactionTypeFinalize \<equiv> 200"

definition TransactionType_String :: "TransactionType \<Rightarrow> string" where
  "TransactionType_String t =
     (if t = TransactionTypeTransfer then ''transfer''
      else if t = TransactionTypeRelease then ''release''
      else if t = TransactionTypeCommit then ''commit''
      else if t = TransactionTypeHomeDeposit then ''home_deposit''
      else if t = TransactionTypeHomeWithdrawal then ''home_withdrawal''
      else if t = TransactionTypeMutualLock then ''mutual_lock''
      else if t = TransactionTypeEscrowDeposit then ''escrow_deposit''
      else if t = TransactionTypeEscrowLock then ''escrow_lock''
      else if t = TransactionTypeEscrowWithdraw then ''escrow_withdraw''
      else if t = TransactionTypeMigrate then ''migrate''
      else if t = TransactionTypeRebalance then ''rebalance''
      else if t = TransactionTypeFinalize then ''finalize''
      else ''unknown'')"

text \<open>\<^verbatim>\<open>time.Now\<close> is an argument of the functions that read the clock (seconds since the epoch).\<close>

record 'd Transaction =
  tx_ID :: string
  tx_Asset :: string
  tx_TxType :: TransactionType
  tx_FromAccount :: string
  tx_ToAccount :: string
  tx_SenderNewStateID :: "string option"
  tx_ReceiverNewStateID :: "string option"
  tx_Amount :: 'd
  tx_CreatedAt :: int

definition NewTransaction ::
  "int \<Rightarrow> string \<Rightarrow> string \<Rightarrow> TransactionType \<Rightarrow> string \<Rightarrow> string \<Rightarrow> string option \<Rightarrow> string option \<Rightarrow> 'd \<Rightarrow> 'd Transaction" where
  "NewTransaction now txID asset txType fromAccount toAccount senderNewStateID receiverNewStateID amount =
     \<lparr> tx_ID = txID, tx_Asset = asset, tx_TxType = txType, tx_FromAccount = fromAccount,
       tx_ToAccount = toAccount, tx_SenderNewStateID = senderNewStateID,
       tx_ReceiverNewStateID = receiverNewStateID, tx_Amount = amount, tx_CreatedAt = now \<rparr>"

section \<open>Gated actions\<close>

type_synonym GatedAction = string

abbreviation (input) GatedActionTransfer :: GatedAction where "GatedActionTransfer \<equiv> ''transfer''"
abbreviation (input) GatedActionAppSessionCreation :: GatedAction where
  "GatedActionAppSessionCreation \<equiv> ''app_session_creation''"
abbreviation (input) GatedActionAppSessionOperation :: GatedAction where
  "GatedActionAppSessionOperation \<equiv> ''app_session_operation''"
abbreviation (input) GatedActionAppSessionDeposit :: GatedAction where
  "GatedActionAppSessionDeposit \<equiv> ''app_session_deposit''"
abbreviation (input) GatedActionAppSessionWithdrawal :: GatedAction where
  "GatedActionAppSessionWithdrawal \<equiv> ''app_session_withdrawal''"

definition GatedAction_ID :: "GatedAction \<Rightarrow> uint8" where
  "GatedAction_ID g =
     (if g = GatedActionTransfer then 1
      else if g = GatedActionAppSessionCreation then 10
      else if g = GatedActionAppSessionOperation then 11
      else if g = GatedActionAppSessionDeposit then 12
      else if g = GatedActionAppSessionWithdrawal then 13
      else 0)"

definition GatedActionFromID :: "uint8 \<Rightarrow> GatedAction \<times> bool" where
  "GatedActionFromID i =
     (if i = 1 then (GatedActionTransfer, True)
      else if i = 10 then (GatedActionAppSessionCreation, True)
      else if i = 11 then (GatedActionAppSessionOperation, True)
      else if i = 12 then (GatedActionAppSessionDeposit, True)
      else if i = 13 then (GatedActionAppSessionWithdrawal, True)
      else ('''', False))"

definition TransitionType_GatedAction :: "TransitionType \<Rightarrow> GatedAction" where
  "TransitionType_GatedAction t = (if t = TransitionTypeTransferSend then GatedActionTransfer else '''')"

record ActionAllowance =
  aa_GatedAction :: GatedAction
  aa_TimeWindow :: string
  aa_Allowance :: uint64
  aa_Used :: uint64

section \<open>Node configuration and listing\<close>

record Token =
  tok_Name :: string
  tok_Symbol :: string
  tok_Address :: string
  tok_BlockchainID :: uint64
  tok_Decimals :: uint8

record Asset =
  as_Name :: string
  as_Decimals :: uint8
  as_Symbol :: string
  as_SuggestedBlockchainID :: uint64
  as_Tokens :: "Token list"

record Blockchain =
  bc_Name :: string
  bc_ID :: uint64
  bc_ChannelHubAddress :: string
  bc_LockingContractAddress :: string
  bc_BlockStep :: uint64

record 'd BalanceEntry =
  be_Asset :: string
  be_Balance :: 'd
  be_Enforced :: 'd

record PaginationParams =
  pp_Offset :: "uint32 option"
  pp_Limit :: "uint32 option"
  pp_Sort :: "string option"

definition GetOffsetAndLimit :: "PaginationParams option \<Rightarrow> uint32 \<Rightarrow> uint32 \<Rightarrow> uint32 \<times> uint32" where
  "GetOffsetAndLimit p defaultLimit maxLimit =
     (case p of None \<Rightarrow> (0, defaultLimit)
      | Some q \<Rightarrow> (case pp_Offset q of None \<Rightarrow> 0 | Some off \<Rightarrow> off,
                  case pp_Limit q of None \<Rightarrow> defaultLimit | Some l \<Rightarrow> min l maxLimit))"

record PaginationMetadata =
  pm_Page :: uint32
  pm_PerPage :: uint32
  pm_TotalCount :: uint32
  pm_PageCount :: uint32

section \<open>Laws of the data types\<close>

lemma GatedAction_ID_FromID: "GatedActionFromID i = (g, True) \<Longrightarrow> GatedAction_ID g = i"
  by (auto simp: GatedActionFromID_def GatedAction_ID_def split: if_splits)

lemma GatedAction_FromID_ID: "GatedAction_ID g \<noteq> 0 \<Longrightarrow> GatedActionFromID (GatedAction_ID g) = (g, True)"
  by (auto simp: GatedActionFromID_def GatedAction_ID_def split: if_splits)

lemma Atoi_status_names: "\<exists>e. Atoi (ChannelStatus_String s) = Inl e"
  unfolding ChannelStatus_String_def by (simp add: Atoi_def parse_int_def is_digit_def)

lemma status_names_trimmed: "TrimSpace (ChannelStatus_String s) = ChannelStatus_String s"
  by (simp add: ChannelStatus_String_def TrimSpace_def is_space_def)

lemma status_names_lower: "ToLower (ChannelStatus_String s) = ChannelStatus_String s"
  by (simp add: ChannelStatus_String_def ToLower_def lower_char_def)

text \<open>A ledger is sound when it names a token on a chain, holds no negative balance and its balances
  are backed by its net flows.\<close>

definition ledger_balanced :: "('d \<Rightarrow> rat) \<Rightarrow> 'd Ledger \<Rightarrow> bool" where
  "ledger_balanced val l \<longleftrightarrow>
     val (l_UserBalance l) + val (l_NodeBalance l) = val (l_UserNetFlow l) + val (l_NodeNetFlow l)"

definition ledger_sound :: "('d \<Rightarrow> rat) \<Rightarrow> 'd Ledger \<Rightarrow> bool" where
  "ledger_sound val l \<longleftrightarrow> l_TokenAddress l \<noteq> '''' \<and> l_BlockchainID l \<noteq> 0 \<and>
     0 \<le> val (l_UserBalance l) \<and> 0 \<le> val (l_NodeBalance l) \<and> ledger_balanced val l"

definition ledger_eq :: "('d \<Rightarrow> rat) \<Rightarrow> 'd Ledger \<Rightarrow> 'd Ledger \<Rightarrow> bool" where
  "ledger_eq val l1 l2 \<longleftrightarrow>
     l_TokenAddress l1 = l_TokenAddress l2 \<and> l_BlockchainID l1 = l_BlockchainID l2 \<and>
     val (l_UserBalance l1) = val (l_UserBalance l2) \<and> val (l_UserNetFlow l1) = val (l_UserNetFlow l2) \<and>
     val (l_NodeBalance l1) = val (l_NodeBalance l2) \<and> val (l_NodeNetFlow l1) = val (l_NodeNetFlow l2)"

context decimal_spec
begin

lemma Ledger_Validate_iff [simp]: "Ledger_Validate L l = Inr u \<longleftrightarrow> ledger_sound val l"
  by (auto simp: Ledger_Validate_def ledger_sound_def ledger_balanced_def Let_def not_less)

lemma Ledger_Equal_iff [simp]: "Ledger_Equal L l1 l2 = Inr u \<longleftrightarrow> ledger_eq val l1 l2"
  by (auto simp: Ledger_Equal_def ledger_eq_def)

lemma Transition_Equal_iff [simp]:
  "Transition_Equal L t1 t2 = Inr u \<longleftrightarrow>
     t_Type t1 = t_Type t2 \<and> t_TxID t1 = t_TxID t2 \<and> t_AccountID t1 = t_AccountID t2 \<and>
     val (t_Amount t1) = val (t_Amount t2)"
  by (auto simp: Transition_Equal_def)

end

end
