(* ===== verification/Core_Utils.thy ===== *)
theory Core_Utils
  imports Core_Types
begin

text \<open>
  \<^verbatim>\<open>src/pkg/core/utils.go\<close>: address normalisation, the intent of a transition, conversion of decimal
  amounts to token units, and the derivation of channel, state and transaction identifiers.
\<close>

section \<open>Addresses and amounts\<close>

definition is_lower_hex :: "char \<Rightarrow> bool" where
  "is_lower_hex c = (let n = of_char c :: int in (48 \<le> n \<and> n \<le> 57) \<or> (97 \<le> n \<and> n \<le> 102))"

definition NormalizeHexAddress :: "string \<Rightarrow> string result" where
  "NormalizeHexAddress s0 =
     (let s = ToLower s0 in
      if \<not> HasPrefix s ''0x'' \<or> length s \<noteq> 42
      then Inl (Err ''invalid hex address: incorrect length, expected 42 characters including 0x prefix'')
      else if \<not> list_all is_lower_hex (drop 2 s)
      then Inl (Err ''invalid hex address: not a valid hexadecimal character'')
      else Inr s)"

definition TransitionToIntent :: "'d Transition \<Rightarrow> uint8" where
  "TransitionToIntent transition =
     (let t = t_Type transition in
      if t = TransitionTypeTransferSend \<or> t = TransitionTypeTransferReceive \<or>
         t = TransitionTypeCommit \<or> t = TransitionTypeRelease then INTENT_OPERATE
      else if t = TransitionTypeFinalize then INTENT_CLOSE
      else if t = TransitionTypeHomeDeposit then INTENT_DEPOSIT
      else if t = TransitionTypeHomeWithdrawal then INTENT_WITHDRAW
      else if t = TransitionTypeMutualLock then INTENT_INITIATE_ESCROW_DEPOSIT
      else if t = TransitionTypeEscrowDeposit then INTENT_FINALIZE_ESCROW_DEPOSIT
      else if t = TransitionTypeEscrowLock then INTENT_INITIATE_ESCROW_WITHDRAWAL
      else if t = TransitionTypeEscrowWithdraw then INTENT_FINALIZE_ESCROW_WITHDRAWAL
      else if t = TransitionTypeMigrate then INTENT_INITIATE_MIGRATION
      else INTENT_OPERATE)"

definition ValidateDecimalPrecision :: "'d libs \<Rightarrow> 'd \<Rightarrow> uint8 \<Rightarrow> unit result" where
  "ValidateDecimalPrecision L amount maxDecimals =
     (if dExponent L amount < - int (unat maxDecimals)
      then Inl (Err ''amount exceeds maximum decimal precision'') else Inr ())"

definition DecimalToBigInt :: "'d libs \<Rightarrow> 'd \<Rightarrow> uint8 \<Rightarrow> int result" where
  "DecimalToBigInt L amount decimals =
     (let multiplier = dNew L 1 (int (unat decimals));
          scaled = dMul L amount multiplier
      in if \<not> dIsInteger L scaled then Inl (Err ''amount exceeds maximum decimal precision'')
         else Inr (dBigInt L scaled))"

section \<open>Identifiers\<close>

definition ChannelHubVersion :: uint8 where
  "ChannelHubVersion = 1"

definition GenerateChannelMetadata :: "'d libs \<Rightarrow> string \<Rightarrow> bytes" where
  "GenerateChannelMetadata L asset =
     (let assetHash = keccak256 L (string_bytes asset) in take 8 assetHash @ replicate 24 0)"

text \<open>\<^verbatim>\<open>(*big.Int).SetString(s, 16)\<close>: an optional sign and hexadecimal digits. On malformed input the
  package leaves the value read so far.\<close>

definition hexToBigInt :: "string \<Rightarrow> int" where
  "hexToBigInt s0 =
     (let s = TrimPrefix s0 ''0x'';
          neg = HasPrefix s ''-'';
          ds = (if neg \<or> HasPrefix s ''+'' then drop 1 s else s);
          n = foldl (\<lambda>n c. case hex_val c of None \<Rightarrow> n | Some v \<Rightarrow> 16 * n + v) 0
                (takeWhile (\<lambda>c. hex_val c \<noteq> None) ds)
      in if neg then - n else n)"

definition getHomeChannelID ::
  "'d libs \<Rightarrow> string \<Rightarrow> string \<Rightarrow> string \<Rightarrow> uint64 \<Rightarrow> uint32 \<Rightarrow> string \<Rightarrow> uint8 \<Rightarrow> string result" where
  "getHomeChannelID L node user asset nonce challengeDuration approvedSigValidators channelHubVersion =
     (let userAddr = HexToAddress L user;
          nodeAddr = HexToAddress L node;
          metadata = GenerateChannelMetadata L asset
      in bindE (abiPack L [ATuple
             [AUint 32 (uint challengeDuration), AAddress userAddr, AAddress nodeAddr,
              AUint 64 (uint nonce), AUint 256 (hexToBigInt approvedSigValidators),
              AFixedBytes metadata]]) (\<lambda>packed.
         let baseId = keccak256 L packed;
             versionedId = baseId[0 := channelHubVersion]
         in Inr (hashHex L versionedId)))"

definition GetHomeChannelID ::
  "'d libs \<Rightarrow> string \<Rightarrow> string \<Rightarrow> string \<Rightarrow> uint64 \<Rightarrow> uint32 \<Rightarrow> string \<Rightarrow> string result" where
  "GetHomeChannelID L node user asset nonce challengeDuration approvedSigValidators =
     getHomeChannelID L node user asset nonce challengeDuration approvedSigValidators ChannelHubVersion"

definition GetEscrowChannelID :: "'d libs \<Rightarrow> string \<Rightarrow> uint64 \<Rightarrow> string result" where
  "GetEscrowChannelID L homeChannelID stateVersion =
     bindE (abiPack L [AFixedBytes (HexToHash L homeChannelID), AUint 64 (uint stateVersion)]) (\<lambda>packed.
       Inr (hashHex L (keccak256 L packed)))"

text \<open>\<^verbatim>\<open>GetStateID\<close> ignores the error of \<^verbatim>\<open>Pack\<close>, which then leaves \<^verbatim>\<open>packed\<close> empty.\<close>

definition GetStateID :: "'d libs \<Rightarrow> string \<Rightarrow> string \<Rightarrow> uint64 \<Rightarrow> uint64 \<Rightarrow> string" where
  "GetStateID L userWallet asset epoch version =
     (let packed = (case abiPack L [AAddress (HexToAddress L userWallet), AString asset,
                                    AUint 256 (uint epoch), AUint 256 (uint version)]
                    of Inl _ \<Rightarrow> [] | Inr bs \<Rightarrow> bs)
      in hashHex L (keccak256 L packed))"

definition hexToBytes32 :: "'d libs \<Rightarrow> string \<Rightarrow> bytes result" where
  "hexToBytes32 L hexStr = Inr (HexToHash L hexStr)"

definition parseAccountIdToBytes32 :: "'d libs \<Rightarrow> string \<Rightarrow> bytes result" where
  "parseAccountIdToBytes32 L accountId =
     (if IsHexAddress L accountId then Inr (replicate 12 0 @ HexToAddress L accountId)
      else Inr (HexToHash L accountId))"

definition GetStateTransitionHash :: "'d libs \<Rightarrow> 'd Transition \<Rightarrow> bytes result" where
  "GetStateTransitionHash L transition =
     bindE (wrapE ''invalid txId'' (hexToBytes32 L (t_TxID transition))) (\<lambda>txIdBytes.
     bindE (wrapE ''invalid accountId'' (parseAccountIdToBytes32 L (t_AccountID transition))) (\<lambda>accountIdBytes.
     bindE (wrapE ''failed to pack transition'' (abiPack L [ATuple
         [AUint 8 (uint (t_Type transition)), AFixedBytes txIdBytes, AFixedBytes accountIdBytes,
          AString (dString L (t_Amount transition))]])) (\<lambda>packed.
     Inr (keccak256 L packed))))"

definition getTransactionID :: "'d libs \<Rightarrow> string \<Rightarrow> string \<Rightarrow> string result" where
  "getTransactionID L account newStateID =
     bindE (wrapE ''failed to pack transaction ID arguments''
       (abiPack L [AString account, AFixedBytes (HexToHash L newStateID)])) (\<lambda>packed.
     Inr (hashHex L (keccak256 L packed)))"

definition GetSenderTransactionID :: "'d libs \<Rightarrow> string \<Rightarrow> string \<Rightarrow> string result" where
  "GetSenderTransactionID L toAccount senderNewStateID = getTransactionID L toAccount senderNewStateID"

definition GetReceiverTransactionID :: "'d libs \<Rightarrow> string \<Rightarrow> string \<Rightarrow> string result" where
  "GetReceiverTransactionID L fromAccount receiverNewStateID = getTransactionID L fromAccount receiverNewStateID"

section \<open>Properties\<close>

lemma NormalizeHexAddress_ok_iff:
  "NormalizeHexAddress s = Inr r \<longleftrightarrow>
     r = ToLower s \<and> length r = 42 \<and> HasPrefix r ''0x'' \<and> list_all is_lower_hex (drop 2 r)"
  by (auto simp: NormalizeHexAddress_def Let_def)

lemma NormalizeHexAddress_total: "isPanic (NormalizeHexAddress s) = False"
  by (simp add: NormalizeHexAddress_def Let_def)

lemma powi_uint: "(10::rat) powi uint k = 10 ^ unat k"
  by (metis power_int_of_nat uint_nat)

lemma ValidateDecimalPrecision_mono:
  "d \<le> k \<Longrightarrow> ValidateDecimalPrecision L a d = Inr () \<Longrightarrow> ValidateDecimalPrecision L a k = Inr ()"
  by (auto simp: ValidateDecimalPrecision_def word_le_def split: if_splits)

context decimal_spec
begin

text \<open>Conversion to token units is exact, and it succeeds for every amount that passed the precision check.\<close>

lemma DecimalToBigInt_ok_iff:
  "(\<exists>n. DecimalToBigInt L a k = Inr n) \<longleftrightarrow> val a * 10 ^ unat k \<in> \<int>"
  by (auto simp: DecimalToBigInt_def Let_def powi_uint)

lemma DecimalToBigInt_exact:
  "DecimalToBigInt L a k = Inr n \<Longrightarrow> of_int n = val a * 10 ^ unat k"
  using BigInt_val [of "dMul L a (dNew L 1 (int (unat k)))"]
  by (auto simp: DecimalToBigInt_def Let_def powi_uint)

lemma DecimalToBigInt_precise:
  assumes "ValidateDecimalPrecision L a k = Inr ()"
  shows "\<exists>n. DecimalToBigInt L a k = Inr n \<and> of_int n = val a * 10 ^ unat k"
proof -
  have "- int (unat k) \<le> dExponent L a"
    using assms by (auto simp: ValidateDecimalPrecision_def split: if_splits)
  then have "val a * 10 ^ unat k \<in> \<int>" by (rule scaled_integer)
  then show ?thesis using DecimalToBigInt_ok_iff DecimalToBigInt_exact by blast
qed

end

context abi_spec
begin

lemma getTransactionID_ok: "\<exists>txid. getTransactionID L account sid = Inr txid"
  using pack_ok [of "[AString account, AFixedBytes (HexToHash L sid)]"]
  by (auto simp: getTransactionID_def)

lemma GetSenderTransactionID_ok: "\<exists>txid. GetSenderTransactionID L account sid = Inr txid"
  using getTransactionID_ok by (simp add: GetSenderTransactionID_def)

lemma GetEscrowChannelID_ok: "\<exists>i. GetEscrowChannelID L home v = Inr i"
  using pack_ok [of "[AFixedBytes (HexToHash L home), AUint 64 (uint v)]"]
  by (auto simp: GetEscrowChannelID_def)

text \<open>The first byte of a home channel identifier is the version of the ChannelHub contract.\<close>

lemma GetHomeChannelID_versioned:
  "\<exists>h. GetHomeChannelID L node user asset nonce dur sv = Inr (hashHex L h) \<and> length h = 32 \<and> h ! 0 = ChannelHubVersion"
proof -
  obtain bs where "abiPack L [ATuple
             [AUint 32 (uint dur), AAddress (HexToAddress L user), AAddress (HexToAddress L node),
              AUint 64 (uint nonce), AUint 256 (hexToBigInt sv),
              AFixedBytes (GenerateChannelMetadata L asset)]] = Inr bs" using pack_ok by blast
  moreover have "length (keccak256 L bs) = 32" by (rule keccak_length)
  ultimately show ?thesis
    by (intro exI [of _ "(keccak256 L bs)[0 := ChannelHubVersion]"])
       (simp add: GetHomeChannelID_def getHomeChannelID_def Let_def)
qed

lemma GenerateChannelMetadata_length: "length (GenerateChannelMetadata L asset) = 32"
  by (simp add: GenerateChannelMetadata_def Let_def keccak_length)

end

end
