(* ===== verification/Core_State.thy ===== *)
theory Core_State
  imports Core_Utils
begin

text \<open>
  The state life cycle of \<^verbatim>\<open>src/pkg/core/types.go\<close>: the void state, the successor state, the
  fourteen transition applications and the transaction derived from a transition. A method with a
  pointer receiver returns the updated state next to its result; on an error the caller drops the
  receiver, so the error value stands alone.
\<close>

section \<open>Fresh and successor states\<close>

definition zero_ledger :: "'d libs \<Rightarrow> 'd Ledger" where
  "zero_ledger L = \<lparr> l_TokenAddress = '''', l_BlockchainID = 0, l_UserBalance = dZero L,
     l_UserNetFlow = dZero L, l_NodeBalance = dZero L, l_NodeNetFlow = dZero L \<rparr>"

definition zero_transition :: "'d libs \<Rightarrow> 'd Transition" where
  "zero_transition L = \<lparr> t_Type = TransitionTypeVoid, t_TxID = '''', t_AccountID = '''', t_Amount = dZero L \<rparr>"

definition NewVoidState :: "'d libs \<Rightarrow> string \<Rightarrow> string \<Rightarrow> 'd State" where
  "NewVoidState L asset userWallet =
     \<lparr> s_ID = '''', s_Transition = zero_transition L, s_Asset = asset, s_UserWallet = userWallet,
       s_Epoch = 0, s_Version = 0, s_HomeChannelID = None, s_EscrowChannelID = None,
       s_HomeLedger = zero_ledger L, s_EscrowLedger = None, s_UserSig = None, s_NodeSig = None \<rparr>"

definition IsFinal :: "'d State \<Rightarrow> bool" where
  "IsFinal state = (t_Type (s_Transition state) = TransitionTypeFinalize)"

definition NextState :: "'d libs \<Rightarrow> 'd State \<Rightarrow> 'd State" where
  "NextState L state =
     (let base =
            (if IsFinal state then
               \<lparr> s_ID = '''', s_Transition = zero_transition L, s_Asset = s_Asset state,
                 s_UserWallet = s_UserWallet state, s_Epoch = s_Epoch state + 1, s_Version = 0,
                 s_HomeChannelID = None, s_EscrowChannelID = None, s_HomeLedger = zero_ledger L,
                 s_EscrowLedger = None, s_UserSig = None, s_NodeSig = None \<rparr>
             else
               \<lparr> s_ID = '''', s_Transition = zero_transition L, s_Asset = s_Asset state,
                 s_UserWallet = s_UserWallet state, s_Epoch = s_Epoch state, s_Version = s_Version state + 1,
                 s_HomeChannelID = s_HomeChannelID state, s_EscrowChannelID = s_EscrowChannelID state,
                 s_HomeLedger = s_HomeLedger state,
                 s_EscrowLedger = None, s_UserSig = None, s_NodeSig = None \<rparr>);
          withEscrow =
            (case s_EscrowLedger state of None \<Rightarrow> base
             | Some l \<Rightarrow>
                 if t_Type (s_Transition state) = TransitionTypeEscrowDeposit \<or>
                    t_Type (s_Transition state) = TransitionTypeEscrowWithdraw
                 then base \<lparr> s_EscrowChannelID := None, s_EscrowLedger := None \<rparr>
                 else base \<lparr> s_EscrowLedger := Some l \<rparr>)
      in withEscrow \<lparr> s_ID := GetStateID L (s_UserWallet withEscrow) (s_Asset withEscrow)
                                 (s_Epoch withEscrow) (s_Version withEscrow) \<rparr>)"

definition ApplyChannelCreation ::
  "'d libs \<Rightarrow> 'd State \<Rightarrow> ChannelDefinition \<Rightarrow> uint64 \<Rightarrow> string \<Rightarrow> string \<Rightarrow> (string \<times> 'd State) result" where
  "ApplyChannelCreation L state channelDef blockchainID tokenAddress nodeAddress =
     (let state1 = state \<lparr> s_HomeLedger := (s_HomeLedger state)
            \<lparr> l_TokenAddress := tokenAddress, l_BlockchainID := blockchainID \<rparr> \<rparr>
      in bindE (wrapE ''failed to calculate home channel ID''
            (GetHomeChannelID L nodeAddress (s_UserWallet state1) (s_Asset state1) (cd_Nonce channelDef)
               (cd_Challenge channelDef) (cd_ApprovedSigValidators channelDef))) (\<lambda>homeChannelID.
         Inr (homeChannelID, state1 \<lparr> s_HomeChannelID := Some homeChannelID \<rparr>)))"

section \<open>Applying transitions\<close>

definition validateTransitionInputs :: "'d State \<Rightarrow> unit result" where
  "validateTransitionInputs state =
     (if t_Type (s_Transition state) \<noteq> TransitionTypeVoid
      then Inl (Err ''state already has a transition'') else Inr ())"

definition zero_hash_hex :: "'d libs \<Rightarrow> string" where
  "zero_hash_hex L = hashHex L (replicate 32 0)"

definition ApplyAcknowledgementTransition :: "'d libs \<Rightarrow> 'd State \<Rightarrow> ('d Transition \<times> 'd State) result" where
  "ApplyAcknowledgementTransition L state =
     (if t_Type (s_Transition state) \<noteq> TransitionTypeVoid
      then Inl (Err ''state already has a transition'')
      else let newTransition = NewTransition TransitionTypeAcknowledgement (zero_hash_hex L) (zero_hash_hex L) (dZero L)
           in Inr (newTransition, state \<lparr> s_Transition := newTransition \<rparr>))"

definition ApplyHomeDepositTransition :: "'d libs \<Rightarrow> 'd State \<Rightarrow> 'd \<Rightarrow> ('d Transition \<times> 'd State) result" where
  "ApplyHomeDepositTransition L state amount =
     bindE (validateTransitionInputs state) (\<lambda>_.
     case s_HomeChannelID state of
       None \<Rightarrow> Inl (Err ''missing home channel ID'')
     | Some accountID \<Rightarrow>
         bindE (GetSenderTransactionID L accountID (s_ID state)) (\<lambda>txID.
         let newTransition = NewTransition TransitionTypeHomeDeposit txID accountID amount;
             l = s_HomeLedger state
         in Inr (newTransition, state \<lparr> s_Transition := newTransition, s_HomeLedger := l
              \<lparr> l_UserNetFlow := dAdd L (l_UserNetFlow l) (t_Amount newTransition),
                l_UserBalance := dAdd L (l_UserBalance l) (t_Amount newTransition) \<rparr> \<rparr>)))"

definition ApplyHomeWithdrawalTransition :: "'d libs \<Rightarrow> 'd State \<Rightarrow> 'd \<Rightarrow> ('d Transition \<times> 'd State) result" where
  "ApplyHomeWithdrawalTransition L state amount =
     bindE (validateTransitionInputs state) (\<lambda>_.
     case s_HomeChannelID state of
       None \<Rightarrow> Inl (Err ''missing home channel ID'')
     | Some accountID \<Rightarrow>
         bindE (GetSenderTransactionID L accountID (s_ID state)) (\<lambda>txID.
         let newTransition = NewTransition TransitionTypeHomeWithdrawal txID accountID amount;
             l = s_HomeLedger state
         in Inr (newTransition, state \<lparr> s_Transition := newTransition, s_HomeLedger := l
              \<lparr> l_UserNetFlow := dSub L (l_UserNetFlow l) (t_Amount newTransition),
                l_UserBalance := dSub L (l_UserBalance l) (t_Amount newTransition) \<rparr> \<rparr>)))"

definition ApplyTransferSendTransition ::
  "'d libs \<Rightarrow> 'd State \<Rightarrow> string \<Rightarrow> 'd \<Rightarrow> ('d Transition \<times> 'd State) result" where
  "ApplyTransferSendTransition L state recipient amount =
     bindE (validateTransitionInputs state) (\<lambda>_.
     let accountID = recipient in
     bindE (GetSenderTransactionID L accountID (s_ID state)) (\<lambda>txID.
     let newTransition = NewTransition TransitionTypeTransferSend txID accountID amount;
         l = s_HomeLedger state
     in Inr (newTransition, state \<lparr> s_Transition := newTransition, s_HomeLedger := l
          \<lparr> l_UserBalance := dSub L (l_UserBalance l) (t_Amount newTransition),
            l_NodeNetFlow := dSub L (l_NodeNetFlow l) (t_Amount newTransition) \<rparr> \<rparr>)))"

definition ApplyTransferReceiveTransition ::
  "'d libs \<Rightarrow> 'd State \<Rightarrow> string \<Rightarrow> 'd \<Rightarrow> string \<Rightarrow> ('d Transition \<times> 'd State) result" where
  "ApplyTransferReceiveTransition L state sender amount txID =
     bindE (validateTransitionInputs state) (\<lambda>_.
     let accountID = sender;
         newTransition = NewTransition TransitionTypeTransferReceive txID accountID amount;
         l = s_HomeLedger state
     in Inr (newTransition, state \<lparr> s_Transition := newTransition, s_HomeLedger := l
          \<lparr> l_UserBalance := dAdd L (l_UserBalance l) (t_Amount newTransition),
            l_NodeNetFlow := dAdd L (l_NodeNetFlow l) (t_Amount newTransition) \<rparr> \<rparr>))"

definition ApplyCommitTransition ::
  "'d libs \<Rightarrow> 'd State \<Rightarrow> string \<Rightarrow> 'd \<Rightarrow> ('d Transition \<times> 'd State) result" where
  "ApplyCommitTransition L state accountID amount =
     bindE (validateTransitionInputs state) (\<lambda>_.
     bindE (GetSenderTransactionID L accountID (s_ID state)) (\<lambda>txID.
     let newTransition = NewTransition TransitionTypeCommit txID accountID amount;
         l = s_HomeLedger state
     in Inr (newTransition, state \<lparr> s_Transition := newTransition, s_HomeLedger := l
          \<lparr> l_UserBalance := dSub L (l_UserBalance l) (t_Amount newTransition),
            l_NodeNetFlow := dSub L (l_NodeNetFlow l) (t_Amount newTransition) \<rparr> \<rparr>)))"

definition ApplyReleaseTransition ::
  "'d libs \<Rightarrow> 'd State \<Rightarrow> string \<Rightarrow> 'd \<Rightarrow> ('d Transition \<times> 'd State) result" where
  "ApplyReleaseTransition L state accountID amount =
     bindE (validateTransitionInputs state) (\<lambda>_.
     bindE (GetReceiverTransactionID L accountID (s_ID state)) (\<lambda>txID.
     let newTransition = NewTransition TransitionTypeRelease txID accountID amount;
         l = s_HomeLedger state
     in Inr (newTransition, state \<lparr> s_Transition := newTransition, s_HomeLedger := l
          \<lparr> l_UserBalance := dAdd L (l_UserBalance l) (t_Amount newTransition),
            l_NodeNetFlow := dAdd L (l_NodeNetFlow l) (t_Amount newTransition) \<rparr> \<rparr>)))"

definition ApplyMutualLockTransition ::
  "'d libs \<Rightarrow> 'd State \<Rightarrow> uint64 \<Rightarrow> string \<Rightarrow> 'd \<Rightarrow> ('d Transition \<times> 'd State) result" where
  "ApplyMutualLockTransition L state blockchainID tokenAddress amount =
     bindE (validateTransitionInputs state) (\<lambda>_.
     case s_HomeChannelID state of
       None \<Rightarrow> Inl (Err ''missing home channel ID'')
     | Some homeChannelID \<Rightarrow>
         if blockchainID = 0 then Inl (Err ''invalid blockchain ID'')
         else if tokenAddress = '''' then Inl (Err ''invalid token address'')
         else
           bindE (GetEscrowChannelID L homeChannelID (s_Version state)) (\<lambda>escrowChannelID.
           let accountID = escrowChannelID in
           bindE (GetSenderTransactionID L accountID (s_ID state)) (\<lambda>txID.
           let newTransition = NewTransition TransitionTypeMutualLock txID accountID amount;
               l = s_HomeLedger state
           in Inr (newTransition, state \<lparr> s_EscrowChannelID := Some escrowChannelID,
                s_Transition := newTransition,
                s_HomeLedger := l
                  \<lparr> l_NodeBalance := dAdd L (l_NodeBalance l) (t_Amount newTransition),
                    l_NodeNetFlow := dAdd L (l_NodeNetFlow l) (t_Amount newTransition) \<rparr>,
                s_EscrowLedger := Some
                  \<lparr> l_TokenAddress = tokenAddress, l_BlockchainID = blockchainID,
                    l_UserBalance = dAdd L (dZero L) (t_Amount newTransition),
                    l_UserNetFlow = dAdd L (dZero L) (t_Amount newTransition),
                    l_NodeBalance = dZero L, l_NodeNetFlow = dZero L \<rparr> \<rparr>))))"

definition ApplyEscrowDepositTransition :: "'d libs \<Rightarrow> 'd State \<Rightarrow> 'd \<Rightarrow> ('d Transition \<times> 'd State) result" where
  "ApplyEscrowDepositTransition L state amount =
     bindE (validateTransitionInputs state) (\<lambda>_.
     case s_EscrowChannelID state of
       None \<Rightarrow> Inl (Err ''internal error: escrow channel ID is nil'')
     | Some accountID \<Rightarrow>
     (case s_EscrowLedger state of
       None \<Rightarrow> Inl (Err ''escrow ledger is nil'')
     | Some e \<Rightarrow>
         bindE (GetSenderTransactionID L accountID (s_ID state)) (\<lambda>txID.
         let newTransition = NewTransition TransitionTypeEscrowDeposit txID accountID amount;
             l = s_HomeLedger state
         in Inr (newTransition, state \<lparr> s_Transition := newTransition,
              s_HomeLedger := l
                \<lparr> l_UserBalance := dAdd L (l_UserBalance l) (t_Amount newTransition),
                  l_NodeBalance := dZero L \<rparr>,
              s_EscrowLedger := Some (e
                \<lparr> l_UserBalance := dSub L (l_UserBalance e) (t_Amount newTransition),
                  l_NodeNetFlow := dSub L (l_NodeNetFlow e) (t_Amount newTransition) \<rparr>) \<rparr>))))"

definition ApplyEscrowLockTransition ::
  "'d libs \<Rightarrow> 'd State \<Rightarrow> uint64 \<Rightarrow> string \<Rightarrow> 'd \<Rightarrow> ('d Transition \<times> 'd State) result" where
  "ApplyEscrowLockTransition L state blockchainID tokenAddress amount =
     bindE (validateTransitionInputs state) (\<lambda>_.
     case s_HomeChannelID state of
       None \<Rightarrow> Inl (Err ''missing home channel ID'')
     | Some homeChannelID \<Rightarrow>
         if blockchainID = 0 then Inl (Err ''invalid blockchain ID'')
         else if tokenAddress = '''' then Inl (Err ''invalid token address'')
         else if dLessThan L (l_UserBalance (s_HomeLedger state)) amount
         then Inl (Err ''insufficient user balance for escrow lock'')
         else
           bindE (GetEscrowChannelID L homeChannelID (s_Version state)) (\<lambda>escrowChannelID.
           let accountID = escrowChannelID in
           bindE (GetSenderTransactionID L accountID (s_ID state)) (\<lambda>txID.
           let newTransition = NewTransition TransitionTypeEscrowLock txID accountID amount;
               l = s_HomeLedger state
           in Inr (newTransition, state \<lparr> s_EscrowChannelID := Some escrowChannelID,
                s_Transition := newTransition,
                s_HomeLedger := l \<lparr> l_NodeBalance := dZero L \<rparr>,
                s_EscrowLedger := Some
                  \<lparr> l_TokenAddress = tokenAddress, l_BlockchainID = blockchainID,
                    l_UserBalance = dZero L, l_UserNetFlow = dZero L,
                    l_NodeBalance = dAdd L (dZero L) (t_Amount newTransition),
                    l_NodeNetFlow = dAdd L (dZero L) (t_Amount newTransition) \<rparr> \<rparr>))))"

definition ApplyEscrowWithdrawTransition :: "'d libs \<Rightarrow> 'd State \<Rightarrow> 'd \<Rightarrow> ('d Transition \<times> 'd State) result" where
  "ApplyEscrowWithdrawTransition L state amount =
     bindE (validateTransitionInputs state) (\<lambda>_.
     case s_EscrowChannelID state of
       None \<Rightarrow> Inl (Err ''internal error: escrow channel ID is nil'')
     | Some accountID \<Rightarrow>
     (case s_EscrowLedger state of
       None \<Rightarrow> Inl (Err ''escrow ledger is nil'')
     | Some e \<Rightarrow>
         bindE (GetSenderTransactionID L accountID (s_ID state)) (\<lambda>txID.
         let newTransition = NewTransition TransitionTypeEscrowWithdraw txID accountID amount;
             l = s_HomeLedger state
         in Inr (newTransition, state \<lparr> s_Transition := newTransition,
              s_HomeLedger := l
                \<lparr> l_UserBalance := dSub L (l_UserBalance l) (t_Amount newTransition),
                  l_NodeNetFlow := dSub L (l_NodeNetFlow l) (t_Amount newTransition) \<rparr>,
              s_EscrowLedger := Some (e
                \<lparr> l_UserNetFlow := dSub L (l_UserNetFlow e) (t_Amount newTransition),
                  l_NodeBalance := dSub L (l_NodeBalance e) (t_Amount newTransition) \<rparr>) \<rparr>))))"

definition ApplyMigrateTransition :: "'d libs \<Rightarrow> 'd State \<Rightarrow> 'd \<Rightarrow> ('d Transition \<times> 'd State) result" where
  "ApplyMigrateTransition L state amount =
     bindE (validateTransitionInputs state) (\<lambda>_. Inl (Err ''migrate transition not implemented yet''))"

definition ApplyFinalizeTransition :: "'d libs \<Rightarrow> 'd State \<Rightarrow> ('d Transition \<times> 'd State) result" where
  "ApplyFinalizeTransition L state =
     (if t_Type (s_Transition state) \<noteq> TransitionTypeVoid
      then Inl (Err ''state already has a transition'')
      else case s_HomeChannelID state of
        None \<Rightarrow> Inl (Err ''missing home channel ID'')
      | Some accountID \<Rightarrow>
          let l = s_HomeLedger state; amount = l_UserBalance l in
          bindE (GetSenderTransactionID L accountID (s_ID state)) (\<lambda>txID.
          let newTransition = NewTransition TransitionTypeFinalize txID accountID amount
          in Inr (newTransition, state \<lparr> s_Transition := newTransition, s_HomeLedger := l
               \<lparr> l_UserNetFlow := dSub L (l_UserNetFlow l) (l_UserBalance l),
                 l_UserBalance := dZero L \<rparr> \<rparr>)))"

section \<open>Transactions\<close>

text \<open>The \<^verbatim>\<open>switch\<close> of \<^verbatim>\<open>NewTransactionFromTransition\<close>: transaction type, source and
  destination account. The sender is only absent for a release. The \<open>release\<close> branch reads the
  receiver's wallet before it tests the receiver for nil.\<close>

definition transaction_route ::
  "'d State option \<Rightarrow> 'd State option \<Rightarrow> 'd Transition \<Rightarrow> (TransactionType \<times> string \<times> string) result" where
  "transaction_route senderState receiverState transition =
     (let ty = t_Type transition;
          escrow_home = bindE (derefE senderState) (\<lambda>s. Inr (s_EscrowChannelID s, s_HomeChannelID s));
          home_to_escrow = (\<lambda>txType. bindE escrow_home (\<lambda>p. case p of
              (Some e, Some h) \<Rightarrow> Inr (txType, h, e)
            | _ \<Rightarrow> Inl (Err ''sender state has no escrow or home channel ID'')))
      in
      if ty = TransitionTypeHomeDeposit then
        bindE (derefE senderState) (\<lambda>s. case s_HomeChannelID s of
            None \<Rightarrow> Inl (Err ''sender state has no home channel ID'')
          | Some h \<Rightarrow> Inr (TransactionTypeHomeDeposit, h, s_UserWallet s))
      else if ty = TransitionTypeHomeWithdrawal then
        bindE (derefE senderState) (\<lambda>s. case s_HomeChannelID s of
            None \<Rightarrow> Inl (Err ''sender state has no home channel ID'')
          | Some h \<Rightarrow> Inr (TransactionTypeHomeWithdrawal, s_UserWallet s, h))
      else if ty = TransitionTypeEscrowDeposit then
        bindE (derefE senderState) (\<lambda>s. case s_EscrowChannelID s of
            None \<Rightarrow> Inl (Err ''sender state has no escrow channel ID'')
          | Some e \<Rightarrow> Inr (TransactionTypeEscrowDeposit, e, s_UserWallet s))
      else if ty = TransitionTypeEscrowWithdraw then home_to_escrow TransactionTypeEscrowWithdraw
      else if ty = TransitionTypeTransferSend then
        (if Option.is_none receiverState then Inl (Err ''receiver state must not be nil for transfer_send transition'')
         else bindE (derefE senderState) (\<lambda>s. Inr (TransactionTypeTransfer, s_UserWallet s, t_AccountID transition)))
      else if ty = TransitionTypeCommit then
        bindE (derefE senderState) (\<lambda>s. Inr (TransactionTypeCommit, s_UserWallet s, t_AccountID transition))
      else if ty = TransitionTypeRelease then
        bindE (derefE receiverState) (\<lambda>r. Inr (TransactionTypeRelease, t_AccountID transition, s_UserWallet r))
      else if ty = TransitionTypeMutualLock then home_to_escrow TransactionTypeMutualLock
      else if ty = TransitionTypeEscrowLock then home_to_escrow TransactionTypeEscrowLock
      else if ty = TransitionTypeMigrate then home_to_escrow TransactionTypeMigrate
      else if ty = TransitionTypeFinalize then
        bindE (derefE senderState) (\<lambda>s. bindE (derefE (s_HomeChannelID s)) (\<lambda>h.
          Inr (TransactionTypeFinalize, s_UserWallet s, h)))
      else Inl (Err ''invalid transition type''))"

definition NewTransactionFromTransition ::
  "'d libs \<Rightarrow> int \<Rightarrow> 'd State option \<Rightarrow> 'd State option \<Rightarrow> 'd Transition \<Rightarrow> 'd Transaction result" where
  "NewTransactionFromTransition L now senderState receiverState transition =
     (if t_Type transition \<noteq> TransitionTypeRelease \<and> Option.is_none senderState
      then Inl (Err ''sender state must not be nil for non-release transitions'')
      else
      bindE (case senderState of
          Some s \<Rightarrow> Inr (Some (s_ID s), s_Asset s)
        | None \<Rightarrow> (case receiverState of
              Some r \<Rightarrow> Inr (None, s_Asset r)
            | None \<Rightarrow> Inl (Err ''both sender and receiver states are nil''))) (\<lambda>(senderStateID, asset).
      bindE (transaction_route senderState receiverState transition) (\<lambda>(txType, fromAccount, toAccount).
      bindE (case receiverState of
          Some r \<Rightarrow> mapE (\<lambda>txID. (Some (s_ID r), txID)) (GetReceiverTransactionID L fromAccount (s_ID r))
        | None \<Rightarrow> bindE (derefE senderState) (\<lambda>s.
            mapE (\<lambda>txID. (None, txID)) (GetSenderTransactionID L toAccount (s_ID s)))) (\<lambda>(receiverStateID, txID).
      Inr (NewTransaction now txID asset txType fromAccount toAccount senderStateID receiverStateID
             (t_Amount transition))))))"

section \<open>Lemmas on successor states\<close>

lemma NextState_fields [simp]:
  "s_Asset (NextState L s) = s_Asset s"
  "s_UserWallet (NextState L s) = s_UserWallet s"
  "s_Transition (NextState L s) = zero_transition L"
  "s_UserSig (NextState L s) = None"
  "s_NodeSig (NextState L s) = None"
  by (auto simp: NextState_def Let_def split: option.splits)

lemma NextState_position:
  "s_Epoch (NextState L s) = (if IsFinal s then s_Epoch s + 1 else s_Epoch s)"
  "s_Version (NextState L s) = (if IsFinal s then 0 else s_Version s + 1)"
  by (auto simp: NextState_def Let_def split: option.splits)

lemma NextState_ID:
  "s_ID (NextState L s) = GetStateID L (s_UserWallet s) (s_Asset s) (s_Epoch (NextState L s)) (s_Version (NextState L s))"
  by (auto simp: NextState_def Let_def split: option.splits)

lemma NextState_HomeLedger: "s_HomeLedger (NextState L s) = (if IsFinal s then zero_ledger L else s_HomeLedger s)"
  by (auto simp: NextState_def Let_def split: option.splits)

lemma NextState_HomeChannelID: "s_HomeChannelID (NextState L s) = (if IsFinal s then None else s_HomeChannelID s)"
  by (auto simp: NextState_def Let_def split: option.splits)

definition escrow_done :: "'d State \<Rightarrow> bool" where
  "escrow_done s \<longleftrightarrow> t_Type (s_Transition s) = TransitionTypeEscrowDeposit \<or>
                     t_Type (s_Transition s) = TransitionTypeEscrowWithdraw"

lemma NextState_EscrowLedger:
  "s_EscrowLedger (NextState L s) = (if escrow_done s then None else s_EscrowLedger s)"
  by (auto simp: NextState_def Let_def escrow_done_def split: option.splits)

lemma NextState_EscrowChannelID:
  "s_EscrowChannelID (NextState L s) =
     (if IsFinal s \<or> (escrow_done s \<and> s_EscrowLedger s \<noteq> None) then None else s_EscrowChannelID s)"
  by (auto simp: NextState_def Let_def escrow_done_def split: option.splits)

lemma zero_transition_simps [simp]:
  "t_Type (zero_transition L) = TransitionTypeVoid"
  by (simp add: zero_transition_def)

lemma NewTransition_sel [simp]:
  "t_Type (NewTransition ty tx ac am) = ty"
  "t_TxID (NewTransition ty tx ac am) = tx"
  "t_AccountID (NewTransition ty tx ac am) = ac"
  "t_Amount (NewTransition ty tx ac am) = am"
  by (simp_all add: NewTransition_def)

lemma validateTransitionInputs_iff [simp]:
  "validateTransitionInputs s = Inr u \<longleftrightarrow> t_Type (s_Transition s) = TransitionTypeVoid"
  by (simp add: validateTransitionInputs_def)

lemmas apply_defs =
  ApplyAcknowledgementTransition_def ApplyHomeDepositTransition_def ApplyHomeWithdrawalTransition_def
  ApplyTransferSendTransition_def ApplyTransferReceiveTransition_def ApplyCommitTransition_def
  ApplyReleaseTransition_def ApplyMutualLockTransition_def ApplyEscrowDepositTransition_def
  ApplyEscrowLockTransition_def ApplyEscrowWithdrawTransition_def ApplyMigrateTransition_def
  ApplyFinalizeTransition_def

end
