(* ===== verification/State_Advancer.thy ===== *)
theory State_Advancer
  imports Core_State
begin

text \<open>
  \<^verbatim>\<open>StateAdvancerV1.ValidateAdvancement\<close> of \<^verbatim>\<open>src/pkg/core/state_advancer.go\<close>, the check that a state
  proposed by a user is a legal successor of the stored one. The long method is split where its
  phases end: adopting the channel of a first state, identity of the successor, sign of the amount,
  the lock discipline, recomputation of the transition, and comparison of the result.
\<close>

section \<open>The asset store interface\<close>

record AssetStore =
  GetAssetDecimals :: "string \<Rightarrow> uint8 result"
  GetTokenDecimals :: "uint64 \<Rightarrow> string \<Rightarrow> uint8 result"

section \<open>Phases of the validation\<close>

text \<open>A stored state without home channel (the user only received funds so far) adopts the proposed channel.\<close>

definition adoptChannel :: "'d State \<Rightarrow> 'd State \<Rightarrow> 'd State" where
  "adoptChannel expectedState proposedState =
     (case s_HomeChannelID expectedState of
        Some _ \<Rightarrow> expectedState
      | None \<Rightarrow> expectedState \<lparr> s_HomeChannelID := s_HomeChannelID proposedState,
          s_HomeLedger := (s_HomeLedger expectedState)
            \<lparr> l_BlockchainID := l_BlockchainID (s_HomeLedger proposedState),
              l_TokenAddress := l_TokenAddress (s_HomeLedger proposedState) \<rparr> \<rparr>)"

definition checkIdentity :: "'d State \<Rightarrow> 'd State \<Rightarrow> unit result" where
  "checkIdentity expectedState proposedState =
     (if s_HomeChannelID proposedState \<noteq> s_HomeChannelID expectedState then Inl (Err ''home channel ID mismatch'')
      else if s_Version proposedState \<noteq> s_Version expectedState then Inl (Err ''version mismatch'')
      else if s_UserWallet proposedState \<noteq> s_UserWallet expectedState then Inl (Err ''user wallet mismatch'')
      else if s_Asset proposedState \<noteq> s_Asset expectedState then Inl (Err ''asset mismatch'')
      else if s_Epoch proposedState \<noteq> s_Epoch expectedState then Inl (Err ''epoch mismatch'')
      else if s_ID proposedState \<noteq> s_ID expectedState then Inl (Err ''state ID mismatch'')
      else Inr ())"

definition checkAmountSign :: "'d libs \<Rightarrow> 'd Transition \<Rightarrow> unit result" where
  "checkAmountSign L newTransition =
     (if t_Type newTransition = TransitionTypeAcknowledgement then
        (if \<not> dIsZero L (t_Amount newTransition) then Inl (Err ''transition amount must be zero'') else Inr ())
      else if t_Type newTransition = TransitionTypeFinalize then
        (if dIsNegative L (t_Amount newTransition) then Inl (Err ''transition amount must not be negative'') else Inr ())
      else if \<not> dIsPositive L (t_Amount newTransition) then Inl (Err ''transition amount must be positive'')
      else Inr ())"

definition checkLockDiscipline :: "'d Transition \<Rightarrow> 'd Transition \<Rightarrow> unit result" where
  "checkLockDiscipline lastTransition newTransition =
     (if t_Type lastTransition = TransitionTypeMutualLock \<and> t_Type newTransition \<noteq> TransitionTypeEscrowDeposit
      then Inl (Err ''after mutual lock, only escrow deposit is allowed'')
      else if t_Type lastTransition = TransitionTypeEscrowLock \<and> t_Type newTransition \<noteq> TransitionTypeEscrowWithdraw
      then Inl (Err ''after escrow lock, only escrow withdraw is allowed'')
      else Inr ())"

text \<open>The second \<^verbatim>\<open>switch\<close>: a refusal of the switch itself is returned as it is, an error of the
  application is wrapped.\<close>

definition applyNewTransition ::
  "'d libs \<Rightarrow> 'd State \<Rightarrow> 'd State \<Rightarrow> 'd State \<Rightarrow> 'd State result" where
  "applyNewTransition L currentState expectedState proposedState =
     (let newTransition = s_Transition proposedState;
          lastTransition = s_Transition currentState;
          ty = t_Type newTransition;
          amount = t_Amount newTransition;
          applied = (\<lambda>r. mapE snd (wrapE ''failed to apply new transition'' r))
      in
      if ty = TransitionTypeVoid then Inl (Err ''cannot apply void transition as new transition'')
      else if ty = TransitionTypeAcknowledgement then
        (if s_UserSig currentState \<noteq> None then Inl (Err ''current state is already acknowledged'')
         else applied (ApplyAcknowledgementTransition L expectedState))
      else if ty = TransitionTypeHomeDeposit then applied (ApplyHomeDepositTransition L expectedState amount)
      else if ty = TransitionTypeHomeWithdrawal then applied (ApplyHomeWithdrawalTransition L expectedState amount)
      else if ty = TransitionTypeTransferSend then
        applied (ApplyTransferSendTransition L expectedState (t_AccountID newTransition) amount)
      else if ty = TransitionTypeCommit then
        applied (ApplyCommitTransition L expectedState (t_AccountID newTransition) amount)
      else if ty = TransitionTypeMutualLock then
        (case s_EscrowLedger proposedState of
           None \<Rightarrow> Inl (Err ''proposed state escrow ledger is nil'')
         | Some e \<Rightarrow> applied (ApplyMutualLockTransition L expectedState (l_BlockchainID e) (l_TokenAddress e) amount))
      else if ty = TransitionTypeEscrowDeposit then
        (if t_Type lastTransition = TransitionTypeMutualLock then
           (if \<not> dEqual L (t_Amount lastTransition) amount
            then Inl (Err ''escrow deposit amount must be the same as mutual lock amount'')
            else applied (ApplyEscrowDepositTransition L expectedState amount))
         else Inl (Err ''escrow deposit transition must follow a mutual lock transition''))
      else if ty = TransitionTypeEscrowLock then
        (case s_EscrowLedger proposedState of
           None \<Rightarrow> Inl (Err ''proposed state escrow ledger is nil'')
         | Some e \<Rightarrow> applied (ApplyEscrowLockTransition L expectedState (l_BlockchainID e) (l_TokenAddress e) amount))
      else if ty = TransitionTypeEscrowWithdraw then
        (if t_Type lastTransition = TransitionTypeEscrowLock then
           (if \<not> dEqual L (t_Amount lastTransition) amount
            then Inl (Err ''escrow withdraw amount must be the same as escrow lock amount'')
            else applied (ApplyEscrowWithdrawTransition L expectedState amount))
         else Inl (Err ''escrow withdraw transition must follow an escrow lock transition''))
      else if ty = TransitionTypeMigrate then applied (ApplyMigrateTransition L expectedState amount)
      else if ty = TransitionTypeFinalize then applied (ApplyFinalizeTransition L expectedState)
      else Inl (Err ''unsupported type for new transition''))"

definition checkEscrow :: "'d libs \<Rightarrow> 'd State \<Rightarrow> 'd State \<Rightarrow> unit result" where
  "checkEscrow L expectedState proposedState =
     (if (s_EscrowChannelID expectedState = None) \<noteq> (s_EscrowChannelID proposedState = None)
      then Inl (Err ''escrow channel ID presence mismatch'')
      else if s_EscrowChannelID expectedState \<noteq> s_EscrowChannelID proposedState
      then Inl (Err ''escrow channel ID mismatch'')
      else case (s_EscrowLedger expectedState, s_EscrowLedger proposedState) of
        (None, None) \<Rightarrow> Inr ()
      | (Some e, Some p) \<Rightarrow>
          bindE (wrapE ''escrow ledger mismatch'' (Ledger_Equal L e p)) (\<lambda>_.
          bindE (wrapE ''invalid escrow ledger'' (Ledger_Validate L p)) (\<lambda>_.
          if l_BlockchainID p = l_BlockchainID (s_HomeLedger proposedState)
          then Inl (Err ''escrow ledger blockchain ID cannot match home ledger blockchain ID'')
          else Inr ()))
      | _ \<Rightarrow> Inl (Err ''escrow ledger presence mismatch''))"

definition checkExpected :: "'d libs \<Rightarrow> 'd State \<Rightarrow> 'd State \<Rightarrow> unit result" where
  "checkExpected L expectedState proposedState =
     bindE (wrapE ''new transition does not match expected''
       (Transition_Equal L (s_Transition expectedState) (s_Transition proposedState))) (\<lambda>_.
     bindE (wrapE ''home ledger mismatch''
       (Ledger_Equal L (s_HomeLedger expectedState) (s_HomeLedger proposedState))) (\<lambda>_.
     bindE (wrapE ''invalid home ledger'' (Ledger_Validate L (s_HomeLedger proposedState))) (\<lambda>_.
     checkEscrow L expectedState proposedState)))"

definition ValidateAdvancement :: "'d libs \<Rightarrow> AssetStore \<Rightarrow> 'd State \<Rightarrow> 'd State \<Rightarrow> unit result" where
  "ValidateAdvancement L assetStore currentState proposedState =
     (if s_HomeChannelID proposedState = None then Inl (Err ''home channel ID cannot be nil'')
      else
      let expectedState = adoptChannel (NextState L currentState) proposedState;
          newTransition = s_Transition proposedState
      in
      bindE (checkIdentity expectedState proposedState) (\<lambda>_.
      bindE (wrapE ''failed to get asset decimals'' (GetAssetDecimals assetStore (s_Asset proposedState))) (\<lambda>decimals.
      bindE (wrapE ''invalid amount for asset''
        (ValidateDecimalPrecision L (t_Amount newTransition) decimals)) (\<lambda>_.
      bindE (checkAmountSign L newTransition) (\<lambda>_.
      bindE (checkLockDiscipline (s_Transition currentState) newTransition) (\<lambda>_.
      bindE (applyNewTransition L currentState expectedState proposedState) (\<lambda>appliedState.
      checkExpected L appliedState proposedState)))))))"

section \<open>Abstract effect of a transition\<close>

text \<open>User balance, user net flow, node balance and node net flow as numbers.\<close>

type_synonym ledger_vals = "rat \<times> rat \<times> rat \<times> rat"

definition ledger_vals :: "('d \<Rightarrow> rat) \<Rightarrow> 'd Ledger \<Rightarrow> ledger_vals" where
  "ledger_vals val l = (val (l_UserBalance l), val (l_UserNetFlow l), val (l_NodeBalance l), val (l_NodeNetFlow l))"

fun home_effect :: "TransitionType \<Rightarrow> rat \<Rightarrow> ledger_vals \<Rightarrow> ledger_vals" where
  "home_effect ty a (u, uf, n, nf) =
     (if ty = TransitionTypeHomeDeposit then (u + a, uf + a, n, nf)
      else if ty = TransitionTypeHomeWithdrawal then (u - a, uf - a, n, nf)
      else if ty = TransitionTypeTransferSend \<or> ty = TransitionTypeCommit then (u - a, uf, n, nf - a)
      else if ty = TransitionTypeTransferReceive \<or> ty = TransitionTypeRelease then (u + a, uf, n, nf + a)
      else if ty = TransitionTypeMutualLock then (u, uf, n + a, nf + a)
      else if ty = TransitionTypeEscrowDeposit then (u + a, uf, 0, nf)
      else if ty = TransitionTypeEscrowLock then (u, uf, 0, nf)
      else if ty = TransitionTypeEscrowWithdraw then (u - a, uf, n, nf - a)
      else if ty = TransitionTypeFinalize then (0, uf - u, n, nf)
      else (u, uf, n, nf))"

text \<open>The transition types a user may submit.\<close>

definition user_transition_types :: "TransitionType set" where
  "user_transition_types = {TransitionTypeAcknowledgement, TransitionTypeHomeDeposit,
     TransitionTypeHomeWithdrawal, TransitionTypeTransferSend, TransitionTypeCommit,
     TransitionTypeMutualLock, TransitionTypeEscrowDeposit, TransitionTypeEscrowLock,
     TransitionTypeEscrowWithdraw, TransitionTypeFinalize}"

lemma adoptChannel_fields [simp]:
  "s_ID (adoptChannel e p) = s_ID e"
  "s_Transition (adoptChannel e p) = s_Transition e"
  "s_Asset (adoptChannel e p) = s_Asset e"
  "s_UserWallet (adoptChannel e p) = s_UserWallet e"
  "s_Epoch (adoptChannel e p) = s_Epoch e"
  "s_Version (adoptChannel e p) = s_Version e"
  "s_EscrowChannelID (adoptChannel e p) = s_EscrowChannelID e"
  "s_EscrowLedger (adoptChannel e p) = s_EscrowLedger e"
  "ledger_vals val (s_HomeLedger (adoptChannel e p)) = ledger_vals val (s_HomeLedger e)"
  by (simp_all add: adoptChannel_def ledger_vals_def split: option.splits)

lemma checkIdentity_iff [simp]:
  "checkIdentity e p = Inr u \<longleftrightarrow>
     s_HomeChannelID p = s_HomeChannelID e \<and> s_Version p = s_Version e \<and> s_UserWallet p = s_UserWallet e \<and>
     s_Asset p = s_Asset e \<and> s_Epoch p = s_Epoch e \<and> s_ID p = s_ID e"
  by (auto simp: checkIdentity_def)

lemma checkLockDiscipline_iff [simp]:
  "checkLockDiscipline l n = Inr u \<longleftrightarrow>
     (t_Type l = TransitionTypeMutualLock \<longrightarrow> t_Type n = TransitionTypeEscrowDeposit) \<and>
     (t_Type l = TransitionTypeEscrowLock \<longrightarrow> t_Type n = TransitionTypeEscrowWithdraw)"
  by (auto simp: checkLockDiscipline_def)

lemma applyNewTransition_type:
  assumes "applyNewTransition L c e p = Inr r"
  shows "t_Type (s_Transition p) \<in> user_transition_types"
  using assms
  by (auto simp: applyNewTransition_def Let_def user_transition_types_def ApplyMigrateTransition_def
      split: if_splits)

lemma ValidateAdvancement_applied:
  assumes "ValidateAdvancement L store cur p = Inr ()"
  obtains decimals r where
    "s_HomeChannelID p \<noteq> None"
    "checkIdentity (adoptChannel (NextState L cur) p) p = Inr ()"
    "GetAssetDecimals store (s_Asset p) = Inr decimals"
    "ValidateDecimalPrecision L (t_Amount (s_Transition p)) decimals = Inr ()"
    "checkAmountSign L (s_Transition p) = Inr ()"
    "checkLockDiscipline (s_Transition cur) (s_Transition p) = Inr ()"
    "applyNewTransition L cur (adoptChannel (NextState L cur) p) p = Inr r"
    "checkExpected L r p = Inr ()"
  using assms by (auto simp: ValidateAdvancement_def Let_def simp del: checkIdentity_iff checkLockDiscipline_iff)

definition records_effect :: "('d \<Rightarrow> rat) \<Rightarrow> 'd State \<Rightarrow> 'd Transition \<Rightarrow> 'd State \<Rightarrow> bool" where
  "records_effect val s t s' \<longleftrightarrow> s_Transition s' = t \<and>
     ledger_vals val (s_HomeLedger s') = home_effect (t_Type t) (val (t_Amount t)) (ledger_vals val (s_HomeLedger s))"

lemmas effect_simps = records_effect_def ledger_vals_def Let_def

context decimal_spec
begin

lemma checkAmountSign_iff [simp]:
  "checkAmountSign L t = Inr u \<longleftrightarrow>
     (if t_Type t = TransitionTypeAcknowledgement then val (t_Amount t) = 0
      else if t_Type t = TransitionTypeFinalize then 0 \<le> val (t_Amount t)
      else 0 < val (t_Amount t))"
  by (auto simp: checkAmountSign_def)

lemma ledger_vals_eq: "ledger_eq val l1 l2 \<Longrightarrow> ledger_vals val l1 = ledger_vals val l2"
  by (simp add: ledger_eq_def ledger_vals_def)

text \<open>Every application computes the abstract effect of its own transition, and records it.\<close>

lemma ApplyAcknowledgement_effect: "ApplyAcknowledgementTransition L s = Inr (t, s') \<Longrightarrow> records_effect val s t s'"
  by (auto simp: ApplyAcknowledgementTransition_def effect_simps split: option.splits if_splits)

lemma ApplyHomeDeposit_effect: "ApplyHomeDepositTransition L s a = Inr (t, s') \<Longrightarrow> records_effect val s t s'"
  by (auto simp: ApplyHomeDepositTransition_def effect_simps split: option.splits if_splits)

lemma ApplyHomeWithdrawal_effect: "ApplyHomeWithdrawalTransition L s a = Inr (t, s') \<Longrightarrow> records_effect val s t s'"
  by (auto simp: ApplyHomeWithdrawalTransition_def effect_simps split: option.splits if_splits)

lemma ApplyTransferSend_effect: "ApplyTransferSendTransition L s r a = Inr (t, s') \<Longrightarrow> records_effect val s t s'"
  by (auto simp: ApplyTransferSendTransition_def effect_simps split: option.splits if_splits)

lemma ApplyTransferReceive_effect: "ApplyTransferReceiveTransition L s r a x = Inr (t, s') \<Longrightarrow> records_effect val s t s'"
  by (auto simp: ApplyTransferReceiveTransition_def effect_simps split: option.splits if_splits)

lemma ApplyCommit_effect: "ApplyCommitTransition L s r a = Inr (t, s') \<Longrightarrow> records_effect val s t s'"
  by (auto simp: ApplyCommitTransition_def effect_simps split: option.splits if_splits)

lemma ApplyRelease_effect: "ApplyReleaseTransition L s r a = Inr (t, s') \<Longrightarrow> records_effect val s t s'"
  by (auto simp: ApplyReleaseTransition_def effect_simps split: option.splits if_splits)

lemma ApplyMutualLock_effect: "ApplyMutualLockTransition L s b k a = Inr (t, s') \<Longrightarrow> records_effect val s t s'"
  by (auto simp: ApplyMutualLockTransition_def effect_simps split: option.splits if_splits)

lemma ApplyEscrowDeposit_effect: "ApplyEscrowDepositTransition L s a = Inr (t, s') \<Longrightarrow> records_effect val s t s'"
  by (auto simp: ApplyEscrowDepositTransition_def effect_simps split: option.splits if_splits)

lemma ApplyEscrowLock_effect: "ApplyEscrowLockTransition L s b k a = Inr (t, s') \<Longrightarrow> records_effect val s t s'"
  by (auto simp: ApplyEscrowLockTransition_def effect_simps split: option.splits if_splits)

lemma ApplyEscrowWithdraw_effect: "ApplyEscrowWithdrawTransition L s a = Inr (t, s') \<Longrightarrow> records_effect val s t s'"
  by (auto simp: ApplyEscrowWithdrawTransition_def effect_simps split: option.splits if_splits)

lemma ApplyFinalize_effect: "ApplyFinalizeTransition L s = Inr (t, s') \<Longrightarrow> records_effect val s t s'"
  by (auto simp: ApplyFinalizeTransition_def effect_simps split: option.splits if_splits)

lemmas apply_effects =
  ApplyAcknowledgement_effect
  ApplyHomeDeposit_effect
  ApplyHomeWithdrawal_effect
  ApplyTransferSend_effect
  ApplyTransferReceive_effect
  ApplyCommit_effect
  ApplyRelease_effect
  ApplyMutualLock_effect
  ApplyEscrowDeposit_effect
  ApplyEscrowLock_effect
  ApplyEscrowWithdraw_effect
  ApplyFinalize_effect

lemma applyNewTransition_effect:
  "applyNewTransition L c e p = Inr r \<Longrightarrow> records_effect val e (s_Transition r) r"
proof -
  assume "applyNewTransition L c e p = Inr r"
  then have "\<exists>t. records_effect val e t r"
    by (auto simp: applyNewTransition_def Let_def ApplyMigrateTransition_def dest: apply_effects
        split: if_splits option.splits)
  then show ?thesis by (auto simp: records_effect_def)
qed

end

lemma home_effect_node:
  "home_effect ty a (u, uf, n, nf) = (u', uf', n', nf') \<Longrightarrow>
     n' = (if ty = TransitionTypeMutualLock then n + a
           else if ty = TransitionTypeEscrowDeposit \<or> ty = TransitionTypeEscrowLock then 0 else n)"
  by (simp split: if_split_asm; elim disjE; simp)

lemma home_effect_user:
  "home_effect ty a (u, uf, n, nf) = (u', uf', n', nf') \<Longrightarrow>
     u' = (if ty \<in> {TransitionTypeHomeDeposit, TransitionTypeTransferReceive, TransitionTypeRelease,
                    TransitionTypeEscrowDeposit} then u + a
           else if ty \<in> {TransitionTypeHomeWithdrawal, TransitionTypeTransferSend, TransitionTypeCommit,
                         TransitionTypeEscrowWithdraw} then u - a
           else if ty = TransitionTypeFinalize then 0 else u)"
  by (simp split: if_split_asm; elim disjE; simp)

declare home_effect.simps [simp del]

section \<open>What an accepted state looks like\<close>

definition home_before :: "('d \<Rightarrow> rat) \<Rightarrow> 'd State \<Rightarrow> ledger_vals" where
  "home_before val cur = (if IsFinal cur then (0, 0, 0, 0) else ledger_vals val (s_HomeLedger cur))"

lemma ledger_sound_vals:
  assumes "ledger_vals val l = (u, uf, n, nf)" and "ledger_sound val l"
  shows "0 \<le> u \<and> 0 \<le> n \<and> u + n = uf + nf"
  using assms by (auto simp: ledger_vals_def ledger_sound_def ledger_balanced_def)

context decimal_spec
begin

lemma home_before_NextState: "ledger_vals val (s_HomeLedger (adoptChannel (NextState L cur) p)) = home_before val cur"
  unfolding adoptChannel_fields by (simp add: NextState_HomeLedger home_before_def zero_ledger_def ledger_vals_def)

lemma accepted_home_ledger:
  assumes "ValidateAdvancement L store cur p = Inr ()"
  shows "ledger_vals val (s_HomeLedger p) =
           home_effect (t_Type (s_Transition p)) (val (t_Amount (s_Transition p))) (home_before val cur)"
    and "ledger_sound val (s_HomeLedger p)"
    and "t_Type (s_Transition p) \<in> user_transition_types"
proof -
  obtain r where r: "applyNewTransition L cur (adoptChannel (NextState L cur) p) p = Inr r"
    and c: "checkExpected L r p = Inr ()"
    using ValidateAdvancement_applied [OF assms] by metis
  have eq: "ledger_vals val (s_HomeLedger r) = ledger_vals val (s_HomeLedger p)"
    using c by (auto simp: checkExpected_def dest: ledger_vals_eq)
  have tr: "t_Type (s_Transition r) = t_Type (s_Transition p)"
    "val (t_Amount (s_Transition r)) = val (t_Amount (s_Transition p))"
    using c by (auto simp: checkExpected_def)
  show "ledger_vals val (s_HomeLedger p) =
      home_effect (t_Type (s_Transition p)) (val (t_Amount (s_Transition p))) (home_before val cur)"
    using applyNewTransition_effect [OF r] eq tr unfolding records_effect_def home_before_NextState by simp
  show "ledger_sound val (s_HomeLedger p)" using c by (simp add: checkExpected_def)
  show "t_Type (s_Transition p) \<in> user_transition_types" by (rule applyNewTransition_type [OF r])
qed

lemma accepted_identity:
  assumes "ValidateAdvancement L store cur p = Inr ()"
  shows "s_UserWallet p = s_UserWallet cur" "s_Asset p = s_Asset cur"
    "s_Epoch p = (if IsFinal cur then s_Epoch cur + 1 else s_Epoch cur)"
    "s_Version p = (if IsFinal cur then 0 else s_Version cur + 1)"
    "s_ID p = GetStateID L (s_UserWallet p) (s_Asset p) (s_Epoch p) (s_Version p)"
    "s_HomeChannelID p \<noteq> None"
    "\<not> IsFinal cur \<Longrightarrow> s_HomeChannelID cur \<noteq> None \<Longrightarrow> s_HomeChannelID p = s_HomeChannelID cur"
proof -
  have c: "checkIdentity (adoptChannel (NextState L cur) p) p = Inr ()" and h: "s_HomeChannelID p \<noteq> None"
    using ValidateAdvancement_applied [OF assms] by metis+
  show "s_UserWallet p = s_UserWallet cur" "s_Asset p = s_Asset cur"
    "s_Epoch p = (if IsFinal cur then s_Epoch cur + 1 else s_Epoch cur)"
    "s_Version p = (if IsFinal cur then 0 else s_Version cur + 1)"
    "s_ID p = GetStateID L (s_UserWallet p) (s_Asset p) (s_Epoch p) (s_Version p)"
    using c by (simp_all add: NextState_position NextState_ID)
  show "s_HomeChannelID p \<noteq> None" by (rule h)
  show "s_HomeChannelID p = s_HomeChannelID cur" if "\<not> IsFinal cur" "s_HomeChannelID cur \<noteq> None"
    using c that by (auto simp: adoptChannel_def NextState_HomeChannelID)
qed

lemma accepted_amount:
  assumes "ValidateAdvancement L store cur p = Inr ()"
  shows "0 \<le> val (t_Amount (s_Transition p))"
    "t_Type (s_Transition p) \<noteq> TransitionTypeAcknowledgement \<Longrightarrow>
     t_Type (s_Transition p) \<noteq> TransitionTypeFinalize \<Longrightarrow> 0 < val (t_Amount (s_Transition p))"
proof -
  have "checkAmountSign L (s_Transition p) = Inr ()" using ValidateAdvancement_applied [OF assms] by metis
  then show "0 \<le> val (t_Amount (s_Transition p))"
    "t_Type (s_Transition p) \<noteq> TransitionTypeAcknowledgement \<Longrightarrow>
     t_Type (s_Transition p) \<noteq> TransitionTypeFinalize \<Longrightarrow> 0 < val (t_Amount (s_Transition p))"
    by (auto split: if_splits)
qed

text \<open>Locks: the escrow identifier of a lock is set, and only the matching settlement may follow.\<close>

lemma accepted_lock:
  assumes "ValidateAdvancement L store cur p = Inr ()"
  shows "t_Type (s_Transition cur) = TransitionTypeMutualLock \<Longrightarrow>
      t_Type (s_Transition p) = TransitionTypeEscrowDeposit \<and>
      val (t_Amount (s_Transition p)) = val (t_Amount (s_Transition cur))"
    "t_Type (s_Transition cur) = TransitionTypeEscrowLock \<Longrightarrow>
      t_Type (s_Transition p) = TransitionTypeEscrowWithdraw \<and>
      val (t_Amount (s_Transition p)) = val (t_Amount (s_Transition cur))"
    "t_Type (s_Transition p) = TransitionTypeEscrowDeposit \<Longrightarrow> t_Type (s_Transition cur) = TransitionTypeMutualLock"
    "t_Type (s_Transition p) = TransitionTypeEscrowWithdraw \<Longrightarrow> t_Type (s_Transition cur) = TransitionTypeEscrowLock"
proof -
  obtain r where r: "applyNewTransition L cur (adoptChannel (NextState L cur) p) p = Inr r"
    and l: "checkLockDiscipline (s_Transition cur) (s_Transition p) = Inr ()"
    using ValidateAdvancement_applied [OF assms] by metis
  show "t_Type (s_Transition cur) = TransitionTypeMutualLock \<Longrightarrow>
      t_Type (s_Transition p) = TransitionTypeEscrowDeposit \<and>
      val (t_Amount (s_Transition p)) = val (t_Amount (s_Transition cur))"
    using r l by (auto simp: applyNewTransition_def Let_def split: if_splits)
  show "t_Type (s_Transition cur) = TransitionTypeEscrowLock \<Longrightarrow>
      t_Type (s_Transition p) = TransitionTypeEscrowWithdraw \<and>
      val (t_Amount (s_Transition p)) = val (t_Amount (s_Transition cur))"
    using r l by (auto simp: applyNewTransition_def Let_def split: if_splits)
  show "t_Type (s_Transition p) = TransitionTypeEscrowDeposit \<Longrightarrow> t_Type (s_Transition cur) = TransitionTypeMutualLock"
    using r by (auto simp: applyNewTransition_def Let_def split: if_splits)
  show "t_Type (s_Transition p) = TransitionTypeEscrowWithdraw \<Longrightarrow> t_Type (s_Transition cur) = TransitionTypeEscrowLock"
    using r by (auto simp: applyNewTransition_def Let_def split: if_splits)
qed

lemma accepted_escrow_ledger:
  assumes "ValidateAdvancement L store cur p = Inr ()" "s_EscrowLedger p = Some e"
  shows "ledger_sound val e \<and> l_BlockchainID e \<noteq> l_BlockchainID (s_HomeLedger p)"
proof -
  obtain r where "checkExpected L r p = Inr ()"
    using ValidateAdvancement_applied [OF assms(1)] by metis
  then show ?thesis using assms(2)
    by (auto simp: checkExpected_def checkEscrow_def split: if_splits option.splits)
qed

lemma accepted_lock_escrow_id:
  assumes "ValidateAdvancement L store cur p = Inr ()"
    and "t_Type (s_Transition p) = TransitionTypeMutualLock \<or> t_Type (s_Transition p) = TransitionTypeEscrowLock"
  shows "s_EscrowChannelID p \<noteq> None"
proof -
  obtain r where r: "applyNewTransition L cur (adoptChannel (NextState L cur) p) p = Inr r"
    and c: "checkExpected L r p = Inr ()"
    using ValidateAdvancement_applied [OF assms(1)] by metis
  have "s_EscrowChannelID r \<noteq> None"
    using r assms(2)
    by (auto simp: applyNewTransition_def ApplyMutualLockTransition_def ApplyEscrowLockTransition_def Let_def
        split: if_splits option.splits)
  then show ?thesis using c by (auto simp: checkExpected_def checkEscrow_def split: if_splits)
qed

end

section \<open>Runs of a wallet\<close>

text \<open>
  The states the node stores for one wallet and asset: the void state, states submitted and signed by
  the user that pass the advancer, and states the node issues when the user receives a transfer or an
  app session releases funds. The node refuses to issue a state while the last state signed by the user
  carries an escrow channel (\<^verbatim>\<open>issueTransferReceiverState\<close> and \<^verbatim>\<open>issueReleaseReceiverState\<close>).
  The second state is the last one the user signed.
\<close>

inductive wallet_run :: "'d libs \<Rightarrow> AssetStore \<Rightarrow> string \<Rightarrow> string \<Rightarrow> 'd State \<Rightarrow> 'd State option \<Rightarrow> bool"
  for L store asset wallet where
  start: "wallet_run L store asset wallet (NewVoidState L asset wallet) None"
| submit: "\<lbrakk>wallet_run L store asset wallet cur sg; ValidateAdvancement L store cur p = Inr (); s_UserSig p \<noteq> None\<rbrakk>
     \<Longrightarrow> wallet_run L store asset wallet p (Some p)"
| receive: "\<lbrakk>wallet_run L store asset wallet cur sg; Option.bind sg s_EscrowChannelID = None; dIsPositive L amount;
      ApplyTransferReceiveTransition L (NextState L cur) sender amount txID = Inr (t, s')\<rbrakk>
     \<Longrightarrow> wallet_run L store asset wallet (s' \<lparr> s_NodeSig := ns \<rparr>) sg"
| release: "\<lbrakk>wallet_run L store asset wallet cur sg; Option.bind sg s_EscrowChannelID = None; dIsPositive L amount;
      ApplyReleaseTransition L (NextState L cur) session amount = Inr (t, s')\<rbrakk>
     \<Longrightarrow> wallet_run L store asset wallet (s' \<lparr> s_NodeSig := ns \<rparr>) sg"

definition is_lock :: "'d State \<Rightarrow> bool" where
  "is_lock s \<longleftrightarrow> t_Type (s_Transition s) = TransitionTypeMutualLock \<or> t_Type (s_Transition s) = TransitionTypeEscrowLock"

text \<open>The node holds funds in a home channel only while a mutual lock is pending, and then exactly the
  locked amount; balances are never negative and are backed by the net flows.\<close>

definition run_inv :: "('d \<Rightarrow> rat) \<Rightarrow> 'd State \<Rightarrow> 'd State option \<Rightarrow> bool" where
  "run_inv val cur sg \<longleftrightarrow>
     0 \<le> val (l_UserBalance (s_HomeLedger cur)) \<and>
     val (l_NodeBalance (s_HomeLedger cur)) =
       (if t_Type (s_Transition cur) = TransitionTypeMutualLock then val (t_Amount (s_Transition cur)) else 0) \<and>
     ledger_balanced val (s_HomeLedger cur) \<and>
     (is_lock cur \<longrightarrow> 0 < val (t_Amount (s_Transition cur)) \<and> sg = Some cur \<and> s_EscrowChannelID cur \<noteq> None)"

context decimal_spec
begin

lemma run_inv_start: "run_inv val (NewVoidState L asset wallet) None"
  by (simp add: run_inv_def NewVoidState_def zero_ledger_def ledger_balanced_def is_lock_def)

lemma node_balance_before:
  assumes "run_inv val cur sg" and "home_before val cur = (u, uf, n, nf)"
  shows "n = (if t_Type (s_Transition cur) = TransitionTypeMutualLock then val (t_Amount (s_Transition cur)) else 0)
         \<and> 0 \<le> u \<and> u + n = uf + nf"
  using assms by (auto simp: run_inv_def home_before_def ledger_vals_def IsFinal_def ledger_balanced_def split: if_splits)

lemma run_inv_submit:
  assumes "run_inv val cur sg" and acc: "ValidateAdvancement L store cur p = Inr ()"
  shows "run_inv val p (Some p)"
proof -
  obtain u uf n nf where b: "home_before val cur = (u, uf, n, nf)" by (metis prod_cases4)
  note before = node_balance_before [OF assms(1) b]
  have eff: "ledger_vals val (s_HomeLedger p) =
      home_effect (t_Type (s_Transition p)) (val (t_Amount (s_Transition p))) (u, uf, n, nf)"
    using accepted_home_ledger(1) [OF acc] b by simp
  have "val (l_NodeBalance (s_HomeLedger p)) =
      (if t_Type (s_Transition p) = TransitionTypeMutualLock then val (t_Amount (s_Transition p)) else 0)"
    using home_effect_node [OF eff [symmetric, unfolded ledger_vals_def]] before accepted_lock(1,3) [OF acc]
    by (cases "t_Type (s_Transition cur) = TransitionTypeMutualLock") simp_all
  moreover have "ledger_sound val (s_HomeLedger p)" by (rule accepted_home_ledger(2) [OF acc])
  moreover have "is_lock p \<Longrightarrow> 0 < val (t_Amount (s_Transition p)) \<and> s_EscrowChannelID p \<noteq> None"
    using accepted_lock_escrow_id [OF acc] accepted_amount(2) [OF acc] by (auto simp: is_lock_def)
  ultimately show ?thesis by (auto simp: run_inv_def ledger_sound_def)
qed

lemma run_inv_no_lock:
  assumes "run_inv val cur sg" and "Option.bind sg s_EscrowChannelID = None"
  shows "\<not> is_lock cur"
  using assms by (auto simp: run_inv_def)

text \<open>Both kinds of credit issued by the node add the amount to the user balance and to the node's net flow.\<close>

lemma run_inv_credit:
  assumes "run_inv val cur sg" and "Option.bind sg s_EscrowChannelID = None" and "0 < val (t_Amount t)"
    and "records_effect val (NextState L cur) t s'"
    and "t_Type t = TransitionTypeTransferReceive \<or> t_Type t = TransitionTypeRelease"
  shows "run_inv val (s' \<lparr> s_NodeSig := ns \<rparr>) sg"
proof -
  obtain u uf n nf where b: "home_before val cur = (u, uf, n, nf)" by (metis prod_cases4)
  have "ledger_vals val (s_HomeLedger (NextState L cur)) = home_before val cur"
    by (simp add: NextState_HomeLedger home_before_def zero_ledger_def ledger_vals_def)
  then have "ledger_vals val (s_HomeLedger s') = (u + val (t_Amount t), uf, n, nf + val (t_Amount t))"
    using assms(4,5) b by (auto simp: records_effect_def home_effect.simps)
  moreover have "n = 0" "0 \<le> u" "u + n = uf + nf"
    using node_balance_before [OF assms(1) b] run_inv_no_lock [OF assms(1,2)] by (auto simp: is_lock_def)
  moreover have "s_Transition s' = t" using assms(4) by (simp add: records_effect_def)
  ultimately show ?thesis using assms(3,5)
    by (auto simp: run_inv_def ledger_vals_def ledger_balanced_def is_lock_def)
qed

lemma receive_transition:
  "ApplyTransferReceiveTransition L s sender a x = Inr (t, s') \<Longrightarrow> t_Type t = TransitionTypeTransferReceive \<and> t_Amount t = a"
  by (auto simp: ApplyTransferReceiveTransition_def Let_def)

lemma release_transition:
  "ApplyReleaseTransition L s session a = Inr (t, s') \<Longrightarrow> t_Type t = TransitionTypeRelease \<and> t_Amount t = a"
  by (auto simp: ApplyReleaseTransition_def Let_def)

lemma wallet_run_inv: "wallet_run L store asset wallet cur sg \<Longrightarrow> run_inv val cur sg"
proof (induction rule: wallet_run.induct)
  case start
  show ?case by (rule run_inv_start)
next
  case (submit cur sg p)
  then show ?case by (blast intro: run_inv_submit)
next
  case (receive cur sg amount sender txID t s' ns)
  then show ?case
    by (intro run_inv_credit [where t = t]) (auto dest: receive_transition ApplyTransferReceive_effect)
next
  case (release cur sg amount session t s' ns)
  then show ?case
    by (intro run_inv_credit [where t = t]) (auto dest: release_transition ApplyRelease_effect)
qed

end

section \<open>Acceptance of well-built states\<close>

text \<open>A user wallet builds its next state with \<^verbatim>\<open>NextState\<close> and an \<^verbatim>\<open>Apply...\<close> method and signs it.
  Outside escrow operations such a state is accepted exactly when its home ledger is sound.\<close>

definition with_sigs :: "'d State \<Rightarrow> string option \<Rightarrow> string option \<Rightarrow> 'd State" where
  "with_sigs s us ns = s \<lparr> s_UserSig := us, s_NodeSig := ns \<rparr>"

lemma with_sigs_fields [simp]:
  "s_ID (with_sigs s us ns) = s_ID s" "s_Transition (with_sigs s us ns) = s_Transition s"
  "s_Asset (with_sigs s us ns) = s_Asset s" "s_UserWallet (with_sigs s us ns) = s_UserWallet s"
  "s_Epoch (with_sigs s us ns) = s_Epoch s" "s_Version (with_sigs s us ns) = s_Version s"
  "s_HomeChannelID (with_sigs s us ns) = s_HomeChannelID s"
  "s_EscrowChannelID (with_sigs s us ns) = s_EscrowChannelID s"
  "s_HomeLedger (with_sigs s us ns) = s_HomeLedger s" "s_EscrowLedger (with_sigs s us ns) = s_EscrowLedger s"
  by (simp_all add: with_sigs_def)

text \<open>A wallet that may move funds: its channel is open, not final and no lock is pending.\<close>

definition movable :: "'d State \<Rightarrow> bool" where
  "movable cur \<longleftrightarrow> \<not> IsFinal cur \<and> \<not> is_lock cur \<and> s_HomeChannelID cur \<noteq> None \<and>
     (escrow_done cur \<or> s_EscrowLedger cur = None)"

definition amount_ok :: "'d libs \<Rightarrow> AssetStore \<Rightarrow> string \<Rightarrow> 'd \<Rightarrow> bool" where
  "amount_ok L store asset amount \<longleftrightarrow> dIsPositive L amount \<and>
     (case GetAssetDecimals store asset of Inl _ \<Rightarrow> False
      | Inr d \<Rightarrow> isOk (ValidateDecimalPrecision L amount d))"

definition is_move :: "TransitionType \<Rightarrow> bool" where
  "is_move ty \<longleftrightarrow> ty = TransitionTypeHomeDeposit \<or> ty = TransitionTypeHomeWithdrawal \<or>
     ty = TransitionTypeTransferSend \<or> ty = TransitionTypeCommit"

text \<open>The state a wallet computes for such a move.\<close>

definition build_move ::
  "'d libs \<Rightarrow> 'd State \<Rightarrow> TransitionType \<Rightarrow> string \<Rightarrow> 'd \<Rightarrow> ('d Transition \<times> 'd State) result" where
  "build_move L cur ty account amount =
     (if ty = TransitionTypeHomeDeposit then ApplyHomeDepositTransition L (NextState L cur) amount
      else if ty = TransitionTypeHomeWithdrawal then ApplyHomeWithdrawalTransition L (NextState L cur) amount
      else if ty = TransitionTypeTransferSend then ApplyTransferSendTransition L (NextState L cur) account amount
      else ApplyCommitTransition L (NextState L cur) account amount)"

lemma build_move_fields:
  assumes "build_move L cur ty account amount = Inr (t, s')" "is_move ty"
  shows "s_ID s' = s_ID (NextState L cur)" "s_Asset s' = s_Asset cur" "s_UserWallet s' = s_UserWallet cur"
    "s_Epoch s' = s_Epoch (NextState L cur)" "s_Version s' = s_Version (NextState L cur)"
    "s_HomeChannelID s' = s_HomeChannelID (NextState L cur)"
    "s_EscrowChannelID s' = s_EscrowChannelID (NextState L cur)"
    "s_EscrowLedger s' = s_EscrowLedger (NextState L cur)"
    "s_Transition s' = t" "t_Type t = ty" "t_Amount t = amount"
    "ty = TransitionTypeTransferSend \<or> ty = TransitionTypeCommit \<Longrightarrow> t_AccountID t = account"
    "l_TokenAddress (s_HomeLedger s') = l_TokenAddress (s_HomeLedger (NextState L cur))"
    "l_BlockchainID (s_HomeLedger s') = l_BlockchainID (s_HomeLedger (NextState L cur))"
  using assms
  by (auto simp: build_move_def is_move_def ApplyHomeDepositTransition_def ApplyHomeWithdrawalTransition_def
      ApplyTransferSendTransition_def ApplyCommitTransition_def Let_def split: option.splits if_splits)

lemma build_move_applied:
  assumes b: "build_move L cur ty account amount = Inr (t, s')" and m: "is_move ty"
  shows "applyNewTransition L cur (NextState L cur) (with_sigs s' us ns) = Inr s'"
proof -
  note f = build_move_fields [OF b m]
  show ?thesis using b m f(12)
    by (auto simp: applyNewTransition_def f Let_def is_move_def build_move_def)
qed

context decimal_spec
begin

lemma build_move_accept_iff:
  assumes b: "build_move L cur ty account amount = Inr (t, s')" and m: "is_move ty"
    and cur: "movable cur" and a: "amount_ok L store (s_Asset cur) amount"
  shows "ValidateAdvancement L store cur (with_sigs s' us ns) = Inr () \<longleftrightarrow> ledger_sound val (s_HomeLedger s')"
proof -
  note f = build_move_fields [OF b m]
  obtain h where h: "s_HomeChannelID (NextState L cur) = Some h"
    using cur by (auto simp: movable_def NextState_HomeChannelID)
  have adopt: "adoptChannel (NextState L cur) (with_sigs s' us ns) = NextState L cur"
    using h by (simp add: adoptChannel_def)
  obtain d where d: "GetAssetDecimals store (s_Asset cur) = Inr d"
    "ValidateDecimalPrecision L amount d = Inr ()" "0 < val amount"
    using a by (auto simp: amount_ok_def isOk_iff split: sum.splits)
  have e: "s_EscrowLedger (NextState L cur) = None" using cur by (auto simp: movable_def NextState_EscrowLedger)
  have "ledger_eq val (s_HomeLedger s') (s_HomeLedger s')" by (simp add: ledger_eq_def)
  then have x: "checkExpected L s' (with_sigs s' us ns) = Inr () \<longleftrightarrow> ledger_sound val (s_HomeLedger s')"
    by (auto simp: checkExpected_def checkEscrow_def f e)
  show ?thesis
    using d(3) cur m
    by (simp add: ValidateAdvancement_def Let_def adopt f h d build_move_applied [OF b m] x)
       (auto simp: movable_def is_lock_def is_move_def)
qed

lemma build_move_effect:
  assumes "build_move L cur ty account amount = Inr (t, s')" "is_move ty"
  shows "records_effect val (NextState L cur) t s'"
  using assms by (auto simp: build_move_def is_move_def dest: apply_effects split: if_splits)

lemma build_move_sound_iff:
  assumes b: "build_move L cur ty account amount = Inr (t, s')" and m: "is_move ty"
    and cur: "movable cur" and s: "ledger_sound val (s_HomeLedger cur)" and pos: "0 < val amount"
  shows "ledger_sound val (s_HomeLedger s') \<longleftrightarrow>
     (ty = TransitionTypeHomeDeposit \<or> val amount \<le> val (l_UserBalance (s_HomeLedger cur)))"
  using build_move_effect [OF b m] build_move_fields [OF b m] cur s m pos
  by (auto simp: records_effect_def NextState_HomeLedger movable_def ledger_vals_def home_effect.simps
      ledger_sound_def ledger_balanced_def is_move_def)

end

end
