(* ===== verification/Advancer_Properties.thy ===== *)
theory Advancer_Properties
  imports State_Advancer
begin

text \<open>
  The properties of the state advancer (\<^verbatim>\<open>src/pkg/core/state_advancer.go\<close>), with an example wallet that
  opens a channel, locks funds for a cross-chain deposit and settles the lock.
\<close>

section \<open>Examples\<close>

text \<open>A wallet that opens a channel with a deposit and then locks funds for a cross-chain deposit.\<close>

definition ex_store :: AssetStore where
  "ex_store = \<lparr> GetAssetDecimals = (\<lambda>a. if a = ''usdc'' then Inr 6 else Inl (Err ''asset is not supported'')),
     GetTokenDecimals = (\<lambda>b t. if b = 137 then Inr 6 else if b = 1 then Inr 18 else Inl (Err ''token not supported'')) \<rparr>"

definition ok_state :: "('d Transition \<times> 'd State) result \<Rightarrow> 'd State \<Rightarrow> 'd State" where
  "ok_state r d = (case r of Inl _ \<Rightarrow> d | Inr (t, s) \<Rightarrow> s \<lparr> s_UserSig := Some ''0x00'' \<rparr>)"

definition ex_void :: "ref_decimal State" where
  "ex_void = NewVoidState ref_libs ''usdc'' ''0x1111111111111111111111111111111111111111''"

definition ex_open :: "ref_decimal State" where
  "ex_open = (let n = NextState ref_libs ex_void in n \<lparr> s_HomeChannelID := Some ''0x01aa'',
     s_HomeLedger := (s_HomeLedger n) \<lparr> l_TokenAddress := ''0x22'', l_BlockchainID := 137 \<rparr> \<rparr>)"

definition ex_deposit :: "ref_decimal State" where
  "ex_deposit = ok_state (ApplyHomeDepositTransition ref_libs ex_open (100, 0)) ex_void"

definition ex_lock :: "ref_decimal State" where
  "ex_lock = ok_state (ApplyMutualLockTransition ref_libs (NextState ref_libs ex_deposit) 1 ''0x33'' (25, -1)) ex_void"

lemma ex_deposit_accepted: "ValidateAdvancement ref_libs ex_store ex_void ex_deposit = Inr ()"
  by code_simp
lemma ex_lock_accepted: "ValidateAdvancement ref_libs ex_store ex_deposit ex_lock = Inr ()"
  by code_simp

lemma ex_deposit_user_sig: "s_UserSig ex_deposit = Some ''0x00'' \<and> s_UserSig ex_lock = Some ''0x00''"
  by code_simp

lemma ex_run_deposit:
  "wallet_run ref_libs ex_store ''usdc'' ''0x1111111111111111111111111111111111111111'' ex_deposit (Some ex_deposit)"
  by (rule wallet_run.submit [OF wallet_run.start [of ref_libs ex_store]])
     (simp_all add: ex_deposit_accepted ex_deposit_user_sig flip: ex_void_def)

lemma ex_run_lock:
  "wallet_run ref_libs ex_store ''usdc'' ''0x1111111111111111111111111111111111111111'' ex_lock (Some ex_lock)"
  by (rule wallet_run.submit [OF ex_run_deposit ex_lock_accepted]) (simp add: ex_deposit_user_sig)

section \<open>Properties\<close>

text \<open>C1 (refinement). A state the advancer accepts carries exactly the home ledger that the abstract
  effect of its transition prescribes on the ledger of the stored state (the empty one after a
  finalized epoch), that ledger is sound, and the transition is one a user may submit: a user cannot
  submit \<open>transfer_receive\<close> or \<open>release\<close>, which only the node issues.\<close>

theorem advancement_refines_effect:
  assumes "decimal_spec L val" and "ValidateAdvancement L store cur p = Inr ()"
  shows "ledger_vals val (s_HomeLedger p) =
           home_effect (t_Type (s_Transition p)) (val (t_Amount (s_Transition p))) (home_before val cur)
         \<and> ledger_sound val (s_HomeLedger p)
         \<and> t_Type (s_Transition p) \<in> user_transition_types"
  using decimal_spec.accepted_home_ledger [OF assms] by blast

theorem advancement_refines_effect_witness:
  "ledger_vals ref_val (s_HomeLedger ex_lock) =
     home_effect (t_Type (s_Transition ex_lock)) (ref_val (t_Amount (s_Transition ex_lock))) (home_before ref_val ex_deposit)
   \<and> ledger_sound ref_val (s_HomeLedger ex_lock)
   \<and> t_Type (s_Transition ex_lock) \<in> user_transition_types"
  by (rule advancement_refines_effect [OF ref_dec.decimal_spec_axioms ex_lock_accepted])

text \<open>C2 (invariant). Along every run of a wallet, whatever mix of user-submitted and node-issued
  states it consists of, the user balance is never negative, the balances are backed by the net flows,
  and the node holds funds in the home channel only while a mutual lock is pending, and then exactly
  the locked amount.\<close>

theorem wallet_run_solvent:
  assumes "decimal_spec L val" and "wallet_run L store asset wallet cur sg"
  shows "0 \<le> val (l_UserBalance (s_HomeLedger cur)) \<and> ledger_balanced val (s_HomeLedger cur) \<and>
     val (l_NodeBalance (s_HomeLedger cur)) =
       (if t_Type (s_Transition cur) = TransitionTypeMutualLock then val (t_Amount (s_Transition cur)) else 0)"
  using decimal_spec.wallet_run_inv [OF assms] by (simp add: run_inv_def)

theorem wallet_run_solvent_witness:
  "0 \<le> ref_val (l_UserBalance (s_HomeLedger ex_lock)) \<and> ledger_balanced ref_val (s_HomeLedger ex_lock) \<and>
     ref_val (l_NodeBalance (s_HomeLedger ex_lock)) =
       (if t_Type (s_Transition ex_lock) = TransitionTypeMutualLock then ref_val (t_Amount (s_Transition ex_lock)) else 0)"
  by (rule wallet_run_solvent [OF ref_dec.decimal_spec_axioms ex_run_lock])

text \<open>C3 (safety). A submitted state never raises the user balance unless its transition is a home
  deposit or the settlement of a mutual lock for the very same amount.\<close>

theorem no_self_credit:
  assumes "decimal_spec L val" and "ValidateAdvancement L store cur p = Inr ()"
    and "fst (home_before val cur) < val (l_UserBalance (s_HomeLedger p))"
    and "0 \<le> fst (home_before val cur)"
  shows "t_Type (s_Transition p) = TransitionTypeHomeDeposit \<or>
     (t_Type (s_Transition p) = TransitionTypeEscrowDeposit \<and>
      t_Type (s_Transition cur) = TransitionTypeMutualLock \<and>
      val (t_Amount (s_Transition p)) = val (t_Amount (s_Transition cur)))"
proof -
  obtain u uf n nf where b: "home_before val cur = (u, uf, n, nf)" by (metis prod_cases4)
  have eff: "home_effect (t_Type (s_Transition p)) (val (t_Amount (s_Transition p))) (u, uf, n, nf) =
      ledger_vals val (s_HomeLedger p)"
    using decimal_spec.accepted_home_ledger(1) [OF assms(1,2)] b by simp
  have "t_Type (s_Transition p) = TransitionTypeHomeDeposit \<or> t_Type (s_Transition p) = TransitionTypeEscrowDeposit"
    using home_effect_user [OF eff [unfolded ledger_vals_def]] assms(3,4) b
      decimal_spec.accepted_amount(1) [OF assms(1,2)] decimal_spec.accepted_home_ledger(3) [OF assms(1,2)]
    by (auto simp: user_transition_types_def split: if_splits)
  then show ?thesis using decimal_spec.accepted_lock(1,3) [OF assms(1,2)] by auto
qed

lemma ex_deposit_balances: "fst (home_before ref_val ex_void) = 0 \<and> ref_val (l_UserBalance (s_HomeLedger ex_deposit)) = 100"
  by code_simp

theorem no_self_credit_witness:
  "fst (home_before ref_val ex_void) < ref_val (l_UserBalance (s_HomeLedger ex_deposit)) \<and>
   (t_Type (s_Transition ex_deposit) = TransitionTypeHomeDeposit \<or>
     (t_Type (s_Transition ex_deposit) = TransitionTypeEscrowDeposit \<and>
      t_Type (s_Transition ex_void) = TransitionTypeMutualLock \<and>
      ref_val (t_Amount (s_Transition ex_deposit)) = ref_val (t_Amount (s_Transition ex_void))))"
  using no_self_credit [OF ref_dec.decimal_spec_axioms ex_deposit_accepted] by (simp add: ex_deposit_balances)

text \<open>C4 (functional). An accepted state is the immediate successor of the stored one: same wallet
  and asset, version one higher in the same epoch (or version 0 of the next epoch after a finalize),
  the identifier derived from these, and the same home channel once there is one.\<close>

theorem advancement_successor:
  assumes "decimal_spec L val" and "ValidateAdvancement L store cur p = Inr ()"
  shows "s_UserWallet p = s_UserWallet cur \<and> s_Asset p = s_Asset cur \<and>
     s_Epoch p = (if IsFinal cur then s_Epoch cur + 1 else s_Epoch cur) \<and>
     s_Version p = (if IsFinal cur then 0 else s_Version cur + 1) \<and>
     s_ID p = GetStateID L (s_UserWallet p) (s_Asset p) (s_Epoch p) (s_Version p) \<and>
     s_HomeChannelID p = (if IsFinal cur \<or> s_HomeChannelID cur = None then s_HomeChannelID p else s_HomeChannelID cur)"
  using decimal_spec.accepted_identity [OF assms] by auto

theorem advancement_successor_witness:
  "s_UserWallet ex_lock = s_UserWallet ex_deposit \<and> s_Asset ex_lock = s_Asset ex_deposit \<and>
     s_Epoch ex_lock = (if IsFinal ex_deposit then s_Epoch ex_deposit + 1 else s_Epoch ex_deposit) \<and>
     s_Version ex_lock = (if IsFinal ex_deposit then 0 else s_Version ex_deposit + 1) \<and>
     s_ID ex_lock = GetStateID ref_libs (s_UserWallet ex_lock) (s_Asset ex_lock) (s_Epoch ex_lock) (s_Version ex_lock) \<and>
     s_HomeChannelID ex_lock = (if IsFinal ex_deposit \<or> s_HomeChannelID ex_deposit = None then s_HomeChannelID ex_lock
       else s_HomeChannelID ex_deposit)"
  by (rule advancement_successor [OF ref_dec.decimal_spec_axioms ex_lock_accepted])

text \<open>C5 (functional). A cross-chain deposit is atomic: when an accepted mutual lock is
  followed by any accepted state, that state is the escrow deposit of the same amount; together the
  two steps credit the user with exactly that amount and leave the node nothing in the home channel.\<close>

theorem mutual_lock_settles:
  assumes "decimal_spec L val"
    and "ValidateAdvancement L store cur lck = Inr ()" and "t_Type (s_Transition lck) = TransitionTypeMutualLock"
    and "ValidateAdvancement L store lck p = Inr ()"
  shows "t_Type (s_Transition p) = TransitionTypeEscrowDeposit \<and>
     val (l_UserBalance (s_HomeLedger p)) = fst (home_before val cur) + val (t_Amount (s_Transition lck)) \<and>
     val (l_NodeBalance (s_HomeLedger p)) = 0"
proof -
  obtain u uf n nf where b: "home_before val cur = (u, uf, n, nf)" by (metis prod_cases4)
  have l: "ledger_vals val (s_HomeLedger lck) =
      (u, uf, n + val (t_Amount (s_Transition lck)), nf + val (t_Amount (s_Transition lck)))"
    using decimal_spec.accepted_home_ledger(1) [OF assms(1,2)] b assms(3) by (simp add: home_effect.simps)
  have "home_before val lck = ledger_vals val (s_HomeLedger lck)"
    using assms(3) by (simp add: home_before_def IsFinal_def)
  then show ?thesis
    using decimal_spec.accepted_home_ledger(1) [OF assms(1,4)] decimal_spec.accepted_lock(1) [OF assms(1,4,3)] l b
    by (simp add: home_effect.simps) (simp add: ledger_vals_def)
qed

definition ex_settle :: "ref_decimal State" where
  "ex_settle = ok_state (ApplyEscrowDepositTransition ref_libs (NextState ref_libs ex_lock) (25, -1)) ex_void"

lemma ex_settle_accepted: "ValidateAdvancement ref_libs ex_store ex_lock ex_settle = Inr ()"
  by code_simp

lemma ex_lock_type: "t_Type (s_Transition ex_lock) = TransitionTypeMutualLock"
  by code_simp

theorem mutual_lock_settles_witness:
  "t_Type (s_Transition ex_settle) = TransitionTypeEscrowDeposit \<and>
     ref_val (l_UserBalance (s_HomeLedger ex_settle)) = fst (home_before ref_val ex_deposit) + ref_val (t_Amount (s_Transition ex_lock)) \<and>
     ref_val (l_NodeBalance (s_HomeLedger ex_settle)) = 0"
  by (rule mutual_lock_settles [OF ref_dec.decimal_spec_axioms ex_lock_accepted ex_lock_type ex_settle_accepted])

text \<open>C6 (equivalence). For a wallet with an open channel and no pending lock, the state it builds for a
  deposit, withdrawal, transfer or commit of a positive amount of admissible precision is accepted, under
  any signatures, exactly when it is a deposit or the amount is covered by the user balance.\<close>

theorem move_accepted_iff_covered:
  assumes "decimal_spec L val" and "build_move L cur ty account amount = Inr (t, s')" and "is_move ty"
    and "movable cur" and "amount_ok L store (s_Asset cur) amount" and "ledger_sound val (s_HomeLedger cur)"
  shows "ValidateAdvancement L store cur (with_sigs s' us ns) = Inr () \<longleftrightarrow>
     ty = TransitionTypeHomeDeposit \<or> val amount \<le> val (l_UserBalance (s_HomeLedger cur))"
proof -
  have "0 < val amount" using assms(1,5) by (simp add: amount_ok_def decimal_spec.IsPositive_iff)
  then show ?thesis
    using decimal_spec.build_move_accept_iff [OF assms(1-5)] decimal_spec.build_move_sound_iff [OF assms(1-4,6)] by simp
qed

lemma ex_move:
  "build_move ref_libs ex_deposit TransitionTypeTransferSend ''0x22'' (30, 0) =
     Inr (s_Transition (ok_state (build_move ref_libs ex_deposit TransitionTypeTransferSend ''0x22'' (30, 0)) ex_void),
          case build_move ref_libs ex_deposit TransitionTypeTransferSend ''0x22'' (30, 0) of Inr (_, s) \<Rightarrow> s | Inl _ \<Rightarrow> ex_void)
   \<and> movable ex_deposit \<and> amount_ok ref_libs ex_store (s_Asset ex_deposit) (30, 0)"
  by code_simp

lemma ex_deposit_sound: "ledger_sound ref_val (s_HomeLedger ex_deposit)"
  using ref_dec.accepted_home_ledger(2) [OF ex_deposit_accepted] .

theorem move_accepted_iff_covered_witness:
  "ValidateAdvancement ref_libs ex_store ex_deposit
     (with_sigs (case build_move ref_libs ex_deposit TransitionTypeTransferSend ''0x22'' (30, 0) of Inr (_, s) \<Rightarrow> s | Inl _ \<Rightarrow> ex_void)
        (Some ''0x00'') None) = Inr ()"
  using move_accepted_iff_covered [OF ref_dec.decimal_spec_axioms ex_move [THEN conjunct1] _
      ex_move [THEN conjunct2, THEN conjunct1] ex_move [THEN conjunct2, THEN conjunct2] ex_deposit_sound]
  by (simp add: is_move_def ex_deposit_balances) (simp add: ref_val_def)

end
