(* ===== verification/State_Packer.thy ===== *)
theory State_Packer
  imports State_Advancer
begin

text \<open>
  \<^verbatim>\<open>src/pkg/core/state_packer.go\<close>: the bytes a state signature covers. \<open>contractLedgerOf\<close> is the
  conversion the code repeats for the home and the escrow ledger.
\<close>

definition contractLedgerOf :: "'d libs \<Rightarrow> AssetStore \<Rightarrow> 'd Ledger \<Rightarrow> abi_value result" where
  "contractLedgerOf L assetStore l =
     bindE (GetTokenDecimals assetStore (l_BlockchainID l) (l_TokenAddress l)) (\<lambda>decimals.
     bindE (DecimalToBigInt L (l_UserBalance l) decimals) (\<lambda>userBalanceBI.
     bindE (DecimalToBigInt L (l_UserNetFlow l) decimals) (\<lambda>userNetFlowBI.
     bindE (DecimalToBigInt L (l_NodeBalance l) decimals) (\<lambda>nodeBalanceBI.
     bindE (DecimalToBigInt L (l_NodeNetFlow l) decimals) (\<lambda>nodeNetFlowBI.
     Inr (ATuple [AUint 64 (uint (l_BlockchainID l)), AAddress (HexToAddress L (l_TokenAddress l)),
            AUint 8 (uint decimals), AUint 256 userBalanceBI, AInt 256 userNetFlowBI,
            AUint 256 nodeBalanceBI, AInt 256 nodeNetFlowBI]))))))"

definition emptyContractLedger :: abi_value where
  "emptyContractLedger = ATuple [AUint 64 0, AAddress (replicate 20 0), AUint 8 0, AUint 256 0, AInt 256 0,
     AUint 256 0, AInt 256 0]"

definition nonHomeLedgerOf :: "'d libs \<Rightarrow> AssetStore \<Rightarrow> 'd Ledger option \<Rightarrow> abi_value result" where
  "nonHomeLedgerOf L assetStore escrow =
     (case escrow of Some e \<Rightarrow> contractLedgerOf L assetStore e | None \<Rightarrow> Inr emptyContractLedger)"

definition packSigningData :: "'d libs \<Rightarrow> AssetStore \<Rightarrow> 'd State \<Rightarrow> (bytes \<times> bytes) result" where
  "packSigningData L assetStore state =
     (case s_HomeChannelID state of
        None \<Rightarrow> Inl (Err ''state.HomeChannelID is required for packing'')
      | Some h \<Rightarrow>
          bindE (wrapE ''failed to generate state transitions hash'' (GetStateTransitionHash L (s_Transition state))) (\<lambda>metadata.
          bindE (contractLedgerOf L assetStore (s_HomeLedger state)) (\<lambda>homeLedger.
          bindE (nonHomeLedgerOf L assetStore (s_EscrowLedger state)) (\<lambda>nonHomeLedger.
          bindE (wrapE ''failed to pack signing data'' (abiPack L
              [AUint 64 (uint (s_Version state)), AUint 8 (uint (TransitionToIntent (s_Transition state))),
               AFixedBytes metadata, homeLedger, nonHomeLedger])) (\<lambda>signingData.
          Inr (HexToHash L h, signingData))))))"

definition packWithChannelID :: "'d libs \<Rightarrow> bytes \<Rightarrow> bytes \<Rightarrow> bytes result" where
  "packWithChannelID L channelID signingData =
     wrapE ''failed to pack outer message'' (abiPack L [AFixedBytes channelID, ABytes signingData])"

definition PackState :: "'d libs \<Rightarrow> AssetStore \<Rightarrow> 'd State \<Rightarrow> bytes result" where
  "PackState L assetStore state =
     bindE (packSigningData L assetStore state) (\<lambda>(channelID, signingData).
       packWithChannelID L channelID signingData)"

definition PackChallengeState :: "'d libs \<Rightarrow> AssetStore \<Rightarrow> 'd State \<Rightarrow> bytes result" where
  "PackChallengeState L assetStore state =
     bindE (packSigningData L assetStore state) (\<lambda>(channelID, signingData).
       packWithChannelID L channelID (signingData @ string_bytes ''challenge''))"

section \<open>What a signature covers\<close>

text \<open>The values handed to the ABI encoder for a state, and that they are in the range of their types
  (the encoder silently truncates integers that are not).\<close>

definition signing_values :: "'d libs \<Rightarrow> AssetStore \<Rightarrow> 'd State \<Rightarrow> abi_value list result" where
  "signing_values L assetStore state =
     bindE (wrapE ''failed to generate state transitions hash'' (GetStateTransitionHash L (s_Transition state))) (\<lambda>metadata.
     bindE (contractLedgerOf L assetStore (s_HomeLedger state)) (\<lambda>homeLedger.
     bindE (nonHomeLedgerOf L assetStore (s_EscrowLedger state)) (\<lambda>nonHomeLedger.
     Inr [AUint 64 (uint (s_Version state)), AUint 8 (uint (TransitionToIntent (s_Transition state))),
          AFixedBytes metadata, homeLedger, nonHomeLedger])))"

definition amounts_in_range :: "'d libs \<Rightarrow> AssetStore \<Rightarrow> 'd State \<Rightarrow> bool" where
  "amounts_in_range L assetStore state =
     (case signing_values L assetStore state of Inl _ \<Rightarrow> False | Inr vs \<Rightarrow> list_all abi_wf vs)"

definition ledger_type :: abi_type where
  "ledger_type = TTuple [TUint 64, TAddress, TUint 8, TUint 256, TInt 256, TUint 256, TInt 256]"

lemma contractLedgerOf_shape:
  "contractLedgerOf L st l = Inr v \<Longrightarrow> abi_type_of v = ledger_type \<and> abi_static v"
  by (auto simp: contractLedgerOf_def ledger_type_def)

lemma signing_values_shape:
  assumes "signing_values L st s = Inr vs"
  shows "map abi_type_of vs = [TUint 64, TUint 8, TFixedBytes, ledger_type, ledger_type] \<and> list_all abi_static vs"
proof -
  have "abi_type_of emptyContractLedger = ledger_type \<and> abi_static emptyContractLedger"
    by (simp add: emptyContractLedger_def ledger_type_def)
  then show ?thesis using assms
    by (auto simp: signing_values_def nonHomeLedgerOf_def dest: contractLedgerOf_shape split: option.splits)
qed

lemma packSigningData_eq:
  "packSigningData L st s = Inr (c, d) \<longleftrightarrow>
     (\<exists>h vs. s_HomeChannelID s = Some h \<and> c = HexToHash L h \<and> signing_values L st s = Inr vs \<and> abiPack L vs = Inr d)"
  by (auto simp: packSigningData_def signing_values_def split: option.splits)

context abi_spec
begin

lemma packSigningData_inj:
  assumes "packSigningData L st s = Inr (c, d)" "packSigningData L st' s' = Inr (c', d)"
    and "amounts_in_range L st s" "amounts_in_range L st' s'"
  shows "signing_values L st s = signing_values L st' s'"
proof -
  obtain vs ws where v: "signing_values L st s = Inr vs" "abiPack L vs = Inr d"
    and w: "signing_values L st' s' = Inr ws" "abiPack L ws = Inr d"
    using assms(1,2) unfolding packSigningData_eq by blast
  have "list_all abi_wf vs" "list_all abi_wf ws" using assms(3,4) v w by (simp_all add: amounts_in_range_def)
  moreover have "map abi_type_of vs = map abi_type_of ws" using v(1) w(1) signing_values_shape by metis
  ultimately show ?thesis using pack_inj v w by metis
qed

lemma packSigningData_length:
  assumes "packSigningData L st s = Inr (c, d)" "packSigningData L st' s' = Inr (c', d')"
    and "amounts_in_range L st s" "amounts_in_range L st' s'"
  shows "length d = length d'"
proof -
  obtain vs ws where v: "signing_values L st s = Inr vs" "abiPack L vs = Inr d"
    and w: "signing_values L st' s' = Inr ws" "abiPack L ws = Inr d'"
    using assms(1,2) unfolding packSigningData_eq by blast
  have "list_all abi_wf vs" "list_all abi_wf ws" using assms(3,4) v w by (simp_all add: amounts_in_range_def)
  moreover have "map abi_type_of vs = map abi_type_of ws" "list_all abi_static vs"
    using signing_values_shape [OF v(1)] signing_values_shape [OF w(1)] by auto
  ultimately show ?thesis using pack_static_length v(2) w(2) by blast
qed

lemma packWithChannelID_inj:
  assumes "packWithChannelID L (HexToHash L h) d = Inr b" "packWithChannelID L (HexToHash L h') d' = Inr b"
  shows "HexToHash L h = HexToHash L h' \<and> d = d'"
proof -
  have "[AFixedBytes (HexToHash L h), ABytes d] = [AFixedBytes (HexToHash L h'), ABytes d']"
    using assms by (intro pack_inj) (auto simp: packWithChannelID_def HexToHash_length)
  then show ?thesis by simp
qed

text \<open>Equal messages mean equal channels and equal signed values.\<close>

lemma PackState_inj:
  assumes "PackState L st s = Inr b" "PackState L st' s' = Inr b"
    and "amounts_in_range L st s" "amounts_in_range L st' s'"
  shows "signing_values L st s = signing_values L st' s' \<and>
     map_option (HexToHash L) (s_HomeChannelID s) = map_option (HexToHash L) (s_HomeChannelID s')"
proof -
  obtain c d c' d' where p: "packSigningData L st s = Inr (c, d)" "packWithChannelID L c d = Inr b"
    "packSigningData L st' s' = Inr (c', d')" "packWithChannelID L c' d' = Inr b"
    using assms(1,2) by (auto simp: PackState_def)
  obtain h h' where h: "s_HomeChannelID s = Some h" "c = HexToHash L h" "s_HomeChannelID s' = Some h'" "c' = HexToHash L h'"
    using p unfolding packSigningData_eq by auto
  have "c = c' \<and> d = d'" using packWithChannelID_inj p(2,4) h by blast
  then show ?thesis using packSigningData_inj [OF p(1)] p(3) assms(3,4) h by auto
qed

lemma challenge_separate:
  assumes "PackState L st s = Inr b" "PackChallengeState L st' s' = Inr b'"
    and "amounts_in_range L st s" "amounts_in_range L st' s'"
  shows "b \<noteq> b'"
proof
  assume eq: "b = b'"
  obtain c d c' d' where p: "packSigningData L st s = Inr (c, d)" "packWithChannelID L c d = Inr b"
    "packSigningData L st' s' = Inr (c', d')" "packWithChannelID L c' (d' @ string_bytes ''challenge'') = Inr b'"
    using assms(1,2) by (auto simp: PackState_def PackChallengeState_def)
  obtain h h' where h: "c = HexToHash L h" "c' = HexToHash L h'"
    using p(1,3) unfolding packSigningData_eq by auto
  have "d = d' @ string_bytes ''challenge''"
    using packWithChannelID_inj [of h d b h' "d' @ string_bytes ''challenge''"] p(2,4) h eq by simp
  then show False using packSigningData_length [OF p(1,3) assms(3,4)] by (simp add: string_bytes_def)
qed

end

text \<open>Signatures are not part of what is signed.\<close>

lemma signing_values_sigs [simp]:
  "signing_values L st (s \<lparr> s_UserSig := us \<rparr>) = signing_values L st s"
  "signing_values L st (s \<lparr> s_NodeSig := ns \<rparr>) = signing_values L st s"
  by (cases "s_EscrowLedger s"; simp add: signing_values_def)+

lemma packSigningData_sigs [simp]:
  "packSigningData L st (s \<lparr> s_UserSig := us \<rparr>) = packSigningData L st s"
  "packSigningData L st (s \<lparr> s_NodeSig := ns \<rparr>) = packSigningData L st s"
  by (cases "s_HomeChannelID s"; cases "s_EscrowLedger s"; simp add: packSigningData_def)+

lemma PackState_sigs [simp]:
  "PackState L st (s \<lparr> s_UserSig := us \<rparr>) = PackState L st s"
  "PackState L st (s \<lparr> s_NodeSig := ns \<rparr>) = PackState L st s"
  by (simp_all add: PackState_def)

end
