(* ===== verification/Signing.thy ===== *)
theory Signing
  imports Core_Utils
begin

text \<open>
  \<^verbatim>\<open>src/pkg/sign\<close>: Ethereum message and raw signers, address recovery and the plain signature
  validator. A signer is represented by its private key; elliptic-curve signing and recovery are the
  parameters \<open>ecSign\<close>, \<open>ecPrivToAddress\<close> and \<open>ecSigToAddress\<close>.
\<close>

section \<open>Addresses and signers\<close>

definition EthereumAddress_String :: "'d libs \<Rightarrow> bytes \<Rightarrow> string" where
  "EthereumAddress_String L a = ToLower (addressHex L a)"

definition ComputeEthereumSignedMessageHash :: "'d libs \<Rightarrow> bytes \<Rightarrow> bytes" where
  "ComputeEthereumSignedMessageHash L message =
     keccak256 L (0x19 # string_bytes ''Ethereum Signed Message:'' @ [10] @ string_bytes (show_nat (length message)) @ message)"

definition EthereumRawSigner_Sign :: "'d libs \<Rightarrow> bytes \<Rightarrow> bytes \<Rightarrow> bytes result" where
  "EthereumRawSigner_Sign L privateKey hash =
     bindE (ecSign L hash privateKey) (\<lambda>sig.
       if length sig \<le> 64 then Inl (Panic ''index out of range'')
       else if sig ! 64 < 27 then Inr (sig[64 := sig ! 64 + 27])
       else Inr sig)"

definition EthereumMsgSigner_Sign :: "'d libs \<Rightarrow> bytes \<Rightarrow> bytes \<Rightarrow> bytes result" where
  "EthereumMsgSigner_Sign L privateKey message =
     EthereumRawSigner_Sign L privateKey (ComputeEthereumSignedMessageHash L message)"

section \<open>Recovery\<close>

definition RecoverAddressFromHash :: "'d libs \<Rightarrow> bytes \<Rightarrow> bytes \<Rightarrow> bytes result" where
  "RecoverAddressFromHash L hash sig =
     (if length sig \<noteq> 65 then Inl (Err ''invalid signature length'')
      else let localSig = (if 27 \<le> sig ! 64 then sig[64 := sig ! 64 - 27] else sig)
           in wrapE ''signature recovery failed'' (ecSigToAddress L hash localSig))"

definition EthereumMsg_RecoverAddress :: "'d libs \<Rightarrow> bytes \<Rightarrow> bytes \<Rightarrow> bytes result" where
  "EthereumMsg_RecoverAddress L message sig =
     RecoverAddressFromHash L (ComputeEthereumSignedMessageHash L message) sig"

definition EthereumRaw_RecoverAddress :: "'d libs \<Rightarrow> bytes \<Rightarrow> bytes \<Rightarrow> bytes result" where
  "EthereumRaw_RecoverAddress L message sig = RecoverAddressFromHash L (keccak256 L message) sig"

definition SigValidator_Recover :: "'d libs \<Rightarrow> bytes \<Rightarrow> bytes \<Rightarrow> string result" where
  "SigValidator_Recover L data sig = mapE (EthereumAddress_String L) (EthereumMsg_RecoverAddress L data sig)"

definition SigValidator_Verify :: "'d libs \<Rightarrow> string \<Rightarrow> bytes \<Rightarrow> bytes \<Rightarrow> unit result" where
  "SigValidator_Verify L wallet data sig =
     bindE (SigValidator_Recover L data sig) (\<lambda>address.
       if \<not> EqualFold address wallet then Inl (Err ''invalid signature'') else Inr ())"

section \<open>Signatures recover to their signer\<close>

context ecdsa_spec
begin

lemma raw_sign_recover:
  assumes k: "valid_key k" and s: "EthereumRawSigner_Sign L k h = Inr sig"
  shows "RecoverAddressFromHash L h sig = Inr (ecPrivToAddress L k)"
proof -
  obtain sg where e: "ecSign L h k = Inr sg" using s by (auto simp: EthereumRawSigner_Sign_def)
  have len: "length sg = 65" "sg ! 64 < 27" using sign_length [OF e] by auto
  have sg: "ecSign L h k = Inr sg" "sig = sg[64 := sg ! 64 + 27]"
    using s e len by (simp_all add: EthereumRawSigner_Sign_def)
  have v: "27 \<le> sg ! 64 + 27"
    using len(2) by (simp add: word_le_nat_alt word_less_nat_alt unat_word_ariths)
  have "sig[64 := sig ! 64 - 27] = sg" using sg len by simp
  then show ?thesis
    using sg len v recover_sign [OF k sg(1)] by (simp add: RecoverAddressFromHash_def)
qed

lemma msg_sign_recover:
  assumes "valid_key k" and "EthereumMsgSigner_Sign L k m = Inr sig"
  shows "EthereumMsg_RecoverAddress L m sig = Inr (ecPrivToAddress L k)"
  using raw_sign_recover [OF assms(1)] assms(2)
  by (simp add: EthereumMsgSigner_Sign_def EthereumMsg_RecoverAddress_def)

lemma EqualFold_refl [simp]: "EqualFold s s"
  by (simp add: EqualFold_def)

lemma sign_verify:
  assumes "valid_key k" and "EthereumMsgSigner_Sign L k m = Inr sig"
  shows "SigValidator_Verify L (EthereumAddress_String L (ecPrivToAddress L k)) m sig = Inr ()"
  using msg_sign_recover [OF assms]
  by (simp add: SigValidator_Verify_def SigValidator_Recover_def EqualFold_def)

end

end
