(* ===== verification/Channel_Signer.thy ===== *)
theory Channel_Signer
  imports Signing State_Advancer
begin

text \<open>
  \<^verbatim>\<open>src/pkg/core/channel_signer.go\<close> and \<^verbatim>\<open>src/pkg/core/session_key.go\<close>: the bitmask of approved signature
  validators, channel signatures by the wallet or by a session key, and their validation. The
  permission lookup \<^verbatim>\<open>VerifyChannelSessionKePermissionsV1\<close> is a function argument, as in the code.
\<close>

unbundle bit_operations_syntax

section \<open>Validator bitmasks\<close>

type_synonym ChannelSignerType = uint8

abbreviation (input) ChannelSignerType_Default :: ChannelSignerType where "ChannelSignerType_Default \<equiv> 0"
abbreviation (input) ChannelSignerType_SessionKey :: ChannelSignerType where "ChannelSignerType_SessionKey \<equiv> 1"

definition ChannelSignerType_String :: "ChannelSignerType \<Rightarrow> string" where
  "ChannelSignerType_String t =
     (if t = ChannelSignerType_Default then ''default''
      else if t = ChannelSignerType_SessionKey then ''session_key''
      else ''unknown('' @ show_nat (unat t) @ '')'')"

definition ChannelSignerTypes :: "ChannelSignerType list" where
  "ChannelSignerTypes = [ChannelSignerType_Default, ChannelSignerType_SessionKey]"

definition hexToBitmask :: "'d libs \<Rightarrow> string \<Rightarrow> bytes option" where
  "hexToBitmask L s =
     (case hexutilDecode L s of
        Inl _ \<Rightarrow> None
      | Inr b \<Rightarrow> if length b = 0 \<or> 32 < length b then None else Some (replicate (32 - length b) 0 @ b))"

text \<open>Big-endian position of bit \<open>idx\<close>: byte \<open>31 - idx/8\<close>, offset \<open>idx % 8\<close>.\<close>

definition byteIndex :: "uint8 \<Rightarrow> nat" where
  "byteIndex idx = unat (31 - idx div 8)"

definition bitOffset :: "uint8 \<Rightarrow> nat" where
  "bitOffset idx = unat (idx mod 8)"

definition signerTypesToBitmask :: "ChannelSignerType list \<Rightarrow> bytes" where
  "signerTypesToBitmask types =
     foldl (\<lambda>msk idx. msk[byteIndex idx := msk ! byteIndex idx OR push_bit (bitOffset idx) 1]) (replicate 32 0) types"

fun bitmaskToHex_from :: "'d libs \<Rightarrow> bytes \<Rightarrow> string" where
  "bitmaskToHex_from L [] = ''0x00''"
| "bitmaskToHex_from L (b # bs) = (if b \<noteq> 0 then hexutilEncode L (b # bs) else bitmaskToHex_from L bs)"

definition bitmaskToHex :: "'d libs \<Rightarrow> bytes \<Rightarrow> string" where
  "bitmaskToHex L msk = bitmaskToHex_from L msk"

definition IsChannelSignerSupported :: "'d libs \<Rightarrow> string \<Rightarrow> ChannelSignerType \<Rightarrow> bool" where
  "IsChannelSignerSupported L approvedSigValidators signerType =
     (if signerType = ChannelSignerType_Default then True
      else case hexToBitmask L approvedSigValidators of
        None \<Rightarrow> False
      | Some val \<Rightarrow> drop_bit (bitOffset signerType) (val ! byteIndex signerType) AND 1 = 1)"

definition SignerValidatorsSupported :: "'d libs \<Rightarrow> string \<Rightarrow> bool" where
  "SignerValidatorsSupported L channelValidators =
     (case hexToBitmask L channelValidators of
        None \<Rightarrow> False
      | Some inc \<Rightarrow>
          let node = signerTypesToBitmask ChannelSignerTypes
          in list_all (\<lambda>i. node ! i AND inc ! i = inc ! i) [0..<32])"

definition BuildSigValidatorsBitmap :: "'d libs \<Rightarrow> ChannelSignerType list \<Rightarrow> string" where
  "BuildSigValidatorsBitmap L signerTypes = bitmaskToHex L (signerTypesToBitmask signerTypes)"

section \<open>Session keys\<close>

record ChannelSessionKeyStateV1 =
  csk_UserAddress :: string
  csk_SessionKey :: string
  csk_Version :: uint64
  csk_Assets :: "string list"
  csk_ExpiresAt :: int
  csk_UserSig :: string

definition PackChannelKeyStateV1 :: "'d libs \<Rightarrow> string \<Rightarrow> bytes \<Rightarrow> bytes result" where
  "PackChannelKeyStateV1 L sessionKey metadataHash =
     wrapE ''failed to pack session key state''
       (abiPack L [AAddress (HexToAddress L sessionKey), AFixedBytes metadataHash])"

text \<open>\<^verbatim>\<open>uint64(expiresAt)\<close> wraps a negative timestamp.\<close>

definition GetChannelSessionKeyAuthMetadataHashV1 :: "'d libs \<Rightarrow> uint64 \<Rightarrow> string list \<Rightarrow> int \<Rightarrow> bytes result" where
  "GetChannelSessionKeyAuthMetadataHashV1 L version assets expiresAt =
     bindE (wrapE ''failed to pack metadata args''
       (abiPack L [AUint 64 (uint version), AArray (map AString assets), AUint 64 (uint (of_int expiresAt :: uint64))])) (\<lambda>packed.
     Inr (keccak256 L packed))"

definition ValidateChannelSessionKeyAuthSigV1 :: "'d libs \<Rightarrow> ChannelSessionKeyStateV1 \<Rightarrow> unit result" where
  "ValidateChannelSessionKeyAuthSigV1 L state =
     bindE (wrapE ''failed to get metadata hash''
       (GetChannelSessionKeyAuthMetadataHashV1 L (csk_Version state) (csk_Assets state) (csk_ExpiresAt state))) (\<lambda>metadataHash.
     bindE (wrapE ''failed to pack session key state'' (PackChannelKeyStateV1 L (csk_SessionKey state) metadataHash)) (\<lambda>packed.
     bindE (wrapE ''failed to decode user signature'' (hexutilDecode L (csk_UserSig state))) (\<lambda>authSigBytes.
     bindE (wrapE ''failed to recover address from signature'' (EthereumMsg_RecoverAddress L packed authSigBytes)) (\<lambda>recoveredAddr.
     if \<not> EqualFold (EthereumAddress_String L recoveredAddr) (csk_UserAddress state)
     then Inl (Err ''invalid signature: recovered address does not match wallet'') else Inr ()))))"

definition GenerateSessionKeyStateIDV1 :: "'d libs \<Rightarrow> string \<Rightarrow> string \<Rightarrow> uint64 \<Rightarrow> string result" where
  "GenerateSessionKeyStateIDV1 L userAddress sessionKey version =
     bindE (wrapE ''failed to pack session key state ID''
       (abiPack L [AAddress (HexToAddress L userAddress), AAddress (HexToAddress L sessionKey), AUint 64 (uint version)])) (\<lambda>packed.
     Inr (hashHex L (keccak256 L packed)))"

definition encodeChannelSessionKeySignature :: "'d libs \<Rightarrow> bytes \<times> bytes \<times> bytes \<Rightarrow> bytes \<Rightarrow> bytes result" where
  "encodeChannelSessionKeySignature L skAuth skSignature =
     (case skAuth of (sessionKey, metadataHash, authSignature) \<Rightarrow>
        wrapE ''failed to pack session key signature''
          (abiPack L [ATuple [AAddress sessionKey, AFixedBytes metadataHash, ABytes authSignature], ABytes skSignature]))"

definition decodeChannelSessionKeySignature :: "'d libs \<Rightarrow> bytes \<Rightarrow> ((bytes \<times> bytes \<times> bytes) \<times> bytes) result" where
  "decodeChannelSessionKeySignature L data =
     wrapE ''failed to unpack session key signature'' (abiUnpackSessionKeySig L data)"

section \<open>Signing and validating channel data\<close>

definition ChannelDefaultSigner_Sign :: "'d libs \<Rightarrow> bytes \<Rightarrow> bytes \<Rightarrow> bytes result" where
  "ChannelDefaultSigner_Sign L privateKey data =
     bindE (EthereumMsgSigner_Sign L privateKey data) (\<lambda>sig. Inr (ChannelSignerType_Default # sig))"

definition ChannelSessionKeySignerV1_Sign :: "'d libs \<Rightarrow> bytes \<Rightarrow> bytes \<Rightarrow> bytes \<Rightarrow> bytes \<Rightarrow> bytes result" where
  "ChannelSessionKeySignerV1_Sign L sessionPrivateKey metadataHash authSig data =
     bindE (EthereumMsgSigner_Sign L sessionPrivateKey data) (\<lambda>sessionKeySig.
     bindE (wrapE ''failed to encode session key signature''
       (encodeChannelSessionKeySignature L
          (HexToAddress L (EthereumAddress_String L (ecPrivToAddress L sessionPrivateKey)), metadataHash, authSig)
          sessionKeySig)) (\<lambda>fullSig.
     Inr (ChannelSignerType_SessionKey # fullSig)))"

definition GetSignerType :: "bytes \<Rightarrow> ChannelSignerType result" where
  "GetSignerType sig = (if length sig < 1 then Inl (Err ''invalid signature: too short'') else Inr (sig ! 0))"

type_synonym permission_check = "string \<Rightarrow> string \<Rightarrow> string \<Rightarrow> bool result"

definition ChannelSigValidator_Recover :: "'d libs \<Rightarrow> permission_check \<Rightarrow> bytes \<Rightarrow> bytes \<Rightarrow> string result" where
  "ChannelSigValidator_Recover L verifyPermissions data sig =
     (if length sig < 1 then Inl (Err ''invalid signature: too short'')
      else let signerType = sig ! 0 in
      if signerType = ChannelSignerType_Default then
        bindE (wrapE ''failed to recover wallet address'' (EthereumMsg_RecoverAddress L data (drop 1 sig))) (\<lambda>addr.
        Inr (EthereumAddress_String L addr))
      else if signerType = ChannelSignerType_SessionKey then
        bindE (wrapE ''failed to decode session key signature'' (decodeChannelSessionKeySignature L (drop 1 sig)))
          (\<lambda>((sessionKey, metadataHash, authSignature), skSignature).
        bindE (wrapE ''failed to pack auth data'' (PackChannelKeyStateV1 L (addressHex L sessionKey) metadataHash)) (\<lambda>packedAuth.
        bindE (wrapE ''failed to recover wallet address from auth signature''
          (EthereumMsg_RecoverAddress L packedAuth authSignature)) (\<lambda>walletAddr.
        bindE (wrapE ''failed to recover session key address''
          (EthereumMsg_RecoverAddress L data skSignature)) (\<lambda>sessionKeyAddr.
        if \<not> EqualFold (EthereumAddress_String L sessionKeyAddr) (addressHex L sessionKey)
        then Inl (Err ''session key mismatch'')
        else
          bindE (verifyPermissions (EthereumAddress_String L walletAddr) (EthereumAddress_String L sessionKeyAddr)
                   (hashHex L metadataHash)) (\<lambda>ok.
          if \<not> ok then Inl (Err ''session key does not have permission to sign for this data'')
          else Inr (EthereumAddress_String L walletAddr))))))
      else Inl (Err ''invalid signature: unknown signer type''))"

definition ChannelSigValidator_Verify :: "'d libs \<Rightarrow> permission_check \<Rightarrow> string \<Rightarrow> bytes \<Rightarrow> bytes \<Rightarrow> unit result" where
  "ChannelSigValidator_Verify L verifyPermissions wallet data sig =
     bindE (ChannelSigValidator_Recover L verifyPermissions data sig) (\<lambda>address.
       if \<not> EqualFold address wallet then Inl (Err ''invalid signature'') else Inr ())"

section \<open>Bitmask lemmas\<close>

lemma uint8_div_mod:
  "unat (idx div 8 :: uint8) = unat idx div 8" "unat (idx mod 8 :: uint8) = unat idx mod 8"
  by (simp_all add: unat_div unat_mod)

lemma byteIndex_eq: "byteIndex idx = 31 - unat idx div 8"
proof -
  have "unat idx < 256" using unsigned_less [of idx] by simp
  then have "unat (idx div 8) \<le> 31" by (simp add: uint8_div_mod)
  then have "(idx div 8) \<le> 31" by (simp add: word_le_nat_alt)
  then show ?thesis by (simp add: byteIndex_def unat_sub uint8_div_mod)
qed

lemma byteIndex_less: "byteIndex idx < 32"
  by (simp add: byteIndex_eq)

lemma bitOffset_less: "bitOffset idx < 8"
  by (simp add: bitOffset_def uint8_div_mod)

lemma bit_position_inj:
  assumes "byteIndex i = byteIndex j" "bitOffset i = bitOffset j"
  shows "i = j"
proof -
  have "unat i < 256" "unat j < 256" using unsigned_less [of i] unsigned_less [of j] by simp_all
  then have "unat i div 8 = unat j div 8" using assms(1) by (simp add: byteIndex_eq)
  moreover have "unat i mod 8 = unat j mod 8" using assms(2) by (simp add: bitOffset_def uint8_div_mod)
  ultimately have "unat i = unat j" by (metis mult_div_mod_eq)
  then show ?thesis by (rule unsigned_word_eqI)
qed

definition mask_bit :: "bytes \<Rightarrow> ChannelSignerType \<Rightarrow> bool" where
  "mask_bit m t = bit (m ! byteIndex t) (bitOffset t)"

lemma test_bit_and_1: "(drop_bit n w AND 1 = (1 :: uint8)) \<longleftrightarrow> bit w n"
  by (simp add: and_one_eq bit_iff_odd_drop_bit odd_iff_mod_2_eq_one)

lemma mask_bit_set:
  assumes "length m = 32"
  shows "mask_bit (m[byteIndex i := m ! byteIndex i OR push_bit (bitOffset i) 1]) t \<longleftrightarrow> mask_bit m t \<or> t = i"
  using assms byteIndex_less [of i] bitOffset_less [of t] bit_position_inj [of t i]
  by (auto simp: mask_bit_def nth_list_update bit_or_iff bit_exp_iff)

lemma signerTypesToBitmask_snoc:
  "signerTypesToBitmask (ts @ [i]) =
     (let m = signerTypesToBitmask ts in m[byteIndex i := m ! byteIndex i OR push_bit (bitOffset i) 1])"
  by (simp add: signerTypesToBitmask_def Let_def)

lemma signerTypesToBitmask_length [simp]: "length (signerTypesToBitmask ts) = 32"
  by (induction ts rule: rev_induct) (simp_all add: signerTypesToBitmask_snoc Let_def, simp add: signerTypesToBitmask_def)

lemma signerTypesToBitmask_bits: "mask_bit (signerTypesToBitmask ts) t \<longleftrightarrow> t \<in> set ts"
proof (induction ts rule: rev_induct)
  case Nil
  show ?case by (simp add: signerTypesToBitmask_def mask_bit_def byteIndex_less)
next
  case (snoc i ts)
  then show ?case by (auto simp: signerTypesToBitmask_snoc Let_def mask_bit_set simp del: push_bit_of_1)
qed

context abi_spec
begin

lemma hexToBitmask_bitmaskToHex_from:
  assumes "length m \<le> 32" "m \<noteq> []"
  shows "hexToBitmask L (bitmaskToHex_from L m) = Some (replicate (32 - length m) 0 @ m)"
  using assms
proof (induction m)
  case (Cons b bs)
  show ?case
  proof (cases "b \<noteq> 0")
    case True
    then show ?thesis using Cons.prems by (simp add: hexToBitmask_def hexutil_inverse)
  next
    case False
    show ?thesis
    proof (cases "bs = []")
      case True
      then show ?thesis using False hexutil_inverse [of "[0]"] by (simp add: hexToBitmask_def hexutil_zero)
    next
      case ne: False
      have "replicate (32 - length bs) (0::byte) = replicate (31 - length bs) 0 @ [0]"
        using Cons.prems by (simp add: replicate_append_same flip: replicate_Suc Suc_diff_le)
      then show ?thesis using Cons ne False by simp
    qed
  qed
qed simp

lemma hexToBitmask_bitmaskToHex: "length m = 32 \<Longrightarrow> hexToBitmask L (bitmaskToHex L m) = Some m"
  using hexToBitmask_bitmaskToHex_from [of m] by (fastforce simp: bitmaskToHex_def)

lemma signer_bitmap_roundtrip:
  "IsChannelSignerSupported L (BuildSigValidatorsBitmap L ts) t \<longleftrightarrow> t = ChannelSignerType_Default \<or> t \<in> set ts"
  using signerTypesToBitmask_bits [of ts t]
  by (simp add: IsChannelSignerSupported_def BuildSigValidatorsBitmap_def hexToBitmask_bitmaskToHex
      test_bit_and_1 mask_bit_def)

lemma supported_bits:
  assumes "SignerValidatorsSupported L v" "IsChannelSignerSupported L v t"
  shows "t \<in> set ChannelSignerTypes"
proof (cases "t = ChannelSignerType_Default")
  case True
  then show ?thesis by (simp add: ChannelSignerTypes_def)
next
  case False
  obtain m where m: "hexToBitmask L v = Some m"
    and sub: "\<forall>i<32. signerTypesToBitmask ChannelSignerTypes ! i AND m ! i = m ! i"
    using assms(1) by (auto simp: SignerValidatorsSupported_def Let_def list_all_iff split: option.splits)
  have "mask_bit m t" using assms(2) False m by (simp add: IsChannelSignerSupported_def test_bit_and_1 mask_bit_def)
  then have "mask_bit (signerTypesToBitmask ChannelSignerTypes) t"
    using sub byteIndex_less [of t] unfolding mask_bit_def by (metis bit_and_iff)
  then show ?thesis by (simp add: signerTypesToBitmask_bits)
qed

end

text \<open>A wallet's own signature and a session key's signature are both validated back to the wallet.\<close>

lemma default_sign_verify:
  assumes "ecdsa_spec L valid_key" "valid_key k" "ChannelDefaultSigner_Sign L k data = Inr sig"
  shows "ChannelSigValidator_Recover L perm data sig = Inr (EthereumAddress_String L (ecPrivToAddress L k))"
  using assms ecdsa_spec.msg_sign_recover [OF assms(1,2)]
  by (auto simp: ChannelDefaultSigner_Sign_def ChannelSigValidator_Recover_def)

lemma session_sign_recover:
  assumes e: "ecdsa_spec L valid_key" and ab: "abi_spec L" and keys: "valid_key walletKey" "valid_key sessionKey"
    and mh: "length metadataHash = 32"
    and auth: "PackChannelKeyStateV1 L (addressHex L (ecPrivToAddress L sessionKey)) metadataHash = Inr packedAuth"
      "EthereumMsgSigner_Sign L walletKey packedAuth = Inr authSig"
    and perm: "perm (EthereumAddress_String L (ecPrivToAddress L walletKey))
        (EthereumAddress_String L (ecPrivToAddress L sessionKey)) (hashHex L metadataHash) = Inr True"
    and sig: "ChannelSessionKeySignerV1_Sign L sessionKey metadataHash authSig data = Inr sig"
  shows "ChannelSigValidator_Recover L perm data sig = Inr (EthereumAddress_String L (ecPrivToAddress L walletKey))"
proof -
  let ?sk = "ecPrivToAddress L sessionKey"
  have len: "length ?sk = 20" by (rule ecdsa_spec.address_length [OF e])
  have hexaddr: "HexToAddress L (EthereumAddress_String L ?sk) = ?sk"
    unfolding EthereumAddress_String_def by (rule abi_spec.HexToAddress_lower [OF ab len])
  obtain skSig full where s: "EthereumMsgSigner_Sign L sessionKey data = Inr skSig"
    "abiPack L [ATuple [AAddress ?sk, AFixedBytes metadataHash, ABytes authSig], ABytes skSig] = Inr full"
    "sig = ChannelSignerType_SessionKey # full"
    using sig by (auto simp: ChannelSessionKeySignerV1_Sign_def encodeChannelSessionKeySignature_def hexaddr)
  have dec: "decodeChannelSessionKeySignature L full = Inr ((?sk, metadataHash, authSig), skSig)"
    unfolding decodeChannelSessionKeySignature_def by (simp add: abi_spec.unpack_pack [OF ab s(2) len mh])
  have rec: "EthereumMsg_RecoverAddress L packedAuth authSig = Inr (ecPrivToAddress L walletKey)"
    "EthereumMsg_RecoverAddress L data skSig = Inr ?sk"
    using ecdsa_spec.msg_sign_recover [OF e] keys auth(2) s(1) by blast+
  have "EqualFold (EthereumAddress_String L ?sk) (addressHex L ?sk)"
    by (simp add: EthereumAddress_String_def EqualFold_def)
  then show ?thesis
    by (simp add: ChannelSigValidator_Recover_def s(3) dec auth(1) rec perm)
qed

text \<open>What a validated channel signature proves: the wallet signed the data itself, or it authorised a
  session key with the recorded permissions and that key signed the data.\<close>

definition signed_by_wallet :: "'d libs \<Rightarrow> string \<Rightarrow> bytes \<Rightarrow> bytes \<Rightarrow> bool" where
  "signed_by_wallet L wallet data sg \<longleftrightarrow>
     (\<exists>a. EthereumMsg_RecoverAddress L data sg = Inr a \<and> EqualFold (EthereumAddress_String L a) wallet)"

definition signed_by_session_key :: "'d libs \<Rightarrow> permission_check \<Rightarrow> string \<Rightarrow> bytes \<Rightarrow> bytes \<Rightarrow> bool" where
  "signed_by_session_key L perm wallet data sg \<longleftrightarrow>
     (\<exists>sk mh asig sksig authMsg w k.
        decodeChannelSessionKeySignature L sg = Inr ((sk, mh, asig), sksig) \<and>
        PackChannelKeyStateV1 L (addressHex L sk) mh = Inr authMsg \<and>
        EthereumMsg_RecoverAddress L authMsg asig = Inr w \<and> EqualFold (EthereumAddress_String L w) wallet \<and>
        signed_by_wallet L (addressHex L sk) data sksig \<and>
        EthereumMsg_RecoverAddress L data sksig = Inr k \<and>
        perm (EthereumAddress_String L w) (EthereumAddress_String L k) (hashHex L mh) = Inr True)"

lemma ChannelSigValidator_Verify_iff:
  "ChannelSigValidator_Verify L perm wallet data sig = Inr () \<longleftrightarrow>
     (\<exists>ty sg. sig = ty # sg \<and>
        (ty = ChannelSignerType_Default \<and> signed_by_wallet L wallet data sg \<or>
         ty = ChannelSignerType_SessionKey \<and> signed_by_session_key L perm wallet data sg))"
proof (cases sig)
  case Nil
  then show ?thesis by (simp add: ChannelSigValidator_Verify_def ChannelSigValidator_Recover_def)
next
  case (Cons ty sg)
  then show ?thesis
    by (auto simp: ChannelSigValidator_Verify_def ChannelSigValidator_Recover_def Let_def
        signed_by_wallet_def signed_by_session_key_def) 
qed

end
