(* ===== verification/Core_Properties.thy ===== *)
theory Core_Properties
  imports State_Packer Channel_Signer
begin

text \<open>
  Properties of the packing of states for signing (\<^verbatim>\<open>state_packer.go\<close>), of channel signatures
  (\<^verbatim>\<open>channel_signer.go\<close>, \<^verbatim>\<open>session_key.go\<close>), of the identifiers and amounts (\<^verbatim>\<open>utils.go\<close>) and of the
  basic types (\<^verbatim>\<open>types.go\<close>).
\<close>

section \<open>Examples\<close>

definition pk_store :: AssetStore where
  "pk_store = \<lparr> GetAssetDecimals = (\<lambda>a. Inr 6), GetTokenDecimals = (\<lambda>b t. Inr 6) \<rparr>"

definition pk_state :: "ref_decimal State" where
  "pk_state = (NewVoidState ref_libs ''usdc'' ''0x11'') \<lparr> s_Version := 4, s_HomeChannelID := Some ''0x01aa'',
     s_HomeLedger := \<lparr> l_TokenAddress = ''0x22'', l_BlockchainID = 137, l_UserBalance = (15, -1),
       l_UserNetFlow = (2, 0), l_NodeBalance = (0, 0), l_NodeNetFlow = (-5, -1) \<rparr> \<rparr>"

definition ok_bytes :: "bytes result \<Rightarrow> bytes" where
  "ok_bytes r = (case r of Inl _ \<Rightarrow> [] | Inr b \<Rightarrow> b)"

lemma pk_state_packs:
  "PackState ref_libs pk_store pk_state = Inr (ok_bytes (PackState ref_libs pk_store pk_state))"
  "PackChallengeState ref_libs pk_store pk_state = Inr (ok_bytes (PackChallengeState ref_libs pk_store pk_state))"
  "amounts_in_range ref_libs pk_store pk_state"
  by code_simp+

section \<open>Packing\<close>



text \<open>C8 (safety). A message packed for a challenge is never a message packed for a state, whatever the
  two states are: a signature given for one cannot be replayed as the other.\<close>

theorem challenge_domain_separated:
  assumes "abi_spec L" and "PackState L st s = Inr b" and "PackChallengeState L st' s' = Inr b'"
    and "amounts_in_range L st s" and "amounts_in_range L st' s'"
  shows "b \<noteq> b'"
  by (rule abi_spec.challenge_separate [OF assms])

theorem challenge_domain_separated_witness:
  "ok_bytes (PackState ref_libs pk_store pk_state) \<noteq> ok_bytes (PackChallengeState ref_libs pk_store pk_state)"
  by (rule challenge_domain_separated [OF ref_abi.abi_spec_axioms pk_state_packs(1,2,3,3)])

section \<open>Channel signatures\<close>


text \<open>C10 (roundtrip). What the two channel signers produce is validated back to the wallet: a default
  signature by the wallet's key, and a session-key signature whose key the wallet authorised and the
  permission lookup admits.\<close>

theorem channel_sign_recover:
  assumes "ecdsa_spec L valid_key" and "abi_spec L" and "valid_key walletKey" and "valid_key sessionKey"
    and "length metadataHash = 32"
    and "PackChannelKeyStateV1 L (addressHex L (ecPrivToAddress L sessionKey)) metadataHash = Inr packedAuth"
    and "EthereumMsgSigner_Sign L walletKey packedAuth = Inr authSig"
    and "perm (EthereumAddress_String L (ecPrivToAddress L walletKey))
        (EthereumAddress_String L (ecPrivToAddress L sessionKey)) (hashHex L metadataHash) = Inr True"
    and "ChannelSessionKeySignerV1_Sign L sessionKey metadataHash authSig data = Inr skSig"
    and "ChannelDefaultSigner_Sign L walletKey data = Inr sig"
  shows "ChannelSigValidator_Recover L perm data skSig = Inr (EthereumAddress_String L (ecPrivToAddress L walletKey))
     \<and> ChannelSigValidator_Recover L perm data sig = Inr (EthereumAddress_String L (ecPrivToAddress L walletKey))"
  using session_sign_recover [where perm = perm and valid_key = valid_key and walletKey = walletKey and
      sessionKey = sessionKey, OF assms(1-9)]
    default_sign_verify [OF assms(1,3,10)] by blast

definition ex_wallet_key :: bytes where "ex_wallet_key = replicate 31 0 @ [7]"
definition ex_session_key :: bytes where "ex_session_key = replicate 31 0 @ [9]"
definition ex_auth :: bytes where
  "ex_auth = ok_bytes (EthereumMsgSigner_Sign ref_libs ex_wallet_key
     (ok_bytes (PackChannelKeyStateV1 ref_libs (addressHex ref_libs (ecPrivToAddress ref_libs ex_session_key)) (replicate 32 3))))"

lemma ex_signing:
  "PackChannelKeyStateV1 ref_libs (addressHex ref_libs (ecPrivToAddress ref_libs ex_session_key)) (replicate 32 3) =
     Inr (ok_bytes (PackChannelKeyStateV1 ref_libs (addressHex ref_libs (ecPrivToAddress ref_libs ex_session_key)) (replicate 32 3)))"
  "EthereumMsgSigner_Sign ref_libs ex_wallet_key
     (ok_bytes (PackChannelKeyStateV1 ref_libs (addressHex ref_libs (ecPrivToAddress ref_libs ex_session_key)) (replicate 32 3))) = Inr ex_auth"
  "ChannelSessionKeySignerV1_Sign ref_libs ex_session_key (replicate 32 3) ex_auth [1, 2] =
     Inr (ok_bytes (ChannelSessionKeySignerV1_Sign ref_libs ex_session_key (replicate 32 3) ex_auth [1, 2]))"
  "ChannelDefaultSigner_Sign ref_libs ex_wallet_key [1, 2] = Inr (ok_bytes (ChannelDefaultSigner_Sign ref_libs ex_wallet_key [1, 2]))"
  "length ex_wallet_key = 32" "length ex_session_key = 32"
  by code_simp+

theorem channel_sign_recover_witness:
  "ChannelSigValidator_Recover ref_libs (\<lambda>w k h. Inr True) [1, 2]
      (ok_bytes (ChannelSessionKeySignerV1_Sign ref_libs ex_session_key (replicate 32 3) ex_auth [1, 2]))
     = Inr (EthereumAddress_String ref_libs (ecPrivToAddress ref_libs ex_wallet_key))
   \<and> ChannelSigValidator_Recover ref_libs (\<lambda>w k h. Inr True) [1, 2]
      (ok_bytes (ChannelDefaultSigner_Sign ref_libs ex_wallet_key [1, 2]))
     = Inr (EthereumAddress_String ref_libs (ecPrivToAddress ref_libs ex_wallet_key))"
  by (rule channel_sign_recover [where valid_key = "\<lambda>k. length k = 32" and sessionKey = ex_session_key and
        metadataHash = "replicate 32 3",
        OF ref_ecdsa.ecdsa_spec_axioms ref_abi.abi_spec_axioms ex_signing(5,6) _ ex_signing(1,2) _ ex_signing(3,4)])
     simp_all

text \<open>C11 (roundtrip). The bitmap built from a list of signer types supports exactly these types and the
  default signer, for all 256 possible type bytes.\<close>

theorem signer_bitmap_supports:
  assumes "abi_spec L"
  shows "IsChannelSignerSupported L (BuildSigValidatorsBitmap L ts) t \<longleftrightarrow> t = ChannelSignerType_Default \<or> t \<in> set ts"
  by (rule abi_spec.signer_bitmap_roundtrip [OF assms])

theorem signer_bitmap_supports_witness:
  "IsChannelSignerSupported ref_libs (BuildSigValidatorsBitmap ref_libs [1, 77]) 77 \<and>
   \<not> IsChannelSignerSupported ref_libs (BuildSigValidatorsBitmap ref_libs [1, 77]) 78"
  by (simp add: signer_bitmap_supports [OF ref_abi.abi_spec_axioms])

section \<open>Amounts\<close>

text \<open>C12 (functional). Converting an amount to token units succeeds exactly when the amount is a whole
  number of units, it is then exact, and every amount that passed the precision check of the asset
  converts for tokens with at least as many decimals.\<close>

theorem decimal_conversion_exact:
  assumes "decimal_spec L val"
  shows "(\<forall>n. DecimalToBigInt L a k = Inr n \<longrightarrow> of_int n = val a * 10 ^ unat k) \<and>
     ((\<exists>n. DecimalToBigInt L a k = Inr n) \<longleftrightarrow> val a * 10 ^ unat k \<in> \<int>) \<and>
     (\<forall>d \<le> k. ValidateDecimalPrecision L a d = Inr () \<longrightarrow> (\<exists>n. DecimalToBigInt L a k = Inr n))"
proof (intro conjI allI impI)
  show "of_int n = val a * 10 ^ unat k" if "DecimalToBigInt L a k = Inr n" for n
    by (rule decimal_spec.DecimalToBigInt_exact [OF assms that])
  show "(\<exists>n. DecimalToBigInt L a k = Inr n) \<longleftrightarrow> val a * 10 ^ unat k \<in> \<int>"
    by (rule decimal_spec.DecimalToBigInt_ok_iff [OF assms])
  fix d assume "d \<le> k" "ValidateDecimalPrecision L a d = Inr ()"
  then have "ValidateDecimalPrecision L a k = Inr ()" by (rule ValidateDecimalPrecision_mono)
  then show "\<exists>n. DecimalToBigInt L a k = Inr n" using decimal_spec.DecimalToBigInt_precise [OF assms] by blast
qed

theorem decimal_conversion_exact_witness:
  "ValidateDecimalPrecision ref_libs (123, -2) 2 = Inr () \<and>
   (\<exists>n. DecimalToBigInt ref_libs (123, -2) 6 = Inr n \<and> of_int n = ref_val (123, -2) * 10 ^ unat (6 :: uint8))"
proof -
  note c = decimal_conversion_exact [OF ref_dec.decimal_spec_axioms, of "(123, -2)" 6]
  have v: "ValidateDecimalPrecision ref_libs (123, -2) 2 = Inr ()" by code_simp
  have "(2 :: uint8) \<le> 6" by code_simp
  then obtain n where "DecimalToBigInt ref_libs (123, -2) 6 = Inr n" using c v by blast
  then show ?thesis using c v by blast
qed

end
