(* ===== verification/Contract_State.thy ===== *)
theory Contract_State
  imports State_Packer
begin

text \<open>
  The client helpers of \<^verbatim>\<open>src/pkg/blockchain/evm/utils.go\<close>: conversion between the node's states and the
  structs of the channel hub contract. The structs \<^verbatim>\<open>Ledger\<close> and \<^verbatim>\<open>State\<close> are those of the generated
  bindings; a nil and an empty byte slice are the same here.
\<close>

record ContractLedger =
  cl_ChainId :: uint64
  cl_Token :: bytes
  cl_Decimals :: uint8
  cl_UserAllocation :: int
  cl_UserNetFlow :: int
  cl_NodeAllocation :: int
  cl_NodeNetFlow :: int

record ContractState =
  cs_Version :: uint64
  cs_Intent :: uint8
  cs_Metadata :: bytes
  cs_HomeLedger :: ContractLedger
  cs_NonHomeLedger :: ContractLedger
  cs_UserSig :: bytes
  cs_NodeSig :: bytes

definition evm_hexToBytes32 :: "'d libs \<Rightarrow> string \<Rightarrow> bytes result" where
  "evm_hexToBytes32 L s =
     bindE (wrapE ''failed to decode hex string'' (hexutilDecode L s)) (\<lambda>b.
     if length b \<noteq> 32 then Inl (Err ''invalid length: expected 32 bytes'') else Inr b)"

definition coreLedgerToContractLedger :: "'d libs \<Rightarrow> 'd Ledger \<Rightarrow> uint8 \<Rightarrow> ContractLedger result" where
  "coreLedgerToContractLedger L ledger decimals =
     (let tokenAddr = HexToAddress L (l_TokenAddress ledger) in
      bindE (wrapE ''failed to convert user balance to big.Int'' (DecimalToBigInt L (l_UserBalance ledger) decimals)) (\<lambda>userAllocation.
      bindE (wrapE ''failed to convert user net flow to big.Int'' (DecimalToBigInt L (l_UserNetFlow ledger) decimals)) (\<lambda>userNetFlow.
      bindE (wrapE ''failed to convert node balance to big.Int'' (DecimalToBigInt L (l_NodeBalance ledger) decimals)) (\<lambda>nodeAllocation.
      bindE (wrapE ''failed to convert node net flow to big.Int'' (DecimalToBigInt L (l_NodeNetFlow ledger) decimals)) (\<lambda>nodeNetFlow.
      Inr \<lparr> cl_ChainId = l_BlockchainID ledger, cl_Token = tokenAddr, cl_Decimals = decimals,
            cl_UserAllocation = userAllocation, cl_UserNetFlow = userNetFlow,
            cl_NodeAllocation = nodeAllocation, cl_NodeNetFlow = nodeNetFlow \<rparr>)))))"

definition emptyLedger :: ContractLedger where
  "emptyLedger = \<lparr> cl_ChainId = 0, cl_Token = replicate 20 0, cl_Decimals = 0, cl_UserAllocation = 0,
     cl_UserNetFlow = 0, cl_NodeAllocation = 0, cl_NodeNetFlow = 0 \<rparr>"

definition decodeSig :: "'d libs \<Rightarrow> string \<Rightarrow> string option \<Rightarrow> bytes result" where
  "decodeSig L msg sig = (case sig of None \<Rightarrow> Inr [] | Some s \<Rightarrow> wrapE msg (hexutilDecode L s))"

definition coreStateToContractState :: "'d libs \<Rightarrow> 'd State \<Rightarrow> (uint64 \<Rightarrow> string \<Rightarrow> uint8 result) \<Rightarrow> ContractState result" where
  "coreStateToContractState L state tokenGetter =
     (let home = s_HomeLedger state in
      bindE (wrapE ''failed to get home token decimals'' (tokenGetter (l_BlockchainID home) (l_TokenAddress home))) (\<lambda>homeDecimals.
      bindE (wrapE ''failed to convert home ledger'' (coreLedgerToContractLedger L home homeDecimals)) (\<lambda>homeLedger.
      bindE (case s_EscrowLedger state of
               None \<Rightarrow> Inr emptyLedger
             | Some escrow \<Rightarrow>
                 bindE (wrapE ''failed to get escrow token decimals'' (tokenGetter (l_BlockchainID escrow) (l_TokenAddress escrow))) (\<lambda>escrowDecimals.
                 wrapE ''failed to convert escrow ledger'' (coreLedgerToContractLedger L escrow escrowDecimals))) (\<lambda>nonHomeLedger.
      bindE (decodeSig L ''failed to decode user signature'' (s_UserSig state)) (\<lambda>userSig.
      bindE (decodeSig L ''failed to decode node signature'' (s_NodeSig state)) (\<lambda>nodeSig.
      bindE (wrapE ''failed to compute state transitions hash'' (GetStateTransitionHash L (s_Transition state))) (\<lambda>metadata.
      Inr \<lparr> cs_Version = s_Version state, cs_Intent = TransitionToIntent (s_Transition state), cs_Metadata = metadata,
            cs_HomeLedger = homeLedger, cs_NonHomeLedger = nonHomeLedger, cs_UserSig = userSig, cs_NodeSig = nodeSig \<rparr>)))))))"

definition contractLedgerToCoreLedger :: "'d libs \<Rightarrow> ContractLedger \<Rightarrow> 'd Ledger" where
  "contractLedgerToCoreLedger L ledger =
     (let ex = - uint (cl_Decimals ledger) in
      \<lparr> l_TokenAddress = addressHex L (cl_Token ledger), l_BlockchainID = cl_ChainId ledger,
        l_UserBalance = dNew L (cl_UserAllocation ledger) ex, l_UserNetFlow = dNew L (cl_UserNetFlow ledger) ex,
        l_NodeBalance = dNew L (cl_NodeAllocation ledger) ex, l_NodeNetFlow = dNew L (cl_NodeNetFlow ledger) ex \<rparr>)"

text \<open>The fields the contract state does not have are Go's zero values.\<close>

definition contractStateToCoreState :: "'d libs \<Rightarrow> ContractState \<Rightarrow> string \<Rightarrow> string option \<Rightarrow> 'd State" where
  "contractStateToCoreState L contractState homeChannelID escrowChannelID =
     \<lparr> s_ID = '''', s_Transition = \<lparr> t_Type = 0, t_TxID = '''', t_AccountID = '''', t_Amount = dZero L \<rparr>,
       s_Asset = '''', s_UserWallet = '''', s_Epoch = 0, s_Version = cs_Version contractState,
       s_HomeChannelID = (if homeChannelID \<noteq> '''' then Some homeChannelID else None),
       s_EscrowChannelID = escrowChannelID,
       s_HomeLedger = contractLedgerToCoreLedger L (cs_HomeLedger contractState),
       s_EscrowLedger = (if cl_ChainId (cs_NonHomeLedger contractState) \<noteq> 0
         then Some (contractLedgerToCoreLedger L (cs_NonHomeLedger contractState)) else None),
       s_UserSig = (if cs_UserSig contractState \<noteq> [] then Some (hexutilEncode L (cs_UserSig contractState)) else None),
       s_NodeSig = (if cs_NodeSig contractState \<noteq> [] then Some (hexutilEncode L (cs_NodeSig contractState)) else None) \<rparr>"

section \<open>What is submitted is what was signed\<close>

text \<open>The values a contract state contributes to the signed message.\<close>

definition ledger_values :: "ContractLedger \<Rightarrow> abi_value" where
  "ledger_values l = ATuple [AUint 64 (uint (cl_ChainId l)), AAddress (cl_Token l), AUint 8 (uint (cl_Decimals l)),
     AUint 256 (cl_UserAllocation l), AInt 256 (cl_UserNetFlow l), AUint 256 (cl_NodeAllocation l), AInt 256 (cl_NodeNetFlow l)]"

definition contract_values :: "ContractState \<Rightarrow> abi_value list" where
  "contract_values c = [AUint 64 (uint (cs_Version c)), AUint 8 (uint (cs_Intent c)), AFixedBytes (cs_Metadata c),
     ledger_values (cs_HomeLedger c), ledger_values (cs_NonHomeLedger c)]"

lemma emptyLedger_values [simp]: "ledger_values emptyLedger = emptyContractLedger"
  by (simp add: ledger_values_def emptyLedger_def emptyContractLedger_def)

lemma ledger_converted:
  "contractLedgerOf L st l = Inr v \<longleftrightarrow>
     (\<exists>d c. GetTokenDecimals st (l_BlockchainID l) (l_TokenAddress l) = Inr d \<and>
        coreLedgerToContractLedger L l d = Inr c \<and> v = ledger_values c)"
  by (fastforce simp: contractLedgerOf_def coreLedgerToContractLedger_def ledger_values_def Let_def)

lemma state_converted:
  assumes "coreStateToContractState L s (GetTokenDecimals st) = Inr c"
  shows "signing_values L st s = Inr (contract_values c)"
proof -
  have "contractLedgerOf L st (s_HomeLedger s) = Inr (ledger_values (cs_HomeLedger c))"
    using assms by (auto simp: coreStateToContractState_def ledger_converted Let_def)
  moreover have "nonHomeLedgerOf L st (s_EscrowLedger s) = Inr (ledger_values (cs_NonHomeLedger c))"
    using assms by (auto simp: coreStateToContractState_def nonHomeLedgerOf_def ledger_converted Let_def split: option.splits)
  ultimately show ?thesis
    using assms by (auto simp: coreStateToContractState_def signing_values_def contract_values_def Let_def)
qed

end
