(* ===== verification/App_Core.thy ===== *)
theory App_Core
  imports Signing
begin

text \<open>
  \<^verbatim>\<open>src/pkg/app\<close>: app sessions, their signed updates and identifiers, app session keys and their
  signature validator, and the application registry entry.
\<close>

section \<open>Intents and statuses\<close>

type_synonym AppStateUpdateIntent = uint8

abbreviation (input) AppStateUpdateIntentOperate :: AppStateUpdateIntent where "AppStateUpdateIntentOperate \<equiv> 0"
abbreviation (input) AppStateUpdateIntentDeposit :: AppStateUpdateIntent where "AppStateUpdateIntentDeposit \<equiv> 1"
abbreviation (input) AppStateUpdateIntentWithdraw :: AppStateUpdateIntent where "AppStateUpdateIntentWithdraw \<equiv> 2"
abbreviation (input) AppStateUpdateIntentClose :: AppStateUpdateIntent where "AppStateUpdateIntentClose \<equiv> 3"
abbreviation (input) AppStateUpdateIntentRebalance :: AppStateUpdateIntent where "AppStateUpdateIntentRebalance \<equiv> 4"

definition AppStateUpdateIntent_String :: "AppStateUpdateIntent \<Rightarrow> string" where
  "AppStateUpdateIntent_String i =
     (if i = AppStateUpdateIntentOperate then ''operate''
      else if i = AppStateUpdateIntentDeposit then ''deposit''
      else if i = AppStateUpdateIntentWithdraw then ''withdraw''
      else if i = AppStateUpdateIntentClose then ''close''
      else if i = AppStateUpdateIntentRebalance then ''rebalance''
      else ''unknown'')"

definition AppStateUpdateIntent_GatedAction :: "AppStateUpdateIntent \<Rightarrow> GatedAction" where
  "AppStateUpdateIntent_GatedAction i =
     (if i = AppStateUpdateIntentOperate then GatedActionAppSessionOperation
      else if i = AppStateUpdateIntentDeposit then GatedActionAppSessionDeposit
      else if i = AppStateUpdateIntentWithdraw then GatedActionAppSessionWithdrawal
      else '''')"

type_synonym AppSessionStatus = uint8

abbreviation (input) AppSessionStatusVoid :: AppSessionStatus where "AppSessionStatusVoid \<equiv> 0"
abbreviation (input) AppSessionStatusOpen :: AppSessionStatus where "AppSessionStatusOpen \<equiv> 1"
abbreviation (input) AppSessionStatusClosed :: AppSessionStatus where "AppSessionStatusClosed \<equiv> 2"

definition AppSessionStatus_String :: "AppSessionStatus \<Rightarrow> string" where
  "AppSessionStatus_String s =
     (if s = AppSessionStatusVoid then ''''
      else if s = AppSessionStatusOpen then ''open''
      else if s = AppSessionStatusClosed then ''closed''
      else ''unknown'')"

definition AppSessionStatus_scanString :: "string \<Rightarrow> AppSessionStatus result" where
  "AppSessionStatus_scanString v0 =
     (let v = TrimSpace v0 in
      case Atoi v of
        Inr n \<Rightarrow> Inr (of_int n)
      | Inl _ \<Rightarrow>
          (let l = ToLower v in
           if l = AppSessionStatus_String AppSessionStatusVoid then Inr AppSessionStatusVoid
           else if l = AppSessionStatus_String AppSessionStatusOpen then Inr AppSessionStatusOpen
           else if l = AppSessionStatus_String AppSessionStatusClosed then Inr AppSessionStatusClosed
           else Inl (Err ''unknown AppSessionStatus'')))"

fun AppSessionStatus_Scan :: "scan_src \<Rightarrow> AppSessionStatus result" where
  "AppSessionStatus_Scan (SrcInt64 v) = Inr (ucast v)"
| "AppSessionStatus_Scan (SrcInt32 v) = Inr (ucast v)"
| "AppSessionStatus_Scan (SrcInt v) = Inr (ucast v)"
| "AppSessionStatus_Scan (SrcString v) = AppSessionStatus_scanString v"
| "AppSessionStatus_Scan SrcOther = Inl (Err ''unsupported AppSessionStatus scan type'')"

section \<open>Sessions and updates\<close>

record AppParticipantV1 =
  ap_WalletAddress :: string
  ap_SignatureWeight :: uint8

record AppSessionV1 =
  se_SessionID :: string
  se_ApplicationID :: string
  se_Participants :: "AppParticipantV1 list"
  se_Quorum :: uint8
  se_Nonce :: uint64
  se_Status :: AppSessionStatus
  se_Version :: uint64
  se_SessionData :: string
  se_CreatedAt :: int
  se_UpdatedAt :: int

record AppDefinitionV1 =
  ad_ApplicationID :: string
  ad_Participants :: "AppParticipantV1 list"
  ad_Quorum :: uint8
  ad_Nonce :: uint64

record AppSessionVersionV1 =
  sv_SessionID :: string
  sv_Version :: uint64

record 'd AppAllocationV1 =
  al_Participant :: string
  al_Asset :: string
  al_Amount :: 'd

record 'd AppStateUpdateV1 =
  au_AppSessionID :: string
  au_Intent :: AppStateUpdateIntent
  au_Version :: uint64
  au_Allocations :: "'d AppAllocationV1 list"
  au_SessionData :: string

record 'd SignedAppStateUpdateV1 =
  su_AppStateUpdate :: "'d AppStateUpdateV1"
  su_QuorumSigs :: "string list"

definition participant_value :: "'d libs \<Rightarrow> AppParticipantV1 \<Rightarrow> abi_value" where
  "participant_value L p = ATuple [AAddress (HexToAddress L (ap_WalletAddress p)), AUint 8 (uint (ap_SignatureWeight p))]"

definition PackCreateAppSessionRequestV1 :: "'d libs \<Rightarrow> AppDefinitionV1 \<Rightarrow> string \<Rightarrow> bytes result" where
  "PackCreateAppSessionRequestV1 L definition' sessionData =
     bindE (wrapE ''failed to pack app session request'' (abiPack L
       [AString (ad_ApplicationID definition'), AArray (map (participant_value L) (ad_Participants definition')),
        AUint 8 (uint (ad_Quorum definition')), AUint 64 (uint (ad_Nonce definition')), AString sessionData])) (\<lambda>packed.
     Inr (keccak256 L packed))"

definition allocation_value :: "'d libs \<Rightarrow> 'd AppAllocationV1 \<Rightarrow> abi_value" where
  "allocation_value L a =
     ATuple [AAddress (HexToAddress L (al_Participant a)), AString (al_Asset a), AString (dString L (al_Amount a))]"

definition PackAppStateUpdateV1 :: "'d libs \<Rightarrow> 'd AppStateUpdateV1 \<Rightarrow> bytes result" where
  "PackAppStateUpdateV1 L stateUpdate =
     bindE (wrapE ''failed to pack app state update'' (abiPack L
       [AFixedBytes (HexToHash L (au_AppSessionID stateUpdate)), AUint 8 (uint (au_Intent stateUpdate)),
        AUint 64 (uint (au_Version stateUpdate)), AArray (map (allocation_value L) (au_Allocations stateUpdate)),
        AString (au_SessionData stateUpdate)])) (\<lambda>packed.
     Inr (keccak256 L packed))"

definition GenerateAppSessionIDV1 :: "'d libs \<Rightarrow> AppDefinitionV1 \<Rightarrow> string result" where
  "GenerateAppSessionIDV1 L definition' =
     bindE (wrapE ''failed to pack app definition'' (abiPack L
       [AString (ad_ApplicationID definition'), AArray (map (participant_value L) (ad_Participants definition')),
        AUint 8 (uint (ad_Quorum definition')), AUint 64 (uint (ad_Nonce definition'))])) (\<lambda>packed.
     Inr (hashHex L (keccak256 L packed)))"

definition GenerateRebalanceBatchIDV1 :: "'d libs \<Rightarrow> AppSessionVersionV1 list \<Rightarrow> string result" where
  "GenerateRebalanceBatchIDV1 L sessionVersions =
     bindE (wrapE ''failed to pack session versions'' (abiPack L
       [AArray (map (\<lambda>sv. ATuple [AFixedBytes (HexToHash L (sv_SessionID sv)), AUint 64 (uint (sv_Version sv))]) sessionVersions)])) (\<lambda>packed.
     Inr (hashHex L (keccak256 L packed)))"

definition GenerateRebalanceTransactionIDV1 :: "'d libs \<Rightarrow> string \<Rightarrow> string \<Rightarrow> string \<Rightarrow> string result" where
  "GenerateRebalanceTransactionIDV1 L batchID sessionID asset =
     bindE (wrapE ''failed to pack rebalance transaction data'' (abiPack L
       [AFixedBytes (HexToHash L batchID), AFixedBytes (HexToHash L sessionID), AString asset])) (\<lambda>packed.
     Inr (hashHex L (keccak256 L packed)))"

section \<open>App session keys\<close>

record AppSessionKeyStateV1 =
  ask_UserAddress :: string
  ask_SessionKey :: string
  ask_Version :: uint64
  ask_ApplicationIDs :: "string list"
  ask_AppSessionIDs :: "string list"
  ask_ExpiresAt :: int
  ask_UserSig :: string

definition App_GenerateSessionKeyStateIDV1 :: "'d libs \<Rightarrow> string \<Rightarrow> string \<Rightarrow> uint64 \<Rightarrow> string result" where
  "App_GenerateSessionKeyStateIDV1 L userAddress sessionKey version =
     bindE (wrapE ''failed to pack session key state ID'' (abiPack L
       [AAddress (HexToAddress L userAddress), AAddress (HexToAddress L sessionKey), AUint 64 (uint version)])) (\<lambda>packed.
     Inr (hashHex L (keccak256 L packed)))"

definition PackAppSessionKeyStateV1 :: "'d libs \<Rightarrow> AppSessionKeyStateV1 \<Rightarrow> bytes result" where
  "PackAppSessionKeyStateV1 L state =
     bindE (wrapE ''failed to pack session key state'' (abiPack L
       [AAddress (HexToAddress L (ask_UserAddress state)), AAddress (HexToAddress L (ask_SessionKey state)),
        AUint 64 (uint (ask_Version state)),
        AArray (map (\<lambda>i. AFixedBytes (HexToHash L i)) (ask_ApplicationIDs state)),
        AArray (map (\<lambda>i. AFixedBytes (HexToHash L i)) (ask_AppSessionIDs state)),
        AUint 64 (uint (of_int (ask_ExpiresAt state) :: uint64))])) (\<lambda>packed.
     Inr (keccak256 L packed))"

type_synonym AppSessionSignerTypeV1 = uint8

abbreviation (input) AppSessionSignerTypeV1_Wallet :: AppSessionSignerTypeV1 where "AppSessionSignerTypeV1_Wallet \<equiv> 0xA1"
abbreviation (input) AppSessionSignerTypeV1_SessionKey :: AppSessionSignerTypeV1 where "AppSessionSignerTypeV1_SessionKey \<equiv> 0xA2"

definition AppSessionSignerTypeV1_String :: "AppSessionSignerTypeV1 \<Rightarrow> string" where
  "AppSessionSignerTypeV1_String t =
     (if t = AppSessionSignerTypeV1_Wallet then ''wallet''
      else if t = AppSessionSignerTypeV1_SessionKey then ''session_key''
      else ''unknown('' @ show_nat (unat t) @ '')'')"

text \<open>A signer is a type and a private key; the constructor refuses other types.\<close>

definition newAppSessionSignerV1 :: "AppSessionSignerTypeV1 \<Rightarrow> bytes \<Rightarrow> (AppSessionSignerTypeV1 \<times> bytes) result" where
  "newAppSessionSignerV1 signerType signer =
     (if signerType \<noteq> AppSessionSignerTypeV1_Wallet \<and> signerType \<noteq> AppSessionSignerTypeV1_SessionKey
      then Inl (Err ''invalid signer type'') else Inr (signerType, signer))"

definition AppSessionSignerV1_Sign :: "'d libs \<Rightarrow> AppSessionSignerTypeV1 \<times> bytes \<Rightarrow> bytes \<Rightarrow> bytes result" where
  "AppSessionSignerV1_Sign L s data =
     bindE (EthereumMsgSigner_Sign L (snd s) data) (\<lambda>sig. Inr (fst s # sig))"

type_synonym session_key_owner = "string \<Rightarrow> string result"

definition AppSessionKeyValidatorV1_Recover :: "'d libs \<Rightarrow> session_key_owner \<Rightarrow> bytes \<Rightarrow> bytes \<Rightarrow> string result" where
  "AppSessionKeyValidatorV1_Recover L getSessionKeyOwner data sig =
     (if length sig < 1 then Inl (Err ''invalid signature: too short'')
      else let signerType = sig ! 0 in
      if signerType = AppSessionSignerTypeV1_Wallet then
        bindE (wrapE ''failed to recover wallet address'' (EthereumMsg_RecoverAddress L data (drop 1 sig))) (\<lambda>addr.
        Inr (EthereumAddress_String L addr))
      else if signerType = AppSessionSignerTypeV1_SessionKey then
        bindE (wrapE ''failed to recover session key address'' (EthereumMsg_RecoverAddress L data (drop 1 sig))) (\<lambda>addr.
        getSessionKeyOwner (EthereumAddress_String L addr))
      else Inl (Err ''invalid signature: unknown signer type''))"

definition AppSessionKeyValidatorV1_Verify :: "'d libs \<Rightarrow> session_key_owner \<Rightarrow> string \<Rightarrow> bytes \<Rightarrow> bytes \<Rightarrow> unit result" where
  "AppSessionKeyValidatorV1_Verify L getSessionKeyOwner wallet data sig =
     bindE (AppSessionKeyValidatorV1_Recover L getSessionKeyOwner data sig) (\<lambda>address.
       if \<not> EqualFold address wallet then Inl (Err ''invalid signature'') else Inr ())"

section \<open>Application registry entries\<close>

record AppV1 =
  app_ID :: string
  app_OwnerWallet :: string
  app_Metadata :: string
  app_Version :: uint64
  app_CreationApprovalNotRequired :: bool

record AppInfoV1 =
  ai_App :: AppV1
  ai_CreatedAt :: int
  ai_UpdatedAt :: int

text \<open>\<^verbatim>\<open>^[a-z0-9][-a-z0-9]{0,65}$\<close>\<close>

definition AppIDV1Regex :: "string \<Rightarrow> bool" where
  "AppIDV1Regex s =
     (let alnum = (\<lambda>c. let n = of_char c :: int in (97 \<le> n \<and> n \<le> 122) \<or> (48 \<le> n \<and> n \<le> 57)) in
      case s of [] \<Rightarrow> False
      | c # cs \<Rightarrow> alnum c \<and> length cs \<le> 65 \<and> list_all (\<lambda>d. d = CHR ''-'' \<or> alnum d) cs)"

definition PackAppV1 :: "'d libs \<Rightarrow> AppV1 \<Rightarrow> bytes result" where
  "PackAppV1 L app =
     bindE (wrapE ''invalid owner wallet address'' (NormalizeHexAddress (app_OwnerWallet app))) (\<lambda>owner.
     bindE (wrapE ''failed to pack app'' (abiPack L
       [AString (app_ID app), AAddress (HexToAddress L owner), AFixedBytes (keccak256 L (string_bytes (app_Metadata app))),
        AUint 64 (uint (app_Version app)), ABool (app_CreationApprovalNotRequired app)])) (\<lambda>packed.
     Inr (keccak256 L packed)))"

end
