(* ===== verification/Database.thy ===== *)
theory Database
  imports App_Core State_Advancer
begin

text \<open>
  The tables of the node's database and the meaning of the SQL the store methods issue. A table is the
  list of its rows in insertion order; a store method of \<^verbatim>\<open>src/clearnode/store/database\<close> is a function on
  the record of tables. Primary keys and unique constraints are those of
  \<^verbatim>\<open>src/clearnode/config/migrations/postgres\<close>: an insert that violates one is the error value
  \<open>duplicate_key\<close>. Losing the connection to the database is not modelled, so reads do not fail.
  Columns that only record times of writing are kept where a query orders or filters by them.
\<close>

section \<open>Rows\<close>

record 'd UserBalance =
  ub_UserWallet :: string
  ub_Asset :: string
  ub_Balance :: 'd
  ub_Enforced :: 'd
  ub_HomeBlockchainID :: uint64

record 'd StateRow =
  sr_ID :: string
  sr_Asset :: string
  sr_UserWallet :: string
  sr_Epoch :: uint64
  sr_Version :: uint64
  sr_TransitionType :: uint8
  sr_TransitionTxID :: string
  sr_TransitionAccountID :: string
  sr_TransitionAmount :: 'd
  sr_HomeChannelID :: "string option"
  sr_EscrowChannelID :: "string option"
  sr_HomeUserBalance :: 'd
  sr_HomeUserNetFlow :: 'd
  sr_HomeNodeBalance :: 'd
  sr_HomeNodeNetFlow :: 'd
  sr_EscrowUserBalance :: 'd
  sr_EscrowUserNetFlow :: 'd
  sr_EscrowNodeBalance :: 'd
  sr_EscrowNodeNetFlow :: 'd
  sr_UserSig :: "string option"
  sr_NodeSig :: "string option"

record ChannelRow =
  cr_ChannelID :: string
  cr_UserWallet :: string
  cr_Asset :: string
  cr_Type :: ChannelType
  cr_BlockchainID :: uint64
  cr_Token :: string
  cr_ChallengeDuration :: uint32
  cr_ChallengeExpiresAt :: "int option"
  cr_Nonce :: uint64
  cr_ApprovedSigValidators :: string
  cr_Status :: ChannelStatus
  cr_StateVersion :: uint64
  cr_CreatedAt :: int
  cr_UpdatedAt :: int

record AppSessionRow =
  asr_ID :: string
  asr_ApplicationID :: string
  asr_Nonce :: uint64
  asr_SessionData :: string
  asr_Quorum :: uint8
  asr_Version :: uint64
  asr_Status :: AppSessionStatus
  asr_CreatedAt :: int
  asr_UpdatedAt :: int

record AppParticipantRow =
  apr_AppSessionID :: string
  apr_WalletAddress :: string
  apr_SignatureWeight :: uint8

record 'd AppLedgerEntryV1 =
  le_AccountID :: string
  le_AssetSymbol :: string
  le_Wallet :: string
  le_Credit :: 'd
  le_Debit :: 'd

record ChannelSessionKeyRow =
  ckr_ID :: string
  ckr_UserAddress :: string
  ckr_SessionKey :: string
  ckr_Version :: uint64
  ckr_MetadataHash :: string
  ckr_ExpiresAt :: int
  ckr_UserSig :: string
  ckr_CreatedAt :: int

record AppSessionKeyRow =
  akr_ID :: string
  akr_UserAddress :: string
  akr_SessionKey :: string
  akr_Version :: uint64
  akr_ExpiresAt :: int
  akr_UserSig :: string
  akr_CreatedAt :: int

record AppRow =
  arw_ID :: string
  arw_OwnerWallet :: string
  arw_Metadata :: string
  arw_Version :: uint64
  arw_CreationApprovalNotRequired :: bool
  arw_CreatedAt :: int
  arw_UpdatedAt :: int

record ContractEvent =
  ce_ContractAddress :: string
  ce_BlockchainID :: uint64
  ce_Name :: string
  ce_BlockNumber :: uint64
  ce_TransactionHash :: string
  ce_LogIndex :: uint32

type_synonym BlockchainActionType = uint8
type_synonym BlockchainActionStatus = uint8

record BlockchainAction =
  ba_ID :: int
  ba_Type :: BlockchainActionType
  ba_StateID :: string
  ba_BlockchainID :: uint64
  ba_Status :: BlockchainActionStatus
  ba_Retries :: uint8
  ba_Error :: string
  ba_TxHash :: string
  ba_CreatedAt :: int

record 'd UserStakedV1 =
  us_UserWallet :: string
  us_BlockchainID :: uint64
  us_Amount :: 'd

record ActionLogEntryV1 =
  lg_UserWallet :: string
  lg_GatedAction :: uint8
  lg_CreatedAt :: int

section \<open>The database\<close>

record 'd db =
  states :: "'d StateRow list"
  channels :: "ChannelRow list"
  user_balances :: "'d UserBalance list"
  transactions :: "'d Transaction list"
  app_sessions :: "AppSessionRow list"
  app_participants :: "AppParticipantRow list"
  app_ledger :: "'d AppLedgerEntryV1 list"
  channel_keys :: "ChannelSessionKeyRow list"
  channel_key_assets :: "(string \<times> string) list"
  app_keys :: "AppSessionKeyRow list"
  app_key_applications :: "(string \<times> string) list"
  app_key_sessions :: "(string \<times> string) list"
  apps :: "AppRow list"
  contract_events :: "ContractEvent list"
  blockchain_actions :: "BlockchainAction list"
  user_staked :: "'d UserStakedV1 list"
  action_log :: "ActionLogEntryV1 list"
  node_balances :: "((uint64 \<times> string) \<times> 'd) list"

definition empty_db :: "'d db" where
  "empty_db = \<lparr> states = [], channels = [], user_balances = [], transactions = [], app_sessions = [],
     app_participants = [], app_ledger = [], channel_keys = [], channel_key_assets = [], app_keys = [],
     app_key_applications = [], app_key_sessions = [], apps = [], contract_events = [],
     blockchain_actions = [], user_staked = [], action_log = [], node_balances = [] \<rparr>"

text \<open>A store method that writes returns the new database; an error leaves the transaction to be rolled back.\<close>

type_synonym ('d, 'a) db_op = "'d db \<Rightarrow> ('a \<times> 'd db) result"

text \<open>Sequencing of store operations inside a transaction: a failing step ends the handler with its error.
  \<open>queryS\<close> runs a method that only reads, \<open>liftS\<close> a computation that does not touch the store, and
  \<open>forS\<close> is a loop that may return early with an error.\<close>

definition retS :: "'a \<Rightarrow> ('d, 'a) db_op" where
  "retS x db = Inr (x, db)"

definition failS :: "go_error \<Rightarrow> ('d, 'a) db_op" where
  "failS e db = Inl e"

definition bindS :: "('d, 'a) db_op \<Rightarrow> ('a \<Rightarrow> ('d, 'b) db_op) \<Rightarrow> ('d, 'b) db_op" where
  "bindS m f db = bindE (m db) (\<lambda>(x, db'). f x db')"

definition queryS :: "('d db \<Rightarrow> 'a result) \<Rightarrow> ('d, 'a) db_op" where
  "queryS q db = bindE (q db) (\<lambda>x. Inr (x, db))"

definition liftS :: "'a result \<Rightarrow> ('d, 'a) db_op" where
  "liftS r db = bindE r (\<lambda>x. Inr (x, db))"

definition rpcS :: "string \<Rightarrow> ('d, 'a) db_op \<Rightarrow> ('d, 'a) db_op" where
  "rpcS msg m db = rpcE msg (m db)"

definition guardS :: "bool \<Rightarrow> string \<Rightarrow> ('d, unit) db_op" where
  "guardS b msg db = (if b then Inr ((), db) else Inl (RPCError msg))"

fun forS :: "('a \<Rightarrow> 's \<Rightarrow> ('d, 's) db_op) \<Rightarrow> 'a list \<Rightarrow> 's \<Rightarrow> ('d, 's) db_op" where
  "forS f [] s = retS s"
| "forS f (x # xs) s = bindS (f x s) (forS f xs)"

lemma retS_eq [simp]: "retS x db = Inr (y, db') \<longleftrightarrow> y = x \<and> db' = db"
  by (auto simp: retS_def)

lemma failS_eq [simp]: "failS e db \<noteq> Inr r"
  by (simp add: failS_def)

lemma bindS_code [code_unfold]:
  "bindS m f = (\<lambda>db. case m db of Inl e \<Rightarrow> Inl e | Inr p \<Rightarrow> (case p of (x, db') \<Rightarrow> f x db'))"
  by (rule ext) (simp add: bindS_def bindE_def)

lemma bindS_eq [simp]: "bindS m f db = Inr (y, db'') \<longleftrightarrow> (\<exists>x db'. m db = Inr (x, db') \<and> f x db' = Inr (y, db''))"
  by (auto simp: bindS_def)

lemma queryS_eq [simp]: "queryS q db = Inr (x, db') \<longleftrightarrow> q db = Inr x \<and> db' = db"
  by (auto simp: queryS_def)

lemma liftS_eq [simp]: "liftS r db = Inr (x, db') \<longleftrightarrow> r = Inr x \<and> db' = db"
  by (auto simp: liftS_def)

lemma rpcS_eq [simp]: "rpcS msg m db = Inr r \<longleftrightarrow> m db = Inr r"
  by (simp add: rpcS_def)

lemma guardS_eq [simp]: "guardS b msg db = Inr (u, db') \<longleftrightarrow> b \<and> db' = db"
  by (auto simp: guardS_def)

definition duplicate_key :: go_error where
  "duplicate_key = Err ''duplicate key value violates unique constraint''"

text \<open>\<^verbatim>\<open>ExecuteInTransaction\<close>: the handler's changes are committed when it returns nil and discarded
  when it returns an error or panics. A handler already inside a transaction runs in it.\<close>

definition ExecuteInTransaction :: "bool \<Rightarrow> ('d, 'a) db_op \<Rightarrow> 'd db \<Rightarrow> 'a result \<times> 'd db" where
  "ExecuteInTransaction inTx handler db =
     (case handler db of Inl e \<Rightarrow> (Inl e, db) | Inr (x, db') \<Rightarrow> (Inr x, db'))"

section \<open>Queries\<close>

text \<open>\<^verbatim>\<open>ORDER BY ... LIMIT 1\<close>: the first row that no other row precedes.\<close>

fun first_by :: "('a \<Rightarrow> 'a \<Rightarrow> bool) \<Rightarrow> 'a list \<Rightarrow> 'a option" where
  "first_by wins [] = None"
| "first_by wins (x # xs) = (case first_by wins xs of
     None \<Rightarrow> Some x | Some y \<Rightarrow> if wins y x then Some y else Some x)"

definition order_desc :: "('a \<Rightarrow> int) \<Rightarrow> 'a list \<Rightarrow> 'a list" where
  "order_desc key xs = sort_key (\<lambda>x. - key x) xs"

definition order_asc :: "('a \<Rightarrow> int) \<Rightarrow> 'a list \<Rightarrow> 'a list" where
  "order_asc key xs = sort_key key xs"

definition paginated :: "uint32 \<Rightarrow> uint32 \<Rightarrow> 'a list \<Rightarrow> 'a list" where
  "paginated offset limit xs = take (unat limit) (drop (unat offset) xs)"

definition sumD :: "'d libs \<Rightarrow> 'd list \<Rightarrow> 'd" where
  "sumD L ds = foldr (dAdd L) ds (dZero L)"

definition update_where :: "('a \<Rightarrow> bool) \<Rightarrow> ('a \<Rightarrow> 'a) \<Rightarrow> 'a list \<Rightarrow> 'a list" where
  "update_where P f xs = map (\<lambda>x. if P x then f x else x) xs"

fun string_less :: "string \<Rightarrow> string \<Rightarrow> bool" where
  "string_less s [] = False"
| "string_less [] (d # t) = True"
| "string_less (c # s) (d # t) =
     (if (of_char c :: int) < of_char d then True else if (of_char d :: int) < of_char c then False else string_less s t)"

lemma first_by_None [simp]: "first_by R xs = None \<longleftrightarrow> xs = []"
  by (cases xs) (auto split: option.splits)

lemma first_by_in_set: "first_by R xs = Some x \<Longrightarrow> x \<in> set xs"
  by (induction xs arbitrary: x) (auto split: option.splits if_splits)

text \<open>When \<open>before\<close> orders the rows by a key, no row precedes the one returned.\<close>

lemma first_by_least:
  fixes key :: "'a \<Rightarrow> 'k :: linorder"
  assumes "first_by (\<lambda>a b. key a < key b) xs = Some x" and "y \<in> set xs"
  shows "key x \<le> key y"
  using assms
proof (induction xs arbitrary: x)
  case (Cons a xs)
  show ?case
  proof (cases "first_by (\<lambda>a b. key a < key b) xs")
    case None
    then show ?thesis using Cons by simp
  next
    case (Some z)
    have z: "y \<in> set xs \<Longrightarrow> key z \<le> key y" using Cons.IH [OF Some] .
    show ?thesis
    proof (cases "key z < key a")
      case True
      then show ?thesis using Cons.prems Some z by auto
    next
      case False
      then have "x = a" using Cons.prems(1) Some by simp
      then show ?thesis using Cons.prems(2) False z by (auto simp: not_less intro: order_trans)
    qed
  qed
qed simp

lemma filter_update_where:
  "(\<And>x. P x \<Longrightarrow> Q (f x) = Q x) \<Longrightarrow> filter Q (update_where P f xs) = update_where P f (filter Q xs)"
  by (induction xs) (auto simp: update_where_def)

lemma update_where_none: "(\<And>x. x \<in> set xs \<Longrightarrow> \<not> P x) \<Longrightarrow> update_where P f xs = xs"
  by (induction xs) (auto simp: update_where_def)

lemma ExecuteInTransaction_rollback:
  "fst (ExecuteInTransaction b h db) = Inl e \<Longrightarrow> snd (ExecuteInTransaction b h db) = db"
  by (auto simp: ExecuteInTransaction_def split: sum.splits)

context decimal_spec
begin

lemma val_sumD: "val (sumD L ds) = (\<Sum>d\<leftarrow>ds. val d)"
  by (induction ds) (simp_all add: sumD_def)

lemma val_sumD_append: "val (sumD L (xs @ ys)) = val (sumD L xs) + val (sumD L ys)"
  by (simp add: val_sumD)

end

end
