(* ===== verification/DB_State.thy ===== *)
theory DB_State
  imports Database
begin

text \<open>
  User states, balances and channels: \<^verbatim>\<open>state.go\<close>, \<^verbatim>\<open>channel.go\<close>, \<^verbatim>\<open>db_store.go\<close> and the conversions of
  \<^verbatim>\<open>utils.go\<close> in \<^verbatim>\<open>src/clearnode/store/database\<close>.
\<close>

section \<open>Conversions\<close>

definition databaseChannelToCore :: "ChannelRow \<Rightarrow> Channel" where
  "databaseChannelToCore r =
     \<lparr> ch_ChannelID = cr_ChannelID r, ch_UserWallet = cr_UserWallet r, ch_Asset = cr_Asset r, ch_Type = cr_Type r,
       ch_BlockchainID = cr_BlockchainID r, ch_TokenAddress = cr_Token r,
       ch_ChallengeDuration = cr_ChallengeDuration r, ch_ChallengeExpiresAt = cr_ChallengeExpiresAt r,
       ch_Nonce = cr_Nonce r, ch_ApprovedSigValidators = cr_ApprovedSigValidators r,
       ch_Status = cr_Status r, ch_StateVersion = cr_StateVersion r \<rparr>"

text \<open>The two optional pairs are the chain and token of the home and escrow channel that the
  \<^verbatim>\<open>LEFT JOIN\<close>s with the channels table contribute.\<close>

definition databaseStateToCore ::
  "'d StateRow \<Rightarrow> (uint64 \<times> string) option \<Rightarrow> (uint64 \<times> string) option \<Rightarrow> 'd State result" where
  "databaseStateToCore r home escrow =
     (let noCh = \<lparr> l_TokenAddress = '''', l_BlockchainID = 0, l_UserBalance = sr_HomeUserBalance r,
            l_UserNetFlow = sr_HomeUserNetFlow r, l_NodeBalance = sr_HomeNodeBalance r,
            l_NodeNetFlow = sr_HomeNodeNetFlow r \<rparr>;
          transition = \<lparr> t_Type = sr_TransitionType r, t_TxID = sr_TransitionTxID r,
            t_AccountID = sr_TransitionAccountID r, t_Amount = sr_TransitionAmount r \<rparr>
      in
      bindE (case sr_HomeChannelID r of
          None \<Rightarrow> Inr noCh
        | Some _ \<Rightarrow> (case home of
              None \<Rightarrow> Inl (Err ''home channel exists but blockchain ID or token address is missing'')
            | Some (b, t) \<Rightarrow> Inr (noCh \<lparr> l_BlockchainID := b, l_TokenAddress := t \<rparr>))) (\<lambda>homeLedger.
      bindE (case sr_EscrowChannelID r of
          None \<Rightarrow> Inr None
        | Some _ \<Rightarrow> (case escrow of
              None \<Rightarrow> Inl (Err ''escrow channel exists but blockchain ID or token address is missing'')
            | Some (b, t) \<Rightarrow> Inr (Some \<lparr> l_TokenAddress = t, l_BlockchainID = b,
                l_UserBalance = sr_EscrowUserBalance r, l_UserNetFlow = sr_EscrowUserNetFlow r,
                l_NodeBalance = sr_EscrowNodeBalance r, l_NodeNetFlow = sr_EscrowNodeNetFlow r \<rparr>))) (\<lambda>escrowLedger.
      Inr \<lparr> s_ID = sr_ID r, s_Transition = transition, s_Asset = sr_Asset r, s_UserWallet = sr_UserWallet r,
            s_Epoch = sr_Epoch r, s_Version = sr_Version r, s_HomeChannelID = sr_HomeChannelID r,
            s_EscrowChannelID = sr_EscrowChannelID r, s_HomeLedger = homeLedger, s_EscrowLedger = escrowLedger,
            s_UserSig = sr_UserSig r, s_NodeSig = sr_NodeSig r \<rparr>)))"

definition coreStateToDB :: "'d libs \<Rightarrow> 'd State \<Rightarrow> 'd StateRow" where
  "coreStateToDB L state =
     \<lparr> sr_ID = ToLower (s_ID state), sr_Asset = s_Asset state, sr_UserWallet = ToLower (s_UserWallet state),
       sr_Epoch = s_Epoch state, sr_Version = s_Version state,
       sr_TransitionType = t_Type (s_Transition state),
       sr_TransitionTxID = ToLower (t_TxID (s_Transition state)),
       sr_TransitionAccountID = ToLower (t_AccountID (s_Transition state)),
       sr_TransitionAmount = t_Amount (s_Transition state),
       sr_HomeChannelID = map_option ToLower (s_HomeChannelID state),
       sr_EscrowChannelID = map_option ToLower (s_EscrowChannelID state),
       sr_HomeUserBalance = l_UserBalance (s_HomeLedger state),
       sr_HomeUserNetFlow = l_UserNetFlow (s_HomeLedger state),
       sr_HomeNodeBalance = l_NodeBalance (s_HomeLedger state),
       sr_HomeNodeNetFlow = l_NodeNetFlow (s_HomeLedger state),
       sr_EscrowUserBalance = (case s_EscrowLedger state of None \<Rightarrow> dZero L | Some e \<Rightarrow> l_UserBalance e),
       sr_EscrowUserNetFlow = (case s_EscrowLedger state of None \<Rightarrow> dZero L | Some e \<Rightarrow> l_UserNetFlow e),
       sr_EscrowNodeBalance = (case s_EscrowLedger state of None \<Rightarrow> dZero L | Some e \<Rightarrow> l_NodeBalance e),
       sr_EscrowNodeNetFlow = (case s_EscrowLedger state of None \<Rightarrow> dZero L | Some e \<Rightarrow> l_NodeNetFlow e),
       sr_UserSig = s_UserSig state, sr_NodeSig = s_NodeSig state \<rparr>"

text \<open>\<^verbatim>\<open>calculatePaginationMetadata\<close> divides by the limit first, so a zero limit panics.
  \<^verbatim>\<open>int64\<close> arithmetic on a row count does not overflow.\<close>

definition calculatePaginationMetadata :: "int \<Rightarrow> uint32 \<Rightarrow> uint32 \<Rightarrow> PaginationMetadata result" where
  "calculatePaginationMetadata totalCount offset limit =
     (if limit = 0 then Inl (Panic ''integer divide by zero'')
      else
        let pageCount = of_int ((totalCount + uint limit - 1) div uint limit);
            currentPage = (if 0 < limit then offset div limit + 1 else 1)
        in Inr \<lparr> pm_Page = currentPage, pm_PerPage = limit, pm_TotalCount = of_int totalCount, pm_PageCount = pageCount \<rparr>)"

section \<open>Channels\<close>

definition CreateChannel :: "int \<Rightarrow> Channel \<Rightarrow> ('d, unit) db_op" where
  "CreateChannel now channel db =
     (let row = \<lparr> cr_ChannelID = ToLower (ch_ChannelID channel), cr_UserWallet = ToLower (ch_UserWallet channel),
            cr_Asset = ToLower (ch_Asset channel), cr_Type = ch_Type channel, cr_BlockchainID = ch_BlockchainID channel,
            cr_Token = ToLower (ch_TokenAddress channel), cr_ChallengeDuration = ch_ChallengeDuration channel,
            cr_ChallengeExpiresAt = ch_ChallengeExpiresAt channel, cr_Nonce = ch_Nonce channel,
            cr_ApprovedSigValidators = ch_ApprovedSigValidators channel, cr_Status = ch_Status channel,
            cr_StateVersion = ch_StateVersion channel, cr_CreatedAt = now, cr_UpdatedAt = now \<rparr>
      in if list_ex (\<lambda>r. cr_ChannelID r = cr_ChannelID row) (channels db)
         then Inl (Wrap ''failed to create channel'' duplicate_key)
         else Inr ((), db \<lparr> channels := channels db @ [row] \<rparr>))"

definition find_channel :: "'d db \<Rightarrow> string \<Rightarrow> ChannelRow option" where
  "find_channel db i = find (\<lambda>r. cr_ChannelID r = i) (channels db)"

definition GetChannelByID :: "'d db \<Rightarrow> string \<Rightarrow> Channel option result" where
  "GetChannelByID db channelID0 =
     (let l = ToLower channelID0; channelID = (if \<not> HasPrefix l ''0x'' then ''0x'' @ l else l)
      in Inr (map_option databaseChannelToCore (find_channel db channelID)))"

definition is_active_home :: "string \<Rightarrow> string \<Rightarrow> ChannelRow \<Rightarrow> bool" where
  "is_active_home wallet asset r \<longleftrightarrow>
     cr_UserWallet r = ToLower wallet \<and> cr_Asset r = ToLower asset \<and>
     cr_Status r \<le> ChannelStatusOpen \<and> cr_Type r = ChannelTypeHome"

text \<open>\<^verbatim>\<open>First\<close> orders by the primary key.\<close>

definition GetActiveHomeChannel :: "'d db \<Rightarrow> string \<Rightarrow> string \<Rightarrow> Channel option result" where
  "GetActiveHomeChannel db wallet asset =
     Inr (map_option databaseChannelToCore
       (first_by (\<lambda>a b. string_less (cr_ChannelID a) (cr_ChannelID b)) (filter (is_active_home wallet asset) (channels db))))"

definition CheckOpenChannel :: "'d db \<Rightarrow> string \<Rightarrow> string \<Rightarrow> (string \<times> bool) result" where
  "CheckOpenChannel db wallet asset =
     (case filter (is_active_home wallet asset) (channels db) of
        [] \<Rightarrow> Inr ('''', False)
      | r # _ \<Rightarrow> Inr (cr_ApprovedSigValidators r, True))"

definition GetUserChannels ::
  "'d db \<Rightarrow> string \<Rightarrow> ChannelStatus option \<Rightarrow> string option \<Rightarrow> ChannelType option \<Rightarrow> uint32 \<Rightarrow> uint32
   \<Rightarrow> (Channel list \<times> uint32) result" where
  "GetUserChannels db wallet status asset channelType limit offset =
     (let rows = filter (\<lambda>r. cr_UserWallet r = ToLower wallet
            \<and> (case status of None \<Rightarrow> True | Some s \<Rightarrow> cr_Status r = s)
            \<and> (case asset of None \<Rightarrow> True | Some a \<Rightarrow> a = '''' \<or> cr_Asset r = ToLower a)
            \<and> (case channelType of None \<Rightarrow> True | Some t \<Rightarrow> cr_Type r = t)) (channels db)
      in Inr (map databaseChannelToCore (paginated offset limit (order_desc cr_CreatedAt rows)), of_nat (length rows)))"

definition UpdateChannel :: "int \<Rightarrow> Channel \<Rightarrow> ('d, unit) db_op" where
  "UpdateChannel now channel db =
     Inr ((), db \<lparr> channels := update_where (\<lambda>r. cr_ChannelID r = ToLower (ch_ChannelID channel))
       (\<lambda>r. r \<lparr> cr_Status := ch_Status channel, cr_StateVersion := ch_StateVersion channel,
               cr_BlockchainID := ch_BlockchainID channel, cr_Token := ToLower (ch_TokenAddress channel),
               cr_Nonce := ch_Nonce channel, cr_ChallengeExpiresAt := ch_ChallengeExpiresAt channel,
               cr_UpdatedAt := now \<rparr>) (channels db) \<rparr>)"

section \<open>States\<close>

definition join_channel :: "'d db \<Rightarrow> string option \<Rightarrow> (uint64 \<times> string) option" where
  "join_channel db cid = (case cid of None \<Rightarrow> None
     | Some i \<Rightarrow> map_option (\<lambda>r. (cr_BlockchainID r, cr_Token r)) (find_channel db i))"

definition load_state :: "'d db \<Rightarrow> 'd StateRow \<Rightarrow> 'd State result" where
  "load_state db r = databaseStateToCore r (join_channel db (sr_HomeChannelID r)) (join_channel db (sr_EscrowChannelID r))"

definition load_opt :: "'d db \<Rightarrow> 'd StateRow option \<Rightarrow> 'd State option result" where
  "load_opt db r = (case r of None \<Rightarrow> Inr None | Some row \<Rightarrow> mapE Some (load_state db row))"

text \<open>\<^verbatim>\<open>ORDER BY epoch DESC, version DESC\<close>\<close>

definition newer :: "'d StateRow \<Rightarrow> 'd StateRow \<Rightarrow> bool" where
  "newer a b \<longleftrightarrow> sr_Epoch b < sr_Epoch a \<or> (sr_Epoch a = sr_Epoch b \<and> sr_Version b < sr_Version a)"

definition is_signed :: "'d StateRow \<Rightarrow> bool" where
  "is_signed r \<longleftrightarrow> sr_UserSig r \<noteq> None \<and> sr_NodeSig r \<noteq> None"

definition GetStateByID :: "'d db \<Rightarrow> string \<Rightarrow> 'd State option result" where
  "GetStateByID db stateID = load_opt db (find (\<lambda>r. sr_ID r = ToLower stateID) (states db))"

definition last_user_row :: "'d db \<Rightarrow> string \<Rightarrow> string \<Rightarrow> bool \<Rightarrow> 'd StateRow option" where
  "last_user_row db wallet asset signedOnly =
     first_by newer (filter (\<lambda>r. sr_UserWallet r = ToLower wallet \<and> sr_Asset r = asset \<and> (signedOnly \<longrightarrow> is_signed r)) (states db))"

definition GetLastUserState :: "'d db \<Rightarrow> string \<Rightarrow> string \<Rightarrow> bool \<Rightarrow> 'd State option result" where
  "GetLastUserState db wallet asset signedOnly = load_opt db (last_user_row db wallet asset signedOnly)"

definition StoreUserState :: "'d libs \<Rightarrow> 'd State \<Rightarrow> ('d, unit) db_op" where
  "StoreUserState L state db =
     (let row = coreStateToDB L state;
          wallet = ToLower (s_UserWallet state);
          balance = sr_HomeUserBalance row
      in if list_ex (\<lambda>r. sr_ID r = sr_ID row \<or>
              (sr_UserWallet r = sr_UserWallet row \<and> sr_Asset r = sr_Asset row \<and>
               sr_Epoch r = sr_Epoch row \<and> sr_Version r = sr_Version row)) (states db)
         then Inl (Wrap ''failed to store user state'' duplicate_key)
         else Inr ((), db \<lparr> states := states db @ [row],
                user_balances := update_where (\<lambda>b. ub_UserWallet b = wallet \<and> ub_Asset b = s_Asset state)
                  (\<lambda>b. b \<lparr> ub_Balance := balance, ub_HomeBlockchainID := l_BlockchainID (s_HomeLedger state) \<rparr>)
                  (user_balances db) \<rparr>))"

text \<open>Each branch of the \<^verbatim>\<open>UNION ALL\<close> yields its best row; the outer ordering picks between them.
  An empty result is recognised by an empty ID.\<close>

definition GetLastStateByChannelID :: "'d db \<Rightarrow> string \<Rightarrow> bool \<Rightarrow> 'd State option result" where
  "GetLastStateByChannelID db channelID0 signedOnly =
     (let channelID = ToLower channelID0;
          branch = (\<lambda>col. case first_by newer (filter (\<lambda>r. col r = Some channelID \<and> (signedOnly \<longrightarrow> is_signed r)) (states db)) of
                      None \<Rightarrow> [] | Some r \<Rightarrow> [r])
      in case first_by newer (branch sr_HomeChannelID @ branch sr_EscrowChannelID) of
           None \<Rightarrow> Inr None
         | Some r \<Rightarrow> if sr_ID r = '''' then Inr None else mapE Some (load_state db r))"

definition GetStateByChannelIDAndVersion :: "'d db \<Rightarrow> string \<Rightarrow> uint64 \<Rightarrow> 'd State option result" where
  "GetStateByChannelIDAndVersion db channelID0 version =
     (let channelID = ToLower channelID0;
          branch = (\<lambda>col. take 1 (filter (\<lambda>r. col r = Some channelID \<and> sr_Version r = version) (states db)))
      in case branch sr_HomeChannelID @ branch sr_EscrowChannelID of
           [] \<Rightarrow> Inr None
         | r # _ \<Rightarrow> if sr_ID r = '''' then Inr None else mapE Some (load_state db r))"

section \<open>User balances\<close>

definition GetUserBalances :: "'d db \<Rightarrow> string \<Rightarrow> 'd BalanceEntry list result" where
  "GetUserBalances db wallet =
     Inr (map (\<lambda>b. \<lparr> be_Asset = ub_Asset b, be_Balance = ub_Balance b, be_Enforced = ub_Enforced b \<rparr>)
       (filter (\<lambda>b. ub_UserWallet b = ToLower wallet) (user_balances db)))"

text \<open>The correlated subquery: the home balance recorded for the on-chain version of the user's most
  recently updated home channel that is not challenged or closed.\<close>

definition enforced_balance :: "'d libs \<Rightarrow> 'd db \<Rightarrow> 'd UserBalance \<Rightarrow> 'd" where
  "enforced_balance L db b =
     (let pairs = concat (map (\<lambda>c. map (\<lambda>s. (c, s))
            (filter (\<lambda>s. sr_HomeChannelID s = Some (cr_ChannelID c) \<and> sr_Version s = cr_StateVersion c) (states db)))
          (filter (\<lambda>c. cr_UserWallet c = ub_UserWallet b \<and> cr_Asset c = ub_Asset b \<and> cr_Type c = 1 \<and>
                       cr_Status c \<le> 1 \<and> 0 < cr_StateVersion c) (channels db)))
      in case first_by (\<lambda>p q. cr_UpdatedAt (fst q) < cr_UpdatedAt (fst p)) pairs of
           None \<Rightarrow> dZero L | Some (c, s) \<Rightarrow> sr_HomeUserBalance s)"

definition RefreshUserEnforcedBalance :: "'d libs \<Rightarrow> string \<Rightarrow> string \<Rightarrow> ('d, unit) db_op" where
  "RefreshUserEnforcedBalance L wallet asset db =
     Inr ((), db \<lparr> user_balances := update_where
       (\<lambda>b. ub_UserWallet b = ToLower wallet \<and> ub_Asset b = ToLower asset)
       (\<lambda>b. b \<lparr> ub_Enforced := enforced_balance L db b \<rparr>) (user_balances db) \<rparr>)"

text \<open>The row lock itself has no effect on a single transaction; the row is created when absent.\<close>

definition LockUserState :: "'d libs \<Rightarrow> string \<Rightarrow> string \<Rightarrow> ('d, 'd) db_op" where
  "LockUserState L wallet0 asset db =
     (let wallet = ToLower wallet0 in
      case find (\<lambda>b. ub_UserWallet b = wallet \<and> ub_Asset b = asset) (user_balances db) of
        Some b \<Rightarrow> Inr (ub_Balance b, db)
      | None \<Rightarrow> Inr (dZero L, db \<lparr> user_balances := user_balances db @
          [\<lparr> ub_UserWallet = wallet, ub_Asset = asset, ub_Balance = dZero L, ub_Enforced = dZero L,
             ub_HomeBlockchainID = 0 \<rparr>] \<rparr>))"

definition EnsureNoOngoingStateTransitions :: "'d db \<Rightarrow> string \<Rightarrow> string \<Rightarrow> unit result" where
  "EnsureNoOngoingStateTransitions db wallet asset =
     (case last_user_row db wallet asset True of
        None \<Rightarrow> Inr ()
      | Some r \<Rightarrow>
          let chan_version = (\<lambda>cid. map_option cr_StateVersion (Option.bind cid (find_channel db)));
              behind = (\<lambda>v. case v of None \<Rightarrow> False | Some n \<Rightarrow> sr_Version r \<noteq> n);
              home = chan_version (sr_HomeChannelID r);
              escrow = chan_version (sr_EscrowChannelID r);
              ty = sr_TransitionType r
          in
          if ty = TransitionTypeHomeDeposit \<and> behind home then Inl (Err ''home deposit is still ongoing'')
          else if ty = TransitionTypeHomeWithdrawal \<and> behind home then Inl (Err ''home withdrawal is still ongoing'')
          else if ty = TransitionTypeMutualLock \<and> (behind home \<or> behind escrow) then Inl (Err ''mutual lock is still ongoing'')
          else if ty = TransitionTypeEscrowLock \<and> behind escrow then Inl (Err ''escrow lock is still ongoing'')
          else if ty = TransitionTypeEscrowWithdraw \<and> behind escrow then Inl (Err ''escrow withdrawal is still ongoing'')
          else if ty = TransitionTypeMigrate \<and> behind home then Inl (Err ''home chain migration is still ongoing'')
          else Inr ())"

end
