(* ===== verification/DB_Actions.thy ===== *)
theory DB_Actions
  imports DB_State
begin

text \<open>
  Blockchain actions, contract events, staked amounts and the log of gated actions:
  \<^verbatim>\<open>blockchain_action.go\<close>, \<^verbatim>\<open>contract_event.go\<close>, \<^verbatim>\<open>user_staked.go\<close> and \<^verbatim>\<open>action_log.go\<close> in
  \<^verbatim>\<open>src/clearnode/store/database\<close>.
\<close>

section \<open>Blockchain actions\<close>

abbreviation (input) ActionTypeCheckpoint :: BlockchainActionType where "ActionTypeCheckpoint \<equiv> 1"
abbreviation (input) ActionTypeInitiateEscrowDeposit :: BlockchainActionType where "ActionTypeInitiateEscrowDeposit \<equiv> 10"
abbreviation (input) ActionTypeFinalizeEscrowDeposit :: BlockchainActionType where "ActionTypeFinalizeEscrowDeposit \<equiv> 11"
abbreviation (input) ActionTypeInitiateEscrowWithdrawal :: BlockchainActionType where "ActionTypeInitiateEscrowWithdrawal \<equiv> 20"
abbreviation (input) ActionTypeFinalizeEscrowWithdrawal :: BlockchainActionType where "ActionTypeFinalizeEscrowWithdrawal \<equiv> 21"

definition BlockchainActionType_String :: "BlockchainActionType \<Rightarrow> string" where
  "BlockchainActionType_String t =
     (if t = ActionTypeCheckpoint then ''checkpoint''
      else if t = ActionTypeInitiateEscrowDeposit then ''initiate_escrow_deposit''
      else if t = ActionTypeFinalizeEscrowDeposit then ''finalize_escrow_deposit''
      else if t = ActionTypeInitiateEscrowWithdrawal then ''initiate_escrow_withdrawal''
      else if t = ActionTypeFinalizeEscrowWithdrawal then ''finalize_escrow_withdrawal''
      else ''unknown('' @ show_nat (unat t) @ '')'')"

abbreviation (input) BlockchainActionStatusPending :: BlockchainActionStatus where "BlockchainActionStatusPending \<equiv> 0"
abbreviation (input) BlockchainActionStatusCompleted :: BlockchainActionStatus where "BlockchainActionStatusCompleted \<equiv> 1"
abbreviation (input) BlockchainActionStatusFailed :: BlockchainActionStatus where "BlockchainActionStatusFailed \<equiv> 2"

text \<open>The primary key is a sequence; actions are never deleted, so the next value is one more than the
  number of rows. The state must exist (foreign key).\<close>

definition scheduleStateEnforcement :: "int \<Rightarrow> string \<Rightarrow> uint64 \<Rightarrow> BlockchainActionType \<Rightarrow> ('d, unit) db_op" where
  "scheduleStateEnforcement now stateID blockchainID actionType db =
     (if \<not> list_ex (\<lambda>r. sr_ID r = stateID) (states db)
      then Inl (Err ''insert violates foreign key constraint'')
      else Inr ((), db \<lparr> blockchain_actions := blockchain_actions db @
        [\<lparr> ba_ID = int (length (blockchain_actions db)) + 1, ba_Type = actionType, ba_StateID = stateID,
           ba_BlockchainID = blockchainID, ba_Status = BlockchainActionStatusPending, ba_Retries = 0,
           ba_Error = '''', ba_TxHash = '''', ba_CreatedAt = now \<rparr>] \<rparr>))"

definition ScheduleCheckpoint :: "int \<Rightarrow> string \<Rightarrow> uint64 \<Rightarrow> ('d, unit) db_op" where
  "ScheduleCheckpoint now stateID blockchainID = scheduleStateEnforcement now stateID blockchainID ActionTypeCheckpoint"

definition ScheduleInitiateEscrowDeposit :: "int \<Rightarrow> string \<Rightarrow> uint64 \<Rightarrow> ('d, unit) db_op" where
  "ScheduleInitiateEscrowDeposit now stateID blockchainID = scheduleStateEnforcement now stateID blockchainID ActionTypeInitiateEscrowDeposit"

definition ScheduleInitiateEscrowWithdrawal :: "int \<Rightarrow> string \<Rightarrow> uint64 \<Rightarrow> ('d, unit) db_op" where
  "ScheduleInitiateEscrowWithdrawal now stateID blockchainID = scheduleStateEnforcement now stateID blockchainID ActionTypeInitiateEscrowWithdrawal"

definition ScheduleFinalizeEscrowDeposit :: "int \<Rightarrow> string \<Rightarrow> uint64 \<Rightarrow> ('d, unit) db_op" where
  "ScheduleFinalizeEscrowDeposit now stateID blockchainID = scheduleStateEnforcement now stateID blockchainID ActionTypeFinalizeEscrowDeposit"

definition ScheduleFinalizeEscrowWithdrawal :: "int \<Rightarrow> string \<Rightarrow> uint64 \<Rightarrow> ('d, unit) db_op" where
  "ScheduleFinalizeEscrowWithdrawal now stateID blockchainID = scheduleStateEnforcement now stateID blockchainID ActionTypeFinalizeEscrowWithdrawal"

definition updateAction ::
  "int \<Rightarrow> BlockchainActionStatus \<Rightarrow> string \<Rightarrow> string \<Rightarrow> bool \<Rightarrow> ('d, unit) db_op" where
  "updateAction actionID status txHash err increaseRetryCounter db =
     Inr ((), db \<lparr> blockchain_actions := update_where (\<lambda>a. ba_ID a = actionID)
       (\<lambda>a. a \<lparr> ba_Status := status, ba_Error := err,
               ba_TxHash := (if txHash \<noteq> '''' then txHash else ba_TxHash a),
               ba_Retries := (if increaseRetryCounter then ba_Retries a + 1 else ba_Retries a) \<rparr>)
       (blockchain_actions db) \<rparr>)"

definition Action_Fail :: "int \<Rightarrow> string \<Rightarrow> ('d, unit) db_op" where
  "Action_Fail actionID err = updateAction actionID BlockchainActionStatusFailed '''' err True"

definition Action_FailNoRetry :: "int \<Rightarrow> string \<Rightarrow> ('d, unit) db_op" where
  "Action_FailNoRetry actionID err = updateAction actionID BlockchainActionStatusFailed '''' err False"

definition Action_RecordAttempt :: "int \<Rightarrow> string \<Rightarrow> ('d, unit) db_op" where
  "Action_RecordAttempt actionID err = updateAction actionID BlockchainActionStatusPending '''' err True"

definition Action_Complete :: "int \<Rightarrow> string \<Rightarrow> ('d, unit) db_op" where
  "Action_Complete actionID txHash = updateAction actionID BlockchainActionStatusCompleted txHash '''' False"

definition GetActions :: "'d db \<Rightarrow> uint8 \<Rightarrow> uint64 \<Rightarrow> BlockchainAction list result" where
  "GetActions db limit blockchainID =
     (let rows = order_asc ba_CreatedAt (filter (\<lambda>a. ba_Status a = BlockchainActionStatusPending \<and>
            ba_BlockchainID a = blockchainID) (blockchain_actions db))
      in Inr (if 0 < limit then take (unat limit) rows else rows))"

section \<open>Contract events\<close>

record BlockchainEvent =
  bev_ContractAddress :: string
  bev_BlockchainID :: uint64
  bev_Name :: string
  bev_BlockNumber :: uint64
  bev_TransactionHash :: string
  bev_LogIndex :: uint32

definition StoreContractEvent :: "BlockchainEvent \<Rightarrow> ('d, unit) db_op" where
  "StoreContractEvent ev db =
     (let row = \<lparr> ce_ContractAddress = ToLower (bev_ContractAddress ev), ce_BlockchainID = bev_BlockchainID ev,
            ce_Name = bev_Name ev, ce_BlockNumber = bev_BlockNumber ev,
            ce_TransactionHash = ToLower (bev_TransactionHash ev), ce_LogIndex = bev_LogIndex ev \<rparr>
      in if list_ex (\<lambda>r. ce_TransactionHash r = ce_TransactionHash row \<and> ce_LogIndex r = ce_LogIndex row \<and>
              ce_BlockchainID r = ce_BlockchainID row) (contract_events db)
         then Inl duplicate_key
         else Inr ((), db \<lparr> contract_events := contract_events db @ [row] \<rparr>))"

definition GetLatestContractEventBlockNumber :: "'d db \<Rightarrow> string \<Rightarrow> uint64 \<Rightarrow> uint64 result" where
  "GetLatestContractEventBlockNumber db contractAddress blockchainID =
     Inr (fold max (map ce_BlockNumber (filter (\<lambda>r. ce_BlockchainID r = blockchainID \<and>
       ce_ContractAddress r = ToLower contractAddress) (contract_events db))) 0)"

definition IsContractEventPresent :: "'d db \<Rightarrow> uint64 \<Rightarrow> uint64 \<Rightarrow> string \<Rightarrow> uint32 \<Rightarrow> bool result" where
  "IsContractEventPresent db blockchainID blockNumber txHash logIndex =
     Inr (list_ex (\<lambda>r. ce_BlockchainID r = blockchainID \<and> ce_BlockNumber r = blockNumber \<and>
       ce_TransactionHash r = ToLower txHash \<and> ce_LogIndex r = logIndex) (contract_events db))"

section \<open>Staked amounts\<close>

definition UpdateUserStaked :: "'d libs \<Rightarrow> string \<Rightarrow> uint64 \<Rightarrow> 'd \<Rightarrow> ('d, unit) db_op" where
  "UpdateUserStaked L wallet0 blockchainID amount db =
     (let wallet = ToLower wallet0;
          mine = (\<lambda>u. us_UserWallet u = wallet \<and> us_BlockchainID u = blockchainID)
      in if wallet = '''' then Inl (Err ''wallet address must not be empty'')
         else if blockchainID = 0 then Inl (Err ''blockchain ID must not be zero'')
         else if dIsNegative L amount then Inl (Err ''staked amount must not be negative'')
         else if list_ex mine (user_staked db)
         then Inr ((), db \<lparr> user_staked := update_where mine (\<lambda>u. u \<lparr> us_Amount := amount \<rparr>) (user_staked db) \<rparr>)
         else Inr ((), db \<lparr> user_staked := user_staked db @
                [\<lparr> us_UserWallet = wallet, us_BlockchainID = blockchainID, us_Amount = amount \<rparr>] \<rparr>))"

definition GetTotalUserStaked :: "'d libs \<Rightarrow> 'd db \<Rightarrow> string \<Rightarrow> 'd result" where
  "GetTotalUserStaked L db wallet =
     Inr (sumD L (map us_Amount (filter (\<lambda>u. us_UserWallet u = ToLower wallet) (user_staked db))))"

section \<open>The log of gated actions\<close>

definition RecordAction :: "int \<Rightarrow> string \<Rightarrow> GatedAction \<Rightarrow> ('d, unit) db_op" where
  "RecordAction now wallet gatedAction db =
     (if GatedAction_ID gatedAction = 0 then Inl (Err ''invalid gated action ID'')
      else Inr ((), db \<lparr> action_log := action_log db @
        [\<lparr> lg_UserWallet = ToLower wallet, lg_GatedAction = GatedAction_ID gatedAction, lg_CreatedAt = now \<rparr>] \<rparr>))"

definition GetUserActionCount :: "int \<Rightarrow> 'd db \<Rightarrow> string \<Rightarrow> GatedAction \<Rightarrow> int \<Rightarrow> uint64 result" where
  "GetUserActionCount now db wallet gatedAction window =
     (let since = now - window
      in Inr (of_nat (length (filter (\<lambda>e. lg_UserWallet e = ToLower wallet \<and>
           lg_GatedAction e = GatedAction_ID gatedAction \<and> since \<le> lg_CreatedAt e) (action_log db)))))"

definition GetUserActionCounts :: "int \<Rightarrow> 'd db \<Rightarrow> string \<Rightarrow> int \<Rightarrow> (GatedAction, uint64) gomap result" where
  "GetUserActionCounts now db userWallet window =
     (let rows = filter (\<lambda>e. lg_UserWallet e = ToLower userWallet \<and> now - window \<le> lg_CreatedAt e) (action_log db);
          groups = remdups (map lg_GatedAction rows)
      in Inr (foldl (\<lambda>m g. case GatedActionFromID g of
             (action, ok) \<Rightarrow> if \<not> ok then m
               else gm_put action (of_nat (length (filter (\<lambda>e. lg_GatedAction e = g) rows))) m) [] groups))"

section \<open>Node balances\<close>

text \<open>\<^verbatim>\<open>SetNodeBalance\<close> of \<^verbatim>\<open>lifespan_metric.go\<close>: an upsert keyed by chain and asset (the row's primary key
  is a hash of the two).\<close>

definition SetNodeBalance :: "uint64 \<Rightarrow> string \<Rightarrow> 'd \<Rightarrow> ('d, unit) db_op" where
  "SetNodeBalance blockchainID asset value db =
     Inr ((), db \<lparr> node_balances := gm_put (blockchainID, asset) value (node_balances db) \<rparr>)"

end
