(* ===== verification/Blockchain_Worker.thy ===== *)
theory Blockchain_Worker
  imports DB_Actions DB_State
begin

text \<open>
  \<^verbatim>\<open>src/clearnode/blockchain_worker.go\<close>: the worker that submits scheduled blockchain actions. The
  blockchain client is a parameter; a transaction either has a hash or fails. \<open>alive\<close> is the state of the
  context when an action is about to be processed. The ticker, goroutines and logging are left out: one
  tick is \<open>drain\<close>.
\<close>

abbreviation (input) actionBatchSize :: uint8 where "actionBatchSize \<equiv> 20"
abbreviation (input) maxActionRetries :: uint8 where "maxActionRetries \<equiv> 5"

definition run_op :: "('d, unit) db_op \<Rightarrow> 'd db \<Rightarrow> bool \<times> 'd db" where
  "run_op op db = (case op db of Inl _ \<Rightarrow> (False, db) | Inr (_, db') \<Rightarrow> (True, db'))"

definition handleActionError :: "BlockchainAction \<Rightarrow> string \<Rightarrow> 'd db \<Rightarrow> 'd db" where
  "handleActionError action err db =
     (if maxActionRetries \<le> ba_Retries action
      then snd (run_op (Action_FailNoRetry (ba_ID action) (''failed after retries: '' @ err)) db)
      else snd (run_op (Action_RecordAttempt (ba_ID action) err) db))"

definition processAction :: "('d State \<Rightarrow> string result) \<Rightarrow> BlockchainAction \<Rightarrow> 'd db \<Rightarrow> bool \<times> 'd db" where
  "processAction checkpoint action db =
     (case GetStateByID db (ba_StateID action) of
        Inl e \<Rightarrow> (False, snd (run_op (Action_FailNoRetry (ba_ID action) ''failed to get state'') db))
      | Inr None \<Rightarrow> (False, snd (run_op (Action_FailNoRetry (ba_ID action) ''state not found'') db))
      | Inr (Some state) \<Rightarrow>
          (case (if ba_Type action = ActionTypeCheckpoint then checkpoint state else Inl (Err ''unknown action type'')) of
             Inl e \<Rightarrow> (False, handleActionError action ''action failed'' db)
           | Inr txHash \<Rightarrow> run_op (Action_Complete (ba_ID action) txHash) db))"

fun processBatch :: "('d State \<Rightarrow> string result) \<Rightarrow> (BlockchainAction \<Rightarrow> bool) \<Rightarrow> BlockchainAction list \<Rightarrow> 'd db \<Rightarrow> bool \<times> 'd db" where
  "processBatch checkpoint alive [] db = (True, db)"
| "processBatch checkpoint alive (a # as) db =
     (if \<not> alive a then (False, db)
      else let (ok, db1) = processAction checkpoint a db; (rest, db2) = processBatch checkpoint alive as db1
           in (ok \<and> rest, db2))"

definition processActions :: "('d State \<Rightarrow> string result) \<Rightarrow> (BlockchainAction \<Rightarrow> bool) \<Rightarrow> uint64 \<Rightarrow> 'd db \<Rightarrow> bool \<times> 'd db" where
  "processActions checkpoint alive blockchainID db =
     (case GetActions db actionBatchSize blockchainID of
        Inl e \<Rightarrow> (False, db)
      | Inr actions \<Rightarrow> if actions = [] then (False, db) else processBatch checkpoint alive actions db)"

text \<open>One tick of the worker: batches are processed until one is empty, cancelled or not entirely
  successful. The blockchain may answer differently in every round \<open>n\<close>; \<open>None\<close> is a loop that never ends.\<close>

partial_function (option) drain ::
  "(nat \<Rightarrow> 'd State \<Rightarrow> string result) \<Rightarrow> (nat \<Rightarrow> BlockchainAction \<Rightarrow> bool) \<Rightarrow> uint64 \<Rightarrow> nat \<Rightarrow> 'd db \<Rightarrow> 'd db option" where
  "drain checkpoint alive blockchainID n db =
     (case processActions (checkpoint n) (alive n) blockchainID db of
        (again, db') \<Rightarrow> if again then drain checkpoint alive blockchainID (Suc n) db' else Some db')"

end
