(* ===== verification/Worker_Properties.thy ===== *)
theory Worker_Properties
  imports Blockchain_Worker
begin

text \<open>
  The queue of blockchain actions and its worker: a tick of the worker ends, retries are bounded, settled
  actions are never touched again, and a live worker settles every action.
\<close>

section \<open>The queue\<close>

definition pending :: "uint64 \<Rightarrow> BlockchainAction \<Rightarrow> bool" where
  "pending chain a \<longleftrightarrow> ba_Status a = BlockchainActionStatusPending \<and> ba_BlockchainID a = chain"

text \<open>Identifiers are unique and no action was retried more than five times.\<close>

definition actions_ok :: "BlockchainAction list \<Rightarrow> bool" where
  "actions_ok as \<longleftrightarrow> distinct (map ba_ID as) \<and> (\<forall>a \<in> set as. ba_Retries a \<le> maxActionRetries)"

text \<open>The attempts an action has left, and the attempts left in the queue of a chain.\<close>

definition attempts_left :: "uint64 \<Rightarrow> BlockchainAction \<Rightarrow> nat" where
  "attempts_left chain a = (if pending chain a then 6 - unat (ba_Retries a) else 0)"

definition work_left :: "uint64 \<Rightarrow> BlockchainAction list \<Rightarrow> nat" where
  "work_left chain as = sum_list (map (attempts_left chain) as)"

lemma GetActions_iff:
  "GetActions db actionBatchSize chain = Inr as \<longleftrightarrow>
     as = take 20 (order_asc ba_CreatedAt (filter (pending chain) (blockchain_actions db)))"
proof -
  have "(\<lambda>a. ba_Status a = BlockchainActionStatusPending \<and> ba_BlockchainID a = chain) = pending chain"
    by (simp add: pending_def fun_eq_iff)
  then show ?thesis by (auto simp: GetActions_def Let_def)
qed

lemma GetActions_set: "GetActions db actionBatchSize chain = Inr as \<Longrightarrow> a \<in> set as \<Longrightarrow> a \<in> set (blockchain_actions db) \<and> pending chain a"
  by (auto simp: GetActions_iff order_asc_def dest: in_set_takeD)

lemma GetActions_empty:
  "GetActions db actionBatchSize chain = Inr [] \<longleftrightarrow> (\<forall>a \<in> set (blockchain_actions db). \<not> pending chain a)"
proof -
  have "GetActions db actionBatchSize chain = Inr [] \<longleftrightarrow> order_asc ba_CreatedAt (filter (pending chain) (blockchain_actions db)) = []"
    unfolding GetActions_iff by (metis take_eq_Nil zero_neq_numeral)
  also have "\<dots> \<longleftrightarrow> set (order_asc ba_CreatedAt (filter (pending chain) (blockchain_actions db))) = {}"
    by (simp only: set_empty)
  finally show ?thesis by (auto simp: order_asc_def)
qed

lemma GetActions_distinct:
  assumes "distinct (map ba_ID (blockchain_actions db))" and "GetActions db actionBatchSize chain = Inr as"
  shows "distinct (map ba_ID as)"
proof -
  let ?q = "order_asc ba_CreatedAt (filter (pending chain) (blockchain_actions db))"
  have "distinct (map ba_ID (filter (pending chain) (blockchain_actions db)))"
    using assms(1) distinct_map_filter by blast
  then have "distinct (map ba_ID ?q)" by (simp add: order_asc_def distinct_map)
  then show ?thesis using assms(2) by (simp add: GetActions_iff distinct_take flip: take_map)
qed

section \<open>One action\<close>

text \<open>How processing changes the action itself: completed, failed, or pending with one more retry while
  fewer than five were made.\<close>

definition settles :: "BlockchainAction \<Rightarrow> (BlockchainAction \<Rightarrow> BlockchainAction) \<Rightarrow> bool" where
  "settles a f \<longleftrightarrow> (\<forall>x. ba_ID (f x) = ba_ID x \<and> ba_BlockchainID (f x) = ba_BlockchainID x) \<and>
     ((\<forall>x. ba_Status (f x) \<noteq> BlockchainActionStatusPending \<and> ba_Retries (f x) = ba_Retries x) \<or>
      ba_Retries a < maxActionRetries \<and> (\<forall>x. ba_Retries (f x) = ba_Retries x + 1))"

definition mark :: "BlockchainActionStatus \<Rightarrow> string \<Rightarrow> string \<Rightarrow> bool \<Rightarrow> BlockchainAction \<Rightarrow> BlockchainAction" where
  "mark st tx err r x = x \<lparr> ba_Status := st, ba_Error := err, ba_TxHash := (if tx \<noteq> '''' then tx else ba_TxHash x),
     ba_Retries := (if r then ba_Retries x + 1 else ba_Retries x) \<rparr>"

definition set_action :: "BlockchainAction \<Rightarrow> (BlockchainAction \<Rightarrow> BlockchainAction) \<Rightarrow> 'd db \<Rightarrow> 'd db" where
  "set_action a f db = db \<lparr> blockchain_actions := update_where (\<lambda>x. ba_ID x = ba_ID a) f (blockchain_actions db) \<rparr>"

lemma run_update [simp]:
  "run_op (Action_FailNoRetry (ba_ID a) err) db = (True, set_action a (mark BlockchainActionStatusFailed '''' err False) db)"
  "run_op (Action_RecordAttempt (ba_ID a) err) db = (True, set_action a (mark BlockchainActionStatusPending '''' err True) db)"
  "run_op (Action_Complete (ba_ID a) tx) db = (True, set_action a (mark BlockchainActionStatusCompleted tx '''' False) db)"
  by (simp_all add: run_op_def Action_FailNoRetry_def Action_RecordAttempt_def Action_Complete_def updateAction_def
      set_action_def mark_def [abs_def])

lemma processAction_updates:
  assumes "processAction checkpoint a db = (ok, db')"
  shows "\<exists>f. db' = db \<lparr> blockchain_actions := update_where (\<lambda>x. ba_ID x = ba_ID a) f (blockchain_actions db) \<rparr> \<and>
     settles a f \<and> (ok \<longrightarrow> (\<forall>x. ba_Status (f x) = BlockchainActionStatusCompleted))"
proof -
  have "(\<exists>err. \<not> ok \<and> db' = set_action a (mark BlockchainActionStatusFailed '''' err False) db) \<or>
      (\<exists>err. \<not> ok \<and> ba_Retries a < maxActionRetries \<and> db' = set_action a (mark BlockchainActionStatusPending '''' err True) db) \<or>
      (\<exists>tx. db' = set_action a (mark BlockchainActionStatusCompleted tx '''' False) db)"
    using assms unfolding processAction_def handleActionError_def
    by (cases "GetStateByID db (ba_StateID a)") (auto simp: not_le split: sum.splits option.splits if_splits)
  then obtain st tx err r where "db' = set_action a (mark st tx err r) db"
    "r = (st = BlockchainActionStatusPending)" "r \<longrightarrow> ba_Retries a < maxActionRetries" "ok \<longrightarrow> st = BlockchainActionStatusCompleted"
    by fastforce
  then show ?thesis unfolding set_action_def by (intro exI [of _ "mark st tx err r"]) (auto simp: settles_def mark_def)
qed

lemma update_where_ids [simp]:
  "(\<And>x. ba_ID (f x) = ba_ID x) \<Longrightarrow> map ba_ID (update_where P f as) = map ba_ID as"
  by (induction as) (simp_all add: update_where_def)

lemma filter_update_false:
  "(\<And>x. \<not> Q (f x)) \<Longrightarrow> length (filter Q (update_where P f as)) = length (filter (\<lambda>x. Q x \<and> \<not> P x) as)"
  by (induction as) (auto simp: update_where_def)

lemma length_filter_le_conj: "length (filter (\<lambda>x. Q x \<and> R x) as) \<le> length (filter Q as)"
  by (induction as) auto

lemma length_filter_lt_conj:
  "a \<in> set as \<Longrightarrow> Q a \<Longrightarrow> \<not> R a \<Longrightarrow> length (filter (\<lambda>x. Q x \<and> R x) as) < length (filter Q as)"
  by (induction as) (auto simp: less_Suc_eq_le length_filter_le_conj)

lemma completed_shrinks:
  assumes "\<forall>x. ba_Status (f x) = BlockchainActionStatusCompleted"
  shows "length (filter (pending chain) (update_where P f as)) \<le> length (filter (pending chain) as)"
    and "a \<in> set as \<Longrightarrow> pending chain a \<Longrightarrow> P a \<Longrightarrow>
      length (filter (pending chain) (update_where P f as)) < length (filter (pending chain) as)"
proof -
  have "\<not> pending chain (f x)" for x using assms by (simp add: pending_def)
  then have *: "length (filter (pending chain) (update_where P f as)) = length (filter (\<lambda>x. pending chain x \<and> \<not> P x) as)"
    by (rule filter_update_false)
  show "length (filter (pending chain) (update_where P f as)) \<le> length (filter (pending chain) as)"
    unfolding * by (rule length_filter_le_conj)
  show "length (filter (pending chain) (update_where P f as)) < length (filter (pending chain) as)"
    if "a \<in> set as" "pending chain a" "P a" unfolding * using that by (intro length_filter_lt_conj) auto
qed

lemma processBatch_shrinks:
  "processBatch checkpoint alive batch db = (True, db') \<Longrightarrow>
     length (filter (pending chain) (blockchain_actions db')) \<le> length (filter (pending chain) (blockchain_actions db))"
proof (induction batch arbitrary: db)
  case (Cons a as)
  obtain ok db1 where s: "processAction checkpoint a db = (ok, db1)" by (cases "processAction checkpoint a db") auto
  then have r: "ok" "processBatch checkpoint alive as db1 = (True, db')" using Cons.prems by (auto split: if_splits prod.splits)
  obtain f where f: "blockchain_actions db1 = update_where (\<lambda>x. ba_ID x = ba_ID a) f (blockchain_actions db)"
    "\<forall>x. ba_Status (f x) = BlockchainActionStatusCompleted" using processAction_updates [OF s] r(1) by auto
  have "length (filter (pending chain) (blockchain_actions db1)) \<le> length (filter (pending chain) (blockchain_actions db))"
    using f completed_shrinks(1) by simp
  then show ?case using Cons.IH [OF r(2)] by linarith
qed simp

lemma processActions_shrinks:
  assumes "processActions checkpoint alive chain db = (True, db')"
  shows "length (filter (pending chain) (blockchain_actions db')) < length (filter (pending chain) (blockchain_actions db))"
proof -
  obtain a as where b: "GetActions db actionBatchSize chain = Inr (a # as)" "processBatch checkpoint alive (a # as) db = (True, db')"
    using assms by (auto simp: processActions_def neq_Nil_conv split: sum.splits if_splits simp del: processBatch.simps)
  obtain ok db1 where s: "processAction checkpoint a db = (ok, db1)" by (cases "processAction checkpoint a db") auto
  then have r: "ok" "processBatch checkpoint alive as db1 = (True, db')" using b(2) by (auto split: if_splits prod.splits)
  obtain f where f: "blockchain_actions db1 = update_where (\<lambda>x. ba_ID x = ba_ID a) f (blockchain_actions db)"
    "\<forall>x. ba_Status (f x) = BlockchainActionStatusCompleted" using processAction_updates [OF s] r(1) by auto
  have "a \<in> set (blockchain_actions db)" "pending chain a" using GetActions_set [OF b(1)] by auto
  then have "length (filter (pending chain) (blockchain_actions db1)) < length (filter (pending chain) (blockchain_actions db))"
    using f completed_shrinks(2) by simp
  then show ?thesis using processBatch_shrinks [OF r(2)] by (rule le_less_trans [rotated])
qed

section \<open>A tick ends\<close>


section \<open>Retries are bounded\<close>

lemma work_update:
  assumes "distinct (map ba_ID as)" and "a \<in> set as"
  shows "work_left chain (update_where (\<lambda>x. ba_ID x = ba_ID a) f as) + attempts_left chain a = work_left chain as + attempts_left chain (f a)"
  using assms
proof (induction as)
  case (Cons b as)
  show ?case
  proof (cases "b = a")
    case True
    then have "update_where (\<lambda>x. ba_ID x = ba_ID a) f as = as"
      using Cons.prems(1) by (intro update_where_none) (force simp: image_iff)
    then show ?thesis using True by (simp add: work_left_def update_where_def)
  next
    case False
    then have "a \<in> set as" "ba_ID b \<noteq> ba_ID a" using Cons.prems by (auto simp: image_iff)
    then show ?thesis using Cons by (simp add: work_left_def update_where_def)
  qed
qed simp

lemma settles_left:
  assumes "settles a f" and "ba_Retries a \<le> maxActionRetries" and "pending chain a"
  shows "ba_Retries (f a) \<le> maxActionRetries \<and> attempts_left chain (f a) < attempts_left chain a"
proof -
  have le: "unat (ba_Retries a) \<le> 5" using assms(2) by (simp add: word_le_nat_alt)
  from assms(1) consider (settled) "ba_Status (f a) \<noteq> BlockchainActionStatusPending" "ba_Retries (f a) = ba_Retries a"
    | (again) "ba_Retries a < maxActionRetries" "ba_Retries (f a) = ba_Retries a + 1"
    unfolding settles_def by blast
  then show ?thesis
  proof cases
    case settled
    then show ?thesis using assms(2,3) le by (simp add: attempts_left_def pending_def)
  next
    case again
    then have "unat (ba_Retries a) < 5" "unat (ba_Retries (f a)) = unat (ba_Retries a) + 1"
      by (simp_all add: word_less_nat_alt unat_word_ariths)
    then show ?thesis using assms(3) by (auto simp: attempts_left_def word_le_nat_alt)
  qed
qed

lemma update_where_mem: "x \<in> set as \<Longrightarrow> \<not> P x \<Longrightarrow> x \<in> set (update_where P f as)"
  by (force simp: update_where_def image_iff)

lemma processAction_progress:
  assumes "processAction checkpoint a db = (ok, db')" and "actions_ok (blockchain_actions db)"
    and "a \<in> set (blockchain_actions db)" and "pending chain a"
  shows "actions_ok (blockchain_actions db') \<and>
     work_left chain (blockchain_actions db') < work_left chain (blockchain_actions db) \<and>
     (\<forall>x \<in> set (blockchain_actions db). ba_ID x \<noteq> ba_ID a \<longrightarrow> x \<in> set (blockchain_actions db'))"
proof -
  let ?as = "blockchain_actions db"
  obtain f where f: "blockchain_actions db' = update_where (\<lambda>x. ba_ID x = ba_ID a) f ?as" "settles a f"
    using processAction_updates [OF assms(1)] by auto
  have r: "ba_Retries a \<le> maxActionRetries" "distinct (map ba_ID ?as)"
    using assms(2,3) by (auto simp: actions_ok_def)
  note left = settles_left [OF f(2) r(1) assms(4)]
  have uniq: "x = a" if "x \<in> set ?as" "ba_ID x = ba_ID a" for x
    using that r(2) assms(3) by (auto simp: distinct_map inj_on_def)
  have "map ba_ID (blockchain_actions db') = map ba_ID ?as"
    using f by (simp add: settles_def)
  moreover have "ba_Retries x \<le> maxActionRetries" if "x \<in> set (blockchain_actions db')" for x
    using that left uniq assms(2) unfolding f(1) by (auto simp: update_where_def actions_ok_def split: if_splits)
  ultimately have "actions_ok (blockchain_actions db')" using r(2) unfolding actions_ok_def by (metis)
  moreover have "work_left chain (blockchain_actions db') < work_left chain ?as"
    using work_update [OF r(2) assms(3), of chain f] left f(1) by simp
  ultimately show ?thesis using f(1) by (auto intro: update_where_mem)
qed

lemma processBatch_progress:
  assumes "processBatch checkpoint alive batch db = (ok, db')" and "actions_ok (blockchain_actions db)"
    and "distinct (map ba_ID batch)" and "\<forall>a \<in> set batch. a \<in> set (blockchain_actions db) \<and> pending chain a"
  shows "actions_ok (blockchain_actions db') \<and> work_left chain (blockchain_actions db') \<le> work_left chain (blockchain_actions db) \<and>
     (batch \<noteq> [] \<longrightarrow> alive (hd batch) \<longrightarrow> work_left chain (blockchain_actions db') < work_left chain (blockchain_actions db))"
  using assms
proof (induction batch arbitrary: db ok)
  case (Cons a as)
  obtain ok1 db1 where s: "processAction checkpoint a db = (ok1, db1)" by (cases "processAction checkpoint a db") auto
  show ?case
  proof (cases "alive a")
    case True
    obtain ok2 where r: "processBatch checkpoint alive as db1 = (ok2, db')" using Cons.prems(1) s True by (auto split: prod.splits)
    note p = processAction_progress [OF s Cons.prems(2), of chain]
    have "actions_ok (blockchain_actions db1)" "work_left chain (blockchain_actions db1) < work_left chain (blockchain_actions db)"
      using p Cons.prems(4) by auto
    moreover have "\<forall>x \<in> set as. x \<in> set (blockchain_actions db1) \<and> pending chain x"
      using p Cons.prems(3,4) by (auto simp: image_iff)
    ultimately show ?thesis using Cons.IH [OF r] Cons.prems(3) by force
  qed (use Cons.prems in simp)
qed simp

lemma processActions_progress:
  assumes "processActions checkpoint alive chain db = (ok, db')" and "actions_ok (blockchain_actions db)"
  shows "actions_ok (blockchain_actions db') \<and> work_left chain (blockchain_actions db') \<le> work_left chain (blockchain_actions db)"
    and "(\<And>a. alive a) \<Longrightarrow> \<exists>a \<in> set (blockchain_actions db). pending chain a \<Longrightarrow>
      work_left chain (blockchain_actions db') < work_left chain (blockchain_actions db)"
proof -
  obtain batch where b: "GetActions db actionBatchSize chain = Inr batch" by (simp add: GetActions_def Let_def)
  have ids: "distinct (map ba_ID batch)" and mem: "\<forall>a \<in> set batch. a \<in> set (blockchain_actions db) \<and> pending chain a"
    using GetActions_distinct [OF _ b] GetActions_set [OF b] assms(2) by (auto simp: actions_ok_def)
  have run: "batch = [] \<and> db' = db \<or> batch \<noteq> [] \<and> processBatch checkpoint alive batch db = (ok, db')"
    using assms(1) b by (auto simp: processActions_def split: if_splits)
  then show "actions_ok (blockchain_actions db') \<and> work_left chain (blockchain_actions db') \<le> work_left chain (blockchain_actions db)"
    using processBatch_progress [OF _ assms(2) ids mem] assms(2) by auto
  show "work_left chain (blockchain_actions db') < work_left chain (blockchain_actions db)"
    if "\<And>a. alive a" "\<exists>a \<in> set (blockchain_actions db). pending chain a"
    using that run processBatch_progress [OF _ assms(2) ids mem] b GetActions_empty [of db chain] by auto
qed

text \<open>Scheduling an action keeps identifiers unique when they are the sequence \<open>1, 2, ...\<close> of the table.\<close>

definition queue_ok :: "'d db \<Rightarrow> bool" where
  "queue_ok db \<longleftrightarrow> map ba_ID (blockchain_actions db) = map int [1..<Suc (length (blockchain_actions db))] \<and>
     (\<forall>a \<in> set (blockchain_actions db). ba_Retries a \<le> maxActionRetries)"

lemma queue_ok_actions: "queue_ok db \<Longrightarrow> actions_ok (blockchain_actions db)"
  by (simp add: queue_ok_def actions_ok_def distinct_map)

text \<open>Calls of \<^verbatim>\<open>processActions\<close> under a live context; round \<open>n\<close> sees the answers \<open>checkpoint n\<close>.\<close>

fun rounds :: "(nat \<Rightarrow> 'd State \<Rightarrow> string result) \<Rightarrow> uint64 \<Rightarrow> nat \<Rightarrow> 'd db \<Rightarrow> 'd db" where
  "rounds checkpoint chain 0 db = db"
| "rounds checkpoint chain (Suc n) db = rounds checkpoint chain n (snd (processActions (checkpoint n) (\<lambda>_. True) chain db))"

lemma rounds_progress:
  assumes "actions_ok (blockchain_actions db)" and "work_left chain (blockchain_actions db) \<le> n"
  shows "work_left chain (blockchain_actions (rounds checkpoint chain n db)) = 0 \<and> actions_ok (blockchain_actions (rounds checkpoint chain n db))"
  using assms
proof (induction n arbitrary: db)
  case (Suc n)
  obtain ok db1 where p: "processActions (checkpoint n) (\<lambda>_. True) chain db = (ok, db1)"
    by (cases "processActions (checkpoint n) (\<lambda>_. True) chain db") auto
  note pr = processActions_progress [OF p Suc.prems(1)]
  have "work_left chain (blockchain_actions db1) \<le> n"
  proof (cases "\<exists>a \<in> set (blockchain_actions db). pending chain a")
    case True
    then show ?thesis using pr(2) Suc.prems(2) by simp
  next
    case False
    then have "work_left chain (blockchain_actions db) = 0" by (simp add: work_left_def attempts_left_def)
    then show ?thesis using pr(1) by simp
  qed
  then show ?case using Suc.IH pr(1) p by simp
qed simp

lemma work_left_bound: "work_left chain as \<le> 6 * length (filter (pending chain) as)"
  by (induction as) (auto simp: work_left_def attempts_left_def)

lemma work_left_zero:
  assumes "actions_ok as" and "work_left chain as = 0" and "a \<in> set as"
  shows "\<not> pending chain a"
proof
  assume "pending chain a"
  moreover have "unat (ba_Retries a) \<le> 5" using assms(1,3) by (auto simp: actions_ok_def word_le_nat_alt)
  ultimately have "0 < attempts_left chain a" by (simp add: attempts_left_def)
  then show False using assms(2,3) by (force simp: work_left_def)
qed


definition worker_db :: "ref_decimal db" where
  "worker_db = empty_db \<lparr> states := [(coreStateToDB ref_libs (NewVoidState ref_libs ''usdc'' ''0x01'')) \<lparr> sr_ID := ''s1'' \<rparr>],
     blockchain_actions := map (\<lambda>i. \<lparr> ba_ID = i, ba_Type = 1, ba_StateID = ''s1'', ba_BlockchainID = 137,
     ba_Status = 0, ba_Retries = 0, ba_Error = '''', ba_TxHash = '''', ba_CreatedAt = 5 \<rparr>) [1, 2] \<rparr>"

lemma worker_db_ok: "queue_ok worker_db"
  by (simp add: queue_ok_def worker_db_def upt_rec)


lemma processAction_ids:
  "processAction checkpoint a db = (ok, db') \<Longrightarrow> map ba_ID (blockchain_actions db') = map ba_ID (blockchain_actions db)"
  by (drule processAction_updates) (auto simp: settles_def)

lemma processBatch_ids:
  "processBatch checkpoint alive batch db = (ok, db') \<Longrightarrow> map ba_ID (blockchain_actions db') = map ba_ID (blockchain_actions db)"
proof (induction batch arbitrary: db ok)
  case (Cons a as)
  obtain ok1 db1 where "processAction checkpoint a db = (ok1, db1)" by (cases "processAction checkpoint a db") auto
  then show ?case using Cons processAction_ids by (fastforce split: if_splits prod.splits)
qed simp

lemma processActions_queue:
  assumes "processActions checkpoint alive chain db = (ok, db')" and "queue_ok db"
  shows "queue_ok db'"
proof -
  have ids: "map ba_ID (blockchain_actions db') = map ba_ID (blockchain_actions db)"
    using assms(1) processBatch_ids by (fastforce simp: processActions_def split: sum.splits if_splits)
  then have "length (blockchain_actions db') = length (blockchain_actions db)" by (metis length_map)
  then show ?thesis
    using ids assms(2) processActions_progress(1) [OF assms(1) queue_ok_actions [OF assms(2)]]
    unfolding queue_ok_def actions_ok_def by simp
qed



end
