(* ===== verification/Event_Handlers.thy ===== *)
theory Event_Handlers
  imports DB_Actions
begin

text \<open>
  \<^verbatim>\<open>src/clearnode/event_handlers/service.go\<close>: how on-chain events change channels, balances and the queue
  of blockchain actions. Every handler runs in one database transaction; log lines are left out, and a
  handler that only logs and returns nil leaves the database as it was.
\<close>

record channelEvent =
  ev_ChannelID :: string
  ev_StateVersion :: uint64

record channelChallengedEvent =
  cev_ChannelID :: string
  cev_StateVersion :: uint64
  cev_ChallengeExpiry :: uint64

record 'd NodeBalanceUpdatedEvent =
  nb_BlockchainID :: uint64
  nb_Asset :: string
  nb_Balance :: 'd

record 'd UserLockedBalanceUpdatedEvent =
  ul_UserAddress :: string
  ul_BlockchainID :: uint64
  ul_Balance :: 'd

section \<open>Home channels\<close>

definition HandleNodeBalanceUpdated :: "'d NodeBalanceUpdatedEvent \<Rightarrow> ('d, unit) db_op" where
  "HandleNodeBalanceUpdated event = SetNodeBalance (nb_BlockchainID event) (nb_Asset event) (nb_Balance event)"

text \<open>The common opening of the channel handlers: look the channel up and ignore the event when the
  channel is unknown or of the other type.\<close>

definition with_channel :: "string \<Rightarrow> ChannelType \<Rightarrow> (Channel \<Rightarrow> ('d, unit) db_op) \<Rightarrow> ('d, unit) db_op" where
  "with_channel chanID ty k db =
     bindE (GetChannelByID db chanID) (\<lambda>r. case r of
         None \<Rightarrow> Inr ((), db)
       | Some channel \<Rightarrow> if ch_Type channel \<noteq> ty then Inr ((), db) else k channel db)"

definition HandleHomeChannelCreated :: "'d libs \<Rightarrow> int \<Rightarrow> channelEvent \<Rightarrow> ('d, unit) db_op" where
  "HandleHomeChannelCreated L now event = with_channel (ev_ChannelID event) ChannelTypeHome (\<lambda>channel db.
     bindE (UpdateChannel now (channel \<lparr> ch_StateVersion := ev_StateVersion event, ch_Status := ChannelStatusOpen \<rparr>) db)
       (\<lambda>(_, db1).
     RefreshUserEnforcedBalance L (ch_UserWallet channel) (ch_Asset channel) db1))"

definition HandleHomeChannelMigrated :: "channelEvent \<Rightarrow> ('d, unit) db_op" where
  "HandleHomeChannelMigrated event db = Inr ((), db)"

definition HandleHomeChannelCheckpointed :: "'d libs \<Rightarrow> int \<Rightarrow> channelEvent \<Rightarrow> ('d, unit) db_op" where
  "HandleHomeChannelCheckpointed L now event = with_channel (ev_ChannelID event) ChannelTypeHome (\<lambda>channel db.
     let channel1 = channel \<lparr> ch_StateVersion := ev_StateVersion event \<rparr>;
         channel2 = (if ch_Status channel1 = ChannelStatusChallenged then channel1 \<lparr> ch_Status := ChannelStatusOpen \<rparr> else channel1)
     in bindE (UpdateChannel now channel2 db) (\<lambda>(_, db1).
        RefreshUserEnforcedBalance L (ch_UserWallet channel) (ch_Asset channel) db1))"

definition challenged_channel :: "channelChallengedEvent \<Rightarrow> Channel \<Rightarrow> Channel" where
  "challenged_channel event channel =
     channel \<lparr> ch_StateVersion := cev_StateVersion event, ch_Status := ChannelStatusChallenged,
               ch_ChallengeExpiresAt := Some (sint (cev_ChallengeExpiry event)) \<rparr>"

definition HandleHomeChannelChallenged :: "'d libs \<Rightarrow> int \<Rightarrow> channelChallengedEvent \<Rightarrow> ('d, unit) db_op" where
  "HandleHomeChannelChallenged L now event = with_channel (cev_ChannelID event) ChannelTypeHome (\<lambda>channel db.
     if cev_StateVersion event < ch_StateVersion channel then Inr ((), db)
     else
       bindE (UpdateChannel now (challenged_channel event channel) db) (\<lambda>(_, db1).
       bindE (GetLastStateByChannelID db1 (cev_ChannelID event) True) (\<lambda>lastSignedState.
       bindE (case lastSignedState of
                None \<Rightarrow> Inr ((), db1)
              | Some st \<Rightarrow> if s_Version st \<le> cev_StateVersion event then Inr ((), db1)
                          else ScheduleCheckpoint now (s_ID st) (l_BlockchainID (s_HomeLedger st)) db1) (\<lambda>(_, db2).
       RefreshUserEnforcedBalance L (ch_UserWallet channel) (ch_Asset channel) db2))))"

definition HandleHomeChannelClosed :: "'d libs \<Rightarrow> int \<Rightarrow> channelEvent \<Rightarrow> ('d, unit) db_op" where
  "HandleHomeChannelClosed L now event = with_channel (ev_ChannelID event) ChannelTypeHome (\<lambda>channel db.
     bindE (UpdateChannel now (channel \<lparr> ch_StateVersion := ev_StateVersion event, ch_Status := ChannelStatusClosed \<rparr>) db)
       (\<lambda>(_, db1).
     RefreshUserEnforcedBalance L (ch_UserWallet channel) (ch_Asset channel) db1))"

section \<open>Escrow channels\<close>

definition HandleEscrowDepositInitiated :: "int \<Rightarrow> channelEvent \<Rightarrow> ('d, unit) db_op" where
  "HandleEscrowDepositInitiated now event = with_channel (ev_ChannelID event) ChannelTypeEscrow (\<lambda>channel db.
     bindE (UpdateChannel now (channel \<lparr> ch_StateVersion := ev_StateVersion event, ch_Status := ChannelStatusOpen \<rparr>) db)
       (\<lambda>(_, db1).
     bindE (GetStateByChannelIDAndVersion db1 (ev_ChannelID event) (ev_StateVersion event)) (\<lambda>state.
     case state of
       None \<Rightarrow> Inr ((), db1)
     | Some st \<Rightarrow> ScheduleInitiateEscrowDeposit now (s_ID st) (l_BlockchainID (s_HomeLedger st)) db1)))"

definition HandleEscrowDepositChallenged :: "int \<Rightarrow> channelChallengedEvent \<Rightarrow> ('d, unit) db_op" where
  "HandleEscrowDepositChallenged now event = with_channel (cev_ChannelID event) ChannelTypeEscrow (\<lambda>channel db.
     if cev_StateVersion event < ch_StateVersion channel then Inr ((), db)
     else
       bindE (UpdateChannel now (challenged_channel event channel) db) (\<lambda>(_, db1).
       bindE (GetLastStateByChannelID db1 (cev_ChannelID event) True) (\<lambda>lastSignedState.
       case lastSignedState of
         None \<Rightarrow> Inr ((), db1)
       | Some st \<Rightarrow>
           if s_Version st \<le> cev_StateVersion event then Inr ((), db1)
           else (case s_EscrowLedger st of
                   None \<Rightarrow> Inr ((), db1)
                 | Some e \<Rightarrow> ScheduleFinalizeEscrowDeposit now (s_ID st) (l_BlockchainID e) db1))))"

definition HandleEscrowDepositFinalized :: "int \<Rightarrow> channelEvent \<Rightarrow> ('d, unit) db_op" where
  "HandleEscrowDepositFinalized now event = with_channel (ev_ChannelID event) ChannelTypeEscrow (\<lambda>channel db.
     UpdateChannel now (channel \<lparr> ch_StateVersion := ev_StateVersion event, ch_Status := ChannelStatusClosed \<rparr>) db)"

definition HandleEscrowWithdrawalInitiated :: "int \<Rightarrow> channelEvent \<Rightarrow> ('d, unit) db_op" where
  "HandleEscrowWithdrawalInitiated now event = with_channel (ev_ChannelID event) ChannelTypeEscrow (\<lambda>channel db.
     UpdateChannel now (channel \<lparr> ch_StateVersion := ev_StateVersion event, ch_Status := ChannelStatusOpen \<rparr>) db)"

definition HandleEscrowWithdrawalChallenged :: "int \<Rightarrow> channelChallengedEvent \<Rightarrow> ('d, unit) db_op" where
  "HandleEscrowWithdrawalChallenged now event = with_channel (cev_ChannelID event) ChannelTypeEscrow (\<lambda>channel db.
     if cev_StateVersion event < ch_StateVersion channel then Inr ((), db)
     else
       bindE (UpdateChannel now (challenged_channel event channel) db) (\<lambda>(_, db1).
       bindE (GetLastStateByChannelID db1 (cev_ChannelID event) True) (\<lambda>lastSignedState.
       case lastSignedState of
         None \<Rightarrow> Inr ((), db1)
       | Some st \<Rightarrow>
           if s_Version st \<le> cev_StateVersion event then Inr ((), db1)
           else (case s_EscrowLedger st of
                   None \<Rightarrow> Inr ((), db1)
                 | Some e \<Rightarrow> ScheduleFinalizeEscrowWithdrawal now (s_ID st) (l_BlockchainID e) db1))))"

definition HandleEscrowWithdrawalFinalized :: "int \<Rightarrow> channelEvent \<Rightarrow> ('d, unit) db_op" where
  "HandleEscrowWithdrawalFinalized now event = with_channel (ev_ChannelID event) ChannelTypeEscrow (\<lambda>channel db.
     UpdateChannel now (channel \<lparr> ch_StateVersion := ev_StateVersion event, ch_Status := ChannelStatusClosed \<rparr>) db)"

definition HandleUserLockedBalanceUpdated :: "'d libs \<Rightarrow> 'd UserLockedBalanceUpdatedEvent \<Rightarrow> ('d, unit) db_op" where
  "HandleUserLockedBalanceUpdated L event =
     UpdateUserStaked L (ul_UserAddress event) (ul_BlockchainID event) (ul_Balance event)"

section \<open>The channel state machine\<close>

text \<open>All channel events, and the database step each one causes.\<close>

datatype chain_event =
    HomeChannelCreated channelEvent
  | HomeChannelMigrated channelEvent
  | HomeChannelCheckpointed channelEvent
  | HomeChannelChallenged channelChallengedEvent
  | HomeChannelClosed channelEvent
  | EscrowDepositInitiated channelEvent
  | EscrowDepositChallenged channelChallengedEvent
  | EscrowDepositFinalized channelEvent
  | EscrowWithdrawalInitiated channelEvent
  | EscrowWithdrawalChallenged channelChallengedEvent
  | EscrowWithdrawalFinalized channelEvent

fun handle_event :: "'d libs \<Rightarrow> int \<Rightarrow> chain_event \<Rightarrow> ('d, unit) db_op" where
  "handle_event L now (HomeChannelCreated e) = HandleHomeChannelCreated L now e"
| "handle_event L now (HomeChannelMigrated e) = HandleHomeChannelMigrated e"
| "handle_event L now (HomeChannelCheckpointed e) = HandleHomeChannelCheckpointed L now e"
| "handle_event L now (HomeChannelChallenged e) = HandleHomeChannelChallenged L now e"
| "handle_event L now (HomeChannelClosed e) = HandleHomeChannelClosed L now e"
| "handle_event L now (EscrowDepositInitiated e) = HandleEscrowDepositInitiated now e"
| "handle_event L now (EscrowDepositChallenged e) = HandleEscrowDepositChallenged now e"
| "handle_event L now (EscrowDepositFinalized e) = HandleEscrowDepositFinalized now e"
| "handle_event L now (EscrowWithdrawalInitiated e) = HandleEscrowWithdrawalInitiated now e"
| "handle_event L now (EscrowWithdrawalChallenged e) = HandleEscrowWithdrawalChallenged now e"
| "handle_event L now (EscrowWithdrawalFinalized e) = HandleEscrowWithdrawalFinalized now e"

end
