(* ===== verification/Memory_Store.thy ===== *)
theory Memory_Store
  imports State_Advancer Channel_Signer Database
begin

text \<open>
  \<^verbatim>\<open>src/clearnode/store/memory\<close>: the checked configuration of blockchains and assets and the
  in-memory store built from it. Reading the YAML files is not modelled: the configuration records
  are the input. Go maps are association lists, and \<^verbatim>\<open>slices.SortFunc\<close>, which leaves the order of
  equal keys open, is a stable sort.
\<close>

section \<open>Configuration\<close>

record TokenConfig =
  tc_Name :: string
  tc_Symbol :: string
  tc_BlockchainID :: uint64
  tc_Disabled :: bool
  tc_Address :: string
  tc_Decimals :: uint8

record AssetConfig =
  ac_Name :: string
  ac_Symbol :: string
  ac_Decimals :: uint8
  ac_SuggestedBlockchainID :: uint64
  ac_Disabled :: bool
  ac_Tokens :: "TokenConfig list"

record BlockchainConfig =
  bcc_Name :: string
  bcc_ID :: uint64
  bcc_Disabled :: bool
  bcc_BlockStep :: uint64
  bcc_ChannelHubAddress :: string
  bcc_ChannelHubSigValidators :: "(uint8, string) gomap"
  bcc_LockingContractAddress :: string

definition is_lower_letter :: "char \<Rightarrow> bool" where
  "is_lower_letter c = (97 \<le> (of_char c :: int) \<and> (of_char c :: int) \<le> 122)"

definition is_hex_digit :: "char \<Rightarrow> bool" where
  "is_hex_digit c = (let n = of_char c :: int in (48 \<le> n \<and> n \<le> 57) \<or> (97 \<le> n \<and> n \<le> 102) \<or> (65 \<le> n \<and> n \<le> 70))"

text \<open>\<^verbatim>\<open>^[a-z][a-z_]+[a-z]$\<close> and \<^verbatim>\<open>^0x[0-9a-fA-F]{40}$\<close>\<close>

definition blockchainNameRegex :: "string \<Rightarrow> bool" where
  "blockchainNameRegex s = (3 \<le> length s \<and> is_lower_letter (hd s) \<and> is_lower_letter (last s) \<and>
     list_all (\<lambda>c. is_lower_letter c \<or> c = CHR ''_'') s)"

definition contractAddressRegex :: "string \<Rightarrow> bool" where
  "contractAddressRegex s = (HasPrefix s ''0x'' \<and> length s = 42 \<and> list_all is_hex_digit (drop 2 s))"

text \<open>\<^verbatim>\<open>verifyAssetsConfig\<close> works in place; the two functions return the entry with its defaults.\<close>

definition verifyToken :: "AssetConfig \<Rightarrow> TokenConfig \<Rightarrow> TokenConfig result" where
  "verifyToken asset token0 =
     (if tc_Disabled token0 then Inr token0
      else let token1 = (if tc_Symbol token0 = '''' then token0 \<lparr> tc_Symbol := ac_Symbol asset \<rparr> else token0);
               token = (if tc_Name token0 = '''' then token1 \<lparr> tc_Name := ac_Name asset \<rparr> else token1)
      in if tc_Address token = '''' then Inl (Err ''missing token address'')
         else if \<not> contractAddressRegex (tc_Address token) then Inl (Err ''invalid token address'')
         else if tc_Decimals token < ac_Decimals asset then Inl (Err ''asset decimals must not exceed token decimals'')
         else Inr token)"

definition verifyAsset :: "AssetConfig \<Rightarrow> AssetConfig result" where
  "verifyAsset asset0 =
     (if ac_Disabled asset0 then Inr asset0
      else if ac_Symbol asset0 = '''' then Inl (Err ''missing asset symbol'')
      else let asset = (if ac_Name asset0 = '''' then asset0 \<lparr> ac_Name := ac_Symbol asset0 \<rparr> else asset0)
      in if ac_SuggestedBlockchainID asset = 0 then Inl (Err ''missing suggested blockchain id'')
         else bindE (mapME (verifyToken asset) (ac_Tokens asset)) (\<lambda>tokens. Inr (asset \<lparr> ac_Tokens := tokens \<rparr>)))"

definition verifyAssetsConfig :: "AssetConfig list \<Rightarrow> AssetConfig list result" where
  "verifyAssetsConfig = mapME verifyAsset"

definition defaultBlockStep :: uint64 where
  "defaultBlockStep = 10000"

definition verifySigValidator :: "BlockchainConfig \<Rightarrow> ChannelSignerType \<Rightarrow> unit \<Rightarrow> unit result" where
  "verifySigValidator bc channelSignerType u =
     (case gm_get (bcc_ChannelHubSigValidators bc) channelSignerType of
        None \<Rightarrow> Inl (Err ''blockchain must specify a signature validator address'')
      | Some validatorAddress \<Rightarrow>
          if \<not> contractAddressRegex validatorAddress then Inl (Err ''invalid signature validator address'') else Inr ())"

definition verifyBlockchain :: "BlockchainConfig \<Rightarrow> BlockchainConfig result" where
  "verifyBlockchain bc =
     (if bcc_Disabled bc then Inr bc
      else if \<not> blockchainNameRegex (bcc_Name bc) then Inl (Err ''invalid blockchain name'')
      else if bcc_ChannelHubAddress bc = '''' \<and> bcc_LockingContractAddress bc = ''''
        then Inl (Err ''must specify at least one of channel_hub_address or locking_contract_address'')
      else if bcc_ChannelHubAddress bc \<noteq> '''' \<and> \<not> contractAddressRegex (bcc_ChannelHubAddress bc)
        then Inl (Err ''invalid channel hub address'')
      else if bcc_LockingContractAddress bc \<noteq> '''' \<and> \<not> contractAddressRegex (bcc_LockingContractAddress bc)
        then Inl (Err ''invalid locking contract address'')
      else bindE (if bcc_ChannelHubAddress bc \<noteq> '''' \<and> 1 < length ChannelSignerTypes
                  then foldE (verifySigValidator bc) (tl ChannelSignerTypes) () else Inr ()) (\<lambda>_.
        Inr (if bcc_BlockStep bc = 0 then bc \<lparr> bcc_BlockStep := defaultBlockStep \<rparr> else bc)))"

definition verifyBlockchainsConfig :: "BlockchainConfig list \<Rightarrow> BlockchainConfig list result" where
  "verifyBlockchainsConfig = mapME verifyBlockchain"

definition getEnabledBlockchains :: "BlockchainConfig list \<Rightarrow> (uint64, BlockchainConfig) gomap" where
  "getEnabledBlockchains cfg =
     foldl (\<lambda>m bc. if \<not> bcc_Disabled bc then gm_put (bcc_ID bc) bc m else m) [] cfg"

section \<open>The store\<close>

record MemoryStoreV1 =
  ms_blockchains :: "Blockchain list"
  ms_assets :: "Asset list"
  ms_channelSigValidators :: "(uint64, (uint8, string) gomap) gomap"
  ms_supportedAssets :: "(string, (uint64, string) gomap) gomap"
  ms_tokenAssets :: "(uint64, (string, Asset) gomap) gomap"
  ms_tokenDecimals :: "(uint64, (string, uint8) gomap) gomap"
  ms_assetDecimals :: "(string, uint8) gomap"

definition empty_store :: MemoryStoreV1 where
  "empty_store = \<lparr> ms_blockchains = [], ms_assets = [], ms_channelSigValidators = [], ms_supportedAssets = [],
     ms_tokenAssets = [], ms_tokenDecimals = [], ms_assetDecimals = [] \<rparr>"

text \<open>\<^verbatim>\<open>m[a][b] = v\<close>, creating the inner map when \<^verbatim>\<open>a\<close> is new.\<close>

definition gm_put2 :: "'a \<Rightarrow> 'b \<Rightarrow> 'v \<Rightarrow> ('a, ('b, 'v) gomap) gomap \<Rightarrow> ('a, ('b, 'v) gomap) gomap" where
  "gm_put2 a b v m = gm_put a (gm_put b v (gm_index [] m a)) m"

definition gm_get2 :: "('a, ('b, 'v) gomap) gomap \<Rightarrow> 'a \<Rightarrow> 'b \<Rightarrow> 'v option" where
  "gm_get2 m a b = gm_get (gm_index [] m a) b"

fun insert_by :: "('a \<Rightarrow> 'a \<Rightarrow> bool) \<Rightarrow> 'a \<Rightarrow> 'a list \<Rightarrow> 'a list" where
  "insert_by lt x [] = [x]"
| "insert_by lt x (y # ys) = (if lt y x then y # insert_by lt x ys else x # y # ys)"

definition SortFunc :: "('a \<Rightarrow> 'a \<Rightarrow> bool) \<Rightarrow> 'a list \<Rightarrow> 'a list" where
  "SortFunc lt xs = foldr (insert_by lt) xs []"

definition add_blockchain :: "BlockchainConfig \<Rightarrow> MemoryStoreV1 \<Rightarrow> MemoryStoreV1" where
  "add_blockchain bc ms =
     (if bcc_Disabled bc then ms
      else let ms1 = (if bcc_ChannelHubAddress bc \<noteq> ''''
                      then ms \<lparr> ms_channelSigValidators := gm_put (bcc_ID bc) (bcc_ChannelHubSigValidators bc) (ms_channelSigValidators ms) \<rparr>
                      else ms)
      in ms1 \<lparr> ms_blockchains := ms_blockchains ms1 @
           [\<lparr> bc_Name = bcc_Name bc, bc_ID = bcc_ID bc, bc_ChannelHubAddress = bcc_ChannelHubAddress bc,
              bc_LockingContractAddress = bcc_LockingContractAddress bc, bc_BlockStep = bcc_BlockStep bc \<rparr>] \<rparr>)"

text \<open>The chains that carry tokens are those with a channel hub, the keys of \<^verbatim>\<open>channelSigValidators\<close>.\<close>

definition add_token :: "AssetConfig \<Rightarrow> TokenConfig \<Rightarrow> Token list \<times> uint64 \<times> MemoryStoreV1 \<Rightarrow> Token list \<times> uint64 \<times> MemoryStoreV1" where
  "add_token asset token = (\<lambda>(tokens, suggested, ms).
     if gm_get (ms_channelSigValidators ms) (tc_BlockchainID token) = None then (tokens, suggested, ms)
     else if tc_Disabled token then (tokens, suggested, ms)
     else let tokenAddress = ToLower (tc_Address token); chain = tc_BlockchainID token in
       (tokens @ [\<lparr> tok_Name = tc_Name token, tok_Symbol = tc_Symbol token, tok_Address = tokenAddress,
                     tok_BlockchainID = chain, tok_Decimals = tc_Decimals token \<rparr>],
        if ac_SuggestedBlockchainID asset = chain then chain else suggested,
        ms \<lparr> ms_supportedAssets := gm_put2 (ac_Symbol asset) chain tokenAddress (ms_supportedAssets ms),
             ms_tokenDecimals := gm_put2 chain tokenAddress (tc_Decimals token) (ms_tokenDecimals ms),
             ms_tokenAssets := gm_put2 chain tokenAddress
               \<lparr> as_Name = ac_Name asset, as_Decimals = ac_Decimals asset, as_Symbol = ac_Symbol asset,
                 as_SuggestedBlockchainID = 0, as_Tokens = [] \<rparr> (ms_tokenAssets ms) \<rparr>))"

definition add_asset :: "AssetConfig \<Rightarrow> MemoryStoreV1 \<Rightarrow> MemoryStoreV1 result" where
  "add_asset asset ms0 =
     (if ac_Disabled asset then Inr ms0
      else let (tokens, suggested, ms) = foldl (\<lambda>acc t. add_token asset t acc) ([], 0, ms0) (ac_Tokens asset) in
        if tokens = [] then Inr ms
        else if suggested = 0 then Inl (Err ''asset does not have a valid suggested blockchain ID'')
        else Inr (ms \<lparr> ms_assets := ms_assets ms @
               [\<lparr> as_Name = ac_Name asset, as_Decimals = ac_Decimals asset, as_Symbol = ac_Symbol asset,
                  as_SuggestedBlockchainID = suggested,
                  as_Tokens = SortFunc (\<lambda>a b. tok_BlockchainID a < tok_BlockchainID b) tokens \<rparr>],
             ms_assetDecimals := gm_put (ac_Symbol asset) (ac_Decimals asset) (ms_assetDecimals ms) \<rparr>))"

definition NewMemoryStoreV1 :: "AssetConfig list \<Rightarrow> (uint64, BlockchainConfig) gomap \<Rightarrow> MemoryStoreV1 result" where
  "NewMemoryStoreV1 assetsConfig blockchainsConfig =
     (let ms1 = foldl (\<lambda>ms (k, bc). add_blockchain bc ms) empty_store blockchainsConfig in
      bindE (foldE add_asset assetsConfig
               (ms1 \<lparr> ms_blockchains := SortFunc (\<lambda>a b. bc_ID a < bc_ID b) (ms_blockchains ms1) \<rparr>)) (\<lambda>ms.
      Inr (ms \<lparr> ms_assets := SortFunc (\<lambda>a b. string_less (as_Symbol a) (as_Symbol b)) (ms_assets ms) \<rparr>)))"

section \<open>Queries\<close>

definition GetBlockchains :: "MemoryStoreV1 \<Rightarrow> Blockchain list result" where
  "GetBlockchains ms = Inr (ms_blockchains ms)"

definition GetAssets :: "MemoryStoreV1 \<Rightarrow> uint64 option \<Rightarrow> Asset list result" where
  "GetAssets ms blockchainID =
     (case blockchainID of None \<Rightarrow> Inr (ms_assets ms)
      | Some chain \<Rightarrow> Inr (concat (map (\<lambda>asset.
          let filteredTokens = filter (\<lambda>t. tok_BlockchainID t = chain) (as_Tokens asset)
          in if filteredTokens \<noteq> [] then [asset \<lparr> as_Tokens := filteredTokens \<rparr>] else []) (ms_assets ms))))"

definition GetChannelSigValidators :: "MemoryStoreV1 \<Rightarrow> uint64 \<Rightarrow> (uint8, string) gomap result" where
  "GetChannelSigValidators ms blockchainID =
     (case gm_get (ms_channelSigValidators ms) blockchainID of
        None \<Rightarrow> Inl (Err ''blockchain is not supported'') | Some v \<Rightarrow> Inr v)"

definition GetTokenAddress :: "MemoryStoreV1 \<Rightarrow> string \<Rightarrow> uint64 \<Rightarrow> string result" where
  "GetTokenAddress ms asset blockchainID =
     (case gm_get (ms_supportedAssets ms) asset of
        None \<Rightarrow> Inl (Err ''asset is not supported'')
      | Some tokensOnchain \<Rightarrow>
          (case gm_get tokensOnchain blockchainID of
             None \<Rightarrow> Inl (Err ''asset is not supported on blockchain'') | Some addr \<Rightarrow> Inr addr))"

definition IsAssetSupported :: "MemoryStoreV1 \<Rightarrow> string \<Rightarrow> string \<Rightarrow> uint64 \<Rightarrow> bool result" where
  "IsAssetSupported ms asset tokenAddress blockchainID =
     (case gm_get (ms_supportedAssets ms) asset of
        None \<Rightarrow> Inr False
      | Some tokensOnchain \<Rightarrow>
          (case gm_get tokensOnchain blockchainID of
             None \<Rightarrow> Inr False | Some addr \<Rightarrow> Inr (EqualFold tokenAddress addr)))"

definition MS_GetAssetDecimals :: "MemoryStoreV1 \<Rightarrow> string \<Rightarrow> uint8 result" where
  "MS_GetAssetDecimals ms asset =
     (case gm_get (ms_assetDecimals ms) asset of None \<Rightarrow> Inl (Err ''asset is not supported'') | Some d \<Rightarrow> Inr d)"

definition MS_GetTokenDecimals :: "MemoryStoreV1 \<Rightarrow> uint64 \<Rightarrow> string \<Rightarrow> uint8 result" where
  "MS_GetTokenDecimals ms blockchainID tokenAddress =
     (case gm_get (ms_tokenDecimals ms) blockchainID of
        None \<Rightarrow> Inl (Err ''blockchain is not supported'')
      | Some decimalsOnChain \<Rightarrow>
          (case gm_get decimalsOnChain (ToLower tokenAddress) of
             None \<Rightarrow> Inl (Err ''token is not supported on blockchain'') | Some d \<Rightarrow> Inr d))"

definition GetTokenAsset :: "MemoryStoreV1 \<Rightarrow> uint64 \<Rightarrow> string \<Rightarrow> string result" where
  "GetTokenAsset ms blockchainID tokenAddress =
     (case gm_get (ms_tokenAssets ms) blockchainID of
        None \<Rightarrow> Inl (Err ''blockchain is not supported'')
      | Some assetsOnChain \<Rightarrow>
          (case gm_get assetsOnChain (ToLower tokenAddress) of
             None \<Rightarrow> Inl (Err ''token is not supported on blockchain'') | Some a \<Rightarrow> Inr (as_Symbol a)))"

text \<open>The store seen through the interface the state advancer and the packer use.\<close>

definition asset_store :: "MemoryStoreV1 \<Rightarrow> AssetStore" where
  "asset_store ms = \<lparr> GetAssetDecimals = MS_GetAssetDecimals ms, GetTokenDecimals = MS_GetTokenDecimals ms \<rparr>"

section \<open>The catalogue contract\<close>

text \<open>
  What the users of the store rely on: a token the store knows belongs to an asset whose precision the
  token can represent. Amounts are checked against the precision of the asset when a state is validated
  and converted with the decimals of the token when it is packed.
\<close>

locale asset_catalogue =
  fixes ok :: "'m \<Rightarrow> bool"
    and assetDecimals :: "'m \<Rightarrow> string \<Rightarrow> uint8 result"
    and tokenDecimals :: "'m \<Rightarrow> uint64 \<Rightarrow> string \<Rightarrow> uint8 result"
    and tokenAsset :: "'m \<Rightarrow> uint64 \<Rightarrow> string \<Rightarrow> string result"
  assumes token_precision: "ok m \<Longrightarrow> tokenAsset m chain addr = Inr a \<Longrightarrow>
      \<exists>da dt. assetDecimals m a = Inr da \<and> tokenDecimals m chain addr = Inr dt \<and> da \<le> dt"
begin

lemma precise_amount_converts:
  assumes "decimal_spec L val" and "ok m" and "tokenAsset m chain addr = Inr a"
    and "assetDecimals m a = Inr da" and "ValidateDecimalPrecision L x da = Inr ()"
  shows "\<exists>dt n. tokenDecimals m chain addr = Inr dt \<and> DecimalToBigInt L x dt = Inr n \<and> of_int n = val x * 10 ^ unat dt"
proof -
  obtain dt where dt: "tokenDecimals m chain addr = Inr dt" "da \<le> dt"
    using token_precision [OF assms(2,3)] assms(4) by auto
  obtain n where "DecimalToBigInt L x dt = Inr n"
    using decimal_spec.DecimalToBigInt_precise [OF assms(1) ValidateDecimalPrecision_mono [OF dt(2) assms(5)]] by blast
  with dt decimal_spec.DecimalToBigInt_exact [OF assms(1)] show ?thesis by blast
qed

end

text \<open>The part of the store's state the contract depends on.\<close>

definition listed :: "AssetConfig list \<Rightarrow> Asset \<Rightarrow> bool" where
  "listed cfg a \<longleftrightarrow> (\<exists>c \<in> set cfg. \<not> ac_Disabled c \<and> ac_Symbol c = as_Symbol a \<and> ac_Decimals c = as_Decimals a)"

definition tokens_precise :: "AssetConfig list \<Rightarrow> (Asset \<Rightarrow> bool) \<Rightarrow> MemoryStoreV1 \<Rightarrow> bool" where
  "tokens_precise cfg pending ms \<longleftrightarrow>
     (\<forall>chain addr a. gm_get2 (ms_tokenAssets ms) chain addr = Some a \<longrightarrow>
        (\<exists>dt. gm_get2 (ms_tokenDecimals ms) chain addr = Some dt \<and> as_Decimals a \<le> dt) \<and>
        listed cfg a \<and>
        (pending a \<or> gm_get (ms_assetDecimals ms) (as_Symbol a) = Some (as_Decimals a)))"

definition store_ok :: "MemoryStoreV1 \<Rightarrow> bool" where
  "store_ok ms \<longleftrightarrow> (\<exists>cfg. tokens_precise cfg (\<lambda>_. False) ms)"

definition consistent_symbols :: "AssetConfig list \<Rightarrow> bool" where
  "consistent_symbols cfg \<longleftrightarrow> (\<forall>a \<in> set cfg. \<forall>b \<in> set cfg.
     \<not> ac_Disabled a \<and> \<not> ac_Disabled b \<and> ac_Symbol a = ac_Symbol b \<longrightarrow> ac_Decimals a = ac_Decimals b)"

definition tokens_cover :: "AssetConfig \<Rightarrow> bool" where
  "tokens_cover asset \<longleftrightarrow> (\<forall>t \<in> set (ac_Tokens asset). tc_Disabled t \<or> ac_Decimals asset \<le> tc_Decimals t)"

lemma set_insert_by [simp]: "set (insert_by lt x xs) = insert x (set xs)"
  by (induction lt x xs rule: insert_by.induct) auto

lemma distinct_insert_by: "distinct xs \<Longrightarrow> x \<notin> set xs \<Longrightarrow> distinct (insert_by lt x xs)"
  by (induction lt x xs rule: insert_by.induct) auto

lemma SortFunc_simps [simp]: "SortFunc lt [] = []" "SortFunc lt (x # xs) = insert_by lt x (SortFunc lt xs)"
  by (simp_all add: SortFunc_def)

lemma set_SortFunc [simp]: "set (SortFunc lt xs) = set xs"
  by (induction xs) simp_all

lemma distinct_SortFunc: "distinct xs \<Longrightarrow> distinct (SortFunc lt xs)"
  by (induction xs) (simp_all add: distinct_insert_by)

lemma gm_get2_put2 [simp]:
  "gm_get2 (gm_put2 a b v m) a' b' = (if a' = a \<and> b' = b then Some v else gm_get2 m a' b')"
  by (simp add: gm_get2_def gm_put2_def)

lemma gm_get2_iff: "gm_get2 m a b = Some v \<longleftrightarrow> (\<exists>i. gm_get m a = Some i \<and> gm_get i b = Some v)"
  by (auto simp: gm_get2_def gm_index_def gm_get_def split: option.splits)

lemma tokens_precise_put:
  assumes "tokens_precise cfg pending ms" and "listed cfg a0" and "pending a0" and "as_Decimals a0 \<le> d"
    and "ms_tokenAssets ms' = gm_put2 c ad a0 (ms_tokenAssets ms)"
    and "ms_tokenDecimals ms' = gm_put2 c ad d (ms_tokenDecimals ms)"
    and "ms_assetDecimals ms' = ms_assetDecimals ms"
  shows "tokens_precise cfg pending ms'"
  unfolding tokens_precise_def
proof (intro allI impI)
  fix chain addr a
  assume g: "gm_get2 (ms_tokenAssets ms') chain addr = Some a"
  show "(\<exists>dt. gm_get2 (ms_tokenDecimals ms') chain addr = Some dt \<and> as_Decimals a \<le> dt) \<and> listed cfg a \<and>
    (pending a \<or> gm_get (ms_assetDecimals ms') (as_Symbol a) = Some (as_Decimals a))"
  proof (cases "chain = c \<and> addr = ad")
    case True
    then show ?thesis using g assms by simp
  next
    case False
    then have "gm_get2 (ms_tokenAssets ms) chain addr = Some a"
      and "gm_get2 (ms_tokenDecimals ms') chain addr = gm_get2 (ms_tokenDecimals ms) chain addr"
      using g assms(5,6) by (auto split: if_splits)
    then show ?thesis using assms(1,7) unfolding tokens_precise_def by simp
  qed
qed

lemma add_token_precise:
  assumes "add_token asset t (ts, sg, ms) = (ts', sg', ms')" and "tokens_precise cfg pending ms"
    and "asset \<in> set cfg" and "\<not> ac_Disabled asset" and "tc_Disabled t \<or> ac_Decimals asset \<le> tc_Decimals t"
    and "\<And>a. as_Symbol a = ac_Symbol asset \<Longrightarrow> as_Decimals a = ac_Decimals asset \<Longrightarrow> pending a"
  shows "tokens_precise cfg pending ms' \<and> (ts' = [] \<longrightarrow> ms' = ms \<and> ts = [])"
proof -
  have "listed cfg a" if "as_Symbol a = ac_Symbol asset" "as_Decimals a = ac_Decimals asset" for a :: Asset
    using that assms(3,4) unfolding listed_def by metis
  note mine = this
  show ?thesis
  proof (cases "gm_get (ms_channelSigValidators ms) (tc_BlockchainID t) = None \<or> tc_Disabled t")
    case True
    then have "ms' = ms \<and> ts' = ts" using assms(1) by (auto simp: add_token_def split: if_splits)
    then show ?thesis using assms(2) by simp
  next
    case False
    let ?a = "\<lparr> as_Name = ac_Name asset, as_Decimals = ac_Decimals asset, as_Symbol = ac_Symbol asset,
                as_SuggestedBlockchainID = 0, as_Tokens = [] \<rparr>"
    have "ms_tokenAssets ms' = gm_put2 (tc_BlockchainID t) (ToLower (tc_Address t)) ?a (ms_tokenAssets ms)"
      "ms_tokenDecimals ms' = gm_put2 (tc_BlockchainID t) (ToLower (tc_Address t)) (tc_Decimals t) (ms_tokenDecimals ms)"
      "ms_assetDecimals ms' = ms_assetDecimals ms" "ts' \<noteq> []"
      using assms(1) False by (auto simp: add_token_def Let_def)
    moreover have "listed cfg ?a" "pending ?a" "as_Decimals ?a \<le> tc_Decimals t"
      using mine assms(5,6) False by simp_all
    ultimately show ?thesis using tokens_precise_put [OF assms(2)] by blast
  qed
qed

lemma add_tokens_precise:
  assumes "foldl (\<lambda>acc t. add_token asset t acc) (ts, sg, ms) tokens = (ts', sg', ms')" and "tokens_precise cfg pending ms"
    and "asset \<in> set cfg" and "\<not> ac_Disabled asset"
    and "\<forall>t \<in> set tokens. tc_Disabled t \<or> ac_Decimals asset \<le> tc_Decimals t"
    and "\<And>a. as_Symbol a = ac_Symbol asset \<Longrightarrow> as_Decimals a = ac_Decimals asset \<Longrightarrow> pending a"
  shows "tokens_precise cfg pending ms' \<and> (ts' = [] \<longrightarrow> ms' = ms \<and> ts = [])"
  using assms(1,2,5)
proof (induction tokens arbitrary: ts sg ms)
  case (Cons t tokens)
  obtain ts1 sg1 ms1 where s: "add_token asset t (ts, sg, ms) = (ts1, sg1, ms1)" by (metis prod_cases3)
  have "tokens_precise cfg pending ms1 \<and> (ts1 = [] \<longrightarrow> ms1 = ms \<and> ts = [])"
    by (rule add_token_precise [OF s Cons.prems(2) assms(3,4)]) (use Cons.prems(3) assms(6) in auto)
  moreover have "tokens_precise cfg pending ms' \<and> (ts' = [] \<longrightarrow> ms' = ms1 \<and> ts1 = [])"
    using Cons.IH [of ts1 sg1 ms1] Cons.prems s calculation by simp
  ultimately show ?case by auto
qed simp

lemma add_asset_precise:
  assumes "add_asset asset ms = Inr ms'" and "tokens_precise cfg (\<lambda>_. False) ms" and "consistent_symbols cfg"
    and "asset \<in> set cfg" and "\<not> ac_Disabled asset \<longrightarrow> tokens_cover asset"
  shows "tokens_precise cfg (\<lambda>_. False) ms'"
proof (cases "ac_Disabled asset")
  case True
  then show ?thesis using assms by (simp add: add_asset_def)
next
  case False
  let ?own = "\<lambda>a. as_Symbol a = ac_Symbol asset \<and> as_Decimals a = ac_Decimals asset"
  obtain ts sg ms1 where f: "foldl (\<lambda>acc t. add_token asset t acc) ([], 0, ms) (ac_Tokens asset) = (ts, sg, ms1)"
    by (metis prod_cases3)
  have "tokens_precise cfg ?own ms" using assms(2) by (auto simp: tokens_precise_def)
  then have p: "tokens_precise cfg ?own ms1" "ts = [] \<longrightarrow> ms1 = ms"
    using add_tokens_precise [OF f _ assms(4) False] assms(5) False by (auto simp: tokens_cover_def)
  show ?thesis
  proof (cases "ts = []")
    case True
    then show ?thesis using assms f p False by (simp add: add_asset_def)
  next
    case ne: False
    have same: "as_Decimals a = ac_Decimals asset"
      if "listed cfg a" and "as_Symbol a = ac_Symbol asset" for a :: Asset
      using that assms(3,4) False unfolding consistent_symbols_def listed_def by metis
    have "ms_tokenAssets ms' = ms_tokenAssets ms1" "ms_tokenDecimals ms' = ms_tokenDecimals ms1"
      "ms_assetDecimals ms' = gm_put (ac_Symbol asset) (ac_Decimals asset) (ms_assetDecimals ms1)"
      using assms(1) f ne False by (auto simp: add_asset_def split: if_splits)
    then show ?thesis using p(1) same unfolding tokens_precise_def by auto
  qed
qed

lemma verifyAsset_cover:
  assumes "verifyAsset a = Inr b" and "\<not> ac_Disabled b"
  shows "tokens_cover b"
proof -
  let ?a = "if ac_Name a = '''' then a \<lparr> ac_Name := ac_Symbol a \<rparr> else a"
  have e: "\<not> ac_Disabled a" using assms by (auto simp: verifyAsset_def)
  obtain ts where ts: "mapME (verifyToken ?a) (ac_Tokens ?a) = Inr ts" "b = ?a \<lparr> ac_Tokens := ts \<rparr>"
    using assms(1) e by (auto simp: verifyAsset_def Let_def simp del: if_split)
  have "tc_Disabled t \<or> ac_Decimals ?a \<le> tc_Decimals t" if m: "t \<in> set ts" for t
  proof -
    obtain t0 where "verifyToken ?a t0 = Inr t" using mapME_in_set [OF ts(1) m] by blast
    then show ?thesis by (auto simp: verifyToken_def Let_def not_less split: if_splits)
  qed
  then show ?thesis using ts(2) by (auto simp: tokens_cover_def)
qed

lemma NewMemoryStoreV1_ok:
  assumes "verifyAssetsConfig raw = Inr cfg" and "consistent_symbols cfg" and "NewMemoryStoreV1 cfg bcs = Inr ms"
  shows "tokens_precise cfg (\<lambda>_. False) ms"
proof -
  define ms0 where "ms0 = foldl (\<lambda>ms (k, bc). add_blockchain bc ms) empty_store bcs"
  have frame: "ms_tokenAssets (foldl (\<lambda>ms (k, bc). add_blockchain bc ms) ms1 cs) = ms_tokenAssets ms1" for ms1 cs
    by (induction cs arbitrary: ms1) (auto simp: add_blockchain_def Let_def split: prod.splits)
  obtain ms2 where f: "foldE add_asset cfg
      (ms0 \<lparr> ms_blockchains := SortFunc (\<lambda>a b. bc_ID a < bc_ID b) (ms_blockchains ms0) \<rparr>) = Inr ms2"
    and ms: "ms = ms2 \<lparr> ms_assets := SortFunc (\<lambda>a b. string_less (as_Symbol a) (as_Symbol b)) (ms_assets ms2) \<rparr>"
    using assms(3) by (auto simp: NewMemoryStoreV1_def ms0_def Let_def)
  have cover: "\<not> ac_Disabled a \<longrightarrow> tokens_cover a" if "a \<in> set cfg" for a
    using mapME_in_set [OF assms(1) [unfolded verifyAssetsConfig_def] that] verifyAsset_cover by blast
  have "tokens_precise cfg (\<lambda>_. False) ms2"
  proof (rule foldE_invariant [OF f])
    show "tokens_precise cfg (\<lambda>_. False) (ms0 \<lparr> ms_blockchains := SortFunc (\<lambda>a b. bc_ID a < bc_ID b) (ms_blockchains ms0) \<rparr>)"
      by (simp add: tokens_precise_def ms0_def frame empty_store_def gm_get2_def)
  qed (use add_asset_precise assms(2) cover in blast)
  then show ?thesis by (simp add: tokens_precise_def ms)
qed

lemma GetTokenAsset_iff:
  "GetTokenAsset ms chain addr = Inr s \<longleftrightarrow>
     (\<exists>a. gm_get2 (ms_tokenAssets ms) chain (ToLower addr) = Some a \<and> as_Symbol a = s)"
  by (auto simp: GetTokenAsset_def gm_get2_iff split: option.splits)

lemma MS_GetTokenDecimals_iff:
  "MS_GetTokenDecimals ms chain addr = Inr d \<longleftrightarrow> gm_get2 (ms_tokenDecimals ms) chain (ToLower addr) = Some d"
  by (auto simp: MS_GetTokenDecimals_def gm_get2_iff split: option.splits)

lemma MS_GetAssetDecimals_iff:
  "MS_GetAssetDecimals ms s = Inr d \<longleftrightarrow> gm_get (ms_assetDecimals ms) s = Some d"
  by (auto simp: MS_GetAssetDecimals_def split: option.splits)

interpretation memory: asset_catalogue store_ok MS_GetAssetDecimals MS_GetTokenDecimals GetTokenAsset
proof
  show "\<exists>da dt. MS_GetAssetDecimals m a = Inr da \<and> MS_GetTokenDecimals m chain addr = Inr dt \<and> da \<le> dt"
    if "store_ok m" "GetTokenAsset m chain addr = Inr a" for m chain addr a
    using that unfolding store_ok_def tokens_precise_def GetTokenAsset_iff MS_GetTokenDecimals_iff MS_GetAssetDecimals_iff
    by metis
qed

end
