(* ===== verification/Chain_Reactor.thy ===== *)
theory Chain_Reactor
  imports Event_Handlers Memory_Store
begin

text \<open>
  \<^verbatim>\<open>src/pkg/blockchain/evm/channel_hub_reactor.go\<close> and \<^verbatim>\<open>locking_reactor.go\<close>: an Ethereum log becomes a
  call of an event handler and a row of the table of contract events, both in one database transaction.
  What the generated contract bindings and go-ethereum compute from a log, the name of an event ID
  (\<^verbatim>\<open>channelHubEventMapping\<close>) and the decoded arguments (\<^verbatim>\<open>Parse...\<close>), is the parameter \<open>bindings\<close>.
\<close>

section \<open>Logs and their decoding\<close>

record ethLog =
  log_Address :: bytes
  log_Topics :: "bytes list"
  log_Data :: bytes
  log_BlockNumber :: uint64
  log_TxHash :: bytes
  log_Index :: uint64
  log_Removed :: bool

text \<open>The arguments of the events that the reactors read. \<^verbatim>\<open>Candidate\<close>, \<^verbatim>\<open>State\<close>, \<^verbatim>\<open>InitialState\<close> and
  \<^verbatim>\<open>FinalState\<close> are the state of the event, of which only the version is used; \<open>arg_Amount\<close> is \<^verbatim>\<open>Amount\<close>
  of \<^verbatim>\<open>NodeBalanceUpdated\<close>, \<^verbatim>\<open>NewBalance\<close> of \<^verbatim>\<open>Locked\<close> and \<^verbatim>\<open>Balance\<close> of \<^verbatim>\<open>Relocked\<close>.\<close>

record event_args =
  arg_ChannelId :: bytes
  arg_EscrowId :: bytes
  arg_StateVersion :: uint64
  arg_ChallengeExpireAt :: uint64
  arg_Node :: bytes
  arg_Token :: bytes
  arg_Amount :: int
  arg_User :: bytes

record bindings =
  EventName :: "bytes \<Rightarrow> string option"
  ParseEvent :: "string \<Rightarrow> ethLog \<Rightarrow> event_args result"

definition parseS :: "bindings \<Rightarrow> string \<Rightarrow> ethLog \<Rightarrow> ('d, event_args) db_op" where
  "parseS B name l = liftS (wrapE (''failed to parse '' @ name @ '' event'') (ParseEvent B name l))"

section \<open>The channel hub\<close>

record ChannelHubReactor =
  hr_blockchainID :: uint64
  hr_nodeAddress :: string
  hr_assetStore :: MemoryStoreV1

definition handleNodeBalanceUpdated :: "'d libs \<Rightarrow> bindings \<Rightarrow> ChannelHubReactor \<Rightarrow> ethLog \<Rightarrow> ('d, unit) db_op" where
  "handleNodeBalanceUpdated L B r l =
     bindS (parseS B ''NodeBalanceUpdated'' l) (\<lambda>event.
     bindS (liftS (wrapE ''failed to get token asset''
       (GetTokenAsset (hr_assetStore r) (hr_blockchainID r) (addressHex L (arg_Token event))))) (\<lambda>asset.
     bindS (liftS (wrapE ''failed to get token decimals''
       (MS_GetTokenDecimals (hr_assetStore r) (hr_blockchainID r) (addressHex L (arg_Token event))))) (\<lambda>decimals.
     HandleNodeBalanceUpdated \<lparr> nb_BlockchainID = hr_blockchainID r, nb_Asset = asset,
       nb_Balance = dNew L (arg_Amount event) (- uint decimals) \<rparr>)))"

definition homeEvent :: "'d libs \<Rightarrow> event_args \<Rightarrow> channelEvent" where
  "homeEvent L event = \<lparr> ev_ChannelID = hexutilEncode L (arg_ChannelId event), ev_StateVersion = arg_StateVersion event \<rparr>"

definition escrowEvent :: "'d libs \<Rightarrow> event_args \<Rightarrow> channelEvent" where
  "escrowEvent L event = \<lparr> ev_ChannelID = hexutilEncode L (arg_EscrowId event), ev_StateVersion = arg_StateVersion event \<rparr>"

definition challengedEvent :: "'d libs \<Rightarrow> bytes \<Rightarrow> event_args \<Rightarrow> channelChallengedEvent" where
  "challengedEvent L channelId event = \<lparr> cev_ChannelID = hexutilEncode L channelId,
     cev_StateVersion = arg_StateVersion event, cev_ChallengeExpiry = arg_ChallengeExpireAt event \<rparr>"

definition handleHomeChannelCreated :: "'d libs \<Rightarrow> bindings \<Rightarrow> int \<Rightarrow> ChannelHubReactor \<Rightarrow> ethLog \<Rightarrow> ('d, unit) db_op" where
  "handleHomeChannelCreated L B now r l =
     bindS (parseS B ''ChannelCreated'' l) (\<lambda>event.
     if HexToAddress L (hr_nodeAddress r) \<noteq> arg_Node event then retS ()
     else HandleHomeChannelCreated L now (homeEvent L event))"

definition handleHomeChannelMigrated :: "'d libs \<Rightarrow> bindings \<Rightarrow> ethLog \<Rightarrow> ('d, unit) db_op" where
  "handleHomeChannelMigrated L B l =
     bindS (parseS B ''MigrationInInitiated'' l) (\<lambda>event. HandleHomeChannelMigrated (homeEvent L event))"

definition handleHomeChannelCheckpointed :: "'d libs \<Rightarrow> bindings \<Rightarrow> int \<Rightarrow> ethLog \<Rightarrow> ('d, unit) db_op" where
  "handleHomeChannelCheckpointed L B now l =
     bindS (parseS B ''ChannelCheckpointed'' l) (\<lambda>event. HandleHomeChannelCheckpointed L now (homeEvent L event))"

definition handleChannelDeposited :: "'d libs \<Rightarrow> bindings \<Rightarrow> int \<Rightarrow> ethLog \<Rightarrow> ('d, unit) db_op" where
  "handleChannelDeposited L B now l =
     bindS (parseS B ''ChannelDeposited'' l) (\<lambda>event. HandleHomeChannelCheckpointed L now (homeEvent L event))"

definition handleChannelWithdrawn :: "'d libs \<Rightarrow> bindings \<Rightarrow> int \<Rightarrow> ethLog \<Rightarrow> ('d, unit) db_op" where
  "handleChannelWithdrawn L B now l =
     bindS (parseS B ''ChannelWithdrawn'' l) (\<lambda>event. HandleHomeChannelCheckpointed L now (homeEvent L event))"

definition handleHomeChannelChallenged :: "'d libs \<Rightarrow> bindings \<Rightarrow> int \<Rightarrow> ethLog \<Rightarrow> ('d, unit) db_op" where
  "handleHomeChannelChallenged L B now l =
     bindS (parseS B ''ChannelChallenged'' l) (\<lambda>event. HandleHomeChannelChallenged L now (challengedEvent L (arg_ChannelId event) event))"

definition handleHomeChannelClosed :: "'d libs \<Rightarrow> bindings \<Rightarrow> int \<Rightarrow> ethLog \<Rightarrow> ('d, unit) db_op" where
  "handleHomeChannelClosed L B now l =
     bindS (parseS B ''ChannelClosed'' l) (\<lambda>event. HandleHomeChannelClosed L now (homeEvent L event))"

definition handleEscrowDepositInitiated :: "'d libs \<Rightarrow> bindings \<Rightarrow> int \<Rightarrow> ethLog \<Rightarrow> ('d, unit) db_op" where
  "handleEscrowDepositInitiated L B now l =
     bindS (parseS B ''EscrowDepositInitiated'' l) (\<lambda>event. HandleEscrowDepositInitiated now (escrowEvent L event))"

definition handleEscrowDepositChallenged :: "'d libs \<Rightarrow> bindings \<Rightarrow> int \<Rightarrow> ethLog \<Rightarrow> ('d, unit) db_op" where
  "handleEscrowDepositChallenged L B now l =
     bindS (parseS B ''EscrowDepositChallenged'' l) (\<lambda>event. HandleEscrowDepositChallenged now (challengedEvent L (arg_EscrowId event) event))"

definition handleEscrowDepositFinalized :: "'d libs \<Rightarrow> bindings \<Rightarrow> int \<Rightarrow> ethLog \<Rightarrow> ('d, unit) db_op" where
  "handleEscrowDepositFinalized L B now l =
     bindS (parseS B ''EscrowDepositFinalized'' l) (\<lambda>event. HandleEscrowDepositFinalized now (escrowEvent L event))"

definition handleEscrowWithdrawalInitiated :: "'d libs \<Rightarrow> bindings \<Rightarrow> int \<Rightarrow> ethLog \<Rightarrow> ('d, unit) db_op" where
  "handleEscrowWithdrawalInitiated L B now l =
     bindS (parseS B ''EscrowWithdrawalInitiated'' l) (\<lambda>event. HandleEscrowWithdrawalInitiated now (escrowEvent L event))"

definition handleEscrowWithdrawalChallenged :: "'d libs \<Rightarrow> bindings \<Rightarrow> int \<Rightarrow> ethLog \<Rightarrow> ('d, unit) db_op" where
  "handleEscrowWithdrawalChallenged L B now l =
     bindS (parseS B ''EscrowWithdrawalChallenged'' l) (\<lambda>event. HandleEscrowWithdrawalChallenged now (challengedEvent L (arg_EscrowId event) event))"

definition handleEscrowWithdrawalFinalized :: "'d libs \<Rightarrow> bindings \<Rightarrow> int \<Rightarrow> ethLog \<Rightarrow> ('d, unit) db_op" where
  "handleEscrowWithdrawalFinalized L B now l =
     bindS (parseS B ''EscrowWithdrawalFinalized'' l) (\<lambda>event. HandleEscrowWithdrawalFinalized now (escrowEvent L event))"

definition handleEscrowDepositInitiatedOnHome :: "'d libs \<Rightarrow> bindings \<Rightarrow> int \<Rightarrow> ethLog \<Rightarrow> ('d, unit) db_op" where
  "handleEscrowDepositInitiatedOnHome L B now l =
     bindS (parseS B ''EscrowDepositInitiatedOnHome'' l) (\<lambda>event. HandleHomeChannelCheckpointed L now (homeEvent L event))"

definition handleEscrowDepositFinalizedOnHome :: "'d libs \<Rightarrow> bindings \<Rightarrow> int \<Rightarrow> ethLog \<Rightarrow> ('d, unit) db_op" where
  "handleEscrowDepositFinalizedOnHome L B now l =
     bindS (parseS B ''EscrowDepositFinalizedOnHome'' l) (\<lambda>event. HandleHomeChannelCheckpointed L now (homeEvent L event))"

definition handleEscrowWithdrawalInitiatedOnHome :: "'d libs \<Rightarrow> bindings \<Rightarrow> int \<Rightarrow> ethLog \<Rightarrow> ('d, unit) db_op" where
  "handleEscrowWithdrawalInitiatedOnHome L B now l =
     bindS (parseS B ''EscrowWithdrawalInitiatedOnHome'' l) (\<lambda>event. HandleHomeChannelCheckpointed L now (homeEvent L event))"

definition handleEscrowWithdrawalFinalizedOnHome :: "'d libs \<Rightarrow> bindings \<Rightarrow> int \<Rightarrow> ethLog \<Rightarrow> ('d, unit) db_op" where
  "handleEscrowWithdrawalFinalizedOnHome L B now l =
     bindS (parseS B ''EscrowWithdrawalFinalizedOnHome'' l) (\<lambda>event. HandleHomeChannelCheckpointed L now (homeEvent L event))"

text \<open>Events that are parsed and logged only.\<close>

definition logOnly :: "bindings \<Rightarrow> string \<Rightarrow> ethLog \<Rightarrow> ('d, unit) db_op" where
  "logOnly B name l = bindS (parseS B name l) (\<lambda>_. retS ())"

definition handleMigrationInFinalized :: "bindings \<Rightarrow> ethLog \<Rightarrow> ('d, unit) db_op" where
  "handleMigrationInFinalized B = logOnly B ''MigrationInFinalized''"

definition handleMigrationOutInitiated :: "bindings \<Rightarrow> ethLog \<Rightarrow> ('d, unit) db_op" where
  "handleMigrationOutInitiated B = logOnly B ''MigrationOutInitiated''"

definition handleMigrationOutFinalized :: "bindings \<Rightarrow> ethLog \<Rightarrow> ('d, unit) db_op" where
  "handleMigrationOutFinalized B = logOnly B ''MigrationOutFinalized''"

definition handleDeposited :: "bindings \<Rightarrow> ethLog \<Rightarrow> ('d, unit) db_op" where
  "handleDeposited B = logOnly B ''Deposited''"

definition handleWithdrawn :: "bindings \<Rightarrow> ethLog \<Rightarrow> ('d, unit) db_op" where
  "handleWithdrawn B = logOnly B ''Withdrawn''"

definition handleEscrowDepositsPurged :: "bindings \<Rightarrow> ethLog \<Rightarrow> ('d, unit) db_op" where
  "handleEscrowDepositsPurged B = logOnly B ''EscrowDepositsPurged''"

text \<open>The switch of \<^verbatim>\<open>HandleEvent\<close>. Event IDs and event names of a contract correspond one to one, so the
  model switches on the name.\<close>

definition dispatchHub :: "'d libs \<Rightarrow> bindings \<Rightarrow> int \<Rightarrow> ChannelHubReactor \<Rightarrow> string \<Rightarrow> ethLog \<Rightarrow> ('d, unit) db_op" where
  "dispatchHub L B now r name l =
     (if name = ''NodeBalanceUpdated'' then handleNodeBalanceUpdated L B r l
      else if name = ''ChannelCreated'' then handleHomeChannelCreated L B now r l
      else if name = ''ChannelCheckpointed'' then handleHomeChannelCheckpointed L B now l
      else if name = ''ChannelDeposited'' then handleChannelDeposited L B now l
      else if name = ''ChannelWithdrawn'' then handleChannelWithdrawn L B now l
      else if name = ''ChannelChallenged'' then handleHomeChannelChallenged L B now l
      else if name = ''ChannelClosed'' then handleHomeChannelClosed L B now l
      else if name = ''EscrowDepositInitiated'' then handleEscrowDepositInitiated L B now l
      else if name = ''EscrowDepositChallenged'' then handleEscrowDepositChallenged L B now l
      else if name = ''EscrowDepositFinalized'' then handleEscrowDepositFinalized L B now l
      else if name = ''EscrowWithdrawalInitiated'' then handleEscrowWithdrawalInitiated L B now l
      else if name = ''EscrowWithdrawalChallenged'' then handleEscrowWithdrawalChallenged L B now l
      else if name = ''EscrowWithdrawalFinalized'' then handleEscrowWithdrawalFinalized L B now l
      else if name = ''EscrowDepositInitiatedOnHome'' then handleEscrowDepositInitiatedOnHome L B now l
      else if name = ''EscrowDepositFinalizedOnHome'' then handleEscrowDepositFinalizedOnHome L B now l
      else if name = ''EscrowWithdrawalInitiatedOnHome'' then handleEscrowWithdrawalInitiatedOnHome L B now l
      else if name = ''EscrowWithdrawalFinalizedOnHome'' then handleEscrowWithdrawalFinalizedOnHome L B now l
      else if name = ''MigrationInInitiated'' then handleHomeChannelMigrated L B l
      else if name = ''MigrationInFinalized'' then handleMigrationInFinalized B l
      else if name = ''MigrationOutInitiated'' then handleMigrationOutInitiated B l
      else if name = ''MigrationOutFinalized'' then handleMigrationOutFinalized B l
      else if name = ''Deposited'' then handleDeposited B l
      else if name = ''Withdrawn'' then handleWithdrawn B l
      else if name = ''EscrowDepositsPurged'' then handleEscrowDepositsPurged B l
      else retS ())"

text \<open>Both reactors run the handler of the event and store the event in the same transaction. A log
  without topics panics, and a log of an unknown event is skipped without a trace in the database.\<close>

definition contractEventOf :: "'d libs \<Rightarrow> uint64 \<Rightarrow> string \<Rightarrow> ethLog \<Rightarrow> BlockchainEvent" where
  "contractEventOf L chainID name l =
     \<lparr> bev_ContractAddress = addressHex L (log_Address l), bev_BlockchainID = chainID, bev_Name = name,
       bev_BlockNumber = log_BlockNumber l, bev_TransactionHash = hashHex L (log_TxHash l),
       bev_LogIndex = ucast (log_Index l) \<rparr>"

definition wrapS :: "string \<Rightarrow> ('d, 'a) db_op \<Rightarrow> ('d, 'a) db_op" where
  "wrapS msg m db = wrapE msg (m db)"

lemma wrapS_eq [simp]: "wrapS msg m db = Inr r \<longleftrightarrow> m db = Inr r"
  by (simp add: wrapS_def)

definition reactTx :: "'d libs \<Rightarrow> uint64 \<Rightarrow> string \<Rightarrow> ('d, unit) db_op \<Rightarrow> ethLog \<Rightarrow> ('d, unit) db_op" where
  "reactTx L chainID name handler l =
     bindS (wrapS ''error processing event'' handler) (\<lambda>_.
     wrapS ''error storing contract event'' (StoreContractEvent (contractEventOf L chainID name l)))"

definition reactTo ::
  "'d libs \<Rightarrow> bindings \<Rightarrow> uint64 \<Rightarrow> (string \<Rightarrow> ethLog \<Rightarrow> ('d, unit) db_op) \<Rightarrow> ethLog \<Rightarrow> 'd db \<Rightarrow> unit result \<times> 'd db" where
  "reactTo L B chainID dispatch l db =
     (case log_Topics l of
        [] \<Rightarrow> (Inl (Panic ''index out of range''), db)
      | eventID # _ \<Rightarrow> (case EventName B eventID of
            None \<Rightarrow> (Inr (), db)
          | Some eventName \<Rightarrow> ExecuteInTransaction False (reactTx L chainID eventName (dispatch eventName l) l) db))"

definition ChannelHubReactor_HandleEvent ::
  "'d libs \<Rightarrow> bindings \<Rightarrow> int \<Rightarrow> ChannelHubReactor \<Rightarrow> ethLog \<Rightarrow> 'd db \<Rightarrow> unit result \<times> 'd db" where
  "ChannelHubReactor_HandleEvent L B now r = reactTo L B (hr_blockchainID r) (dispatchHub L B now r)"

section \<open>The locking contract\<close>

record LockingContractReactor =
  lr_blockchainID :: uint64
  lr_tokenDecimals :: uint8

definition NewLockingContractReactor :: "uint64 \<Rightarrow> uint8 result \<Rightarrow> LockingContractReactor result" where
  "NewLockingContractReactor blockchainID getTokenDecimals =
     bindE (wrapE ''failed to get token decimals'' getTokenDecimals) (\<lambda>tokenDecimals.
     Inr \<lparr> lr_blockchainID = blockchainID, lr_tokenDecimals = tokenDecimals \<rparr>)"

definition lockedBalance :: "'d libs \<Rightarrow> LockingContractReactor \<Rightarrow> event_args \<Rightarrow> 'd \<Rightarrow> 'd UserLockedBalanceUpdatedEvent" where
  "lockedBalance L r event balance =
     \<lparr> ul_UserAddress = ToLower (addressHex L (arg_User event)), ul_BlockchainID = lr_blockchainID r, ul_Balance = balance \<rparr>"

definition handleLocked :: "'d libs \<Rightarrow> bindings \<Rightarrow> LockingContractReactor \<Rightarrow> ethLog \<Rightarrow> ('d, unit) db_op" where
  "handleLocked L B r l =
     bindS (parseS B ''Locked'' l) (\<lambda>event.
     HandleUserLockedBalanceUpdated L (lockedBalance L r event (dNew L (arg_Amount event) (- uint (lr_tokenDecimals r)))))"

definition handleRelocked :: "'d libs \<Rightarrow> bindings \<Rightarrow> LockingContractReactor \<Rightarrow> ethLog \<Rightarrow> ('d, unit) db_op" where
  "handleRelocked L B r l =
     bindS (parseS B ''Relocked'' l) (\<lambda>event.
     HandleUserLockedBalanceUpdated L (lockedBalance L r event (dNew L (arg_Amount event) (- uint (lr_tokenDecimals r)))))"

definition handleUnlockInitiated :: "'d libs \<Rightarrow> bindings \<Rightarrow> LockingContractReactor \<Rightarrow> ethLog \<Rightarrow> ('d, unit) db_op" where
  "handleUnlockInitiated L B r l =
     bindS (liftS (wrapE ''failed to parse Unlockinitiated event'' (ParseEvent B ''UnlockInitiated'' l))) (\<lambda>event. HandleUserLockedBalanceUpdated L (lockedBalance L r event (dZero L)))"

definition handleLockWithdrawn :: "'d libs \<Rightarrow> bindings \<Rightarrow> LockingContractReactor \<Rightarrow> ethLog \<Rightarrow> ('d, unit) db_op" where
  "handleLockWithdrawn L B r l =
     bindS (parseS B ''Withdrawn'' l) (\<lambda>event. HandleUserLockedBalanceUpdated L (lockedBalance L r event (dZero L)))"

definition dispatchLocking :: "'d libs \<Rightarrow> bindings \<Rightarrow> LockingContractReactor \<Rightarrow> string \<Rightarrow> ethLog \<Rightarrow> ('d, unit) db_op" where
  "dispatchLocking L B r name l =
     (if name = ''Locked'' then handleLocked L B r l
      else if name = ''Relocked'' then handleRelocked L B r l
      else if name = ''UnlockInitiated'' then handleUnlockInitiated L B r l
      else if name = ''Withdrawn'' then handleLockWithdrawn L B r l
      else retS ())"

definition LockingContractReactor_HandleEvent ::
  "'d libs \<Rightarrow> bindings \<Rightarrow> LockingContractReactor \<Rightarrow> ethLog \<Rightarrow> 'd db \<Rightarrow> unit result \<times> 'd db" where
  "LockingContractReactor_HandleEvent L B r = reactTo L B (lr_blockchainID r) (dispatchLocking L B r)"

end
