(* ===== verification/Chain_Listener.thy ===== *)
theory Chain_Listener
  imports Chain_Reactor
begin

text \<open>
  \<^verbatim>\<open>src/pkg/blockchain/evm/listener.go\<close>: how logs reach a reactor. Historical logs are fetched in windows
  of blocks (\<open>reconcileBlockRange\<close>), then live logs follow; logs that are already stored are skipped.
  Goroutines, channels and timers are replaced by the sequence of logs they deliver: a phase works through
  a list of logs, and \<^verbatim>\<open>FilterLogs\<close> is the parameter \<open>filterLogs\<close>, which may fail at any attempt.
\<close>

section \<open>Back off\<close>

abbreviation (input) maxBackOffCount :: int where "maxBackOffCount \<equiv> 5"

text \<open>The delay in seconds; \<open>-1\<close> asks the caller to abort.\<close>

definition backOffDuration :: "int \<Rightarrow> int" where
  "backOffDuration backOffCount =
     (if maxBackOffCount < backOffCount then -1
      else if backOffCount = 0 then 0
      else 2 ^ nat backOffCount - 1)"

definition logBackOff :: "uint64 \<Rightarrow> int \<times> bool" where
  "logBackOff count = (let d = backOffDuration (sint count) in if d < 0 then (0, False) else (d, True))"

section \<open>Fetching historical logs\<close>

datatype reconcile_end = RangeDone | ContextDone | BackOffLimit

text \<open>One pass of the loop per call. \<open>i\<close> counts the passes, \<open>alive i\<close> is the state of the context then.
  The result is the list of logs sent to the channel and the reason for returning; \<open>None\<close> is a loop that
  never returns.\<close>

partial_function (option) reconcileLoop ::
  "(nat \<Rightarrow> bool) \<Rightarrow> (nat \<Rightarrow> uint64 \<Rightarrow> uint64 \<Rightarrow> ethLog list result) \<Rightarrow> uint64 \<Rightarrow> uint64
   \<Rightarrow> nat \<Rightarrow> uint64 \<Rightarrow> uint64 \<Rightarrow> uint64 \<Rightarrow> ethLog list \<Rightarrow> (ethLog list \<times> reconcile_end) option" where
  "reconcileLoop alive filterLogs blockStep currentBlock i backOffCount startBlock endBlock sent =
     (if \<not> startBlock < currentBlock then Some (sent, RangeDone)
      else if \<not> snd (logBackOff backOffCount) then Some (sent, BackOffLimit)
      else if \<not> alive i then Some (sent, ContextDone)
      else
        let end1 = (if currentBlock < endBlock then currentBlock else endBlock) in
        case filterLogs i startBlock end1 of
          Inl e \<Rightarrow> reconcileLoop alive filterLogs blockStep currentBlock (Suc i) (backOffCount + 1) startBlock end1 sent
        | Inr logs \<Rightarrow> reconcileLoop alive filterLogs blockStep currentBlock (Suc i) backOffCount (end1 + 1) (end1 + blockStep) (sent @ logs))"

definition reconcileBlockRange ::
  "(nat \<Rightarrow> bool) \<Rightarrow> (nat \<Rightarrow> uint64 \<Rightarrow> uint64 \<Rightarrow> ethLog list result) \<Rightarrow> uint64 \<Rightarrow> uint64 \<Rightarrow> uint64
   \<Rightarrow> (ethLog list \<times> reconcile_end) option" where
  "reconcileBlockRange alive filterLogs blockStep currentBlock lastBlock =
     reconcileLoop alive filterLogs blockStep currentBlock 0 0 lastBlock (lastBlock + blockStep) []"

section \<open>Processing logs\<close>

type_synonym 'd log_handler = "ethLog \<Rightarrow> 'd db \<Rightarrow> unit result \<times> 'd db"

definition isPresent :: "'d libs \<Rightarrow> uint64 \<Rightarrow> ethLog \<Rightarrow> 'd db \<Rightarrow> bool result" where
  "isPresent L chainID l db = IsContractEventPresent db chainID (log_BlockNumber l) (hashHex L (log_TxHash l)) (ucast (log_Index l))"

text \<open>Phase 1: historical logs, until the channel is closed.\<close>

fun processHistorical :: "'d libs \<Rightarrow> uint64 \<Rightarrow> 'd log_handler \<Rightarrow> bool \<Rightarrow> ethLog list \<Rightarrow> 'd db \<Rightarrow> unit result \<times> 'd db" where
  "processHistorical L chainID handleEvent checkDone [] db = (Inr (), db)"
| "processHistorical L chainID handleEvent checkDone (l # ls) db =
     (case (if checkDone then Inr False else wrapE ''failed to check historical event presence'' (isPresent L chainID l db)) of
        Inl e \<Rightarrow> (Inl e, db)
      | Inr True \<Rightarrow> processHistorical L chainID handleEvent checkDone ls db
      | Inr False \<Rightarrow> (case handleEvent l db of
            (Inl e, db') \<Rightarrow> (Inl e, db')
          | (Inr u, db') \<Rightarrow> processHistorical L chainID handleEvent True ls db'))"

text \<open>Phase 2: live logs, until the subscription ends; the last block seen is kept for the next round.\<close>

fun processCurrent ::
  "'d libs \<Rightarrow> uint64 \<Rightarrow> 'd log_handler \<Rightarrow> bool \<Rightarrow> ethLog list \<Rightarrow> uint64 \<Rightarrow> 'd db \<Rightarrow> unit result \<times> uint64 \<times> 'd db" where
  "processCurrent L chainID handleEvent checkDone [] lastBlock db = (Inr (), lastBlock, db)"
| "processCurrent L chainID handleEvent checkDone (l # ls) lastBlock db =
     (if log_Removed l then processCurrent L chainID handleEvent checkDone ls lastBlock db
      else case (if checkDone then Inr False else wrapE ''failed to check current event presence'' (isPresent L chainID l db)) of
        Inl e \<Rightarrow> (Inl e, log_BlockNumber l, db)
      | Inr True \<Rightarrow> processCurrent L chainID handleEvent checkDone ls (log_BlockNumber l) db
      | Inr False \<Rightarrow> (case handleEvent l db of
            (Inl e, db') \<Rightarrow> (Inl e, log_BlockNumber l, db')
          | (Inr u, db') \<Rightarrow> processCurrent L chainID handleEvent True ls (log_BlockNumber l) db'))"

definition processEvents ::
  "'d libs \<Rightarrow> uint64 \<Rightarrow> 'd log_handler \<Rightarrow> ethLog list \<Rightarrow> ethLog list \<Rightarrow> uint64 \<Rightarrow> 'd db \<Rightarrow> unit result \<times> uint64 \<times> 'd db" where
  "processEvents L chainID handleEvent historical current lastBlock db =
     (case processHistorical L chainID handleEvent False historical db of
        (Inl e, db') \<Rightarrow> (Inl e, lastBlock, db')
      | (Inr u, db') \<Rightarrow> processCurrent L chainID handleEvent False current lastBlock db')"

end
