(* ===== verification/Listener_Properties.thy ===== *)
theory Listener_Properties
  imports Chain_Listener
begin

text \<open>
  From the chain to the database: fetching historical logs ends and covers a known range of blocks, and
  logs delivered in order are handled exactly once.
\<close>

section \<open>Fetching historical logs\<close>

definition logs_of :: "(nat \<Rightarrow> ethLog list) \<Rightarrow> nat \<Rightarrow> nat \<Rightarrow> ethLog list" where
  "logs_of chain frm til = concat (map chain [frm..<til])"

text \<open>A node that answers a query for a range of blocks with exactly the logs of these blocks, in order.
  It may fail at any time.\<close>

definition honest :: "(nat \<Rightarrow> ethLog list) \<Rightarrow> (nat \<Rightarrow> uint64 \<Rightarrow> uint64 \<Rightarrow> ethLog list result) \<Rightarrow> bool" where
  "honest chain filterLogs \<longleftrightarrow> (\<forall>i frm til logs. frm \<le> til \<longrightarrow> filterLogs i frm til = Inr logs \<longrightarrow>
     logs = logs_of chain (unat frm) (Suc (unat til)))"

text \<open>The chain tip is left out when the block before it ends a window.\<close>

definition tip_missed :: "nat \<Rightarrow> nat \<Rightarrow> nat \<Rightarrow> bool" where
  "tip_missed step lst current \<longleftrightarrow> Suc lst < current \<and> step dvd current - lst - 1"

lemma logs_of_append: "frm \<le> mid \<Longrightarrow> mid \<le> til \<Longrightarrow> logs_of chain frm mid @ logs_of chain mid til = logs_of chain frm til"
  unfolding logs_of_def by (metis concat_append map_append upt_add_eq_append le_Suc_ex)

lemma logBackOff_ok: "unat n \<le> 6 \<Longrightarrow> snd (logBackOff n) \<longleftrightarrow> unat n \<le> 5"
proof -
  assume n: "unat n \<le> 6"
  have u: "uint n = int (unat n)" by simp
  then have "0 \<le> uint n" "uint n \<le> 6" using n by linarith+
  moreover have "(0::int) \<le> 2 ^ 63" "(6::int) < 2 ^ 63" by simp_all
  ultimately have "- (2 ^ 63) \<le> uint n" "uint n < 2 ^ 63" by linarith+
  then have "signed_take_bit 63 (uint n) = uint n" by (rule signed_take_bit_int_eq_self)
  then have "sint n = uint n" by (simp add: sint_uint)
  then have "snd (logBackOff n) \<longleftrightarrow> \<not> 5 < uint n" by (simp add: logBackOff_def backOffDuration_def Let_def not_less)
  then show ?thesis unfolding u by linarith
qed

text \<open>The position of the loop: before the first window, or behind window \<open>k - 1\<close>. A failed query may
  have cut the end of the window to the chain tip.\<close>

definition at_window :: "nat \<Rightarrow> nat \<Rightarrow> nat \<Rightarrow> nat \<Rightarrow> nat \<Rightarrow> bool" where
  "at_window step lst current s e \<longleftrightarrow>
     (\<exists>k \<ge> 1. min e current = min (lst + k * step) current \<and> e \<le> current + step \<and>
        (if k = 1 then s = lst else s = lst + (k - 1) * step + 1))"

definition loop_exit :: "nat \<Rightarrow> nat \<Rightarrow> nat \<Rightarrow> nat \<Rightarrow> bool" where
  "loop_exit step lst current s \<longleftrightarrow>
     (if current \<le> lst then s = lst else if tip_missed step lst current then s = current else s = Suc current)"

lemma at_window_step:
  assumes "at_window step lst current s e" and "s < current" and "0 < step"
  shows "s \<le> min e current" and
    "Suc (min e current) < current \<Longrightarrow> at_window step lst current (Suc (min e current)) (min e current + step)"
    "\<not> Suc (min e current) < current \<Longrightarrow> loop_exit step lst current (Suc (min e current))"
proof -
  obtain k where k: "k \<ge> 1" "min e current = min (lst + k * step) current"
    "if k = 1 then s = lst else s = lst + (k - 1) * step + 1"
    using assms(1) unfolding at_window_def by blast
  obtain j where j: "k = Suc j" using k(1) by (cases k) auto
  show le: "s \<le> min e current" using k assms(2,3) unfolding j by (auto split: if_splits)
  show "at_window step lst current (Suc (min e current)) (min e current + step)" if "Suc (min e current) < current"
    using that k assms(3) unfolding at_window_def j by (intro exI [of _ "Suc (Suc j)"]) auto
  show "loop_exit step lst current (Suc (min e current))" if stop: "\<not> Suc (min e current) < current"
  proof (cases "current \<le> lst + k * step")
    case True
    have "\<not> tip_missed step lst current"
    proof
      assume "tip_missed step lst current"
      then obtain q where q: "current - lst - 1 = step * q" "Suc lst < current" unfolding tip_missed_def by (auto elim: dvdE)
      have "k * step = step * Suc j" using j by (simp add: mult.commute)
      then have "current - lst - 1 < step * Suc j" "current - lst - 1 \<noteq> 0" using True q(2) by linarith+
      then have "step * q < step * Suc j" "step * q \<noteq> 0" unfolding q(1) .
      then have "q \<le> j" "0 < q" unfolding nat_mult_less_cancel1 [OF assms(3)] by auto
      then have "j \<noteq> 0" by auto
      have "j * step = step * j" "s = lst + j * step + 1" using k(3) \<open>j \<noteq> 0\<close> unfolding j by simp_all
      then have "step * j < step * q" using assms(2) unfolding q(1) [symmetric] by linarith
      then show False using \<open>q \<le> j\<close> by simp
    qed
    moreover have "lst < current" using k(3) assms(2) by (auto split: if_splits)
    ultimately show ?thesis using True k(2) by (simp add: loop_exit_def)
  next
    case False
    then have c: "current = Suc (lst + k * step)" using stop k(2) by simp
    moreover have "0 < k * step" using k(1) assms(3) by simp
    ultimately have "tip_missed step lst current" by (simp add: tip_missed_def)
    then show ?thesis using c k(2) by (simp add: loop_exit_def)
  qed
qed

lemma at_window_cut: "at_window step lst current s e \<Longrightarrow> at_window step lst current s (min e current)"
proof -
  assume w: "at_window step lst current s e"
  have "min (min e current) current = min e current" "min e current \<le> current + step" by auto
  with w show ?thesis unfolding at_window_def by metis
qed

lemma reconcileLoop_ends:
  assumes step: "0 < unat step" and room: "unat current + unat step < 2 ^ 64"
    and "unat backOff \<le> 6" and "unat start \<le> Suc (unat current)"
    and "start < current \<Longrightarrow> at_window (unat step) lst (unat current) (unat start) (unat ende)"
    and "\<not> start < current \<Longrightarrow> loop_exit (unat step) lst (unat current) (unat start)"
    and "honest chain filterLogs \<Longrightarrow> sent = logs_of chain lst (unat start) \<and> lst \<le> unat start"
  shows "\<exists>sent' why. reconcileLoop alive filterLogs step current i backOff start ende sent = Some (sent', why) \<and>
    (honest chain filterLogs \<longrightarrow> why = RangeDone \<longrightarrow>
       (\<exists>s. loop_exit (unat step) lst (unat current) s \<and> sent' = logs_of chain lst s))"
  using assms(3-7)
proof (induction "(Suc (unat current) - unat start) + (6 - unat backOff)" arbitrary: i backOff start ende sent rule: less_induct)
  case less
  let ?end1 = "if current < ende then current else ende"
  have e1: "unat ?end1 = min (unat ende) (unat current)" by (simp add: word_less_nat_alt)
  show ?case
  proof (cases "start < current \<and> snd (logBackOff backOff) \<and> alive i")
    case False
    then show ?thesis using less.prems by (subst reconcileLoop.simps) auto
  next
    case True
    then have lt: "unat start < unat current" and b: "unat backOff \<le> 5"
      using less.prems(1) logBackOff_ok by (auto simp: word_less_nat_alt)
    note w = at_window_step [OF less.prems(3) lt step, folded e1]
    have win: "at_window (unat step) lst (unat current) (unat start) (unat ende)" using less.prems(3) True by simp
    have le: "unat start \<le> unat ?end1" "unat ?end1 \<le> unat current" using w(1) True e1 by auto
    have suc: "unat (?end1 + 1) = Suc (unat ?end1)" and add: "unat (?end1 + step) = unat ?end1 + unat step"
      using le room step by (auto simp: unat_word_ariths)
    show ?thesis
    proof (cases "filterLogs i start ?end1")
      case (Inl err)
      have bo: "unat (backOff + 1) = Suc (unat backOff)" using b by (simp add: unat_word_ariths)
      have "at_window (unat step) lst (unat current) (unat start) (unat ?end1)"
        unfolding e1 using win by (rule at_window_cut)
      then have "\<exists>sent' why. reconcileLoop alive filterLogs step current (Suc i) (backOff + 1) start ?end1 sent = Some (sent', why) \<and>
        (honest chain filterLogs \<longrightarrow> why = RangeDone \<longrightarrow>
           (\<exists>s. loop_exit (unat step) lst (unat current) s \<and> sent' = logs_of chain lst s))"
        using less.prems b bo True by (intro less.hyps) auto
      then show ?thesis using True Inl by (subst reconcileLoop.simps) (simp add: Let_def)
    next
      case (Inr logs)
      have "sent @ logs = logs_of chain lst (unat (?end1 + 1)) \<and> lst \<le> unat (?end1 + 1)" if "honest chain filterLogs"
      proof -
        have "logs = logs_of chain (unat start) (Suc (unat ?end1))"
          using that Inr le(1) unfolding honest_def word_le_nat_alt by blast
        then show ?thesis using less.prems(5) [OF that] le suc by (simp add: logs_of_append)
      qed
      then have "\<exists>sent' why. reconcileLoop alive filterLogs step current (Suc i) backOff (?end1 + 1) (?end1 + step) (sent @ logs) = Some (sent', why) \<and>
        (honest chain filterLogs \<longrightarrow> why = RangeDone \<longrightarrow>
           (\<exists>s. loop_exit (unat step) lst (unat current) s \<and> sent' = logs_of chain lst s))"
        using less.prems(1) lt b le suc add w(2,3) True by (intro less.hyps) (auto simp: word_less_nat_alt)
      then show ?thesis using True Inr by (subst reconcileLoop.simps) (simp add: Let_def)
    qed
  qed
qed

text \<open>C16 (termination). Fetching historical logs always ends, and when it ends because the range is done and
  the blockchain node answers honestly, it delivered exactly the logs of the blocks from the last processed
  one up to the chain tip, in order. The tip itself is left out when its predecessor ends a window of
  \<^verbatim>\<open>blockStep\<close> blocks. The step is positive, and tip plus step fit into 64 bits.\<close>

theorem reconcile_covers_range:
  assumes "0 < blockStep" and "unat currentBlock + unat blockStep < 2 ^ 64" and "lastBlock < currentBlock"
  shows "\<exists>sent why. reconcileBlockRange alive filterLogs blockStep currentBlock lastBlock = Some (sent, why) \<and>
    (honest chain filterLogs \<longrightarrow> why = RangeDone \<longrightarrow>
       sent = logs_of chain (unat lastBlock)
         (if tip_missed (unat blockStep) (unat lastBlock) (unat currentBlock) then unat currentBlock else Suc (unat currentBlock)))"
proof -
  have s: "0 < unat blockStep" using assms(1) by (simp add: word_less_nat_alt)
  have lt: "unat lastBlock < unat currentBlock" using assms(3) by (simp add: word_less_nat_alt)
  have "unat (lastBlock + blockStep) = unat lastBlock + unat blockStep"
    using lt assms(2) by (simp add: unat_word_ariths)
  then have w: "at_window (unat blockStep) (unat lastBlock) (unat currentBlock) (unat lastBlock) (unat (lastBlock + blockStep))"
    using lt unfolding at_window_def by (intro exI [of _ 1]) simp
  have e: "loop_exit (unat blockStep) (unat lastBlock) (unat currentBlock) n \<longleftrightarrow>
      n = (if tip_missed (unat blockStep) (unat lastBlock) (unat currentBlock) then unat currentBlock else Suc (unat currentBlock))" for n
    using lt by (simp add: loop_exit_def)
  show ?thesis unfolding reconcileBlockRange_def
    using reconcileLoop_ends [OF s assms(2), of 0 lastBlock "unat lastBlock" "lastBlock + blockStep" chain filterLogs "[]" alive 0,
        unfolded e] w lt assms(3) by (simp add: logs_of_def)
qed


text \<open>With windows of ten blocks, a chain tip at 111 and the last processed block 100, block 111 is not fetched.\<close>

definition test_log :: "nat \<Rightarrow> ethLog" where
  "test_log n = \<lparr> log_Address = [], log_Topics = [], log_Data = [], log_BlockNumber = of_nat n, log_TxHash = [of_nat n],
     log_Index = 0, log_Removed = False \<rparr>"

definition test_query :: "nat \<Rightarrow> uint64 \<Rightarrow> uint64 \<Rightarrow> ethLog list result" where
  "test_query i frm til = Inr (logs_of (\<lambda>n. [test_log n]) (unat frm) (Suc (unat til)))"

theorem reconcile_covers_range_witness:
  "\<exists>sent. reconcileBlockRange (\<lambda>_. True) test_query 10 111 100 = Some (sent, RangeDone) \<and>
     sent = logs_of (\<lambda>n. [test_log n]) 100 111"
proof -
  have h: "honest (\<lambda>n. [test_log n]) test_query" by (simp add: honest_def test_query_def)
  have m: "tip_missed 10 100 111" by (simp add: tip_missed_def)
  have "\<exists>sent. reconcileBlockRange (\<lambda>_. True) test_query 10 111 100 = Some (sent, RangeDone)"
    by (simp add: reconcileBlockRange_def reconcileLoop.simps test_query_def logBackOff_def backOffDuration_def)
  then show ?thesis
    using reconcile_covers_range [of 10 111 100 "\<lambda>_. True" test_query "\<lambda>n. [test_log n]"] h m by auto
qed


end
