(* ===== verification/Rpc_Types.thy ===== *)
theory Rpc_Types
  imports Database Channel_Signer
begin

text \<open>
  \<^verbatim>\<open>src/pkg/rpc\<close>: the wire types of the channel and app session endpoints (\<^verbatim>\<open>types.go\<close>) and the way a
  handler reports an error (\<^verbatim>\<open>context.go\<close>, \<^verbatim>\<open>error.go\<close>). Numbers travel as decimal strings. How
  \<^verbatim>\<open>encoding/json\<close> maps a struct to its members is not modelled: a handler is a function of the decoded request. Messages
  and their text are in \<open>Rpc_Message\<close>.
\<close>

section \<open>Numbers as text\<close>

definition ParseUint64 :: "string \<Rightarrow> uint64 result" where
  "ParseUint64 s = mapE of_int (parse_uint s)"

definition FormatUint64 :: "uint64 \<Rightarrow> string" where
  "FormatUint64 w = show_nat (unat w)"

lemma ParseUint64_FormatUint64 [simp]: "ParseUint64 (FormatUint64 w) = Inr w"
  using unsigned_less [of w, where ?'a = nat]
  by (simp add: ParseUint64_def FormatUint64_def parse_uint_show_nat)

section \<open>Wire types\<close>

record RPC_TransitionV1 =
  rt_Type :: TransitionType
  rt_TxID :: string
  rt_AccountID :: string
  rt_Amount :: string

record RPC_LedgerV1 =
  rl_TokenAddress :: string
  rl_BlockchainID :: string
  rl_UserBalance :: string
  rl_UserNetFlow :: string
  rl_NodeBalance :: string
  rl_NodeNetFlow :: string

record RPC_StateV1 =
  rs_ID :: string
  rs_Transition :: RPC_TransitionV1
  rs_Asset :: string
  rs_UserWallet :: string
  rs_Epoch :: string
  rs_Version :: string
  rs_HomeChannelID :: "string option"
  rs_EscrowChannelID :: "string option"
  rs_HomeLedger :: RPC_LedgerV1
  rs_EscrowLedger :: "RPC_LedgerV1 option"
  rs_UserSig :: "string option"
  rs_NodeSig :: "string option"

record RPC_ChannelV1 =
  rc_ChannelID :: string
  rc_UserWallet :: string
  rc_Asset :: string
  rc_Type :: string
  rc_BlockchainID :: string
  rc_TokenAddress :: string
  rc_ChallengeDuration :: uint32
  rc_ChallengeExpiresAt :: "int option"
  rc_Nonce :: string
  rc_ApprovedSigValidators :: string
  rc_Status :: string
  rc_StateVersion :: string

record RPC_ChannelDefinitionV1 =
  rd_Nonce :: string
  rd_Challenge :: uint32
  rd_ApprovedSigValidators :: string

record RPC_ChannelSessionKeyStateV1 =
  rk_UserAddress :: string
  rk_SessionKey :: string
  rk_Version :: string
  rk_Assets :: "string list"
  rk_ExpiresAt :: string
  rk_UserSig :: string

record RPC_AppParticipantV1 =
  rp_WalletAddress :: string
  rp_SignatureWeight :: uint8

record RPC_AppDefinitionV1 =
  ra_Application :: string
  ra_Participants :: "RPC_AppParticipantV1 list"
  ra_Quorum :: uint8
  ra_Nonce :: string

record RPC_AppAllocationV1 =
  rl_Participant :: string
  rl_Asset :: string
  rl_Amount :: string

record RPC_AppStateUpdateV1 =
  ru_AppSessionID :: string
  ru_Intent :: uint8
  ru_Version :: string
  ru_Allocations :: "RPC_AppAllocationV1 list"
  ru_SessionData :: string

record RPC_AppSessionKeyStateV1 =
  rak_UserAddress :: string
  rak_SessionKey :: string
  rak_Version :: string
  rak_ApplicationIDs :: "string list"
  rak_AppSessionIDs :: "string list"
  rak_ExpiresAt :: string
  rak_UserSig :: string

section \<open>Error responses\<close>

text \<open>The text of an error, without formatted arguments, and \<^verbatim>\<open>rpc.NewError\<close>.\<close>

fun error_text :: "go_error \<Rightarrow> string" where
  "error_text (Err m) = m"
| "error_text (RPCError m) = m"
| "error_text (Wrap m e) = m @ '': '' @ error_text e"
| "error_text (Panic p) = p"

fun new_error :: "go_error \<Rightarrow> go_error" where
  "new_error (Panic p) = Panic p"
| "new_error e = RPCError (error_text e)"

definition newErrorS :: "('d, 'a) db_op \<Rightarrow> ('d, 'a) db_op" where
  "newErrorS m db = (case m db of Inl e \<Rightarrow> Inl (new_error e) | Inr r \<Rightarrow> Inr r)"

lemma newErrorS_eq [simp]: "newErrorS m db = Inr r \<longleftrightarrow> m db = Inr r"
  by (auto simp: newErrorS_def split: sum.splits)

definition defaultNodeErrorMessage :: string where
  "defaultNodeErrorMessage = ''an error occurred while processing the request''"

text \<open>\<^verbatim>\<open>Context.Fail\<close>: the client sees the message of an \<^verbatim>\<open>rpc.Error\<close>, and the fallback for any other error.\<close>

fun Fail :: "go_error \<Rightarrow> string \<Rightarrow> go_error" where
  "Fail (Panic p) fallback = Panic p"
| "Fail (RPCError m) fallback = RPCError (if m = '''' then defaultNodeErrorMessage else m)"
| "Fail e fallback = RPCError (if fallback = '''' then defaultNodeErrorMessage else fallback)"

definition failE :: "string \<Rightarrow> 'a result \<Rightarrow> 'a result" where
  "failE fallback r = (case r of Inl e \<Rightarrow> Inl (Fail e fallback) | Inr x \<Rightarrow> Inr x)"

lemma failE_eq [simp]: "failE fallback r = Inr x \<longleftrightarrow> r = Inr x"
  by (cases r) (simp_all add: failE_def)

text \<open>An endpoint that checks its request, then runs a store transaction: a request that is refused, and
  a transaction that fails, leave the database as it was.\<close>

definition endpoint :: "'r result \<Rightarrow> string \<Rightarrow> ('r \<Rightarrow> ('d, 'a) db_op) \<Rightarrow> 'd db \<Rightarrow> 'a result \<times> 'd db" where
  "endpoint request fallback tx db =
     (case request of
        Inl e \<Rightarrow> (Inl e, db)
      | Inr req \<Rightarrow> (case ExecuteInTransaction False (tx req) db of (r, db') \<Rightarrow> (failE fallback r, db')))"

lemma endpoint_ok:
  "endpoint request fallback tx db = (Inr x, db') \<longleftrightarrow> (\<exists>req. request = Inr req \<and> tx req db = Inr (x, db'))"
  by (auto simp: endpoint_def ExecuteInTransaction_def failE_def split: sum.splits prod.splits)

lemma endpoint_error:
  "endpoint request fallback tx db = (Inl e, db') \<Longrightarrow> db' = db"
  by (auto simp: endpoint_def ExecuteInTransaction_def failE_def split: sum.splits prod.splits)

end
