(* ===== verification/DB_App.thy ===== *)
theory DB_App
  imports DB_State
begin

text \<open>
  App sessions, the session ledger, transactions and the application registry: \<^verbatim>\<open>app_session.go\<close>,
  \<^verbatim>\<open>app_ledger.go\<close>, \<^verbatim>\<open>transaction.go\<close> and \<^verbatim>\<open>app.go\<close> in \<^verbatim>\<open>src/clearnode/store/database\<close>.
\<close>

abbreviation (input) DefaultLimit :: uint32 where "DefaultLimit \<equiv> 10"
abbreviation (input) MaxLimit :: uint32 where "MaxLimit \<equiv> 100"

section \<open>App sessions\<close>

definition session_participants :: "'d db \<Rightarrow> string \<Rightarrow> AppParticipantRow list" where
  "session_participants db i = filter (\<lambda>p. apr_AppSessionID p = i) (app_participants db)"

definition databaseAppSessionToCore :: "AppSessionRow \<Rightarrow> AppParticipantRow list \<Rightarrow> AppSessionV1" where
  "databaseAppSessionToCore r ps =
     \<lparr> se_SessionID = asr_ID r, se_ApplicationID = asr_ApplicationID r,
       se_Participants = map (\<lambda>p. \<lparr> ap_WalletAddress = apr_WalletAddress p, ap_SignatureWeight = apr_SignatureWeight p \<rparr>) ps,
       se_Quorum = asr_Quorum r, se_Nonce = asr_Nonce r, se_Status = asr_Status r, se_Version = asr_Version r,
       se_SessionData = asr_SessionData r, se_CreatedAt = asr_CreatedAt r, se_UpdatedAt = asr_UpdatedAt r \<rparr>"

definition load_session :: "'d db \<Rightarrow> AppSessionRow \<Rightarrow> AppSessionV1" where
  "load_session db r = databaseAppSessionToCore r (session_participants db (asr_ID r))"

text \<open>On insert the columns declared with \<^verbatim>\<open>default:100\<close> and \<^verbatim>\<open>default:1\<close> take that default when the field
  holds the zero value. The participants are inserted with the session; a repeated wallet violates
  their primary key.\<close>

definition CreateAppSession :: "AppSessionV1 \<Rightarrow> ('d, unit) db_op" where
  "CreateAppSession session db =
     (let i = ToLower (se_SessionID session);
          ps = map (\<lambda>p. \<lparr> apr_AppSessionID = i, apr_WalletAddress = ToLower (ap_WalletAddress p),
                        apr_SignatureWeight = ap_SignatureWeight p \<rparr>) (se_Participants session);
          row = \<lparr> asr_ID = i, asr_ApplicationID = ToLower (se_ApplicationID session), asr_Nonce = se_Nonce session,
                  asr_SessionData = se_SessionData session,
                  asr_Quorum = (if se_Quorum session = 0 then 100 else se_Quorum session),
                  asr_Version = (if se_Version session = 0 then 1 else se_Version session),
                  asr_Status = se_Status session, asr_CreatedAt = se_CreatedAt session, asr_UpdatedAt = se_UpdatedAt session \<rparr>
      in if list_ex (\<lambda>r. asr_ID r = i) (app_sessions db) \<or>
            \<not> distinct (map apr_WalletAddress (session_participants db i @ ps))
         then Inl (Wrap ''failed to create app session'' duplicate_key)
         else Inr ((), db \<lparr> app_sessions := app_sessions db @ [row], app_participants := app_participants db @ ps \<rparr>))"

definition find_session :: "'d db \<Rightarrow> string \<Rightarrow> AppSessionRow option" where
  "find_session db sessionID = find (\<lambda>r. asr_ID r = ToLower sessionID) (app_sessions db)"

definition GetAppSession :: "'d db \<Rightarrow> string \<Rightarrow> AppSessionV1 option result" where
  "GetAppSession db sessionID = Inr (map_option (load_session db) (find_session db sessionID))"

definition GetAppSessions ::
  "'d db \<Rightarrow> string option \<Rightarrow> string option \<Rightarrow> AppSessionStatus \<Rightarrow> PaginationParams option
   \<Rightarrow> (AppSessionV1 list \<times> PaginationMetadata) result" where
  "GetAppSessions db appSessionID participant status pagination =
     (let rows = filter (\<lambda>r.
            (case appSessionID of None \<Rightarrow> True | Some i \<Rightarrow> i = '''' \<or> asr_ID r = ToLower i) \<and>
            (case participant of None \<Rightarrow> True | Some w \<Rightarrow> w = '''' \<or>
               list_ex (\<lambda>p. apr_AppSessionID p = asr_ID r \<and> apr_WalletAddress p = ToLower w) (app_participants db)) \<and>
            (status = AppSessionStatusVoid \<or> asr_Status r = status)) (app_sessions db);
          (offset, limit) = GetOffsetAndLimit pagination DefaultLimit MaxLimit
      in bindE (calculatePaginationMetadata (int (length rows)) offset limit) (\<lambda>metadata.
         Inr (map (load_session db) (paginated offset limit (order_desc asr_CreatedAt rows)), metadata)))"

text \<open>Optimistic locking: the row is updated only if it still holds the previous version.\<close>

definition UpdateAppSession :: "int \<Rightarrow> AppSessionV1 \<Rightarrow> ('d, unit) db_op" where
  "UpdateAppSession now session db =
     (let sessionID = ToLower (se_SessionID session);
          expectedVersion = se_Version session - 1;
          matches = (\<lambda>r. asr_ID r = sessionID \<and> asr_Version r = expectedVersion)
      in if \<not> list_ex matches (app_sessions db) then Inl (Err ''concurrent modification detected for session'')
         else Inr ((), db \<lparr> app_sessions := update_where matches
           (\<lambda>r. r \<lparr> asr_SessionData := se_SessionData session, asr_Version := se_Version session,
                   asr_Status := se_Status session, asr_UpdatedAt := now \<rparr>) (app_sessions db) \<rparr>))"

section \<open>The session ledger\<close>

definition RecordLedgerEntry :: "'d libs \<Rightarrow> string \<Rightarrow> string \<Rightarrow> string \<Rightarrow> 'd \<Rightarrow> ('d, unit) db_op" where
  "RecordLedgerEntry L userWallet accountID asset amount db =
     (let entry = \<lparr> le_AccountID = ToLower accountID, le_AssetSymbol = asset, le_Wallet = ToLower userWallet,
                    le_Credit = dZero L, le_Debit = dZero L \<rparr>
      in if dIsPositive L amount then
           Inr ((), db \<lparr> app_ledger := app_ledger db @ [entry \<lparr> le_Credit := amount \<rparr>] \<rparr>)
         else if dIsNegative L amount then
           Inr ((), db \<lparr> app_ledger := app_ledger db @ [entry \<lparr> le_Debit := dAbs L amount \<rparr>] \<rparr>)
         else Inr ((), db))"

definition balance_of :: "'d libs \<Rightarrow> 'd AppLedgerEntryV1 list \<Rightarrow> 'd" where
  "balance_of L es = dSub L (sumD L (map le_Credit es)) (sumD L (map le_Debit es))"

text \<open>\<^verbatim>\<open>GROUP BY\<close>: one result per distinct key, in order of first occurrence.\<close>

definition group_keys :: "('a \<Rightarrow> 'k) \<Rightarrow> 'a list \<Rightarrow> 'k list" where
  "group_keys key xs = rev (remdups (rev (map key xs)))"

definition GetAppSessionBalances :: "'d libs \<Rightarrow> 'd db \<Rightarrow> string \<Rightarrow> (string, 'd) gomap result" where
  "GetAppSessionBalances L db appSessionID =
     (let rows = filter (\<lambda>e. le_AccountID e = ToLower appSessionID) (app_ledger db)
      in Inr (map (\<lambda>a. (a, balance_of L (filter (\<lambda>e. le_AssetSymbol e = a) rows))) (group_keys le_AssetSymbol rows)))"

definition participant_entries :: "'d db \<Rightarrow> string \<Rightarrow> 'd AppLedgerEntryV1 list" where
  "participant_entries db i = filter (\<lambda>e. le_AccountID e = i \<and>
     list_ex (\<lambda>p. apr_WalletAddress p = le_Wallet e \<and> apr_AppSessionID p = i) (app_participants db)) (app_ledger db)"

definition GetParticipantAllocations :: "'d libs \<Rightarrow> 'd db \<Rightarrow> string \<Rightarrow> (string, (string, 'd) gomap) gomap result" where
  "GetParticipantAllocations L db appSessionID =
     (let rows = participant_entries db (ToLower appSessionID)
      in Inr (map (\<lambda>w. (w, map (\<lambda>a. (a, balance_of L (filter (\<lambda>e. le_Wallet e = w \<and> le_AssetSymbol e = a) rows)))
                (group_keys le_AssetSymbol (filter (\<lambda>e. le_Wallet e = w) rows))))
            (group_keys le_Wallet rows)))"

section \<open>Transactions\<close>

definition RecordTransaction :: "'d Transaction \<Rightarrow> ('d, unit) db_op" where
  "RecordTransaction tx db =
     (let row = tx \<lparr> tx_ID := ToLower (tx_ID tx), tx_FromAccount := ToLower (tx_FromAccount tx),
            tx_ToAccount := ToLower (tx_ToAccount tx),
            tx_SenderNewStateID := map_option ToLower (tx_SenderNewStateID tx),
            tx_ReceiverNewStateID := map_option ToLower (tx_ReceiverNewStateID tx) \<rparr>
      in if list_ex (\<lambda>t. tx_ID t = tx_ID row) (transactions db)
         then Inl (Wrap ''failed to record transaction'' duplicate_key)
         else Inr ((), db \<lparr> transactions := transactions db @ [row] \<rparr>))"

definition GetUserTransactions ::
  "'d db \<Rightarrow> string \<Rightarrow> string option \<Rightarrow> TransactionType option \<Rightarrow> uint64 option \<Rightarrow> uint64 option \<Rightarrow> PaginationParams option
   \<Rightarrow> ('d Transaction list \<times> PaginationMetadata) result" where
  "GetUserTransactions db accountID asset txType fromTime toTime pagination =
     (let rows = filter (\<lambda>t.
            (tx_FromAccount t = ToLower accountID \<or> tx_ToAccount t = ToLower accountID) \<and>
            (case asset of None \<Rightarrow> True | Some a \<Rightarrow> a = '''' \<or> tx_Asset t = a) \<and>
            (case txType of None \<Rightarrow> True | Some ty \<Rightarrow> tx_TxType t = ty) \<and>
            (case fromTime of None \<Rightarrow> True | Some f \<Rightarrow> sint f \<le> tx_CreatedAt t) \<and>
            (case toTime of None \<Rightarrow> True | Some u \<Rightarrow> tx_CreatedAt t \<le> sint u)) (transactions db);
          (offset, limit) = GetOffsetAndLimit pagination DefaultLimit MaxLimit
      in bindE (calculatePaginationMetadata (int (length rows)) offset limit) (\<lambda>metadata.
         Inr (paginated offset limit (order_desc tx_CreatedAt rows), metadata)))"

section \<open>Application registry\<close>

definition databaseAppToCore :: "AppRow \<Rightarrow> AppInfoV1" where
  "databaseAppToCore r =
     \<lparr> ai_App = \<lparr> app_ID = arw_ID r, app_OwnerWallet = arw_OwnerWallet r, app_Metadata = arw_Metadata r,
         app_Version = arw_Version r, app_CreationApprovalNotRequired = arw_CreationApprovalNotRequired r \<rparr>,
       ai_CreatedAt = arw_CreatedAt r, ai_UpdatedAt = arw_UpdatedAt r \<rparr>"

definition CreateApp :: "int \<Rightarrow> AppV1 \<Rightarrow> ('d, unit) db_op" where
  "CreateApp now entry db =
     (let row = \<lparr> arw_ID = ToLower (app_ID entry), arw_OwnerWallet = ToLower (app_OwnerWallet entry),
            arw_Metadata = app_Metadata entry,
            arw_Version = (if app_Version entry = 0 then 1 else app_Version entry),
            arw_CreationApprovalNotRequired = app_CreationApprovalNotRequired entry,
            arw_CreatedAt = now, arw_UpdatedAt = now \<rparr>
      in if list_ex (\<lambda>r. arw_ID r = arw_ID row) (apps db)
         then Inl (Wrap ''failed to create app'' duplicate_key)
         else Inr ((), db \<lparr> apps := apps db @ [row] \<rparr>))"

definition GetApp :: "'d db \<Rightarrow> string \<Rightarrow> AppInfoV1 option result" where
  "GetApp db appID = Inr (map_option databaseAppToCore (find (\<lambda>r. arw_ID r = ToLower appID) (apps db)))"

definition GetApps ::
  "'d db \<Rightarrow> string option \<Rightarrow> string option \<Rightarrow> PaginationParams option \<Rightarrow> (AppInfoV1 list \<times> PaginationMetadata) result" where
  "GetApps db appID ownerWallet pagination =
     (let rows = filter (\<lambda>r.
            (case appID of None \<Rightarrow> True | Some i \<Rightarrow> i = '''' \<or> arw_ID r = ToLower i) \<and>
            (case ownerWallet of None \<Rightarrow> True | Some w \<Rightarrow> w = '''' \<or> arw_OwnerWallet r = ToLower w)) (apps db);
          (offset, limit) = GetOffsetAndLimit pagination DefaultLimit MaxLimit
      in bindE (calculatePaginationMetadata (int (length rows)) offset limit) (\<lambda>metadata.
         Inr (map databaseAppToCore (paginated offset limit (order_desc arw_CreatedAt rows)), metadata)))"

definition GetAppCount :: "'d db \<Rightarrow> string \<Rightarrow> uint64 result" where
  "GetAppCount db ownerWallet = Inr (of_nat (length (filter (\<lambda>r. arw_OwnerWallet r = ToLower ownerWallet) (apps db))))"

end
