(* ===== verification/DB_Keys.thy ===== *)
theory DB_Keys
  imports DB_State Channel_Signer
begin

text \<open>
  Session keys: \<^verbatim>\<open>channel_session_key_state.go\<close> and \<^verbatim>\<open>app_session_key_state.go\<close> in
  \<^verbatim>\<open>src/clearnode/store/database\<close>.
\<close>

section \<open>Channel session keys\<close>

text \<open>The link rows have the primary key (state, value): a repeated value violates it.\<close>

definition insert_links :: "string \<Rightarrow> string list \<Rightarrow> (string \<times> string) list \<Rightarrow> (string \<times> string) list result" where
  "insert_links i vs table =
     (let rows = map (\<lambda>v. (i, ToLower v)) vs
      in if \<not> distinct rows \<or> list_ex (\<lambda>r. r \<in> set table) rows then Inl duplicate_key else Inr (table @ rows))"

lemma insert_links_eq: "insert_links i vs t = Inr t' \<longleftrightarrow>
    t' = t @ map (\<lambda>v. (i, ToLower v)) vs \<and> distinct (map (\<lambda>v. (i, ToLower v)) vs) \<and> (\<forall>v \<in> set vs. (i, ToLower v) \<notin> set t)"
  by (auto simp: insert_links_def Let_def list_ex_iff)

definition StoreChannelSessionKeyState :: "'d libs \<Rightarrow> int \<Rightarrow> ChannelSessionKeyStateV1 \<Rightarrow> ('d, unit) db_op" where
  "StoreChannelSessionKeyState L now state db =
     (let userAddress = ToLower (csk_UserAddress state); sessionKey = ToLower (csk_SessionKey state) in
      bindE (wrapE ''failed to generate session key state ID''
        (GenerateSessionKeyStateIDV1 L userAddress sessionKey (csk_Version state))) (\<lambda>i.
      bindE (wrapE ''failed to compute metadata hash''
        (GetChannelSessionKeyAuthMetadataHashV1 L (csk_Version state) (csk_Assets state) (csk_ExpiresAt state))) (\<lambda>metadataHash.
      let row = \<lparr> ckr_ID = i, ckr_UserAddress = userAddress, ckr_SessionKey = sessionKey, ckr_Version = csk_Version state,
            ckr_MetadataHash = ToLower (hashHex L metadataHash), ckr_ExpiresAt = csk_ExpiresAt state,
            ckr_UserSig = csk_UserSig state, ckr_CreatedAt = now \<rparr>
      in if list_ex (\<lambda>r. ckr_ID r = i \<or> (ckr_UserAddress r = userAddress \<and> ckr_SessionKey r = sessionKey \<and>
              ckr_Version r = csk_Version state)) (channel_keys db)
         then Inl (Wrap ''failed to store channel session key state'' duplicate_key)
         else bindE (wrapE ''failed to store channel session key assets''
                (insert_links i (csk_Assets state) (channel_key_assets db))) (\<lambda>assets.
              Inr ((), db \<lparr> channel_keys := channel_keys db @ [row], channel_key_assets := assets \<rparr>)))))"

definition dbChannelSessionKeyStateToCore :: "'d db \<Rightarrow> ChannelSessionKeyRow \<Rightarrow> ChannelSessionKeyStateV1" where
  "dbChannelSessionKeyStateToCore db r =
     \<lparr> csk_UserAddress = ckr_UserAddress r, csk_SessionKey = ckr_SessionKey r, csk_Version = ckr_Version r,
       csk_Assets = map snd (filter (\<lambda>p. fst p = ckr_ID r) (channel_key_assets db)),
       csk_ExpiresAt = ckr_ExpiresAt r, csk_UserSig = ckr_UserSig r \<rparr>"

definition max_version :: "uint64 list \<Rightarrow> uint64 option" where
  "max_version vs = (case vs of [] \<Rightarrow> None | _ \<Rightarrow> Some (fold max vs 0))"

definition GetLastChannelSessionKeyStates :: "'d db \<Rightarrow> string \<Rightarrow> string option \<Rightarrow> ChannelSessionKeyStateV1 list result" where
  "GetLastChannelSessionKeyStates db wallet0 sessionKey =
     (let wallet = ToLower wallet0;
          mine = filter (\<lambda>r. ckr_UserAddress r = wallet \<and>
            (case sessionKey of None \<Rightarrow> True | Some k \<Rightarrow> k = '''' \<or> ckr_SessionKey r = ToLower k)) (channel_keys db);
          latest = filter (\<lambda>r. max_version (map ckr_Version (filter (\<lambda>q. ckr_SessionKey q = ckr_SessionKey r) mine))
                                = Some (ckr_Version r)) mine
      in Inr (map (dbChannelSessionKeyStateToCore db) (order_desc ckr_CreatedAt latest)))"

definition GetLastChannelSessionKeyVersion :: "'d db \<Rightarrow> string \<Rightarrow> string \<Rightarrow> uint64 result" where
  "GetLastChannelSessionKeyVersion db wallet sessionKey =
     (case max_version (map ckr_Version (filter (\<lambda>r. ckr_UserAddress r = ToLower wallet \<and>
              ckr_SessionKey r = ToLower sessionKey) (channel_keys db))) of
        None \<Rightarrow> Inr 0 | Some v \<Rightarrow> Inr v)"

definition ValidateChannelSessionKeyForAsset :: "int \<Rightarrow> 'd db \<Rightarrow> string \<Rightarrow> string \<Rightarrow> string \<Rightarrow> string \<Rightarrow> bool result" where
  "ValidateChannelSessionKeyForAsset now db wallet sessionKey asset metadataHash =
     (let mine = filter (\<lambda>r. ckr_UserAddress r = ToLower wallet \<and> ckr_SessionKey r = ToLower sessionKey) (channel_keys db);
          latest = max_version (map ckr_Version mine);
          hits = filter (\<lambda>r. now < ckr_ExpiresAt r \<and> ckr_MetadataHash r = ToLower metadataHash \<and>
             Some (ckr_Version r) = latest \<and> (ckr_ID r, ToLower asset) \<in> set (channel_key_assets db)) mine
      in Inr (hits \<noteq> []))"

section \<open>App session keys\<close>

definition StoreAppSessionKeyState :: "'d libs \<Rightarrow> int \<Rightarrow> AppSessionKeyStateV1 \<Rightarrow> ('d, unit) db_op" where
  "StoreAppSessionKeyState L now state db =
     (let userAddress = ToLower (ask_UserAddress state); sessionKey = ToLower (ask_SessionKey state) in
      bindE (wrapE ''failed to generate session key state ID''
        (App_GenerateSessionKeyStateIDV1 L userAddress sessionKey (ask_Version state))) (\<lambda>i.
      let row = \<lparr> akr_ID = i, akr_UserAddress = userAddress, akr_SessionKey = sessionKey, akr_Version = ask_Version state,
            akr_ExpiresAt = ask_ExpiresAt state, akr_UserSig = ask_UserSig state, akr_CreatedAt = now \<rparr>
      in if list_ex (\<lambda>r. akr_ID r = i \<or> (akr_UserAddress r = userAddress \<and> akr_SessionKey r = sessionKey \<and>
              akr_Version r = ask_Version state)) (app_keys db)
         then Inl (Wrap ''failed to store session key state'' duplicate_key)
         else
           bindE (wrapE ''failed to store application IDs''
             (insert_links i (ask_ApplicationIDs state) (app_key_applications db))) (\<lambda>applications.
           bindE (wrapE ''failed to store app session IDs''
             (insert_links i (ask_AppSessionIDs state) (app_key_sessions db))) (\<lambda>sessions.
           Inr ((), db \<lparr> app_keys := app_keys db @ [row], app_key_applications := applications,
                        app_key_sessions := sessions \<rparr>)))))"

definition dbSessionKeyStateToCore :: "'d db \<Rightarrow> AppSessionKeyRow \<Rightarrow> AppSessionKeyStateV1" where
  "dbSessionKeyStateToCore db r =
     \<lparr> ask_UserAddress = akr_UserAddress r, ask_SessionKey = akr_SessionKey r, ask_Version = akr_Version r,
       ask_ApplicationIDs = map snd (filter (\<lambda>p. fst p = akr_ID r) (app_key_applications db)),
       ask_AppSessionIDs = map snd (filter (\<lambda>p. fst p = akr_ID r) (app_key_sessions db)),
       ask_ExpiresAt = akr_ExpiresAt r, ask_UserSig = akr_UserSig r \<rparr>"

definition GetLastAppSessionKeyStates :: "'d db \<Rightarrow> string \<Rightarrow> string option \<Rightarrow> AppSessionKeyStateV1 list result" where
  "GetLastAppSessionKeyStates db wallet0 sessionKey =
     (let wallet = ToLower wallet0;
          mine = filter (\<lambda>r. akr_UserAddress r = wallet \<and>
            (case sessionKey of None \<Rightarrow> True | Some k \<Rightarrow> k = '''' \<or> akr_SessionKey r = ToLower k)) (app_keys db);
          latest = filter (\<lambda>r. max_version (map akr_Version (filter (\<lambda>q. akr_SessionKey q = akr_SessionKey r) mine))
                                = Some (akr_Version r)) mine
      in Inr (map (dbSessionKeyStateToCore db) (order_desc akr_CreatedAt latest)))"

definition user_key_rows :: "'d db \<Rightarrow> string \<Rightarrow> string \<Rightarrow> AppSessionKeyRow list" where
  "user_key_rows db wallet sessionKey =
     filter (\<lambda>r. akr_UserAddress r = ToLower wallet \<and> akr_SessionKey r = ToLower sessionKey) (app_keys db)"

definition GetLastAppSessionKeyVersion :: "'d db \<Rightarrow> string \<Rightarrow> string \<Rightarrow> uint64 result" where
  "GetLastAppSessionKeyVersion db wallet sessionKey =
     (case max_version (map akr_Version (user_key_rows db wallet sessionKey)) of None \<Rightarrow> Inr 0 | Some v \<Rightarrow> Inr v)"

definition GetLastAppSessionKeyState :: "'d db \<Rightarrow> string \<Rightarrow> string \<Rightarrow> AppSessionKeyStateV1 option result" where
  "GetLastAppSessionKeyState db wallet sessionKey =
     Inr (map_option (dbSessionKeyStateToCore db)
       (first_by (\<lambda>a b. akr_Version b < akr_Version a) (user_key_rows db wallet sessionKey)))"

text \<open>The latest version is taken over all rows of the session key, whoever registered it. \<^verbatim>\<open>First\<close> orders
  the hits by primary key.\<close>

definition GetAppSessionKeyOwner :: "int \<Rightarrow> 'd db \<Rightarrow> string \<Rightarrow> string \<Rightarrow> string result" where
  "GetAppSessionKeyOwner now db sessionKey0 appSessionId0 =
     (let sessionKey = ToLower sessionKey0; appSessionId = ToLower appSessionId0;
          application = map_option asr_ApplicationID (find (\<lambda>r. asr_ID r = appSessionId) (app_sessions db));
          rows = filter (\<lambda>r. akr_SessionKey r = sessionKey) (app_keys db);
          latest = max_version (map akr_Version rows);
          hits = filter (\<lambda>r. Some (akr_Version r) = latest \<and> now < akr_ExpiresAt r \<and>
             ((akr_ID r, appSessionId) \<in> set (app_key_sessions db) \<or>
              (case application of None \<Rightarrow> False | Some a \<Rightarrow> (akr_ID r, a) \<in> set (app_key_applications db)))) rows
      in case first_by (\<lambda>a b. string_less (akr_ID a) (akr_ID b)) hits of
           None \<Rightarrow> Inl (Err ''no active session key found'')
         | Some r \<Rightarrow> Inr (akr_UserAddress r))"

end
