(* ===== verification/Action_Gateway.thy ===== *)
theory Action_Gateway
  imports DB_App DB_Actions
begin

text \<open>
  \<^verbatim>\<open>src/clearnode/action_gateway/action_gateway.go\<close>: rate limits on gated actions that grow with the tokens
  a user has staked, and the cost of registering applications.
\<close>

record ActionGateConfig =
  gc_FreeActionsAllowance :: uint64
  gc_IncreasePerLevel :: uint64

record 'd ActionLimitConfig =
  lc_LevelStepTokens :: 'd
  lc_AppCost :: 'd
  lc_ActionGates :: "(GatedAction, ActionGateConfig) gomap"

text \<open>\<^verbatim>\<open>defaultTimeWindow\<close>, 24 hours in seconds.\<close>

definition defaultTimeWindow :: int where
  "defaultTimeWindow = 24 * 3600"

fun check_gate_keys :: "GatedAction list \<Rightarrow> (uint8, GatedAction) gomap \<Rightarrow> unit result" where
  "check_gate_keys [] seenIDs = Inr ()"
| "check_gate_keys (action # rest) seenIDs =
     (let i = GatedAction_ID action in
      if i = 0 then Inl (Err ''unknown action_gates key'')
      else if (case gm_get seenIDs i of None \<Rightarrow> False | Some prev \<Rightarrow> prev \<noteq> action)
      then Inl (Err ''duplicate gated action id'')
      else check_gate_keys rest (gm_put i action seenIDs))"

definition NewActionGateway :: "'d libs \<Rightarrow> 'd ActionLimitConfig \<Rightarrow> 'd ActionLimitConfig result" where
  "NewActionGateway L cfg =
     (if \<not> dIsPositive L (lc_LevelStepTokens cfg) then Inl (Err ''LevelStepTokens must be greater than zero'')
      else if \<not> dIsPositive L (lc_AppCost cfg) then Inl (Err ''AppCost must be greater than zero'')
      else bindE (check_gate_keys (map fst (lc_ActionGates cfg)) []) (\<lambda>_. Inr cfg))"

definition stakedTo24hActionsAllowance :: "'d libs \<Rightarrow> 'd ActionLimitConfig \<Rightarrow> GatedAction \<Rightarrow> 'd \<Rightarrow> uint64" where
  "stakedTo24hActionsAllowance L cfg gatedAction remainingStaked =
     (case gm_get (lc_ActionGates cfg) gatedAction of
        None \<Rightarrow> 0
      | Some c \<Rightarrow>
          if dIsPositive L remainingStaked
          then gc_FreeActionsAllowance c +
               gc_IncreasePerLevel c * dIntPart L (dDiv L remainingStaked (lc_LevelStepTokens cfg))
          else gc_FreeActionsAllowance c)"

text \<open>The stake left after paying for the registered applications; a user without stake pays nothing.\<close>

definition remaining_staked :: "'d libs \<Rightarrow> 'd ActionLimitConfig \<Rightarrow> 'd db \<Rightarrow> string \<Rightarrow> 'd \<Rightarrow> 'd result" where
  "remaining_staked L cfg db userAddress stakedTokens =
     (if dIsPositive L stakedTokens then
        bindE (wrapE ''failed to get app count'' (GetAppCount db userAddress)) (\<lambda>appCount.
        Inr (dSub L stakedTokens (dMul L (lc_AppCost cfg) (dNew L (uint appCount) 0))))
      else Inr stakedTokens)"

definition AllowAction :: "'d libs \<Rightarrow> int \<Rightarrow> 'd ActionLimitConfig \<Rightarrow> string \<Rightarrow> GatedAction \<Rightarrow> ('d, unit) db_op" where
  "AllowAction L now cfg userAddress gatedAction db =
     (case gm_get (lc_ActionGates cfg) gatedAction of
        None \<Rightarrow> Inr ((), db)
      | Some _ \<Rightarrow>
          bindE (wrapE ''failed to get user staked amount'' (GetTotalUserStaked L db userAddress)) (\<lambda>stakedTokens.
          bindE (remaining_staked L cfg db userAddress stakedTokens) (\<lambda>remainingStaked.
          let allowance = stakedTo24hActionsAllowance L cfg gatedAction remainingStaked in
          bindE (wrapE ''failed to get user action count''
            (GetUserActionCount now db userAddress gatedAction defaultTimeWindow)) (\<lambda>usedCount.
          if allowance \<le> usedCount then Inl (Err ''action limit reached'')
          else wrapE ''failed to record action'' (RecordAction now userAddress gatedAction db)))))"

definition AllowAppRegistration :: "'d libs \<Rightarrow> 'd ActionLimitConfig \<Rightarrow> 'd db \<Rightarrow> string \<Rightarrow> unit result" where
  "AllowAppRegistration L cfg db userAddress =
     bindE (wrapE ''failed to get user staked amount'' (GetTotalUserStaked L db userAddress)) (\<lambda>stakedTokens.
     if dIsZero L stakedTokens then Inl (Err ''cannot register an app with zero staked tokens'')
     else
       bindE (wrapE ''failed to get app count'' (GetAppCount db userAddress)) (\<lambda>appCount.
       let maintenanceCost = dMul L (lc_AppCost cfg) (dNew L (uint (appCount + 1)) 0)
       in if dLessThan L stakedTokens maintenanceCost then Inl (Err ''not enough staked tokens to register a new app'')
          else Inr ()))"

definition GetUserAllowances :: "'d libs \<Rightarrow> int \<Rightarrow> 'd ActionLimitConfig \<Rightarrow> 'd db \<Rightarrow> string \<Rightarrow> ActionAllowance list result" where
  "GetUserAllowances L now cfg db userAddress =
     bindE (wrapE ''failed to get user staked amount'' (GetTotalUserStaked L db userAddress)) (\<lambda>stakedTokens.
     bindE (GetUserActionCounts now db userAddress defaultTimeWindow) (\<lambda>actionCounts.
     bindE (remaining_staked L cfg db userAddress stakedTokens) (\<lambda>remainingStaked.
     let result = map (\<lambda>(action, _). \<lparr> aa_GatedAction = action, aa_TimeWindow = ''24h0m0s'',
            aa_Allowance = stakedTo24hActionsAllowance L cfg action remainingStaked,
            aa_Used = gm_index 0 actionCounts action \<rparr>) (lc_ActionGates cfg)
     in Inr (order_asc (\<lambda>a. uint (GatedAction_ID (aa_GatedAction a))) result))))"

end
