(* ===== verification/Channel_Api.thy ===== *)
theory Channel_Api
  imports Rpc_Types Memory_Store DB_State DB_App DB_Keys DB_Actions Action_Gateway Core_State State_Packer
begin

text \<open>
  \<^verbatim>\<open>src/clearnode/api/channel_v1\<close>: the endpoints through which users submit states, open channels,
  register session keys and read what the node stores. A handler takes the decoded request and the
  database and returns the response and the new database; its transaction is a \<open>db_op\<close>. \<open>now\<close> is the
  clock, the node's signing key is part of the handler record.
\<close>

section \<open>Conversions\<close>

definition toCoreLedger :: "'d libs \<Rightarrow> RPC_LedgerV1 \<Rightarrow> 'd Ledger result" where
  "toCoreLedger L ledger =
     bindE (wrapE ''failed to parse user balance'' (dNewFromString L (rl_UserBalance ledger))) (\<lambda>userBalance.
     bindE (wrapE ''failed to parse user net-flow'' (dNewFromString L (rl_UserNetFlow ledger))) (\<lambda>userNetFlow.
     bindE (wrapE ''failed to parse node balance'' (dNewFromString L (rl_NodeBalance ledger))) (\<lambda>nodeBalance.
     bindE (wrapE ''failed to parse node net-flow'' (dNewFromString L (rl_NodeNetFlow ledger))) (\<lambda>nodeNetFlow.
     bindE (wrapE ''failed to parse blockchain ID'' (ParseUint64 (rl_BlockchainID ledger))) (\<lambda>blockchainID.
     Inr \<lparr> l_TokenAddress = rl_TokenAddress ledger, l_BlockchainID = blockchainID, l_UserBalance = userBalance,
           l_UserNetFlow = userNetFlow, l_NodeBalance = nodeBalance, l_NodeNetFlow = nodeNetFlow \<rparr>)))))"

definition toCoreState :: "'d libs \<Rightarrow> RPC_StateV1 \<Rightarrow> 'd State result" where
  "toCoreState L state =
     (let transition = rs_Transition state in
      bindE (wrapE ''failed to parse amount'' (dNewFromString L (rt_Amount transition))) (\<lambda>decimalTxAmount.
      bindE (wrapE ''failed to parse epoch'' (ParseUint64 (rs_Epoch state))) (\<lambda>epoch.
      bindE (wrapE ''failed to parse version'' (ParseUint64 (rs_Version state))) (\<lambda>version.
      bindE (wrapE ''failed to parse home ledger'' (toCoreLedger L (rs_HomeLedger state))) (\<lambda>homeLedger.
      bindE (wrapE ''failed to parse escrow ledger''
        (case rs_EscrowLedger state of None \<Rightarrow> Inr None | Some l \<Rightarrow> mapE Some (toCoreLedger L l))) (\<lambda>escrowLedger.
      Inr \<lparr> s_ID = rs_ID state,
            s_Transition = \<lparr> t_Type = rt_Type transition, t_TxID = rt_TxID transition,
              t_AccountID = rt_AccountID transition, t_Amount = decimalTxAmount \<rparr>,
            s_Asset = rs_Asset state, s_UserWallet = rs_UserWallet state, s_Epoch = epoch, s_Version = version,
            s_HomeChannelID = rs_HomeChannelID state, s_EscrowChannelID = rs_EscrowChannelID state,
            s_HomeLedger = homeLedger, s_EscrowLedger = escrowLedger,
            s_UserSig = rs_UserSig state, s_NodeSig = rs_NodeSig state \<rparr>))))))"

definition toCoreChannelDefinition :: "RPC_ChannelDefinitionV1 \<Rightarrow> ChannelDefinition result" where
  "toCoreChannelDefinition def =
     bindE (wrapE ''failed to parse nonce'' (ParseUint64 (rd_Nonce def))) (\<lambda>nonce.
     Inr \<lparr> cd_Nonce = nonce, cd_Challenge = rd_Challenge def, cd_ApprovedSigValidators = rd_ApprovedSigValidators def \<rparr>)"

definition channelTypeToString :: "ChannelType \<Rightarrow> string" where
  "channelTypeToString t =
     (if t = ChannelTypeHome then ''home'' else if t = ChannelTypeEscrow then ''escrow'' else ''unknown'')"

definition channelStatusToString :: "ChannelStatus \<Rightarrow> string" where
  "channelStatusToString s =
     (if s = ChannelStatusVoid then ''void'' else if s = ChannelStatusOpen then ''open''
      else if s = ChannelStatusChallenged then ''challenged'' else if s = ChannelStatusClosed then ''closed''
      else ''unknown'')"

definition coreChannelToRPC :: "Channel \<Rightarrow> RPC_ChannelV1" where
  "coreChannelToRPC channel =
     \<lparr> rc_ChannelID = ch_ChannelID channel, rc_UserWallet = ch_UserWallet channel, rc_Asset = ch_Asset channel,
       rc_Type = channelTypeToString (ch_Type channel), rc_BlockchainID = FormatUint64 (ch_BlockchainID channel),
       rc_TokenAddress = ch_TokenAddress channel, rc_ChallengeDuration = ch_ChallengeDuration channel,
       rc_ChallengeExpiresAt = ch_ChallengeExpiresAt channel, rc_Nonce = FormatUint64 (ch_Nonce channel),
       rc_ApprovedSigValidators = ch_ApprovedSigValidators channel,
       rc_Status = channelStatusToString (ch_Status channel), rc_StateVersion = FormatUint64 (ch_StateVersion channel) \<rparr>"

definition ledgerToRPC :: "'d libs \<Rightarrow> 'd Ledger \<Rightarrow> RPC_LedgerV1" where
  "ledgerToRPC L l =
     \<lparr> rl_TokenAddress = l_TokenAddress l, rl_BlockchainID = FormatUint64 (l_BlockchainID l),
       rl_UserBalance = dString L (l_UserBalance l), rl_UserNetFlow = dString L (l_UserNetFlow l),
       rl_NodeBalance = dString L (l_NodeBalance l), rl_NodeNetFlow = dString L (l_NodeNetFlow l) \<rparr>"

definition coreStateToRPC :: "'d libs \<Rightarrow> 'd State \<Rightarrow> RPC_StateV1" where
  "coreStateToRPC L state =
     \<lparr> rs_ID = s_ID state,
       rs_Transition = \<lparr> rt_Type = t_Type (s_Transition state), rt_TxID = t_TxID (s_Transition state),
         rt_AccountID = t_AccountID (s_Transition state), rt_Amount = dString L (t_Amount (s_Transition state)) \<rparr>,
       rs_Asset = s_Asset state, rs_UserWallet = s_UserWallet state, rs_Epoch = FormatUint64 (s_Epoch state),
       rs_Version = FormatUint64 (s_Version state), rs_HomeChannelID = s_HomeChannelID state,
       rs_EscrowChannelID = s_EscrowChannelID state, rs_HomeLedger = ledgerToRPC L (s_HomeLedger state),
       rs_EscrowLedger = map_option (ledgerToRPC L) (s_EscrowLedger state),
       rs_UserSig = s_UserSig state, rs_NodeSig = s_NodeSig state \<rparr>"

definition unmapChannelSessionKeyStateV1 :: "RPC_ChannelSessionKeyStateV1 \<Rightarrow> ChannelSessionKeyStateV1 result" where
  "unmapChannelSessionKeyStateV1 state =
     bindE (wrapE ''invalid version'' (ParseUint64 (rk_Version state))) (\<lambda>version.
     bindE (wrapE ''invalid expires_at'' (Atoi (rk_ExpiresAt state))) (\<lambda>expiresAtUnix.
     Inr \<lparr> csk_UserAddress = ToLower (rk_UserAddress state), csk_SessionKey = ToLower (rk_SessionKey state),
           csk_Version = version, csk_Assets = rk_Assets state, csk_ExpiresAt = expiresAtUnix,
           csk_UserSig = rk_UserSig state \<rparr>))"

definition mapChannelSessionKeyStateV1 :: "ChannelSessionKeyStateV1 \<Rightarrow> RPC_ChannelSessionKeyStateV1" where
  "mapChannelSessionKeyStateV1 state =
     \<lparr> rk_UserAddress = csk_UserAddress state, rk_SessionKey = csk_SessionKey state,
       rk_Version = FormatUint64 (csk_Version state), rk_Assets = csk_Assets state,
       rk_ExpiresAt = show_int (csk_ExpiresAt state), rk_UserSig = csk_UserSig state \<rparr>"

section \<open>The handler\<close>

record 'd ChannelHandler =
  h_memoryStore :: MemoryStoreV1
  h_actionGateway :: "'d ActionLimitConfig"
  h_nodeKey :: bytes
  h_nodeAddress :: string
  h_minChallenge :: uint32
  h_maxChallenge :: uint32
  h_maxSessionKeyIDs :: int

text \<open>The permission lookup of \<^verbatim>\<open>getChannelSigValidator\<close>, evaluated in the current transaction.\<close>

definition getChannelSigValidator :: "int \<Rightarrow> 'd db \<Rightarrow> string \<Rightarrow> permission_check" where
  "getChannelSigValidator now db asset =
     (\<lambda>walletAddr sessionKeyAddr metadataHash. ValidateChannelSessionKeyForAsset now db walletAddr sessionKeyAddr asset metadataHash)"

definition nodeSign :: "'d libs \<Rightarrow> bytes \<Rightarrow> bytes \<Rightarrow> string result" where
  "nodeSign L nodeKey packed = mapE (hexutilEncode L) (ChannelDefaultSigner_Sign L nodeKey packed)"

definition orVoid :: "'d libs \<Rightarrow> string \<Rightarrow> string \<Rightarrow> 'd State option \<Rightarrow> 'd State" where
  "orVoid L asset wallet st = (case st of None \<Rightarrow> NewVoidState L asset wallet | Some s \<Rightarrow> s)"

text \<open>The signature of the node under a state it issues itself; a state without channel stays unsigned.\<close>

definition signIssued :: "'d libs \<Rightarrow> AssetStore \<Rightarrow> bytes \<Rightarrow> 'd State \<Rightarrow> 'd State result" where
  "signIssued L store nodeKey newState =
     (if s_HomeChannelID newState = None then Inr newState
      else bindE (rpcE ''failed to pack receiver state'' (PackState L store newState)) (\<lambda>packedState.
           bindE (rpcE ''failed to sign receiver state'' (nodeSign L nodeKey packedState)) (\<lambda>nodeSig.
           Inr (newState \<lparr> s_NodeSig := Some nodeSig \<rparr>))))"

definition issueTransferReceiverState :: "'d libs \<Rightarrow> 'd ChannelHandler \<Rightarrow> 'd State \<Rightarrow> ('d, 'd State) db_op" where
  "issueTransferReceiverState L h senderState =
     (let incomingTransition = s_Transition senderState; asset = s_Asset senderState in
      bindS (guardS (t_Type incomingTransition = TransitionTypeTransferSend)
        ''incoming state doesn't have 'transfer_send' transition'') (\<lambda>_.
      bindS (rpcS ''invalid receiver wallet address'' (liftS (NormalizeHexAddress (t_AccountID incomingTransition)))) (\<lambda>receiverWallet.
      bindS (guardS (\<not> EqualFold (s_UserWallet senderState) receiverWallet) ''sender and receiver wallets are the same'') (\<lambda>_.
      bindS (rpcS ''failed to lock receiver state'' (LockUserState L receiverWallet asset)) (\<lambda>_.
      bindS (rpcS ''failed to get last user state for transfer receiver'' (queryS (\<lambda>db. GetLastUserState db receiverWallet asset False))) (\<lambda>last.
      bindS (liftS (ApplyTransferReceiveTransition L (NextState L (orVoid L asset receiverWallet last))
               (s_UserWallet senderState) (t_Amount incomingTransition) (t_TxID incomingTransition))) (\<lambda>(_, newState).
      bindS (rpcS ''failed to get last user state for transfer receiver'' (queryS (\<lambda>db. GetLastUserState db receiverWallet asset True))) (\<lambda>lastSignedState.
      bindS (guardS (Option.bind lastSignedState s_EscrowChannelID = None)
        ''cannot issue release receiver state: last signed state is a lock with escrow channel'') (\<lambda>_.
      bindS (liftS (signIssued L (asset_store (h_memoryStore h)) (h_nodeKey h) newState)) (\<lambda>signedState.
      bindS (rpcS ''failed to store receiver state'' (StoreUserState L signedState)) (\<lambda>_.
      retS signedState)))))))))))"

section \<open>Submitting a state\<close>

text \<open>Both endpoints check the user's signature the same way, against the validators the channel approved.\<close>

definition checkUserSig ::
  "'d libs \<Rightarrow> int \<Rightarrow> string \<Rightarrow> string \<Rightarrow> string \<Rightarrow> string \<Rightarrow> 'd State \<Rightarrow> bytes \<Rightarrow> ('d, unit) db_op" where
  "checkUserSig L now missing undecodable invalid approvedSigValidators state packedState =
     (case s_UserSig state of
        None \<Rightarrow> failS (RPCError missing)
      | Some userSig \<Rightarrow>
          bindS (rpcS undecodable (liftS (hexutilDecode L userSig))) (\<lambda>userSigBytes.
          bindS (rpcS ''failed to get user signature type'' (liftS (GetSignerType userSigBytes))) (\<lambda>sigType.
          bindS (guardS (IsChannelSignerSupported L approvedSigValidators sigType) ''user signature type is not supported by channel'') (\<lambda>_.
          rpcS invalid
            (queryS (\<lambda>db. ChannelSigValidator_Verify L (getChannelSigValidator now db (s_Asset state)) (s_UserWallet state) packedState userSigBytes))))))"

text \<open>The transaction that documents a stored state; an acknowledgement has none.\<close>

definition recordTransition :: "'d libs \<Rightarrow> int \<Rightarrow> 'd State \<Rightarrow> 'd State option \<Rightarrow> ('d, unit) db_op" where
  "recordTransition L now incomingState receiverState =
     bindS (rpcS ''failed to create transaction''
       (liftS (NewTransactionFromTransition L now (Some incomingState) receiverState (s_Transition incomingState)))) (\<lambda>transaction.
     rpcS ''failed to record transaction'' (RecordTransaction transaction))"

definition recordSubmitted :: "'d libs \<Rightarrow> int \<Rightarrow> 'd ChannelHandler \<Rightarrow> 'd State \<Rightarrow> ('d, unit) db_op" where
  "recordSubmitted L now h incomingState =
     (let ty = t_Type (s_Transition incomingState) in
      if ty = TransitionTypeAcknowledgement then retS ()
      else if ty = TransitionTypeHomeDeposit \<or> ty = TransitionTypeHomeWithdrawal \<or> ty = TransitionTypeFinalize
        then recordTransition L now incomingState None
      else if ty = TransitionTypeTransferSend then
        bindS (rpcS ''failed to issue receiver state'' (issueTransferReceiverState L h incomingState)) (\<lambda>newReceiverState.
        recordTransition L now incomingState (Some newReceiverState))
      else if ty \<in> {TransitionTypeMutualLock, TransitionTypeEscrowLock, TransitionTypeEscrowDeposit,
                    TransitionTypeEscrowWithdraw, TransitionTypeMigrate}
        then failS (RPCError ''transition is not supported yet'')
      else failS (RPCError ''transition is not supported by this endpoint''))"

definition SubmitState_tx :: "'d libs \<Rightarrow> int \<Rightarrow> 'd ChannelHandler \<Rightarrow> 'd State \<Rightarrow> ('d, string) db_op" where
  "SubmitState_tx L now h incomingState =
     (let wallet = s_UserWallet incomingState; asset = s_Asset incomingState;
          ty = t_Type (s_Transition incomingState); store = asset_store (h_memoryStore h) in
      bindS (newErrorS (AllowAction L now (h_actionGateway h) wallet (TransitionType_GatedAction ty))) (\<lambda>_.
      bindS (rpcS ''failed to lock user state'' (LockUserState L wallet asset)) (\<lambda>_.
      bindS (rpcS ''failed to check open channel'' (queryS (\<lambda>db. CheckOpenChannel db wallet asset))) (\<lambda>(approvedSigValidators, userHasOpenChannel).
      bindS (guardS userHasOpenChannel ''user has no open channel'') (\<lambda>_.
      bindS (rpcS ''failed to get last user state'' (queryS (\<lambda>db. GetLastUserState db wallet asset False))) (\<lambda>last.
      bindS (guardS (ty \<notin> {TransitionTypeEscrowDeposit, TransitionTypeEscrowWithdraw, TransitionTypeMigrate})
        ''transition is not supported yet'') (\<lambda>_.
      let currentState = orVoid L asset wallet last in
      bindS (rpcS ''ongoing state transitions check failed''
        (queryS (\<lambda>db. EnsureNoOngoingStateTransitions db (s_UserWallet currentState) (s_Asset currentState)))) (\<lambda>_.
      bindS (rpcS ''invalid state transition'' (liftS (ValidateAdvancement L store currentState incomingState))) (\<lambda>_.
      bindS (rpcS ''failed to pack state'' (liftS (PackState L store incomingState))) (\<lambda>packedState.
      bindS (checkUserSig L now ''missing incoming state user signature'' ''failed to decode incoming state user signature''
        ''invalid incoming state user signature'' approvedSigValidators incomingState packedState) (\<lambda>_.
      bindS (rpcS ''failed to sign incoming state'' (liftS (nodeSign L (h_nodeKey h) packedState))) (\<lambda>nodeSig.
      let signedState = incomingState \<lparr> s_NodeSig := Some nodeSig \<rparr> in
      bindS (rpcS ''failed to store user state'' (StoreUserState L signedState)) (\<lambda>_.
      bindS (recordSubmitted L now h signedState) (\<lambda>_.
      retS nodeSig))))))))))))))"

definition SubmitState :: "'d libs \<Rightarrow> int \<Rightarrow> 'd ChannelHandler \<Rightarrow> RPC_StateV1 \<Rightarrow> 'd db \<Rightarrow> string result \<times> 'd db" where
  "SubmitState L now h state =
     endpoint (failE ''failed to parse state'' (toCoreState L state)) ''failed to process incoming state'' (SubmitState_tx L now h)"

text \<open>Escrow channels are not reachable through \<^verbatim>\<open>SubmitState\<close> yet, but their creation is implemented.\<close>

definition createEscrowChannel :: "'d libs \<Rightarrow> int \<Rightarrow> 'd ChannelHandler \<Rightarrow> 'd State \<Rightarrow> ('d, unit) db_op" where
  "createEscrowChannel L now h incomingState =
     bindS (guardS (s_EscrowChannelID incomingState \<noteq> None) ''missing escrow channel ID'') (\<lambda>_.
     bindS (liftS (derefE (s_HomeChannelID incomingState))) (\<lambda>homeID.
     bindS (rpcS ''failed to calculate escrow channel ID'' (liftS (GetEscrowChannelID L homeID (s_Version incomingState)))) (\<lambda>escrowChannelID.
     bindS (guardS (s_EscrowChannelID incomingState = Some escrowChannelID) ''incoming state escrow_channel_id is invalid'') (\<lambda>_.
     bindS (rpcS ''failed to get home channel'' (queryS (\<lambda>db. GetChannelByID db homeID))) (\<lambda>homeChannel.
     case homeChannel of
       None \<Rightarrow> failS (RPCError ''home channel does not exist'')
     | Some home \<Rightarrow>
         bindS (liftS (derefE (s_EscrowLedger incomingState))) (\<lambda>escrowLedger.
         bindS (liftS (IsAssetSupported (h_memoryStore h) (s_Asset incomingState) (l_TokenAddress escrowLedger) (l_BlockchainID escrowLedger))) (\<lambda>ok.
         bindS (guardS ok ''asset is not supported on blockchain'') (\<lambda>_.
         rpcS ''failed to create escrow channel'' (CreateChannel now (NewChannel escrowChannelID (s_UserWallet incomingState)
           (s_Asset incomingState) ChannelTypeEscrow (l_BlockchainID escrowLedger) (l_TokenAddress escrowLedger)
           (ch_Nonce home) (ch_ChallengeDuration home) (ch_ApprovedSigValidators home)))))))))))"

section \<open>Opening a channel\<close>

definition checkCreationRequest ::
  "'d libs \<Rightarrow> 'd ChannelHandler \<Rightarrow> RPC_StateV1 \<Rightarrow> RPC_ChannelDefinitionV1 \<Rightarrow> ('d State \<times> ChannelDefinition) result" where
  "checkCreationRequest L h state def =
     bindE (rpcE ''invalid user_wallet'' (NormalizeHexAddress (rs_UserWallet state))) (\<lambda>wallet.
     bindE (failE ''failed to parse state'' (toCoreState L (state \<lparr> rs_UserWallet := wallet \<rparr>))) (\<lambda>incomingState.
     bindE (failE ''failed to parse channel definition'' (toCoreChannelDefinition def)) (\<lambda>channelDef.
     if cd_Nonce channelDef = 0 then Inl (RPCError ''nonce must be non-zero'')
     else if cd_Challenge channelDef < h_minChallenge h then Inl (RPCError ''challenge period must be at least'')
     else if h_maxChallenge h < cd_Challenge channelDef then Inl (RPCError ''challenge period must be at most'')
     else
       bindE (failE ''failed to check asset support'' (IsAssetSupported (h_memoryStore h) (s_Asset incomingState)
          (l_TokenAddress (s_HomeLedger incomingState)) (l_BlockchainID (s_HomeLedger incomingState)))) (\<lambda>ok.
       if \<not> ok then Inl (RPCError ''asset is not supported on blockchain'')
       else if \<not> SignerValidatorsSupported L (rd_ApprovedSigValidators def)
         then Inl (RPCError ''one or more of the provided approved signature validators are not supported'')
       else Inr (incomingState, channelDef)))))"

definition recordCreation :: "'d libs \<Rightarrow> int \<Rightarrow> 'd ChannelHandler \<Rightarrow> 'd State \<Rightarrow> ('d, unit) db_op" where
  "recordCreation L now h incomingState =
     (let ty = t_Type (s_Transition incomingState) in
      if ty = TransitionTypeAcknowledgement then retS ()
      else if ty = TransitionTypeVoid then failS (RPCError ''incoming state has no transitions'')
      else if ty = TransitionTypeHomeDeposit \<or> ty = TransitionTypeHomeWithdrawal then recordTransition L now incomingState None
      else if ty = TransitionTypeTransferSend then
        bindS (rpcS ''failed to issue receiver state'' (issueTransferReceiverState L h incomingState)) (\<lambda>newReceiverState.
        recordTransition L now incomingState (Some newReceiverState))
      else failS (RPCError ''transition is not supported by this endpoint''))"

definition checkNewChannel :: "'d State \<Rightarrow> 'd State \<Rightarrow> string \<Rightarrow> unit result" where
  "checkNewChannel currentState incomingState homeChannelID =
     (case s_HomeChannelID incomingState of
        None \<Rightarrow> Inl (RPCError ''incoming state home_channel_id is invalid'')
      | Some incoming \<Rightarrow>
          if \<not> EqualFold incoming homeChannelID then Inl (RPCError ''incoming state home_channel_id is invalid'')
          else (case s_HomeChannelID currentState of
              None \<Rightarrow> Inr ()
            | Some current \<Rightarrow>
                if \<not> IsFinal currentState then Inl (RPCError ''channel is already initialized'')
                else if EqualFold incoming current then Inl (RPCError ''cannot use same home channel id'')
                else Inr ()))"

definition RequestCreation_tx :: "'d libs \<Rightarrow> int \<Rightarrow> 'd ChannelHandler \<Rightarrow> 'd State \<times> ChannelDefinition \<Rightarrow> ('d, string) db_op" where
  "RequestCreation_tx L now h = (\<lambda>(incomingState, channelDef).
     let wallet = s_UserWallet incomingState; asset = s_Asset incomingState; store = asset_store (h_memoryStore h) in
     bindS (rpcS ''failed to lock user state'' (LockUserState L wallet asset)) (\<lambda>_.
     bindS (rpcS ''failed to check existing channel'' (queryS (\<lambda>db. GetLastUserState db wallet asset False))) (\<lambda>last.
     let currentState = orVoid L asset wallet last in
     bindS (rpcS ''failed to calculate channel ID'' (liftS (GetHomeChannelID L (h_nodeAddress h) wallet asset
       (cd_Nonce channelDef) (cd_Challenge channelDef) (cd_ApprovedSigValidators channelDef)))) (\<lambda>homeChannelID.
     bindS (liftS (checkNewChannel currentState incomingState homeChannelID)) (\<lambda>_.
     bindS (rpcS ''invalid state'' (liftS (ValidateAdvancement L store currentState incomingState))) (\<lambda>_.
     bindS (rpcS ''failed to pack state'' (liftS (PackState L store incomingState))) (\<lambda>packedState.
     bindS (checkUserSig L now ''missing user signature'' ''failed to decode user signature'' ''invalid incoming state user signature''
       (cd_ApprovedSigValidators channelDef) incomingState packedState) (\<lambda>_.
     bindS (rpcS ''failed to create channel'' (CreateChannel now (NewChannel homeChannelID wallet asset ChannelTypeHome
       (l_BlockchainID (s_HomeLedger incomingState)) (l_TokenAddress (s_HomeLedger incomingState))
       (cd_Nonce channelDef) (cd_Challenge channelDef) (cd_ApprovedSigValidators channelDef)))) (\<lambda>_.
     bindS (rpcS ''failed to sign state'' (liftS (nodeSign L (h_nodeKey h) packedState))) (\<lambda>nodeSig.
     let signedState = incomingState \<lparr> s_NodeSig := Some nodeSig \<rparr> in
     bindS (rpcS ''failed to store state'' (StoreUserState L signedState)) (\<lambda>_.
     bindS (recordCreation L now h signedState) (\<lambda>_.
     retS nodeSig))))))))))))"

definition RequestCreation ::
  "'d libs \<Rightarrow> int \<Rightarrow> 'd ChannelHandler \<Rightarrow> RPC_StateV1 \<Rightarrow> RPC_ChannelDefinitionV1 \<Rightarrow> 'd db \<Rightarrow> string result \<times> 'd db" where
  "RequestCreation L now h state def =
     endpoint (checkCreationRequest L h state def) ''failed to process channel creation request'' (RequestCreation_tx L now h)"

section \<open>Session keys\<close>

definition checkSessionKeyRequest ::
  "'d libs \<Rightarrow> int \<Rightarrow> 'd ChannelHandler \<Rightarrow> RPC_ChannelSessionKeyStateV1 \<Rightarrow> ChannelSessionKeyStateV1 result" where
  "checkSessionKeyRequest L now h state =
     bindE (rpcE ''invalid_session_key_state'' (unmapChannelSessionKeyStateV1 state)) (\<lambda>core0.
     bindE (rpcE ''invalid_session_key_state: invalid user_address'' (NormalizeHexAddress (csk_UserAddress core0))) (\<lambda>userAddress.
     bindE (rpcE ''invalid_session_key_state: invalid session_key'' (NormalizeHexAddress (csk_SessionKey core0))) (\<lambda>sessionKey.
     let coreState = core0 \<lparr> csk_UserAddress := userAddress, csk_SessionKey := sessionKey \<rparr> in
     if csk_Version coreState = 0 then Inl (RPCError ''invalid_session_key_state: version must be greater than 0'')
     else if csk_ExpiresAt coreState < now then Inl (RPCError ''invalid_session_key_state: expires_at must be in the future'')
     else if h_maxSessionKeyIDs h < int (length (csk_Assets coreState))
       then Inl (RPCError ''invalid_session_key_state: assets array exceeds maximum length'')
     else if csk_UserSig coreState = '''' then Inl (RPCError ''invalid_session_key_state: user_sig is required'')
     else bindE (rpcE ''invalid_session_key_state'' (ValidateChannelSessionKeyAuthSigV1 L coreState)) (\<lambda>_.
          Inr coreState))))"

definition SubmitSessionKeyState_tx :: "'d libs \<Rightarrow> int \<Rightarrow> ChannelSessionKeyStateV1 \<Rightarrow> ('d, unit) db_op" where
  "SubmitSessionKeyState_tx L now coreState =
     bindS (rpcS ''failed to check existing session key state''
       (queryS (\<lambda>db. GetLastChannelSessionKeyVersion db (csk_UserAddress coreState) (csk_SessionKey coreState)))) (\<lambda>latestVersion.
     bindS (guardS (csk_Version coreState = latestVersion + 1) ''invalid_session_key_state: expected version'') (\<lambda>_.
     StoreChannelSessionKeyState L now coreState))"

definition SubmitSessionKeyState ::
  "'d libs \<Rightarrow> int \<Rightarrow> 'd ChannelHandler \<Rightarrow> RPC_ChannelSessionKeyStateV1 \<Rightarrow> 'd db \<Rightarrow> unit result \<times> 'd db" where
  "SubmitSessionKeyState L now h state =
     endpoint (checkSessionKeyRequest L now h state) ''failed to store channel session key state'' (SubmitSessionKeyState_tx L now)"

section \<open>Queries\<close>

definition channelStatusFromString :: "string \<Rightarrow> ChannelStatus result" where
  "channelStatusFromString s0 =
     (let s = ToLower s0 in
      if s = ''void'' then Inr ChannelStatusVoid else if s = ''open'' then Inr ChannelStatusOpen
      else if s = ''challenged'' then Inr ChannelStatusChallenged else if s = ''closed'' then Inr ChannelStatusClosed
      else Inl (Err ''unknown channel status''))"

definition channelTypeFromString :: "string \<Rightarrow> ChannelType result" where
  "channelTypeFromString s0 =
     (let s = ToLower s0 in
      if s = ''home'' then Inr ChannelTypeHome else if s = ''escrow'' then Inr ChannelTypeEscrow
      else Inl (Err ''unknown channel type''))"

definition optional_filter :: "(string \<Rightarrow> 'a result) \<Rightarrow> string option \<Rightarrow> 'a option result" where
  "optional_filter parse v = (case v of None \<Rightarrow> Inr None | Some s \<Rightarrow> if s = '''' then Inr None else mapE Some (parse s))"

definition GetChannels_limit :: "uint32 option \<Rightarrow> uint32" where
  "GetChannels_limit l =
     (let l0 = (case l of None \<Rightarrow> 0 | Some n \<Rightarrow> n); l1 = (if l0 = 0 then 100 else l0) in if 1000 < l1 then 1000 else l1)"

definition GetChannels_page :: "uint32 \<Rightarrow> uint32 \<Rightarrow> uint32 \<Rightarrow> PaginationMetadata" where
  "GetChannels_page totalCount offset limit =
     (if 0 < totalCount then
        \<lparr> pm_Page = (if 0 < offset then offset div limit + 1 else 1), pm_PerPage = limit, pm_TotalCount = totalCount,
          pm_PageCount = of_int (uint ((ucast totalCount + ucast limit - 1 :: uint64) div ucast limit)) \<rparr>
      else \<lparr> pm_Page = 0, pm_PerPage = limit, pm_TotalCount = totalCount, pm_PageCount = 0 \<rparr>)"

definition GetChannels ::
  "'d db \<Rightarrow> string \<Rightarrow> string option \<Rightarrow> string option \<Rightarrow> string option \<Rightarrow> PaginationParams option
   \<Rightarrow> (RPC_ChannelV1 list \<times> PaginationMetadata) result" where
  "GetChannels db wallet status asset channelType pagination =
     (if wallet = '''' then Inl (RPCError ''wallet is required'')
      else
        bindE (rpcE ''invalid status'' (optional_filter channelStatusFromString status)) (\<lambda>statusFilter.
        bindE (rpcE ''invalid channel_type'' (optional_filter channelTypeFromString channelType)) (\<lambda>typeFilter.
        let limit = GetChannels_limit (Option.bind pagination pp_Limit);
            offset = (case Option.bind pagination pp_Offset of None \<Rightarrow> 0 | Some n \<Rightarrow> n) in
        bindE (rpcE ''failed to get channels'' (GetUserChannels db wallet statusFilter asset typeFilter limit offset)) (\<lambda>(chans, totalCount).
        Inr (map coreChannelToRPC chans, GetChannels_page totalCount offset limit)))))"

definition found :: "string \<Rightarrow> 'a option \<Rightarrow> 'a result" where
  "found msg r = (case r of None \<Rightarrow> Inl (RPCError msg) | Some x \<Rightarrow> Inr x)"

definition GetEscrowChannel :: "'d db \<Rightarrow> string \<Rightarrow> RPC_ChannelV1 result" where
  "GetEscrowChannel db escrowChannelID =
     bindE (rpcE ''failed to get channel'' (GetChannelByID db escrowChannelID)) (\<lambda>channel.
     mapE coreChannelToRPC (found ''channel_not_found'' channel))"

definition GetHomeChannel :: "'d db \<Rightarrow> string \<Rightarrow> string \<Rightarrow> RPC_ChannelV1 result" where
  "GetHomeChannel db wallet asset =
     bindE (rpcE ''failed to get home channel'' (GetActiveHomeChannel db wallet asset)) (\<lambda>channel.
     mapE coreChannelToRPC (found ''channel_not_found'' channel))"

definition GetLastKeyStates :: "'d db \<Rightarrow> string \<Rightarrow> string option \<Rightarrow> RPC_ChannelSessionKeyStateV1 list result" where
  "GetLastKeyStates db userAddress sessionKey =
     (if userAddress = '''' then Inl (RPCError ''user_address is required'')
      else failE ''failed to retrieve channel session key states''
        (mapE (map mapChannelSessionKeyStateV1) (GetLastChannelSessionKeyStates db userAddress sessionKey)))"

definition GetLatestState :: "'d libs \<Rightarrow> 'd db \<Rightarrow> string \<Rightarrow> string \<Rightarrow> bool \<Rightarrow> RPC_StateV1 result" where
  "GetLatestState L db wallet asset onlySigned =
     bindE (rpcE ''failed to get last user state'' (GetLastUserState db wallet asset onlySigned)) (\<lambda>lastState.
     mapE (coreStateToRPC L) (found ''channel not found'' lastState))"

end
