(* ===== verification/App_Session_Api.thy ===== *)
theory App_Session_Api
  imports Channel_Api App_Core
begin

text \<open>
  \<^verbatim>\<open>src/clearnode/api/app_session_v1\<close>: app sessions between several participants. A session is changed by
  updates that a quorum of its participants signed; deposits move funds from a channel state into the
  session ledger, withdrawals and closing move them back.
\<close>

section \<open>Conversions\<close>

definition unmapAppDefinitionV1 :: "RPC_AppDefinitionV1 \<Rightarrow> AppDefinitionV1 result" where
  "unmapAppDefinitionV1 def =
     bindE (wrapE ''invalid nonce'' (ParseUint64 (ra_Nonce def))) (\<lambda>nonce.
     Inr \<lparr> ad_ApplicationID = ra_Application def,
           ad_Participants = map (\<lambda>p. \<lparr> ap_WalletAddress = rp_WalletAddress p, ap_SignatureWeight = rp_SignatureWeight p \<rparr>) (ra_Participants def),
           ad_Quorum = ra_Quorum def, ad_Nonce = nonce \<rparr>)"

text \<open>\<^verbatim>\<open>unmapStateV1\<close> and \<^verbatim>\<open>unmapLedgerV1\<close> repeat the code of \<^verbatim>\<open>channel_v1/utils.go\<close>.\<close>

definition unmapLedgerV1 :: "'d libs \<Rightarrow> RPC_LedgerV1 \<Rightarrow> 'd Ledger result" where
  "unmapLedgerV1 = toCoreLedger"

definition unmapStateV1 :: "'d libs \<Rightarrow> RPC_StateV1 \<Rightarrow> 'd State result" where
  "unmapStateV1 = toCoreState"

definition unmapAppAllocationV1 :: "'d libs \<Rightarrow> RPC_AppAllocationV1 \<Rightarrow> 'd AppAllocationV1 result" where
  "unmapAppAllocationV1 L alloc =
     bindE (wrapE ''failed to parse amount'' (dNewFromString L (rl_Amount alloc))) (\<lambda>decAmount.
     Inr \<lparr> al_Participant = ToLower (rl_Participant alloc), al_Asset = rl_Asset alloc, al_Amount = decAmount \<rparr>)"

definition unmapAppStateUpdateV1 :: "'d libs \<Rightarrow> RPC_AppStateUpdateV1 \<Rightarrow> 'd AppStateUpdateV1 result" where
  "unmapAppStateUpdateV1 L upd =
     bindE (mapME (unmapAppAllocationV1 L) (ru_Allocations upd)) (\<lambda>allocations.
     bindE (wrapE ''failed to parse version'' (ParseUint64 (ru_Version upd))) (\<lambda>version.
     Inr \<lparr> au_AppSessionID = ru_AppSessionID upd, au_Intent = ru_Intent upd, au_Version = version,
           au_Allocations = allocations, au_SessionData = ru_SessionData upd \<rparr>))"

definition unmapSignedAppStateUpdateV1 :: "'d libs \<Rightarrow> RPC_AppStateUpdateV1 \<times> string list \<Rightarrow> 'd SignedAppStateUpdateV1 result" where
  "unmapSignedAppStateUpdateV1 L = (\<lambda>(upd, sigs).
     bindE (unmapAppStateUpdateV1 L upd) (\<lambda>appStateUpd.
     Inr \<lparr> su_AppStateUpdate = appStateUpd, su_QuorumSigs = sigs \<rparr>))"

definition getParticipantWeights :: "AppParticipantV1 list \<Rightarrow> (string, uint8) gomap" where
  "getParticipantWeights participants =
     foldl (\<lambda>m p. gm_put (ToLower (ap_WalletAddress p)) (ap_SignatureWeight p) m) [] participants"

definition unmapSessionKeyStateV1 :: "RPC_AppSessionKeyStateV1 \<Rightarrow> AppSessionKeyStateV1 result" where
  "unmapSessionKeyStateV1 state =
     bindE (wrapE ''invalid version'' (ParseUint64 (rak_Version state))) (\<lambda>version.
     bindE (wrapE ''invalid expires_at'' (Atoi (rak_ExpiresAt state))) (\<lambda>expiresAtUnix.
     Inr \<lparr> ask_UserAddress = ToLower (rak_UserAddress state), ask_SessionKey = ToLower (rak_SessionKey state),
           ask_Version = version, ask_ApplicationIDs = rak_ApplicationIDs state,
           ask_AppSessionIDs = rak_AppSessionIDs state, ask_ExpiresAt = expiresAtUnix, ask_UserSig = rak_UserSig state \<rparr>))"

definition mapSessionKeyStateV1 :: "AppSessionKeyStateV1 \<Rightarrow> RPC_AppSessionKeyStateV1" where
  "mapSessionKeyStateV1 state =
     \<lparr> rak_UserAddress = ask_UserAddress state, rak_SessionKey = ask_SessionKey state,
       rak_Version = FormatUint64 (ask_Version state), rak_ApplicationIDs = ask_ApplicationIDs state,
       rak_AppSessionIDs = ask_AppSessionIDs state, rak_ExpiresAt = show_int (ask_ExpiresAt state),
       rak_UserSig = ask_UserSig state \<rparr>"

section \<open>The handler\<close>

record 'd AppHandler =
  ah_memoryStore :: MemoryStoreV1
  ah_actionGateway :: "'d ActionLimitConfig"
  ah_nodeKey :: bytes
  ah_appRegistryEnabled :: bool
  ah_maxParticipants :: int
  ah_maxSessionData :: int
  ah_maxSessionKeyIDs :: int
  ah_maxSignedUpdates :: int

section \<open>Quorum\<close>

definition recoverSigner :: "'d libs \<Rightarrow> int \<Rightarrow> 'd db \<Rightarrow> string \<Rightarrow> bytes \<Rightarrow> string \<Rightarrow> string result" where
  "recoverSigner L now db appSessionId data sigHex =
     bindE (rpcE ''failed to decode signature'' (hexutilDecode L sigHex)) (\<lambda>sigBytes.
     if sigBytes = [] then Inl (RPCError ''empty signature after decode'')
     else bindE (rpcE ''failed to recover user wallet''
            (AppSessionKeyValidatorV1_Recover L (\<lambda>sessionKeyAddr. GetAppSessionKeyOwner now db sessionKeyAddr appSessionId) data sigBytes))
          (\<lambda>userWallet. Inr (ToLower userWallet)))"

text \<open>One round of the loop: the wallets counted so far and the weight they add up to, in eight bits.\<close>

definition countSigner :: "(string, uint8) gomap \<Rightarrow> string \<Rightarrow> string list \<times> uint8 \<Rightarrow> (string list \<times> uint8) result" where
  "countSigner participantWeights userWallet = (\<lambda>(signedBy, achievedQuorum).
     case gm_get participantWeights userWallet of
       None \<Rightarrow> Inl (RPCError ''signature from non-participant'')
     | Some weight \<Rightarrow>
         if userWallet \<in> set signedBy then Inr (signedBy, achievedQuorum)
         else Inr (userWallet # signedBy, achievedQuorum + weight))"

definition verifyQuorum ::
  "'d libs \<Rightarrow> int \<Rightarrow> 'd db \<Rightarrow> string \<Rightarrow> (string, uint8) gomap \<Rightarrow> uint8 \<Rightarrow> bytes \<Rightarrow> string list \<Rightarrow> unit result" where
  "verifyQuorum L now db appSessionId participantWeights requiredQuorum data signatures =
     bindE (foldE (\<lambda>sigHex acc. bindE (recoverSigner L now db appSessionId data sigHex) (\<lambda>userWallet.
              countSigner participantWeights userWallet acc)) signatures ([], 0)) (\<lambda>(signedBy, achievedQuorum).
     if achievedQuorum < requiredQuorum then Inl (RPCError ''quorum not met'') else Inr ())"

section \<open>Releasing funds to a participant\<close>

definition issueReleaseReceiverState ::
  "'d libs \<Rightarrow> int \<Rightarrow> 'd AppHandler \<Rightarrow> string \<Rightarrow> string \<Rightarrow> string \<Rightarrow> 'd \<Rightarrow> ('d, unit) db_op" where
  "issueReleaseReceiverState L now h receiverWallet asset appSessionID amount =
     bindS (rpcS ''failed to lock receiver state'' (LockUserState L receiverWallet asset)) (\<lambda>_.
     bindS (rpcS ''failed to get receiver state'' (queryS (\<lambda>db. GetLastUserState db receiverWallet asset False))) (\<lambda>last.
     bindS (rpcS ''failed to apply release transition'' (liftS (ApplyReleaseTransition L
       (NextState L (orVoid L asset receiverWallet last)) appSessionID amount))) (\<lambda>(releaseTransition, newState).
     bindS (rpcS ''failed to get last signed state'' (queryS (\<lambda>db. GetLastUserState db receiverWallet asset True))) (\<lambda>lastSignedState.
     bindS (guardS (Option.bind lastSignedState s_EscrowChannelID = None)
       ''cannot issue release receiver state: last signed state is a lock with escrow channel'') (\<lambda>_.
     bindS (liftS (signIssued L (asset_store (ah_memoryStore h)) (ah_nodeKey h) newState)) (\<lambda>signedState.
     bindS (rpcS ''failed to store receiver state'' (StoreUserState L signedState)) (\<lambda>_.
     bindS (rpcS ''failed to create transaction''
       (liftS (NewTransactionFromTransition L now None (Some signedState) releaseTransition))) (\<lambda>transaction.
     rpcS ''failed to record transaction'' (RecordTransaction transaction)))))))))"

section \<open>Allocations\<close>

type_synonym 'd allocations = "(string, (string, 'd) gomap) gomap"

text \<open>\<^verbatim>\<open>m[participant][asset]\<close> as a value, and the two nested loops over such a map, in the map's order or
  by sorted keys.\<close>

definition alloc_at :: "'d libs \<Rightarrow> 'd allocations \<Rightarrow> string \<Rightarrow> string \<Rightarrow> 'd" where
  "alloc_at L m participant asset = (case gm_get2 m participant asset of None \<Rightarrow> dZero L | Some v \<Rightarrow> v)"

definition alloc_entries :: "'d allocations \<Rightarrow> (string \<times> string \<times> 'd) list" where
  "alloc_entries m = concat (map (\<lambda>(participant, assets). map (\<lambda>(asset, amount). (participant, asset, amount)) assets) m)"

definition sorted_entries :: "'d libs \<Rightarrow> 'd allocations \<Rightarrow> (string \<times> string \<times> 'd) list" where
  "sorted_entries L m =
     concat (map (\<lambda>participant. let assets = gm_index [] m participant in
       map (\<lambda>asset. (participant, asset, gm_index (dZero L) assets asset)) (SortFunc string_less (map fst assets)))
       (SortFunc string_less (map fst m)))"

definition checkAllocation :: "'d libs \<Rightarrow> (string, uint8) gomap \<Rightarrow> 'd AppAllocationV1 \<Rightarrow> 'd allocations \<Rightarrow> unit result" where
  "checkAllocation L participantWeights alloc incomingAllocations =
     (if gm_get participantWeights (al_Participant alloc) = None then Inl (RPCError ''allocation to non-participant'')
      else if dIsNegative L (al_Amount alloc) then Inl (RPCError ''negative allocation'')
      else if gm_get2 incomingAllocations (al_Participant alloc) (al_Asset alloc) \<noteq> None then Inl (RPCError ''duplicate allocation'')
      else Inr ())"

definition checkPrecision :: "'d libs \<Rightarrow> AssetStore \<Rightarrow> string \<Rightarrow> 'd \<Rightarrow> unit result" where
  "checkPrecision L store asset amount =
     bindE (rpcE ''failed to get asset decimals'' (GetAssetDecimals store asset)) (\<lambda>decimals.
     rpcE ''invalid amount for allocation'' (ValidateDecimalPrecision L amount decimals))"

definition operateStep ::
  "'d libs \<Rightarrow> AssetStore \<Rightarrow> (string, uint8) gomap \<Rightarrow> 'd AppAllocationV1 \<Rightarrow> 'd allocations \<times> (string, 'd) gomap
   \<Rightarrow> ('d allocations \<times> (string, 'd) gomap) result" where
  "operateStep L store participantWeights alloc = (\<lambda>(incomingAllocations, allocationSum).
     bindE (if gm_get participantWeights (al_Participant alloc) = None then Inl (RPCError ''allocation to non-participant'')
            else if dIsNegative L (al_Amount alloc) then Inl (RPCError ''negative allocation'') else Inr ()) (\<lambda>_.
     bindE (checkPrecision L store (al_Asset alloc) (al_Amount alloc)) (\<lambda>_.
     if gm_get2 incomingAllocations (al_Participant alloc) (al_Asset alloc) \<noteq> None then Inl (RPCError ''duplicate allocation'')
     else Inr (gm_put2 (al_Participant alloc) (al_Asset alloc) (al_Amount alloc) incomingAllocations,
               gm_put (al_Asset alloc) (case gm_get allocationSum (al_Asset alloc) of
                   Some existing \<Rightarrow> dAdd L existing (al_Amount alloc) | None \<Rightarrow> al_Amount alloc) allocationSum))))"

definition handleOperateIntent ::
  "'d libs \<Rightarrow> 'd AppHandler \<Rightarrow> 'd AppStateUpdateV1 \<Rightarrow> 'd allocations \<Rightarrow> (string, uint8) gomap \<Rightarrow> ('d, unit) db_op" where
  "handleOperateIntent L h upd currentAllocations participantWeights =
     (let sessionID = au_AppSessionID upd in
      bindS (rpcS ''failed to get app session balances'' (queryS (\<lambda>db. GetAppSessionBalances L db sessionID))) (\<lambda>sessionBalances.
      bindS (liftS (foldE (operateStep L (asset_store (ah_memoryStore h)) participantWeights) (au_Allocations upd) ([], [])))
        (\<lambda>(incomingAllocations, allocationSum).
      bindS (forS (\<lambda>(participant, asset, currentAmount) _.
          if dIsZero L currentAmount then retS ()
          else (case gm_get2 incomingAllocations participant asset of
              None \<Rightarrow> failS (RPCError ''operate intent missing allocation'')
            | Some incomingAmount \<Rightarrow>
                let diff = dSub L incomingAmount currentAmount in
                if \<not> dIsZero L diff then rpcS ''failed to record operate ledger entry'' (RecordLedgerEntry L participant sessionID asset diff)
                else retS ())) (alloc_entries currentAllocations) ()) (\<lambda>_.
      bindS (forS (\<lambda>(participant, asset, incomingAmount) _.
          if dIsZero L incomingAmount then retS ()
          else if dIsZero L (alloc_at L currentAllocations participant asset) \<and> \<not> dIsZero L incomingAmount
            then rpcS ''failed to record new allocation ledger entry'' (RecordLedgerEntry L participant sessionID asset incomingAmount)
          else retS ()) (alloc_entries incomingAllocations) ()) (\<lambda>_.
      bindS (liftS (foldE (\<lambda>(asset, totalAlloc) _.
          if \<not> dEqual L totalAlloc (gm_index (dZero L) sessionBalances asset)
          then Inl (RPCError ''operate intent allocation mismatch'') else Inr ()) allocationSum ())) (\<lambda>_.
      liftS (foldE (\<lambda>(asset, sessionBalance) _.
          if dIsZero L sessionBalance then Inr ()
          else if gm_get allocationSum asset = None then Inl (RPCError ''operate intent missing allocations'')
          else Inr ()) sessionBalances ())))))))"

definition withdrawStep ::
  "'d libs \<Rightarrow> (string, uint8) gomap \<Rightarrow> 'd allocations \<Rightarrow> 'd AppAllocationV1 \<Rightarrow> 'd allocations \<Rightarrow> 'd allocations result" where
  "withdrawStep L participantWeights currentAllocations alloc incomingAllocations =
     bindE (checkAllocation L participantWeights alloc incomingAllocations) (\<lambda>_.
     if \<not> dIsZero L (al_Amount alloc) \<and> dIsZero L (alloc_at L currentAllocations (al_Participant alloc) (al_Asset alloc))
     then Inl (RPCError ''withdraw intent cannot add new allocation'')
     else Inr (gm_put2 (al_Participant alloc) (al_Asset alloc) (al_Amount alloc) incomingAllocations))"

definition handleWithdrawIntent ::
  "'d libs \<Rightarrow> int \<Rightarrow> 'd AppHandler \<Rightarrow> 'd AppStateUpdateV1 \<Rightarrow> 'd allocations \<Rightarrow> (string, uint8) gomap \<Rightarrow> ('d, unit) db_op" where
  "handleWithdrawIntent L now h upd currentAllocations participantWeights =
     (let sessionID = au_AppSessionID upd; store = asset_store (ah_memoryStore h) in
      bindS (liftS (foldE (withdrawStep L participantWeights currentAllocations) (au_Allocations upd) [])) (\<lambda>incomingAllocations.
      forS (\<lambda>(participant, asset, currentAmount) _.
        if dIsZero L currentAmount then retS ()
        else (case gm_get2 incomingAllocations participant asset of
            None \<Rightarrow> failS (RPCError ''withdraw intent missing allocation'')
          | Some incomingAmount \<Rightarrow>
              if dGreaterThan L incomingAmount currentAmount then failS (RPCError ''withdraw intent cannot increase allocations'')
              else if dLessThan L incomingAmount currentAmount then
                let withdrawAmount = dSub L currentAmount incomingAmount in
                bindS (rpcS ''failed to record withdrawal ledger entry'' (RecordLedgerEntry L participant sessionID asset (dNeg L withdrawAmount))) (\<lambda>_.
                bindS (rpcS ''failed to get asset decimals'' (liftS (GetAssetDecimals store asset))) (\<lambda>decimals.
                bindS (rpcS ''invalid withdraw amount for allocation'' (liftS (ValidateDecimalPrecision L withdrawAmount decimals))) (\<lambda>_.
                rpcS ''failed to issue release state for participant''
                  (issueReleaseReceiverState L now h participant asset sessionID withdrawAmount))))
              else retS ())) (sorted_entries L currentAllocations) ()))"

definition closeStep ::
  "'d libs \<Rightarrow> (string, uint8) gomap \<Rightarrow> 'd AppAllocationV1 \<Rightarrow> 'd allocations \<Rightarrow> 'd allocations result" where
  "closeStep L participantWeights alloc incomingAllocations =
     bindE (checkAllocation L participantWeights alloc incomingAllocations) (\<lambda>_.
     Inr (gm_put2 (al_Participant alloc) (al_Asset alloc) (al_Amount alloc) incomingAllocations))"

definition handleCloseIntent ::
  "'d libs \<Rightarrow> int \<Rightarrow> 'd AppHandler \<Rightarrow> 'd AppStateUpdateV1 \<Rightarrow> 'd allocations \<Rightarrow> (string, uint8) gomap \<Rightarrow> ('d, unit) db_op" where
  "handleCloseIntent L now h upd currentAllocations participantWeights =
     (let sessionID = au_AppSessionID upd in
      bindS (liftS (foldE (closeStep L participantWeights) (au_Allocations upd) [])) (\<lambda>incomingAllocations.
      bindS (liftS (foldE (\<lambda>(participant, asset, currentAmount) _.
          if dIsZero L currentAmount then Inr ()
          else (case gm_get2 incomingAllocations participant asset of
              None \<Rightarrow> Inl (RPCError ''close intent missing allocation'')
            | Some incomingAmount \<Rightarrow>
                if \<not> dEqual L incomingAmount currentAmount
                then Inl (RPCError ''close intent requires allocations to match current state'') else Inr ()))
          (alloc_entries currentAllocations) ())) (\<lambda>_.
      bindS (liftS (foldE (\<lambda>(participant, asset, incomingAmount) _.
          if dIsZero L (alloc_at L currentAllocations participant asset) \<and> \<not> dIsZero L incomingAmount
          then Inl (RPCError ''close intent contains unexpected allocation'') else Inr ())
          (alloc_entries incomingAllocations) ())) (\<lambda>_.
      forS (\<lambda>(participant, asset, amount) _.
        if dIsZero L amount then retS ()
        else
          bindS (rpcS ''failed to record close ledger entry'' (RecordLedgerEntry L participant sessionID asset (dNeg L amount))) (\<lambda>_.
          rpcS ''failed to issue release state for participant''
            (issueReleaseReceiverState L now h participant asset sessionID amount)))
        (sorted_entries L currentAllocations) ()))))"

section \<open>Updating a session\<close>

text \<open>With the application registry enabled, every update counts against the allowance of the application's owner.\<close>

definition allowOwner :: "'d libs \<Rightarrow> int \<Rightarrow> 'd AppHandler \<Rightarrow> string \<Rightarrow> GatedAction \<Rightarrow> ('d, unit) db_op" where
  "allowOwner L now h applicationID action =
     (if \<not> ah_appRegistryEnabled h then retS ()
      else
        bindS (rpcS ''failed to look up application'' (queryS (\<lambda>db. GetApp db applicationID))) (\<lambda>registeredApp.
        case registeredApp of
          None \<Rightarrow> failS (RPCError ''application is not registered'')
        | Some a \<Rightarrow> newErrorS (AllowAction L now (ah_actionGateway h) (app_OwnerWallet (ai_App a)) action)))"

definition bumpSession :: "int \<Rightarrow> string \<Rightarrow> AppSessionV1 \<Rightarrow> ('d, unit) db_op" where
  "bumpSession now sessionData appSession =
     UpdateAppSession now (appSession \<lparr> se_Version := se_Version appSession + 1,
       se_SessionData := (if sessionData \<noteq> '''' then sessionData else se_SessionData appSession), se_UpdatedAt := now \<rparr>)"

definition checkAppStateRequest :: "'d libs \<Rightarrow> 'd AppHandler \<Rightarrow> RPC_AppStateUpdateV1 \<Rightarrow> 'd AppStateUpdateV1 result" where
  "checkAppStateRequest L h upd =
     (if ah_maxSessionData h < int (length (ru_SessionData upd)) then Inl (RPCError ''session_data exceeds maximum length'')
      else
        bindE (failE ''failed to parse app state update'' (unmapAppStateUpdateV1 L upd)) (\<lambda>appStateUpd.
        if au_Intent appStateUpd = AppStateUpdateIntentDeposit
          then Inl (RPCError ''deposit intent must use submit_deposit_state endpoint'')
        else if au_Intent appStateUpd \<noteq> AppStateUpdateIntentOperate \<and> au_Intent appStateUpd \<noteq> AppStateUpdateIntentWithdraw \<and>
                au_Intent appStateUpd \<noteq> AppStateUpdateIntentClose then Inl (RPCError ''invalid intent'')
        else Inr appStateUpd))"

definition SubmitAppState_tx :: "'d libs \<Rightarrow> int \<Rightarrow> 'd AppHandler \<Rightarrow> string list \<Rightarrow> 'd AppStateUpdateV1 \<Rightarrow> ('d, unit) db_op" where
  "SubmitAppState_tx L now h quorumSigs upd =
     bindS (rpcS ''app session not found'' (queryS (\<lambda>db. GetAppSession db (au_AppSessionID upd)))) (\<lambda>sess.
     bindS (liftS (found ''app session not found'' sess)) (\<lambda>appSession.
     bindS (guardS (se_Status appSession \<noteq> AppSessionStatusClosed) ''app session is already closed'') (\<lambda>_.
     bindS (allowOwner L now h (se_ApplicationID appSession) (AppStateUpdateIntent_GatedAction (au_Intent upd))) (\<lambda>_.
     bindS (guardS (length quorumSigs \<le> length (se_Participants appSession)) ''quorum_sigs count exceeds participants count'') (\<lambda>_.
     bindS (guardS (au_Version upd = se_Version appSession + 1) ''invalid app session version'') (\<lambda>_.
     let participantWeights = getParticipantWeights (se_Participants appSession) in
     bindS (guardS (quorumSigs \<noteq> []) ''no signatures provided'') (\<lambda>_.
     bindS (rpcS ''failed to pack app state update'' (liftS (PackAppStateUpdateV1 L upd))) (\<lambda>packedStateUpdate.
     bindS (queryS (\<lambda>db. verifyQuorum L now db (au_AppSessionID upd) participantWeights (se_Quorum appSession) packedStateUpdate quorumSigs)) (\<lambda>_.
     bindS (rpcS ''failed to get current allocations'' (queryS (\<lambda>db. GetParticipantAllocations L db (se_SessionID appSession)))) (\<lambda>currentAllocations.
     bindS (if au_Intent upd = AppStateUpdateIntentOperate then handleOperateIntent L h upd currentAllocations participantWeights
            else if au_Intent upd = AppStateUpdateIntentWithdraw then handleWithdrawIntent L now h upd currentAllocations participantWeights
            else if au_Intent upd = AppStateUpdateIntentClose then handleCloseIntent L now h upd currentAllocations participantWeights
            else retS ()) (\<lambda>_.
     let session1 = (if au_Intent upd = AppStateUpdateIntentClose then appSession \<lparr> se_Status := AppSessionStatusClosed \<rparr> else appSession) in
     rpcS ''failed to update app session'' (bumpSession now (au_SessionData upd) session1))))))))))))"

definition SubmitAppState ::
  "'d libs \<Rightarrow> int \<Rightarrow> 'd AppHandler \<Rightarrow> RPC_AppStateUpdateV1 \<Rightarrow> string list \<Rightarrow> 'd db \<Rightarrow> unit result \<times> 'd db" where
  "SubmitAppState L now h upd quorumSigs =
     endpoint (checkAppStateRequest L h upd) ''failed to process app state update'' (SubmitAppState_tx L now h quorumSigs)"

section \<open>Creating a session\<close>

text \<open>The weights of the participants and their total, which wraps around in eight bits.\<close>

definition addParticipant ::
  "RPC_AppParticipantV1 \<Rightarrow> uint8 \<times> (string, uint8) gomap \<Rightarrow> (uint8 \<times> (string, uint8) gomap) result" where
  "addParticipant participant = (\<lambda>(totalWeights, participantWeights).
     let participantWallet = ToLower (rp_WalletAddress participant) in
     if gm_get participantWeights participantWallet \<noteq> None then Inl (RPCError ''duplicate participant address'')
     else Inr (totalWeights + rp_SignatureWeight participant,
               gm_put participantWallet (rp_SignatureWeight participant) participantWeights))"

definition checkCreateSessionRequest ::
  "'d libs \<Rightarrow> 'd AppHandler \<Rightarrow> RPC_AppDefinitionV1 \<Rightarrow> string \<Rightarrow> string list
   \<Rightarrow> (AppDefinitionV1 \<times> (string, uint8) gomap \<times> bytes \<times> string) result" where
  "checkCreateSessionRequest L h def sessionData quorumSigs =
     (if ah_maxParticipants h < int (length (ra_Participants def)) then Inl (RPCError ''participants array exceeds maximum length'')
      else if length (ra_Participants def) < length quorumSigs then Inl (RPCError ''quorum_sigs count exceeds participants count'')
      else if ah_maxSessionData h < int (length sessionData) then Inl (RPCError ''session_data exceeds maximum length'')
      else if ra_Application def = '''' then Inl (RPCError ''application id is required'')
      else
        bindE (failE ''invalid app definition'' (unmapAppDefinitionV1 def)) (\<lambda>appDef.
        if ra_Nonce def = '''' \<or> ra_Nonce def = ''0'' then Inl (RPCError ''nonce is zero or not provided'')
        else if ra_Quorum def = 0 then Inl (RPCError ''quorum must be greater than zero'')
        else
          bindE (foldE addParticipant (ra_Participants def) (0, [])) (\<lambda>(totalWeights, participantWeights).
          if totalWeights < ra_Quorum def then Inl (RPCError ''target quorum cannot be greater than total sum of weights'')
          else if quorumSigs = [] then Inl (RPCError ''no signatures provided'')
          else
            bindE (rpcE ''failed to pack request'' (PackCreateAppSessionRequestV1 L appDef sessionData)) (\<lambda>packedRequest.
            bindE (rpcE ''failed to generate app session ID'' (GenerateAppSessionIDV1 L appDef)) (\<lambda>appSessionID.
            Inr (appDef, participantWeights, packedRequest, appSessionID))))))"

definition approveOwner ::
  "'d libs \<Rightarrow> int \<Rightarrow> 'd AppHandler \<Rightarrow> string \<Rightarrow> string \<Rightarrow> bytes \<Rightarrow> string \<Rightarrow> ('d, unit) db_op" where
  "approveOwner L now h applicationID ownerSig packedRequest appSessionID =
     (if \<not> ah_appRegistryEnabled h then retS ()
      else
        bindS (rpcS ''failed to look up application'' (queryS (\<lambda>db. GetApp db applicationID))) (\<lambda>registeredApp.
        case registeredApp of
          None \<Rightarrow> failS (RPCError ''application is not registered'')
        | Some a \<Rightarrow>
            bindS (if app_CreationApprovalNotRequired (ai_App a) then retS ()
                   else if ownerSig = '''' then failS (RPCError ''owner_sig is required for this application'')
                   else
                     bindS (rpcS ''failed to decode signature'' (liftS (hexutilDecode L ownerSig))) (\<lambda>sigBytes.
                     bindS (guardS (sigBytes \<noteq> []) ''empty owner_sig after decode'') (\<lambda>_.
                     bindS (rpcS ''failed to recover user wallet'' (queryS (\<lambda>db. AppSessionKeyValidatorV1_Recover L
                       (\<lambda>sessionKeyAddr. GetAppSessionKeyOwner now db sessionKeyAddr appSessionID) packedRequest sigBytes))) (\<lambda>recoveredOwnerWallet.
                     guardS (EqualFold recoveredOwnerWallet (app_OwnerWallet (ai_App a)))
                       ''invalid owner signature: signer is not the app owner'')))) (\<lambda>_.
            newErrorS (AllowAction L now (ah_actionGateway h) (app_OwnerWallet (ai_App a)) GatedActionAppSessionCreation))))"

definition CreateAppSession_tx ::
  "'d libs \<Rightarrow> int \<Rightarrow> 'd AppHandler \<Rightarrow> string \<Rightarrow> string list \<Rightarrow> string \<Rightarrow> AppDefinitionV1 \<times> (string, uint8) gomap \<times> bytes \<times> string
   \<Rightarrow> ('d, string) db_op" where
  "CreateAppSession_tx L now h sessionData quorumSigs ownerSig = (\<lambda>(appDef, participantWeights, packedRequest, appSessionID).
     bindS (approveOwner L now h (ad_ApplicationID appDef) ownerSig packedRequest appSessionID) (\<lambda>_.
     bindS (queryS (\<lambda>db. verifyQuorum L now db appSessionID participantWeights (ad_Quorum appDef) packedRequest quorumSigs)) (\<lambda>_.
     bindS (rpcS ''failed to create app session'' (CreateAppSession
       \<lparr> se_SessionID = appSessionID, se_ApplicationID = ad_ApplicationID appDef, se_Participants = ad_Participants appDef,
         se_Quorum = ad_Quorum appDef, se_Nonce = ad_Nonce appDef, se_Status = AppSessionStatusOpen, se_Version = 1,
         se_SessionData = sessionData, se_CreatedAt = now, se_UpdatedAt = now \<rparr>)) (\<lambda>_.
     retS appSessionID))))"

definition Api_CreateAppSession ::
  "'d libs \<Rightarrow> int \<Rightarrow> 'd AppHandler \<Rightarrow> RPC_AppDefinitionV1 \<Rightarrow> string \<Rightarrow> string list \<Rightarrow> string \<Rightarrow> 'd db \<Rightarrow> string result \<times> 'd db" where
  "Api_CreateAppSession L now h def sessionData quorumSigs ownerSig =
     endpoint (checkCreateSessionRequest L h def sessionData quorumSigs) ''failed to create app session''
       (CreateAppSession_tx L now h sessionData quorumSigs ownerSig)"

section \<open>Depositing\<close>

definition checkDepositRequest ::
  "'d libs \<Rightarrow> 'd AppHandler \<Rightarrow> RPC_AppStateUpdateV1 \<Rightarrow> RPC_StateV1 \<Rightarrow> ('d AppStateUpdateV1 \<times> 'd State) result" where
  "checkDepositRequest L h upd userState =
     (if ah_maxSessionData h < int (length (ru_SessionData upd)) then Inl (RPCError ''session_data exceeds maximum length'')
      else
        bindE (failE ''failed to parse app state update'' (unmapAppStateUpdateV1 L upd)) (\<lambda>appStateUpd.
        bindE (failE ''failed to parse user state'' (unmapStateV1 L userState)) (\<lambda>state.
        Inr (appStateUpd, state))))"

text \<open>One allocation of a deposit: raise it in the ledger when it grew.\<close>

definition depositStep ::
  "'d libs \<Rightarrow> AssetStore \<Rightarrow> (string, uint8) gomap \<Rightarrow> 'd allocations \<Rightarrow> string \<Rightarrow> string \<Rightarrow> 'd AppAllocationV1
   \<Rightarrow> 'd allocations \<times> 'd \<Rightarrow> ('d, 'd allocations \<times> 'd) db_op" where
  "depositStep L store participantWeights currentAllocations sessionID userAsset alloc = (\<lambda>(incomingAllocations, totalDepositAmount).
     let participant = al_Participant alloc; asset = al_Asset alloc; amount = al_Amount alloc;
         currentAmount = alloc_at L currentAllocations participant asset;
         incoming1 = gm_put2 participant asset amount incomingAllocations in
     bindS (guardS (\<not> dIsNegative L amount) ''negative allocation'') (\<lambda>_.
     bindS (liftS (checkPrecision L store asset amount)) (\<lambda>_.
     bindS (guardS (gm_get2 incomingAllocations participant asset = None) ''duplicate allocation'') (\<lambda>_.
     bindS (guardS (\<not> dLessThan L amount currentAmount) ''decreased allocation'') (\<lambda>_.
     if dGreaterThan L amount currentAmount then
       bindS (guardS (gm_get participantWeights participant \<noteq> None) ''allocation to non-participant'') (\<lambda>_.
       bindS (guardS (asset = userAsset) ''app session deposit allocation does not match user channel state asset'') (\<lambda>_.
       let depositAmount = dSub L amount currentAmount in
       bindS (rpcS ''failed to record ledger entry'' (RecordLedgerEntry L participant sessionID asset depositAmount)) (\<lambda>_.
       retS (incoming1, dAdd L totalDepositAmount depositAmount))))
     else retS (incoming1, totalDepositAmount))))))"

definition checkOtherAssets :: "'d libs \<Rightarrow> 'd allocations \<Rightarrow> 'd allocations \<Rightarrow> string \<Rightarrow> unit result" where
  "checkOtherAssets L currentAllocations incomingAllocations userAsset =
     foldE (\<lambda>(participant, asset, currentAmount) _.
       if dIsZero L currentAmount \<or> asset = userAsset then Inr ()
       else (case gm_get2 incomingAllocations participant asset of
           None \<Rightarrow> Inl (RPCError ''deposit intent missing allocation'')
         | Some incomingAmount \<Rightarrow>
             if \<not> dEqual L incomingAmount currentAmount
             then Inl (RPCError ''deposit intent requires non-deposited asset allocations to match current state'') else Inr ()))
       (alloc_entries currentAllocations) ()"

text \<open>The checks on the user's channel state that commits the funds; its packed form is what the node signs.\<close>

definition checkCommitState ::
  "'d libs \<Rightarrow> int \<Rightarrow> 'd AppHandler \<Rightarrow> string \<Rightarrow> 'd State \<Rightarrow> ('d, bytes) db_op" where
  "checkCommitState L now h sessionID userState =
     (let wallet = s_UserWallet userState; asset = s_Asset userState; store = asset_store (ah_memoryStore h) in
      bindS (rpcS ''failed to lock user state'' (LockUserState L wallet asset)) (\<lambda>_.
      bindS (guardS (t_Type (s_Transition userState) = TransitionTypeCommit) ''user state transition must have 'commit' type'') (\<lambda>_.
      bindS (rpcS ''failed to check open channel'' (queryS (\<lambda>db. CheckOpenChannel db wallet asset))) (\<lambda>(approvedSigValidators, userHasOpenChannel).
      bindS (guardS userHasOpenChannel ''user has no open channel'') (\<lambda>_.
      bindS (guardS (t_AccountID (s_Transition userState) = sessionID) ''user state transition account ID does not match app session ID'') (\<lambda>_.
      bindS (guardS (s_UserSig userState \<noteq> None) ''missing user signature on user state'') (\<lambda>_.
      bindS (rpcS ''failed to get last user state'' (queryS (\<lambda>db. GetLastUserState db wallet asset False))) (\<lambda>last.
      bindS (if last = None then retS ()
             else rpcS ''ongoing state transitions check failed'' (queryS (\<lambda>db. EnsureNoOngoingStateTransitions db wallet asset))) (\<lambda>_.
      bindS (rpcS ''invalid state transitions'' (liftS (ValidateAdvancement L store (orVoid L asset wallet last) userState))) (\<lambda>_.
      bindS (rpcS ''failed to pack user state'' (liftS (PackState L store userState))) (\<lambda>packedUserState.
      bindS (checkUserSig L now ''missing user signature on user state'' ''failed to decode user signature'' ''failed to validate signature''
        approvedSigValidators userState packedUserState) (\<lambda>_.
      retS packedUserState))))))))))))"

definition SubmitDepositState_tx ::
  "'d libs \<Rightarrow> int \<Rightarrow> 'd AppHandler \<Rightarrow> string list \<Rightarrow> 'd AppStateUpdateV1 \<times> 'd State \<Rightarrow> ('d, string) db_op" where
  "SubmitDepositState_tx L now h quorumSigs = (\<lambda>(upd, userState).
     bindS (rpcS ''app session not found'' (queryS (\<lambda>db. GetAppSession db (au_AppSessionID upd)))) (\<lambda>sess.
     bindS (liftS (found ''app session not found'' sess)) (\<lambda>appSession.
     bindS (guardS (length quorumSigs \<le> length (se_Participants appSession)) ''quorum_sigs count exceeds participants count'') (\<lambda>_.
     bindS (guardS (se_Status appSession \<noteq> AppSessionStatusClosed) ''app session is already closed'') (\<lambda>_.
     bindS (guardS (au_Version upd = se_Version appSession + 1) ''invalid app session version'') (\<lambda>_.
     bindS (guardS (au_Intent upd = AppStateUpdateIntentDeposit) ''invalid intent: expected deposit'') (\<lambda>_.
     let participantWeights = getParticipantWeights (se_Participants appSession) in
     bindS (guardS (quorumSigs \<noteq> []) ''no signatures provided'') (\<lambda>_.
     bindS (allowOwner L now h (se_ApplicationID appSession) (AppStateUpdateIntent_GatedAction (au_Intent upd))) (\<lambda>_.
     bindS (checkCommitState L now h (au_AppSessionID upd) userState) (\<lambda>packedUserState.
     bindS (rpcS ''failed to pack app state update'' (liftS (PackAppStateUpdateV1 L upd))) (\<lambda>packedStateUpdate.
     bindS (queryS (\<lambda>db. verifyQuorum L now db (au_AppSessionID upd) participantWeights (se_Quorum appSession) packedStateUpdate quorumSigs)) (\<lambda>_.
     bindS (rpcS ''failed to get current allocations'' (queryS (\<lambda>db. GetParticipantAllocations L db (se_SessionID appSession)))) (\<lambda>currentAllocations.
     bindS (forS (depositStep L (asset_store (ah_memoryStore h)) participantWeights currentAllocations (se_SessionID appSession)
              (s_Asset userState)) (au_Allocations upd) ([], dZero L)) (\<lambda>(incomingAllocations, totalDepositAmount).
     bindS (liftS (checkOtherAssets L currentAllocations incomingAllocations (s_Asset userState))) (\<lambda>_.
     bindS (guardS (dEqual L totalDepositAmount (t_Amount (s_Transition userState))) ''total deposit amount does not match transition amount'') (\<lambda>_.
     bindS (rpcS ''failed to update app session'' (bumpSession now (au_SessionData upd) appSession)) (\<lambda>_.
     bindS (rpcS ''failed to sign user state'' (liftS (nodeSign L (ah_nodeKey h) packedUserState))) (\<lambda>nodeSig.
     let signedState = userState \<lparr> s_NodeSig := Some nodeSig \<rparr> in
     bindS (rpcS ''failed to store user state'' (StoreUserState L signedState)) (\<lambda>_.
     bindS (recordTransition L now signedState None) (\<lambda>_.
     retS nodeSig))))))))))))))))))))"

definition SubmitDepositState ::
  "'d libs \<Rightarrow> int \<Rightarrow> 'd AppHandler \<Rightarrow> RPC_AppStateUpdateV1 \<Rightarrow> string list \<Rightarrow> RPC_StateV1 \<Rightarrow> 'd db \<Rightarrow> string result \<times> 'd db" where
  "SubmitDepositState L now h upd quorumSigs userState =
     endpoint (checkDepositRequest L h upd userState) ''failed to process deposit state'' (SubmitDepositState_tx L now h quorumSigs)"

section \<open>Rebalancing several sessions\<close>

definition checkRebalanceUpdate ::
  "'d libs \<Rightarrow> 'd AppHandler \<Rightarrow> RPC_AppStateUpdateV1 \<times> string list \<Rightarrow> 'd SignedAppStateUpdateV1 list \<times> string list
   \<Rightarrow> ('d SignedAppStateUpdateV1 list \<times> string list) result" where
  "checkRebalanceUpdate L h signedUpdate = (\<lambda>(updates, seenSessions).
     if ah_maxSessionData h < int (length (ru_SessionData (fst signedUpdate))) then Inl (RPCError ''session_data exceeds maximum length'')
     else
       bindE (failE ''failed to parse app state update'' (unmapSignedAppStateUpdateV1 L signedUpdate)) (\<lambda>update.
       let sessionID = au_AppSessionID (su_AppStateUpdate update) in
       if au_Intent (su_AppStateUpdate update) \<noteq> AppStateUpdateIntentRebalance
         then Inl (RPCError ''all updates must have 'rebalance' intent'')
       else if sessionID \<in> set seenSessions then Inl (RPCError ''duplicate session in rebalance'')
       else Inr (updates @ [update], sessionID # seenSessions)))"

definition checkRebalanceRequest ::
  "'d libs \<Rightarrow> 'd AppHandler \<Rightarrow> (RPC_AppStateUpdateV1 \<times> string list) list \<Rightarrow> 'd SignedAppStateUpdateV1 list result" where
  "checkRebalanceRequest L h signedUpdates =
     (if ah_maxSignedUpdates h < int (length signedUpdates) then Inl (RPCError ''signed_updates array exceeds maximum length'')
      else if length signedUpdates < 2 then Inl (RPCError ''rebalancing requires at least 2 sessions'')
      else mapE fst (foldE (checkRebalanceUpdate L h) signedUpdates ([], [])))"

text \<open>The changes of one session: first the allocations it has now, then the ones the update adds; the
  second component accumulates the changes per asset over all sessions.\<close>

definition addChange ::
  "'d libs \<Rightarrow> string \<Rightarrow> string \<Rightarrow> 'd \<Rightarrow> 'd allocations \<times> (string, 'd) gomap \<Rightarrow> 'd allocations \<times> (string, 'd) gomap" where
  "addChange L participant asset change = (\<lambda>(sessionChanges, assetTotalDiff).
     (gm_put2 participant asset change sessionChanges,
      gm_put asset (dAdd L (gm_index (dZero L) assetTotalDiff asset) change) assetTotalDiff))"

definition rebalanceChanges ::
  "'d libs \<Rightarrow> 'd allocations \<Rightarrow> 'd allocations \<Rightarrow> (string, 'd) gomap \<Rightarrow> 'd allocations \<times> (string, 'd) gomap" where
  "rebalanceChanges L currentAllocations newAllocations assetTotalDiff =
     (let acc1 = foldl (\<lambda>acc (participant, asset, currentAmount).
            let change = dSub L (alloc_at L newAllocations participant asset) currentAmount
            in if dIsZero L change then acc else addChange L participant asset change acc)
          ([], assetTotalDiff) (alloc_entries currentAllocations)
      in foldl (\<lambda>acc (participant, asset, newAmount).
           if dIsZero L (alloc_at L currentAllocations participant asset) \<and> \<not> dIsZero L newAmount
           then addChange L participant asset newAmount acc else acc) acc1 (alloc_entries newAllocations))"

definition rebalanceSession ::
  "'d libs \<Rightarrow> int \<Rightarrow> 'd AppHandler \<Rightarrow> 'd SignedAppStateUpdateV1 \<Rightarrow> (string, 'd allocations) gomap \<times> (string, 'd) gomap
   \<Rightarrow> ('d, (string, 'd allocations) gomap \<times> (string, 'd) gomap) db_op" where
  "rebalanceSession L now h update = (\<lambda>(balanceChanges, assetTotalDiff).
     let upd = su_AppStateUpdate update; quorumSigs = su_QuorumSigs update; sessionID = au_AppSessionID upd in
     bindS (rpcS ''failed to get app session'' (queryS (\<lambda>db. GetAppSession db sessionID))) (\<lambda>sess.
     bindS (liftS (found ''app session not found'' sess)) (\<lambda>appSession.
     bindS (allowOwner L now h (se_ApplicationID appSession) (AppStateUpdateIntent_GatedAction (au_Intent upd))) (\<lambda>_.
     bindS (guardS (length quorumSigs \<le> length (se_Participants appSession)) ''quorum_sigs count exceeds participants count'') (\<lambda>_.
     bindS (guardS (se_Status appSession \<noteq> AppSessionStatusClosed) ''app session is already closed'') (\<lambda>_.
     bindS (guardS (au_Version upd = se_Version appSession + 1) ''invalid version for session'') (\<lambda>_.
     let participantWeights = getParticipantWeights (se_Participants appSession) in
     bindS (guardS (quorumSigs \<noteq> []) ''no signatures provided for session'') (\<lambda>_.
     bindS (rpcS ''failed to pack app state update for session'' (liftS (PackAppStateUpdateV1 L upd))) (\<lambda>packedStateUpdate.
     bindS (rpcS ''quorum verification failed for session''
       (queryS (\<lambda>db. verifyQuorum L now db sessionID participantWeights (se_Quorum appSession) packedStateUpdate quorumSigs))) (\<lambda>_.
     bindS (rpcS ''failed to get current allocations for session'' (queryS (\<lambda>db. GetParticipantAllocations L db sessionID))) (\<lambda>currentAllocations.
     bindS (liftS (foldE (closeStep L participantWeights) (au_Allocations upd) [])) (\<lambda>newAllocations.
     let (sessionChanges, assetTotalDiff1) = rebalanceChanges L currentAllocations newAllocations assetTotalDiff in
     bindS (rpcS ''failed to update app session'' (bumpSession now (au_SessionData upd) appSession)) (\<lambda>_.
     retS (gm_put sessionID sessionChanges balanceChanges, assetTotalDiff1))))))))))))))"

text \<open>The three-level map of changes, flattened in iteration order, and its sum per session and asset.\<close>

definition change_entries :: "(string, 'd allocations) gomap \<Rightarrow> (string \<times> string \<times> string \<times> 'd) list" where
  "change_entries m = concat (map (\<lambda>(sessionID, changes). map (\<lambda>(participant, asset, diff). (sessionID, participant, asset, diff)) (alloc_entries changes)) m)"

definition sessionAssetChanges :: "'d libs \<Rightarrow> (string, 'd allocations) gomap \<Rightarrow> 'd allocations" where
  "sessionAssetChanges L balanceChanges =
     foldl (\<lambda>m (sessionID, participant, asset, diff). gm_put2 sessionID asset (dAdd L (alloc_at L m sessionID asset) diff) m)
       [] (change_entries balanceChanges)"

definition recordRebalance :: "'d libs \<Rightarrow> int \<Rightarrow> string \<Rightarrow> string \<times> string \<times> 'd \<Rightarrow> unit \<Rightarrow> ('d, unit) db_op" where
  "recordRebalance L now batchID = (\<lambda>(sessionID, asset, diff) _.
     if dIsZero L diff then retS ()
     else
       let (fromAccount, toAccount, amount) =
             (if dIsPositive L diff then (batchID, sessionID, diff) else (sessionID, batchID, dAbs L diff)) in
       bindS (rpcS ''failed to generate transaction ID for session'' (liftS (GenerateRebalanceTransactionIDV1 L batchID sessionID asset))) (\<lambda>txID.
       rpcS ''failed to record transaction for session''
         (RecordTransaction (NewTransaction now txID asset TransactionTypeRebalance fromAccount toAccount None None amount))))"

definition RebalanceAppSessions_tx ::
  "'d libs \<Rightarrow> int \<Rightarrow> 'd AppHandler \<Rightarrow> 'd SignedAppStateUpdateV1 list \<Rightarrow> ('d, string) db_op" where
  "RebalanceAppSessions_tx L now h updates =
     bindS (rpcS ''failed to generate batch ID'' (liftS (GenerateRebalanceBatchIDV1 L
       (map (\<lambda>u. \<lparr> sv_SessionID = au_AppSessionID (su_AppStateUpdate u), sv_Version = au_Version (su_AppStateUpdate u) \<rparr>) updates)))) (\<lambda>batchID.
     bindS (forS (rebalanceSession L now h) updates ([], [])) (\<lambda>(balanceChanges, assetTotalDiff).
     bindS (liftS (foldE (\<lambda>(asset, total) _.
         if \<not> dIsZero L total then Inl (RPCError ''conservation violation'') else Inr ()) assetTotalDiff ())) (\<lambda>_.
     bindS (forS (\<lambda>(sessionID, participant, asset, diff) _.
         if dIsZero L diff then retS ()
         else rpcS ''failed to record ledger entry for session'' (RecordLedgerEntry L participant sessionID asset diff))
         (change_entries balanceChanges) ()) (\<lambda>_.
     bindS (forS (recordRebalance L now batchID) (alloc_entries (sessionAssetChanges L balanceChanges)) ()) (\<lambda>_.
     retS batchID)))))"

definition RebalanceAppSessions ::
  "'d libs \<Rightarrow> int \<Rightarrow> 'd AppHandler \<Rightarrow> (RPC_AppStateUpdateV1 \<times> string list) list \<Rightarrow> 'd db \<Rightarrow> string result \<times> 'd db" where
  "RebalanceAppSessions L now h signedUpdates =
     endpoint (checkRebalanceRequest L h signedUpdates) ''failed to process rebalancing'' (RebalanceAppSessions_tx L now h)"

section \<open>Session keys and queries\<close>

definition checkAppSessionKeyRequest ::
  "'d libs \<Rightarrow> int \<Rightarrow> 'd AppHandler \<Rightarrow> RPC_AppSessionKeyStateV1 \<Rightarrow> AppSessionKeyStateV1 result" where
  "checkAppSessionKeyRequest L now h state =
     bindE (rpcE ''invalid_session_key_state'' (unmapSessionKeyStateV1 state)) (\<lambda>core0.
     bindE (rpcE ''invalid_session_key_state: invalid user_address'' (NormalizeHexAddress (ask_UserAddress core0))) (\<lambda>userAddress.
     bindE (rpcE ''invalid_session_key_state: invalid session_key'' (NormalizeHexAddress (ask_SessionKey core0))) (\<lambda>sessionKey.
     let coreState = core0 \<lparr> ask_UserAddress := userAddress, ask_SessionKey := sessionKey \<rparr> in
     if ask_Version coreState = 0 then Inl (RPCError ''invalid_session_key_state: version must be greater than 0'')
     else if ask_ExpiresAt coreState < now then Inl (RPCError ''invalid_session_key_state: expires_at must be in the future'')
     else if ah_maxSessionKeyIDs h < int (length (ask_AppSessionIDs coreState))
       then Inl (RPCError ''invalid_session_key_state: app_session_ids array exceeds maximum length'')
     else if ah_maxSessionKeyIDs h < int (length (ask_ApplicationIDs coreState))
       then Inl (RPCError ''invalid_session_key_state: application_ids array exceeds maximum length'')
     else if ask_UserSig coreState = '''' then Inl (RPCError ''invalid_session_key_state: user_sig is required'')
     else
       bindE (rpcE ''invalid_session_key_state: failed to pack state'' (PackAppSessionKeyStateV1 L coreState)) (\<lambda>packedState.
       bindE (rpcE ''invalid_session_key_state: failed to decode user_sig'' (hexutilDecode L (ask_UserSig coreState))) (\<lambda>sigBytes.
       bindE (rpcE ''invalid_session_key_state: failed to recover signer'' (SigValidator_Recover L packedState sigBytes)) (\<lambda>recoveredAddress.
       if \<not> EqualFold recoveredAddress (ask_UserAddress coreState)
         then Inl (RPCError ''invalid_session_key_state: signature does not match user_address'')
       else Inr coreState))))))"

definition SubmitAppSessionKeyState_tx :: "'d libs \<Rightarrow> int \<Rightarrow> AppSessionKeyStateV1 \<Rightarrow> ('d, unit) db_op" where
  "SubmitAppSessionKeyState_tx L now coreState =
     bindS (rpcS ''failed to check existing session key state''
       (queryS (\<lambda>db. GetLastAppSessionKeyVersion db (ask_UserAddress coreState) (ask_SessionKey coreState)))) (\<lambda>latestVersion.
     bindS (guardS (ask_Version coreState = latestVersion + 1) ''invalid_session_key_state: expected version'') (\<lambda>_.
     StoreAppSessionKeyState L now coreState))"

definition SubmitAppSessionKeyState ::
  "'d libs \<Rightarrow> int \<Rightarrow> 'd AppHandler \<Rightarrow> RPC_AppSessionKeyStateV1 \<Rightarrow> 'd db \<Rightarrow> unit result \<times> 'd db" where
  "SubmitAppSessionKeyState L now h state =
     endpoint (checkAppSessionKeyRequest L now h state) ''failed to store session key state'' (SubmitAppSessionKeyState_tx L now)"

record RPC_AppSessionInfoV1 =
  ri_AppSessionID :: string
  ri_Status :: string
  ri_AppDefinition :: RPC_AppDefinitionV1
  ri_SessionData :: "string option"
  ri_Version :: string
  ri_Allocations :: "RPC_AppAllocationV1 list"

definition mapAppDefinitionV1 :: "AppSessionV1 \<Rightarrow> RPC_AppDefinitionV1" where
  "mapAppDefinitionV1 session =
     \<lparr> ra_Application = se_ApplicationID session,
       ra_Participants = map (\<lambda>p. \<lparr> rp_WalletAddress = ap_WalletAddress p, rp_SignatureWeight = ap_SignatureWeight p \<rparr>) (se_Participants session),
       ra_Quorum = se_Quorum session, ra_Nonce = FormatUint64 (se_Nonce session) \<rparr>"

definition GetAppDefinition :: "'d db \<Rightarrow> string \<Rightarrow> RPC_AppDefinitionV1 result" where
  "GetAppDefinition db appSessionID =
     failE ''failed to retrieve app definition''
       (bindE (GetAppSession db appSessionID) (\<lambda>session. mapE mapAppDefinitionV1 (found ''app_session_not_found'' session)))"

definition mapAppSessionInfoV1 :: "'d libs \<Rightarrow> AppSessionV1 \<Rightarrow> 'd allocations \<Rightarrow> RPC_AppSessionInfoV1" where
  "mapAppSessionInfoV1 L session allocations =
     \<lparr> ri_AppSessionID = se_SessionID session, ri_Status = AppSessionStatus_String (se_Status session),
       ri_AppDefinition = mapAppDefinitionV1 session,
       ri_SessionData = (if se_SessionData session \<noteq> '''' then Some (se_SessionData session) else None),
       ri_Version = FormatUint64 (se_Version session),
       ri_Allocations = SortFunc (\<lambda>a b. string_less (rl_Asset a) (rl_Asset b) \<or>
           (rl_Asset a = rl_Asset b \<and> string_less (rl_Participant a) (rl_Participant b)))
         (map (\<lambda>(participant, asset, amount). \<lparr> rl_Participant = participant, rl_Asset = asset, rl_Amount = dString L amount \<rparr>)
           (alloc_entries allocations)) \<rparr>"

definition Api_GetAppSessions ::
  "'d libs \<Rightarrow> 'd db \<Rightarrow> string option \<Rightarrow> string option \<Rightarrow> string option \<Rightarrow> PaginationParams option
   \<Rightarrow> (RPC_AppSessionInfoV1 list \<times> PaginationMetadata) result" where
  "Api_GetAppSessions L db appSessionID participant status pagination =
     (if appSessionID = None \<and> participant = None then Inl (RPCError ''either app_session_id or participant must be provided'')
      else
        let params = (case pagination of None \<Rightarrow> \<lparr> pp_Offset = None, pp_Limit = None, pp_Sort = None \<rparr> | Some p \<Rightarrow> p) in
        failE ''failed to retrieve app sessions''
         (bindE (case status of
                   None \<Rightarrow> Inr AppSessionStatusVoid
                 | Some s \<Rightarrow> if s = ''open'' then Inr AppSessionStatusOpen else if s = ''closed'' then Inr AppSessionStatusClosed
                            else Inl (RPCError ''invalid status'')) (\<lambda>st.
          bindE (GetAppSessions db appSessionID participant st (Some params)) (\<lambda>(sessions, metadata).
          bindE (mapME (\<lambda>session. mapE (mapAppSessionInfoV1 L session) (GetParticipantAllocations L db (se_SessionID session))) sessions) (\<lambda>infos.
          Inr (infos, metadata))))))"

definition App_GetLastKeyStates :: "'d db \<Rightarrow> string \<Rightarrow> string option \<Rightarrow> RPC_AppSessionKeyStateV1 list result" where
  "App_GetLastKeyStates db userAddress sessionKey =
     (if userAddress = '''' then Inl (RPCError ''wallet is required'')
      else failE ''failed to retrieve session key states''
        (mapE (map mapSessionKeyStateV1) (GetLastAppSessionKeyStates db userAddress sessionKey)))"

end
