(* ===== verification/Node_Api.thy ===== *)
theory Node_Api
  imports App_Session_Api
begin

text \<open>
  The remaining endpoints of \<^verbatim>\<open>src/clearnode/api\<close>: the application registry (\<^verbatim>\<open>apps_v1\<close>), the user's
  balances, transactions and allowances (\<^verbatim>\<open>user_v1\<close>), the node's configuration (\<^verbatim>\<open>node_v1\<close>) and the
  token bucket of \<^verbatim>\<open>rate_limits.go\<close>. The rendering of a timestamp is left out: a transaction keeps its time.
\<close>

section \<open>Application registry\<close>

record RPC_AppV1 =
  rap_ID :: string
  rap_OwnerWallet :: string
  rap_Metadata :: string
  rap_Version :: string
  rap_CreationApprovalNotRequired :: bool

record RPC_AppInfoV1 =
  rai_App :: RPC_AppV1
  rai_CreatedAt :: string
  rai_UpdatedAt :: string

definition checkAppRequest :: "int \<Rightarrow> RPC_AppV1 \<Rightarrow> string \<Rightarrow> AppV1 result" where
  "checkAppRequest maxAppMetadataLen app ownerSig =
     (if \<not> AppIDV1Regex (rap_ID app) then Inl (RPCError ''invalid app ID'')
      else if rap_OwnerWallet app = '''' then Inl (RPCError ''owner_wallet is required'')
      else if ownerSig = '''' then Inl (RPCError ''owner_sig is required'')
      else if maxAppMetadataLen < int (length (rap_Metadata app)) then Inl (RPCError ''metadata exceeds maximum length'')
      else
        bindE (failE ''invalid version'' (ParseUint64 (rap_Version app))) (\<lambda>version.
        if version \<noteq> 1 then Inl (RPCError ''only version 1 (creation) is currently supported'')
        else Inr \<lparr> app_ID = ToLower (rap_ID app), app_OwnerWallet = ToLower (rap_OwnerWallet app),
               app_Metadata = rap_Metadata app, app_Version = version,
               app_CreationApprovalNotRequired = rap_CreationApprovalNotRequired app \<rparr>))"

definition SubmitAppVersion_tx :: "'d libs \<Rightarrow> int \<Rightarrow> 'd ActionLimitConfig \<Rightarrow> string \<Rightarrow> string \<Rightarrow> AppV1 \<Rightarrow> ('d, unit) db_op" where
  "SubmitAppVersion_tx L now gateway ownerWallet ownerSig appEntry =
     bindS (newErrorS (queryS (\<lambda>db. AllowAppRegistration L gateway db ownerWallet))) (\<lambda>_.
     bindS (rpcS ''failed to pack app data'' (liftS (PackAppV1 L appEntry))) (\<lambda>packedApp.
     bindS (rpcS ''failed to decode owner signature'' (liftS (hexutilDecode L ownerSig))) (\<lambda>sigBytes.
     bindS (rpcS ''invalid owner signature'' (liftS (SigValidator_Verify L (app_OwnerWallet appEntry) packedApp sigBytes))) (\<lambda>_.
     rpcS ''failed to create app'' (CreateApp now appEntry)))))"

definition SubmitAppVersion ::
  "'d libs \<Rightarrow> int \<Rightarrow> 'd ActionLimitConfig \<Rightarrow> int \<Rightarrow> RPC_AppV1 \<Rightarrow> string \<Rightarrow> 'd db \<Rightarrow> unit result \<times> 'd db" where
  "SubmitAppVersion L now gateway maxAppMetadataLen app ownerSig =
     endpoint (checkAppRequest maxAppMetadataLen app ownerSig) ''failed to create app''
       (SubmitAppVersion_tx L now gateway (rap_OwnerWallet app) ownerSig)"

definition mapAppInfoV1 :: "AppInfoV1 \<Rightarrow> RPC_AppInfoV1" where
  "mapAppInfoV1 info =
     \<lparr> rai_App = \<lparr> rap_ID = app_ID (ai_App info), rap_OwnerWallet = app_OwnerWallet (ai_App info),
         rap_Metadata = app_Metadata (ai_App info), rap_Version = FormatUint64 (app_Version (ai_App info)),
         rap_CreationApprovalNotRequired = app_CreationApprovalNotRequired (ai_App info) \<rparr>,
       rai_CreatedAt = show_int (ai_CreatedAt info), rai_UpdatedAt = show_int (ai_UpdatedAt info) \<rparr>"

definition orDefault :: "PaginationParams option \<Rightarrow> PaginationParams" where
  "orDefault pagination = (case pagination of None \<Rightarrow> \<lparr> pp_Offset = None, pp_Limit = None, pp_Sort = None \<rparr> | Some p \<Rightarrow> p)"

definition Api_GetApps ::
  "'d db \<Rightarrow> string option \<Rightarrow> string option \<Rightarrow> PaginationParams option \<Rightarrow> (RPC_AppInfoV1 list \<times> PaginationMetadata) result" where
  "Api_GetApps db appID ownerWallet pagination =
     failE ''failed to retrieve apps'' (mapE (\<lambda>(apps, metadata). (map mapAppInfoV1 apps, metadata))
       (GetApps db appID ownerWallet (Some (orDefault pagination))))"

section \<open>User data\<close>

record RPC_BalanceEntryV1 =
  rb_Asset :: string
  rb_Amount :: string
  rb_Enforced :: string

record RPC_ActionAllowanceV1 =
  raa_GatedAction :: GatedAction
  raa_TimeWindow :: string
  raa_Allowance :: string
  raa_Used :: string

record RPC_TransactionV1 =
  rx_ID :: string
  rx_Asset :: string
  rx_TxType :: TransactionType
  rx_FromAccount :: string
  rx_ToAccount :: string
  rx_SenderNewStateID :: "string option"
  rx_ReceiverNewStateID :: "string option"
  rx_Amount :: string
  rx_CreatedAt :: int

definition mapBalanceEntryV1 :: "'d libs \<Rightarrow> 'd BalanceEntry \<Rightarrow> RPC_BalanceEntryV1" where
  "mapBalanceEntryV1 L entry =
     \<lparr> rb_Asset = be_Asset entry, rb_Amount = dString L (be_Balance entry), rb_Enforced = dString L (be_Enforced entry) \<rparr>"

definition GetBalances :: "'d libs \<Rightarrow> 'd db \<Rightarrow> string \<Rightarrow> RPC_BalanceEntryV1 list result" where
  "GetBalances L db wallet = failE ''failed to retrieve balances'' (mapE (map (mapBalanceEntryV1 L)) (GetUserBalances db wallet))"

definition GetActionAllowances :: "'d libs \<Rightarrow> int \<Rightarrow> 'd ActionLimitConfig \<Rightarrow> 'd db \<Rightarrow> string \<Rightarrow> RPC_ActionAllowanceV1 list result" where
  "GetActionAllowances L now gateway db wallet =
     (if wallet = '''' then Inl (RPCError ''wallet is required'')
      else bindE (rpcE ''failed to retrieve action allowances'' (GetUserAllowances L now gateway db wallet)) (\<lambda>allowances.
        Inr (map (\<lambda>a. \<lparr> raa_GatedAction = aa_GatedAction a, raa_TimeWindow = aa_TimeWindow a,
                      raa_Allowance = FormatUint64 (aa_Allowance a), raa_Used = FormatUint64 (aa_Used a) \<rparr>) allowances)))"

definition mapTransactionV1 :: "'d libs \<Rightarrow> 'd Transaction \<Rightarrow> RPC_TransactionV1" where
  "mapTransactionV1 L tx =
     \<lparr> rx_ID = tx_ID tx, rx_Asset = tx_Asset tx, rx_TxType = tx_TxType tx, rx_FromAccount = tx_FromAccount tx,
       rx_ToAccount = tx_ToAccount tx, rx_SenderNewStateID = tx_SenderNewStateID tx,
       rx_ReceiverNewStateID = tx_ReceiverNewStateID tx, rx_Amount = dString L (tx_Amount tx), rx_CreatedAt = tx_CreatedAt tx \<rparr>"

definition GetTransactions ::
  "'d libs \<Rightarrow> 'd db \<Rightarrow> string \<Rightarrow> string option \<Rightarrow> TransactionType option \<Rightarrow> uint64 option \<Rightarrow> uint64 option \<Rightarrow> PaginationParams option
   \<Rightarrow> (RPC_TransactionV1 list \<times> PaginationMetadata) result" where
  "GetTransactions L db wallet asset txType fromTime toTime pagination =
     failE ''failed to retrieve transactions'' (mapE (\<lambda>(txs, metadata). (map (mapTransactionV1 L) txs, metadata))
       (GetUserTransactions db wallet asset txType fromTime toTime (Some (orDefault pagination))))"

section \<open>Node configuration\<close>

record RPC_TokenV1 =
  rtk_Name :: string
  rtk_Symbol :: string
  rtk_Address :: string
  rtk_BlockchainID :: string
  rtk_Decimals :: uint8

record RPC_AssetV1 =
  ras_Name :: string
  ras_Symbol :: string
  ras_Decimals :: uint8
  ras_SuggestedBlockchainID :: string
  ras_Tokens :: "RPC_TokenV1 list"

record RPC_BlockchainInfoV1 =
  rbi_Name :: string
  rbi_BlockchainID :: string
  rbi_ChannelHubAddress :: string
  rbi_LockingContractAddress :: string

definition mapTokenV1 :: "Token \<Rightarrow> RPC_TokenV1" where
  "mapTokenV1 token =
     \<lparr> rtk_Name = tok_Name token, rtk_Symbol = tok_Symbol token, rtk_Address = tok_Address token,
       rtk_BlockchainID = FormatUint64 (tok_BlockchainID token), rtk_Decimals = tok_Decimals token \<rparr>"

definition mapAssetV1 :: "Asset \<Rightarrow> RPC_AssetV1" where
  "mapAssetV1 asset =
     \<lparr> ras_Name = as_Name asset, ras_Symbol = as_Symbol asset, ras_Decimals = as_Decimals asset,
       ras_SuggestedBlockchainID = FormatUint64 (as_SuggestedBlockchainID asset), ras_Tokens = map mapTokenV1 (as_Tokens asset) \<rparr>"

definition mapBlockchainV1 :: "Blockchain \<Rightarrow> RPC_BlockchainInfoV1" where
  "mapBlockchainV1 blockchain =
     \<lparr> rbi_Name = bc_Name blockchain, rbi_BlockchainID = FormatUint64 (bc_ID blockchain),
       rbi_ChannelHubAddress = bc_ChannelHubAddress blockchain,
       rbi_LockingContractAddress = bc_LockingContractAddress blockchain \<rparr>"

definition Api_GetAssets :: "MemoryStoreV1 \<Rightarrow> string option \<Rightarrow> RPC_AssetV1 list result" where
  "Api_GetAssets ms blockchainID =
     bindE (failE ''invalid blockchain_id'' (case blockchainID of None \<Rightarrow> Inr None | Some s \<Rightarrow> mapE Some (ParseUint64 s))) (\<lambda>chain.
     failE ''failed to retrieve assets'' (mapE (map mapAssetV1) (GetAssets ms chain)))"

definition GetConfig :: "MemoryStoreV1 \<Rightarrow> string \<Rightarrow> string \<Rightarrow> (string \<times> string \<times> ChannelSignerType list \<times> RPC_BlockchainInfoV1 list) result" where
  "GetConfig ms nodeAddress nodeVersion =
     failE ''failed to retrieve blockchains'' (mapE (\<lambda>bcs. (nodeAddress, nodeVersion, ChannelSignerTypes, map mapBlockchainV1 bcs)) (GetBlockchains ms))"

section \<open>Rate limiting\<close>

text \<open>
  The token bucket of a connection. The token count, a \<^verbatim>\<open>float64\<close> in the code, is an exact rational here, and
  time is in seconds. A refused request still updates the stored bucket, since the middleware works on
  the stored pointer; a fresh bucket that is refused is not stored.
\<close>

record tokenBucket =
  tb_tokens :: rat
  tb_last :: rat

definition RateLimitMiddleware :: "rat \<Rightarrow> rat \<Rightarrow> rat \<Rightarrow> tokenBucket option \<Rightarrow> bool \<times> tokenBucket option" where
  "RateLimitMiddleware rateLimitPerSec rateLimitBurst now stored =
     (let bucket = (case stored of Some b \<Rightarrow> b | None \<Rightarrow> \<lparr> tb_tokens = rateLimitBurst, tb_last = now - 1 \<rparr>);
          elapsed = now - tb_last bucket;
          tokens = min (tb_tokens bucket + elapsed * rateLimitPerSec) rateLimitBurst;
          bucket1 = \<lparr> tb_tokens = tokens, tb_last = now \<rparr>
      in if tokens < 1 then (False, if stored = None then None else Some bucket1)
         else (True, Some (bucket1 \<lparr> tb_tokens := tokens - 1 \<rparr>)))"

fun run_requests :: "rat \<Rightarrow> rat \<Rightarrow> rat list \<Rightarrow> tokenBucket option \<Rightarrow> nat \<times> tokenBucket option" where
  "run_requests perSec burst [] b = (0, b)"
| "run_requests perSec burst (t # ts) b =
     (let (ok, b1) = RateLimitMiddleware perSec burst t b; (n, b2) = run_requests perSec burst ts b1
      in ((if ok then Suc n else n), b2))"

end
