(* ===== verification/Store_Relations.thy ===== *)
theory Store_Relations
  imports Node_Api Blockchain_Worker Chain_Reactor
begin

text \<open>
  The contract between the endpoints, event handlers and worker on one side and the database on the
  other: all of them change the database through a small set of store methods. A relation between the
  database before and after that every store method establishes is established by every endpoint; this is
  proved once, in the locales below.
\<close>

section \<open>Relations kept by store operations\<close>

definition keeps :: "('d db \<Rightarrow> 'd db \<Rightarrow> bool) \<Rightarrow> ('d, 'a) db_op \<Rightarrow> bool" where
  "keeps R m \<longleftrightarrow> (\<forall>db x db'. m db = Inr (x, db') \<longrightarrow> R db db')"

lemma keepsI: "(\<And>db x db'. m db = Inr (x, db') \<Longrightarrow> R db db') \<Longrightarrow> keeps R m"
  by (simp add: keeps_def)

lemma keepsD: "keeps R m \<Longrightarrow> m db = Inr (x, db') \<Longrightarrow> R db db'"
  by (simp add: keeps_def)

locale db_relation =
  fixes R :: "'d db \<Rightarrow> 'd db \<Rightarrow> bool"
  assumes refl: "R db db"
    and trans: "R db1 db2 \<Longrightarrow> R db2 db3 \<Longrightarrow> R db1 db3"
begin

lemma keeps_retS: "keeps R (retS x)"
  by (auto simp: keeps_def refl)

lemma keeps_failS: "keeps R (failS e)"
  by (auto simp: keeps_def)

lemma keeps_queryS: "keeps R (queryS q)"
  by (auto simp: keeps_def refl)

lemma keeps_liftS: "keeps R (liftS r)"
  by (auto simp: keeps_def refl)

lemma keeps_guardS: "keeps R (guardS b msg)"
  by (auto simp: keeps_def refl)

lemma keeps_rpcS: "keeps R m \<Longrightarrow> keeps R (rpcS msg m)"
  by (auto simp: keeps_def)

lemma keeps_newErrorS: "keeps R m \<Longrightarrow> keeps R (newErrorS m)"
  by (auto simp: keeps_def)

lemma keeps_wrapS: "keeps R m \<Longrightarrow> keeps R (wrapS msg m)"
  by (auto simp: keeps_def)

lemma keeps_bindS: "keeps R m \<Longrightarrow> (\<And>x. keeps R (f x)) \<Longrightarrow> keeps R (bindS m f)"
  unfolding keeps_def bindS_eq by (blast intro: trans)

lemma keeps_forS: "(\<And>x s. keeps R (f x s)) \<Longrightarrow> keeps R (forS f xs s)"
  by (induction xs arbitrary: s) (auto intro: keeps_retS keeps_bindS)

lemma keeps_if: "keeps R a \<Longrightarrow> keeps R b \<Longrightarrow> keeps R (if c then a else b)"
  by simp

lemma keeps_option: "keeps R n \<Longrightarrow> (\<And>x. keeps R (s x)) \<Longrightarrow> keeps R (case v of None \<Rightarrow> n | Some x \<Rightarrow> s x)"
  by (cases v) simp_all

lemma keeps_prod: "(\<And>x y. keeps R (s x y)) \<Longrightarrow> keeps R (case v of (x, y) \<Rightarrow> s x y)"
  by (cases v) simp

lemma keeps_prod_app: "(\<And>x y. keeps R (s x y z)) \<Longrightarrow> keeps R ((case v of (x, y) \<Rightarrow> s x y) z)"
  by (cases v) simp

lemma keeps_same: "(\<And>db. m db = Inr (x, db)) \<Longrightarrow> keeps R m"
  by (auto simp: keeps_def refl)

lemma keeps_bindE: "keeps R m \<Longrightarrow> (\<And>x. keeps R (f x)) \<Longrightarrow> keeps R (\<lambda>db. bindE (m db) (\<lambda>(x, db'). f x db'))"
  unfolding keeps_def bindE_eq_Inr by (fastforce intro: trans)

lemma keeps_read: "(\<And>x. keeps R (f x)) \<Longrightarrow> keeps R (\<lambda>db. bindE (q db) (\<lambda>x. f x db))"
  unfolding keeps_def bindE_eq_Inr by blast

lemma keeps_done: "keeps R (\<lambda>db. Inr (x, db))"
  by (auto simp: keeps_def refl)

lemma keeps_if_db: "keeps R a \<Longrightarrow> keeps R b \<Longrightarrow> keeps R (\<lambda>db. if c then a db else b db)"
  by (cases c) simp_all

lemma keeps_option_db: "keeps R n \<Longrightarrow> (\<And>x. keeps R (s x)) \<Longrightarrow> keeps R (\<lambda>db. case v of None \<Rightarrow> n db | Some x \<Rightarrow> s x db)"
  by (cases v) simp_all

lemmas keeps_db_steps = keeps_bindE keeps_read keeps_done keeps_if_db keeps_option_db

lemmas keeps_rules = keeps_retS keeps_failS keeps_queryS keeps_liftS keeps_guardS keeps_rpcS keeps_newErrorS
  keeps_wrapS keeps_bindS keeps_forS keeps_if keeps_option keeps_prod keeps_prod_app

end

text \<open>The store methods that write, except the table of contract events, which only the reactors fill.\<close>

locale store_relation = db_relation R
  for R :: "'d db \<Rightarrow> 'd db \<Rightarrow> bool" +
  assumes keeps_StoreUserState: "keeps R (StoreUserState L s)"
    and keeps_CreateChannel: "keeps R (CreateChannel now c)"
    and keeps_UpdateChannel: "keeps R (UpdateChannel now c)"
    and keeps_LockUserState: "keeps R (LockUserState L w a)"
    and keeps_RefreshUserEnforcedBalance: "keeps R (RefreshUserEnforcedBalance L w a)"
    and keeps_CreateAppSession: "keeps R (CreateAppSession sess)"
    and keeps_UpdateAppSession: "keeps R (UpdateAppSession now sess)"
    and keeps_RecordLedgerEntry: "keeps R (RecordLedgerEntry L w i a x)"
    and keeps_RecordTransaction: "keeps R (RecordTransaction tx)"
    and keeps_CreateApp: "keeps R (CreateApp now app)"
    and keeps_StoreChannelSessionKeyState: "keeps R (StoreChannelSessionKeyState L now ck)"
    and keeps_StoreAppSessionKeyState: "keeps R (StoreAppSessionKeyState L now ak)"
    and keeps_scheduleStateEnforcement: "keeps R (scheduleStateEnforcement now i b ty)"
    and keeps_updateAction: "keeps R (updateAction n st tx' err inc)"
    and keeps_UpdateUserStaked: "keeps R (UpdateUserStaked L w b x)"
    and keeps_RecordAction: "keeps R (RecordAction now w g)"
    and keeps_SetNodeBalance: "keeps R (SetNodeBalance b a x)"
begin

lemmas keeps_methods = keeps_StoreUserState keeps_CreateChannel keeps_UpdateChannel keeps_LockUserState
  keeps_RefreshUserEnforcedBalance keeps_CreateAppSession keeps_UpdateAppSession keeps_RecordLedgerEntry
  keeps_RecordTransaction keeps_CreateApp keeps_StoreChannelSessionKeyState keeps_StoreAppSessionKeyState
  keeps_scheduleStateEnforcement keeps_updateAction keeps_UpdateUserStaked keeps_RecordAction keeps_SetNodeBalance

subsection \<open>Channel endpoints\<close>

lemma keeps_AllowAction: "keeps R (AllowAction L now cfg w g)"
  by (rule keepsI) (auto simp: AllowAction_def Let_def refl split: option.splits if_splits
      dest: keepsD [OF keeps_RecordAction])

lemma keeps_checkUserSig: "keeps R (checkUserSig L now m1 m2 m3 v s p)"
  unfolding checkUserSig_def by (intro keeps_rules)

lemma keeps_recordTransition: "keeps R (recordTransition L now s rs)"
  unfolding recordTransition_def by (intro keeps_rules keeps_methods)

lemma keeps_issueTransferReceiverState: "keeps R (issueTransferReceiverState L h s)"
  unfolding issueTransferReceiverState_def Let_def by (intro keeps_rules keeps_methods)

lemma keeps_SubmitState: "keeps R (SubmitState_tx L now h s)"
  unfolding SubmitState_tx_def recordSubmitted_def Let_def
  by (intro keeps_rules keeps_methods keeps_AllowAction keeps_checkUserSig keeps_recordTransition keeps_issueTransferReceiverState)

lemma keeps_RequestCreation: "keeps R (RequestCreation_tx L now h req)"
  unfolding RequestCreation_tx_def recordCreation_def Let_def
  by (intro keeps_rules keeps_methods keeps_checkUserSig keeps_recordTransition keeps_issueTransferReceiverState)

lemma keeps_SubmitSessionKeyState: "keeps R (SubmitSessionKeyState_tx L now k)"
  unfolding SubmitSessionKeyState_tx_def by (intro keeps_rules keeps_methods)

subsection \<open>App session endpoints\<close>

lemma keeps_allowOwner: "keeps R (allowOwner L now h i g)"
  unfolding allowOwner_def by (intro keeps_rules keeps_AllowAction)

lemma keeps_bumpSession: "keeps R (bumpSession now d s)"
  unfolding bumpSession_def by (intro keeps_rules keeps_methods)

lemma keeps_issueReleaseReceiverState: "keeps R (issueReleaseReceiverState L now h w a i x)"
  unfolding issueReleaseReceiverState_def by (intro keeps_rules keeps_methods)

lemma keeps_handleOperateIntent: "keeps R (handleOperateIntent L h u c w)"
  unfolding handleOperateIntent_def Let_def by (intro keeps_rules keeps_methods)

lemma keeps_handleWithdrawIntent: "keeps R (handleWithdrawIntent L now h u c w)"
  unfolding handleWithdrawIntent_def Let_def by (intro keeps_rules keeps_methods keeps_issueReleaseReceiverState)

lemma keeps_handleCloseIntent: "keeps R (handleCloseIntent L now h u c w)"
  unfolding handleCloseIntent_def Let_def by (intro keeps_rules keeps_methods keeps_issueReleaseReceiverState)

lemma keeps_SubmitAppState: "keeps R (SubmitAppState_tx L now h q u)"
  unfolding SubmitAppState_tx_def Let_def
  by (intro keeps_rules keeps_allowOwner keeps_bumpSession keeps_handleOperateIntent keeps_handleWithdrawIntent keeps_handleCloseIntent)

lemma keeps_CreateAppSession_tx: "keeps R (CreateAppSession_tx L now h d q ow req)"
  unfolding CreateAppSession_tx_def approveOwner_def by (intro keeps_rules keeps_methods keeps_AllowAction)

lemma keeps_SubmitDepositState: "keeps R (SubmitDepositState_tx L now h q req)"
  unfolding SubmitDepositState_tx_def checkCommitState_def depositStep_def Let_def
  by (intro keeps_rules keeps_methods keeps_allowOwner keeps_bumpSession keeps_checkUserSig keeps_recordTransition)

lemma keeps_RebalanceAppSessions: "keeps R (RebalanceAppSessions_tx L now h us)"
  unfolding RebalanceAppSessions_tx_def rebalanceSession_def recordRebalance_def Let_def
  by (intro keeps_rules keeps_methods keeps_allowOwner keeps_bumpSession)

lemma keeps_SubmitAppSessionKeyState: "keeps R (SubmitAppSessionKeyState_tx L now k)"
  unfolding SubmitAppSessionKeyState_tx_def by (intro keeps_rules keeps_methods)

lemma keeps_SubmitAppVersion: "keeps R (SubmitAppVersion_tx L now g w ow app)"
  unfolding SubmitAppVersion_tx_def by (intro keeps_rules keeps_methods)

subsection \<open>Event handlers\<close>

lemma keeps_with_channel: "(\<And>c. keeps R (k c)) \<Longrightarrow> keeps R (with_channel i ty k)"
  unfolding keeps_def with_channel_def by (auto simp: refl split: option.splits if_splits)

lemma keeps_schedule:
  "keeps R (ScheduleCheckpoint now i b)" "keeps R (ScheduleInitiateEscrowDeposit now i b)"
  "keeps R (ScheduleFinalizeEscrowDeposit now i b)" "keeps R (ScheduleFinalizeEscrowWithdrawal now i b)"
  by (simp_all add: ScheduleCheckpoint_def ScheduleInitiateEscrowDeposit_def ScheduleFinalizeEscrowDeposit_def
      ScheduleFinalizeEscrowWithdrawal_def keeps_scheduleStateEnforcement)

lemmas keeps_db_rules = keeps_with_channel keeps_db_steps keeps_schedule

lemma keeps_home_events:
  "keeps R (HandleHomeChannelCreated L now e)" "keeps R (HandleHomeChannelMigrated e)"
  "keeps R (HandleHomeChannelCheckpointed L now e)" "keeps R (HandleHomeChannelChallenged L now ce)"
  "keeps R (HandleHomeChannelClosed L now e)"
  unfolding HandleHomeChannelCreated_def HandleHomeChannelMigrated_def [abs_def] HandleHomeChannelCheckpointed_def
    HandleHomeChannelChallenged_def HandleHomeChannelClosed_def Let_def
  by (intro keeps_db_rules keeps_methods)+

lemma keeps_escrow_events:
  "keeps R (HandleEscrowDepositInitiated now e)" "keeps R (HandleEscrowDepositChallenged now ce)"
  "keeps R (HandleEscrowDepositFinalized now e)" "keeps R (HandleEscrowWithdrawalInitiated now e)"
  "keeps R (HandleEscrowWithdrawalChallenged now ce)" "keeps R (HandleEscrowWithdrawalFinalized now e)"
  unfolding HandleEscrowDepositInitiated_def HandleEscrowDepositChallenged_def HandleEscrowDepositFinalized_def
    HandleEscrowWithdrawalInitiated_def HandleEscrowWithdrawalChallenged_def HandleEscrowWithdrawalFinalized_def
  by (intro keeps_db_rules keeps_methods)+

lemma keeps_balance_events:
  "keeps R (HandleNodeBalanceUpdated nb)" "keeps R (HandleUserLockedBalanceUpdated L ul)"
  unfolding HandleNodeBalanceUpdated_def HandleUserLockedBalanceUpdated_def by (intro keeps_methods)+

lemmas keeps_events = keeps_home_events keeps_escrow_events keeps_balance_events

lemma keeps_parse: "keeps R (parseS B name l)" "keeps R (logOnly B name l)"
  unfolding parseS_def logOnly_def by (intro keeps_rules)+

lemma keeps_dispatchHub: "keeps R (dispatchHub L B now r name l)"
  unfolding dispatchHub_def handleNodeBalanceUpdated_def handleHomeChannelCreated_def handleHomeChannelMigrated_def
    handleHomeChannelCheckpointed_def handleChannelDeposited_def handleChannelWithdrawn_def handleHomeChannelChallenged_def
    handleHomeChannelClosed_def handleEscrowDepositInitiated_def handleEscrowDepositChallenged_def
    handleEscrowDepositFinalized_def handleEscrowWithdrawalInitiated_def handleEscrowWithdrawalChallenged_def
    handleEscrowWithdrawalFinalized_def handleEscrowDepositInitiatedOnHome_def handleEscrowDepositFinalizedOnHome_def
    handleEscrowWithdrawalInitiatedOnHome_def handleEscrowWithdrawalFinalizedOnHome_def handleMigrationInFinalized_def
    handleMigrationOutInitiated_def handleMigrationOutFinalized_def handleDeposited_def handleWithdrawn_def handleEscrowDepositsPurged_def
  by (intro keeps_rules keeps_parse keeps_events)

lemma keeps_dispatchLocking: "keeps R (dispatchLocking L B r name l)"
  unfolding dispatchLocking_def handleLocked_def handleRelocked_def handleUnlockInitiated_def handleLockWithdrawn_def
  by (intro keeps_rules keeps_parse keeps_events)

subsection \<open>The worker\<close>

lemma run_op_kept: "keeps R m \<Longrightarrow> R db (snd (run_op m db))"
  by (auto simp: run_op_def refl keeps_def split: sum.splits)

lemma processAction_kept: "R db (snd (processAction checkpoint a db))"
  unfolding processAction_def handleActionError_def Action_FailNoRetry_def Action_RecordAttempt_def Action_Complete_def
  using run_op_kept [OF keeps_updateAction] by (auto split: sum.splits option.splits)

lemma processBatch_kept: "R db (snd (processBatch checkpoint alive batch db))"
proof (induction batch arbitrary: db)
  case (Cons a as)
  obtain ok db1 where s: "processAction checkpoint a db = (ok, db1)" by (cases "processAction checkpoint a db") auto
  then have "R db db1" using processAction_kept [of db checkpoint a] by simp
  then have "R db (snd (processBatch checkpoint alive as db1))" using Cons.IH trans by blast
  then show ?case using s by (auto simp: refl split: prod.splits)
qed (simp add: refl)

lemma processActions_kept: "R db (snd (processActions checkpoint alive chain db))"
  unfolding processActions_def using processBatch_kept by (auto simp: refl split: sum.splits)

end

text \<open>A relation that storing a contract event establishes too is kept by the reactors.\<close>

locale full_store_relation = store_relation R
  for R :: "'d db \<Rightarrow> 'd db \<Rightarrow> bool" +
  assumes keeps_StoreContractEvent: "keeps R (StoreContractEvent ev)"
begin

lemma reactTo_kept:
  assumes "\<And>name. keeps R (dispatch name l)"
  shows "R db (snd (reactTo L B chain dispatch l db))"
proof -
  have "keeps R (reactTx L chain name (dispatch name l) l)" for name
    unfolding reactTx_def by (intro keeps_rules keeps_StoreContractEvent assms)
  then show ?thesis
    unfolding reactTo_def ExecuteInTransaction_def
    by (auto simp: refl split: list.splits option.splits sum.splits dest: keepsD)
qed

lemma endpoint_kept:
  assumes "\<And>req. keeps R (tx req)"
  shows "R db (snd (endpoint request fallback tx db))"
  unfolding endpoint_def ExecuteInTransaction_def
  by (auto simp: refl split: sum.splits dest: keepsD [OF assms])

end

end
