(* ===== verification/Node_Invariants.thy ===== *)
theory Node_Invariants
  imports Store_Relations
begin

text \<open>
  The node as a whole: every request, every blockchain event and every pass of the worker is a step of one
  transition system over the database. Two relations are kept by every step, by interpreting the locales
  of \<open>Store_Relations\<close> on them: history is only appended to, and the uniqueness constraints hold.
\<close>

section \<open>The transition system\<close>

inductive node_step :: "'d libs \<Rightarrow> 'd db \<Rightarrow> 'd db \<Rightarrow> bool" for L :: "'d libs" where
  submit_state: "node_step L db (snd (SubmitState L now h st db))"
| request_creation: "node_step L db (snd (RequestCreation L now h st def db))"
| submit_session_key: "node_step L db (snd (SubmitSessionKeyState L now h key db))"
| submit_app_state: "node_step L db (snd (SubmitAppState L now ah upd sigs db))"
| create_app_session: "node_step L db (snd (Api_CreateAppSession L now ah adef sdata sigs ownerSig db))"
| submit_deposit_state: "node_step L db (snd (SubmitDepositState L now ah upd sigs st db))"
| rebalance: "node_step L db (snd (RebalanceAppSessions L now ah updates db))"
| submit_app_session_key: "node_step L db (snd (SubmitAppSessionKeyState L now ah akey db))"
| submit_app_version: "node_step L db (snd (SubmitAppVersion L now gateway maxLen app ownerSig db))"
| hub_event: "node_step L db (snd (ChannelHubReactor_HandleEvent L B now hub l db))"
| locking_event: "node_step L db (snd (LockingContractReactor_HandleEvent L B locking l db))"
| worker: "node_step L db (snd (processActions checkpoint alive chain db))"

context full_store_relation
begin

lemma node_step_kept: "node_step L db db' \<Longrightarrow> R db db'"
  by (induction rule: node_step.induct)
     (auto simp: SubmitState_def RequestCreation_def SubmitSessionKeyState_def SubmitAppState_def Api_CreateAppSession_def
        SubmitDepositState_def RebalanceAppSessions_def SubmitAppSessionKeyState_def SubmitAppVersion_def
        ChannelHubReactor_HandleEvent_def LockingContractReactor_HandleEvent_def
      intro: endpoint_kept reactTo_kept keeps_SubmitState keeps_RequestCreation keeps_SubmitSessionKeyState keeps_SubmitAppState
        keeps_CreateAppSession_tx keeps_SubmitDepositState keeps_RebalanceAppSessions keeps_SubmitAppSessionKeyState
        keeps_SubmitAppVersion keeps_dispatchHub keeps_dispatchLocking processActions_kept)

lemma node_run_kept: "(node_step L)\<^sup>*\<^sup>* db db' \<Longrightarrow> R db db'"
  by (induction rule: rtranclp_induct) (auto intro: refl trans node_step_kept)

end

section \<open>History is append-only\<close>

definition extends :: "'a list \<Rightarrow> 'a list \<Rightarrow> bool" where
  "extends xs ys \<longleftrightarrow> (\<exists>zs. ys = xs @ zs)"

lemma extends_refl [simp]: "extends xs xs"
  by (simp add: extends_def)

lemma extends_append [simp]: "extends xs (xs @ zs)"
  by (simp add: extends_def)

lemma extends_trans: "extends xs ys \<Longrightarrow> extends ys zs \<Longrightarrow> extends xs zs"
  by (auto simp: extends_def)

lemma map_update_where [simp]: "(\<And>x. key (f x) = key x) \<Longrightarrow> map key (update_where P f xs) = map key xs"
  by (induction xs) (simp_all add: update_where_def)

text \<open>What a channel and an app session are never changes, only what is recorded about their progress.\<close>

definition channel_identity :: "ChannelRow \<Rightarrow> string \<times> string \<times> string \<times> ChannelType \<times> uint32 \<times> string" where
  "channel_identity r = (cr_ChannelID r, cr_UserWallet r, cr_Asset r, cr_Type r, cr_ChallengeDuration r, cr_ApprovedSigValidators r)"

definition session_identity :: "AppSessionRow \<Rightarrow> string \<times> string \<times> uint64 \<times> uint8" where
  "session_identity r = (asr_ID r, asr_ApplicationID r, asr_Nonce r, asr_Quorum r)"

definition history_kept :: "'d db \<Rightarrow> 'd db \<Rightarrow> bool" where
  "history_kept db db' \<longleftrightarrow>
     extends (states db) (states db') \<and> extends (transactions db) (transactions db') \<and>
     extends (app_ledger db) (app_ledger db') \<and> extends (contract_events db) (contract_events db') \<and>
     extends (channel_keys db) (channel_keys db') \<and> extends (app_keys db) (app_keys db') \<and>
     extends (action_log db) (action_log db') \<and> extends (app_participants db) (app_participants db') \<and>
     extends (map channel_identity (channels db)) (map channel_identity (channels db')) \<and>
     extends (map session_identity (app_sessions db)) (map session_identity (app_sessions db'))"

interpretation history: full_store_relation "history_kept :: 'd db \<Rightarrow> 'd db \<Rightarrow> bool"
proof (unfold_locales, goal_cases)
  case (2 db1 db2 db3)
  then show ?case unfolding history_kept_def by (meson extends_trans)
qed (auto simp: keeps_def history_kept_def Let_def insert_links_eq channel_identity_def [abs_def] session_identity_def [abs_def]
   StoreUserState_def CreateChannel_def UpdateChannel_def LockUserState_def RefreshUserEnforcedBalance_def CreateAppSession_def
   UpdateAppSession_def RecordLedgerEntry_def RecordTransaction_def CreateApp_def StoreChannelSessionKeyState_def
   StoreAppSessionKeyState_def scheduleStateEnforcement_def updateAction_def UpdateUserStaked_def RecordAction_def
   SetNodeBalance_def StoreContractEvent_def split: if_splits option.splits)

section \<open>Uniqueness constraints\<close>

definition event_key :: "ContractEvent \<Rightarrow> string \<times> uint32 \<times> uint64" where
  "event_key r = (ce_TransactionHash r, ce_LogIndex r, ce_BlockchainID r)"

definition state_key :: "'d StateRow \<Rightarrow> string \<times> string \<times> uint64 \<times> uint64" where
  "state_key r = (sr_UserWallet r, sr_Asset r, sr_Epoch r, sr_Version r)"

lemma length_update_where [simp]: "length (update_where P f xs) = length xs"
  by (simp add: update_where_def)

text \<open>Action identifiers are the values of a sequence.\<close>

definition sequential :: "BlockchainAction list \<Rightarrow> bool" where
  "sequential as \<longleftrightarrow> map ba_ID as = map int [1..<Suc (length as)]"

lemma sequential_snoc: "sequential as \<Longrightarrow> ba_ID a = int (length as) + 1 \<Longrightarrow> sequential (as @ [a])"
  by (simp add: sequential_def)

lemma sequential_update: "(\<And>x. ba_ID (f x) = ba_ID x) \<Longrightarrow> sequential (update_where P f as) = sequential as"
  unfolding sequential_def by (simp only: map_update_where length_update_where)

definition lower_case :: "ChannelRow list \<Rightarrow> bool" where
  "lower_case rows \<longleftrightarrow> (\<forall>r \<in> set rows. ToLower (cr_ChannelID r) = cr_ChannelID r \<and> ToLower (cr_Token r) = cr_Token r)"

lemma lower_case_snoc [simp]:
  "lower_case (rows @ [r]) \<longleftrightarrow> lower_case rows \<and> ToLower (cr_ChannelID r) = cr_ChannelID r \<and> ToLower (cr_Token r) = cr_Token r"
  by (auto simp: lower_case_def)

lemma lower_case_update [simp]:
  "lower_case rows \<Longrightarrow> (\<And>r. cr_ChannelID (f r) = cr_ChannelID r \<and> ToLower (cr_Token (f r)) = cr_Token (f r)) \<Longrightarrow> lower_case (update_where P f rows)"
  by (auto simp: lower_case_def update_where_def)

definition db_ok :: "'d db \<Rightarrow> bool" where
  "db_ok db \<longleftrightarrow>
     distinct (map sr_ID (states db)) \<and> distinct (map state_key (states db)) \<and>
     distinct (map cr_ChannelID (channels db)) \<and>
     lower_case (channels db) \<and>
     distinct (map (\<lambda>b. (ub_UserWallet b, ub_Asset b)) (user_balances db)) \<and>
     distinct (map tx_ID (transactions db)) \<and>
     distinct (map asr_ID (app_sessions db)) \<and>
     distinct (map (\<lambda>p. (apr_AppSessionID p, apr_WalletAddress p)) (app_participants db)) \<and>
     distinct (map ckr_ID (channel_keys db)) \<and> distinct (map akr_ID (app_keys db)) \<and>
     distinct (map arw_ID (apps db)) \<and>
     distinct (map event_key (contract_events db)) \<and>
     sequential (blockchain_actions db) \<and>
     distinct (map (\<lambda>u. (us_UserWallet u, us_BlockchainID u)) (user_staked db))"

definition ok_kept :: "'d db \<Rightarrow> 'd db \<Rightarrow> bool" where
  "ok_kept db db' \<longleftrightarrow> (db_ok db \<longrightarrow> db_ok db')"

lemma find_None_key: "find P xs = None \<longleftrightarrow> (\<forall>x \<in> set xs. \<not> P x)"
  by (auto simp: find_None_iff)

lemma distinct_map_snoc: "distinct (map k (xs @ [x])) \<longleftrightarrow> distinct (map k xs) \<and> (\<forall>y \<in> set xs. k y \<noteq> k x)"
  by (auto simp: image_iff)

lemma participants_distinct:
  assumes "distinct (map (\<lambda>p. (apr_AppSessionID p, apr_WalletAddress p)) ps)"
    and "distinct (map apr_WalletAddress (filter (\<lambda>p. apr_AppSessionID p = i) ps @ map (\<lambda>p. \<lparr> apr_AppSessionID = i, apr_WalletAddress = w p, apr_SignatureWeight = g p \<rparr>) qs))"
  shows "distinct (map (\<lambda>p. (apr_AppSessionID p, apr_WalletAddress p)) (ps @ map (\<lambda>p. \<lparr> apr_AppSessionID = i, apr_WalletAddress = w p, apr_SignatureWeight = g p \<rparr>) qs))"
  using assms by (auto simp: distinct_map inj_on_def image_iff) 

interpretation constraints: full_store_relation "ok_kept :: 'd db \<Rightarrow> 'd db \<Rightarrow> bool"
proof (unfold_locales, goal_cases)
  case (6 L w a)
  then show ?case
    by (auto simp: keeps_def ok_kept_def db_ok_def Let_def LockUserState_def find_None_key distinct_map_snoc
        split: option.splits simp del: map_append)
next
  case (8 sess)
  then show ?case
    by (auto simp: keeps_def ok_kept_def db_ok_def Let_def CreateAppSession_def session_participants_def list_ex_iff participants_distinct distinct_map_snoc
        split: if_splits simp del: map_append)
qed (auto simp: keeps_def ok_kept_def db_ok_def Let_def insert_links_eq list_ex_iff state_key_def event_key_def sequential_update sequential_snoc
   StoreUserState_def CreateChannel_def UpdateChannel_def RefreshUserEnforcedBalance_def
   UpdateAppSession_def RecordLedgerEntry_def RecordTransaction_def CreateApp_def StoreChannelSessionKeyState_def
   StoreAppSessionKeyState_def scheduleStateEnforcement_def updateAction_def UpdateUserStaked_def RecordAction_def
   SetNodeBalance_def StoreContractEvent_def split: if_splits option.splits)


section \<open>Whole-node properties\<close>

text \<open>A run for the witnesses: a locking event of a user, on the empty database.\<close>

definition lock_bindings :: bindings where
  "lock_bindings = \<lparr> EventName = (\<lambda>_. Some ''Locked''), ParseEvent = (\<lambda>_ _. Inr \<lparr> arg_ChannelId = [], arg_EscrowId = [],
     arg_StateVersion = 0, arg_ChallengeExpireAt = 0, arg_Node = [], arg_Token = [], arg_Amount = 2500, arg_User = replicate 20 1 \<rparr>) \<rparr>"

definition lock_log :: ethLog where
  "lock_log = \<lparr> log_Address = replicate 20 2, log_Topics = [[1]], log_Data = [], log_BlockNumber = 9, log_TxHash = replicate 32 3,
     log_Index = 4, log_Removed = False \<rparr>"

definition lock_reactor :: LockingContractReactor where
  "lock_reactor = \<lparr> lr_blockchainID = 137, lr_tokenDecimals = 2 \<rparr>"

definition lock_db :: "ref_decimal db" where
  "lock_db = snd (LockingContractReactor_HandleEvent ref_libs lock_bindings lock_reactor lock_log empty_db)"

lemma lock_run: "(node_step ref_libs)\<^sup>*\<^sup>* empty_db lock_db"
  unfolding lock_db_def by (intro r_into_rtranclp locking_event)

lemma lock_db_event: "map ce_BlockNumber (contract_events lock_db) = [9]"
  by code_simp

text \<open>C17 (safety). History is append-only: whatever sequence of requests, blockchain events and worker
  passes the node goes through, no stored state, transaction, session ledger entry, contract event, session
  key, action log entry or participant is ever changed or removed, and channels and app sessions keep
  their identity.\<close>

theorem node_history_append_only:
  assumes "(node_step L)\<^sup>*\<^sup>* db db'"
  shows "history_kept db db'"
  by (rule history.node_run_kept [OF assms])

theorem node_history_append_only_witness:
  "history_kept empty_db lock_db \<and> map ce_BlockNumber (contract_events lock_db) = [9]"
  using node_history_append_only [OF lock_run] lock_db_event by blast

lemma empty_db_ok: "db_ok empty_db"
  by (simp add: db_ok_def empty_db_def sequential_def lower_case_def)




end
