(* ===== verification/Event_Properties.thy ===== *)
theory Event_Properties
  imports Listener_Properties Node_Invariants
begin

text \<open>
  Blockchain events and the database: a contract event is applied at most once, the listener applies every
  new log exactly once and in order, and the handlers implement the life cycle of a channel.
\<close>

section \<open>Events are applied once\<close>

text \<open>The handlers themselves do not touch the table of contract events.\<close>

interpretation events: store_relation "\<lambda>db db' :: 'd db. contract_events db' = contract_events db"
  by unfold_locales (auto simp: keeps_def Let_def insert_links_eq
    StoreUserState_def CreateChannel_def UpdateChannel_def LockUserState_def RefreshUserEnforcedBalance_def CreateAppSession_def
    UpdateAppSession_def RecordLedgerEntry_def RecordTransaction_def CreateApp_def StoreChannelSessionKeyState_def
    StoreAppSessionKeyState_def scheduleStateEnforcement_def updateAction_def UpdateUserStaked_def RecordAction_def
    SetNodeBalance_def split: if_splits option.splits)

definition log_event :: "bindings \<Rightarrow> ethLog \<Rightarrow> string option" where
  "log_event B l = (case log_Topics l of [] \<Rightarrow> None | t # _ \<Rightarrow> EventName B t)"

definition log_key :: "'d libs \<Rightarrow> uint64 \<Rightarrow> ethLog \<Rightarrow> string \<times> uint32 \<times> uint64" where
  "log_key L chain l = (ToLower (hashHex L (log_TxHash l)), ucast (log_Index l), chain)"

definition event_row :: "'d libs \<Rightarrow> uint64 \<Rightarrow> string \<Rightarrow> ethLog \<Rightarrow> ContractEvent" where
  "event_row L chain name l = \<lparr> ce_ContractAddress = ToLower (addressHex L (log_Address l)), ce_BlockchainID = chain, ce_Name = name,
     ce_BlockNumber = log_BlockNumber l, ce_TransactionHash = ToLower (hashHex L (log_TxHash l)), ce_LogIndex = ucast (log_Index l) \<rparr>"

lemma event_row_key [simp]: "event_key (event_row L chain name l) = log_key L chain l"
  by (simp add: event_key_def event_row_def log_key_def)

lemma StoreContractEvent_ok:
  "StoreContractEvent (contractEventOf L chain name l) db = Inr (u, db') \<longleftrightarrow>
     log_key L chain l \<notin> set (map event_key (contract_events db)) \<and>
     db' = db \<lparr> contract_events := contract_events db @ [event_row L chain name l] \<rparr>"
  by (auto simp: StoreContractEvent_def contractEventOf_def Let_def log_key_def event_row_def event_key_def list_ex_iff image_iff)

lemma reactTo_ok:
  assumes "\<And>name. keeps (\<lambda>db db'. contract_events db' = contract_events db) (dispatch name l)"
    and "reactTo L B chain dispatch l db = (Inr (), db')" and "log_event B l = Some name"
  shows "contract_events db' = contract_events db @ [event_row L chain name l] \<and>
     log_key L chain l \<notin> set (map event_key (contract_events db))"
proof -
  obtain db1 where "dispatch name l db = Inr ((), db1)" "StoreContractEvent (contractEventOf L chain name l) db1 = Inr ((), db')"
    using assms(2,3) by (auto simp: reactTo_def log_event_def ExecuteInTransaction_def reactTx_def split: list.splits option.splits sum.splits)
  then show ?thesis using keepsD [OF assms(1)] unfolding StoreContractEvent_ok by fastforce
qed

lemma reactTo_duplicate:
  assumes "\<And>name. keeps (\<lambda>db db'. contract_events db' = contract_events db) (dispatch name l)"
    and "log_event B l = Some name" and "log_key L chain l \<in> set (map event_key (contract_events db))"
  shows "\<exists>e. reactTo L B chain dispatch l db = (Inl e, db)"
proof -
  obtain r db' where r: "reactTo L B chain dispatch l db = (r, db')" by (cases "reactTo L B chain dispatch l db") auto
  show ?thesis
  proof (cases r)
    case (Inl e)
    then show ?thesis using r assms(2)
      by (auto simp: reactTo_def log_event_def ExecuteInTransaction_def split: list.splits option.splits sum.splits)
  next
    case (Inr u)
    then show ?thesis using reactTo_ok [where dispatch = dispatch and l = l, OF assms(1) _ assms(2)] r assms(3) by auto
  qed
qed

text \<open>C19 (safety). A contract event is applied at most once. When the channel hub reactor succeeds on a
  log of a known event, the event was new and is now stored; any later attempt to handle a log with the
  same transaction hash and index on that chain, from any later database, fails and changes nothing.\<close>

theorem hub_event_applied_once:
  assumes "ChannelHubReactor_HandleEvent L B now r l db = (Inr (), db1)" and "log_event B l = Some name"
    and "(node_step L)\<^sup>*\<^sup>* db1 db2" and "log_event B l' = Some name'"
    and "log_key L (hr_blockchainID r) l' = log_key L (hr_blockchainID r) l"
  shows "log_key L (hr_blockchainID r) l \<notin> set (map event_key (contract_events db)) \<and>
     contract_events db1 = contract_events db @ [event_row L (hr_blockchainID r) name l] \<and>
     (\<exists>e. ChannelHubReactor_HandleEvent L B now' r l' db2 = (Inl e, db2))"
proof -
  let ?key = "log_key L (hr_blockchainID r) l"
  have new: "?key \<notin> set (map event_key (contract_events db))"
    and stored: "contract_events db1 = contract_events db @ [event_row L (hr_blockchainID r) name l]"
    using reactTo_ok [where dispatch = "dispatchHub L B now r" and l = l, OF events.keeps_dispatchHub assms(1) [unfolded ChannelHubReactor_HandleEvent_def] assms(2)] by blast+
  have "extends (contract_events db1) (contract_events db2)"
    using history.node_run_kept [OF assms(3)] by (simp add: history_kept_def)
  then have "log_key L (hr_blockchainID r) l' \<in> set (map event_key (contract_events db2))"
    using stored assms(5) by (auto simp: extends_def)
  then have "\<exists>e. ChannelHubReactor_HandleEvent L B now' r l' db2 = (Inl e, db2)"
    unfolding ChannelHubReactor_HandleEvent_def
    by (rule reactTo_duplicate [where dispatch = "dispatchHub L B now' r" and l = l', OF events.keeps_dispatchHub assms(4)])
  with new stored show ?thesis by blast
qed

definition created_bindings :: bindings where
  "created_bindings = lock_bindings \<lparr> EventName := (\<lambda>_. Some ''ChannelCreated'') \<rparr>"

definition hub_reactor :: ChannelHubReactor where
  "hub_reactor = \<lparr> hr_blockchainID = 137, hr_nodeAddress = ''0x01'', hr_assetStore = empty_store \<rparr>"

definition hub_db :: "ref_decimal db" where
  "hub_db = snd (ChannelHubReactor_HandleEvent ref_libs created_bindings 5 hub_reactor lock_log empty_db)"

lemma hub_db_run: "ChannelHubReactor_HandleEvent ref_libs created_bindings 5 hub_reactor lock_log empty_db = (Inr (), hub_db)"
proof -
  have "isOk (fst (ChannelHubReactor_HandleEvent ref_libs created_bindings 5 hub_reactor lock_log empty_db))" by code_simp
  then show ?thesis unfolding hub_db_def isOk_iff by (metis old.unit.exhaust prod.collapse)
qed

theorem hub_event_applied_once_witness:
  "\<exists>e. ChannelHubReactor_HandleEvent ref_libs created_bindings 8 hub_reactor (lock_log \<lparr> log_BlockNumber := 10 \<rparr>) hub_db = (Inl e, hub_db)"
proof -
  have "log_event created_bindings lock_log = Some ''ChannelCreated''"
    "log_event created_bindings (lock_log \<lparr> log_BlockNumber := 10 \<rparr>) = Some ''ChannelCreated''"
    by (simp_all add: log_event_def created_bindings_def lock_log_def)
  moreover have "log_key ref_libs 137 (lock_log \<lparr> log_BlockNumber := 10 \<rparr>) = log_key ref_libs 137 lock_log"
    by (simp add: log_key_def)
  ultimately show ?thesis using hub_event_applied_once [OF hub_db_run _ rtranclp.rtrancl_refl] by (simp add: hub_reactor_def)
qed

section \<open>The listener\<close>

text \<open>What the listener should do: apply the given logs in order, up to the first failure.\<close>

fun apply_all :: "'d log_handler \<Rightarrow> ethLog list \<Rightarrow> 'd db \<Rightarrow> unit result \<times> 'd db" where
  "apply_all h [] db = (Inr (), db)"
| "apply_all h (l # ls) db = (case h l db of (Inl e, db') \<Rightarrow> (Inl e, db') | (Inr u, db') \<Rightarrow> apply_all h ls db')"

lemma apply_all_append:
  "apply_all h (xs @ ys) db = (case apply_all h xs db of (Inl e, db') \<Rightarrow> (Inl e, db') | (Inr u, db') \<Rightarrow> apply_all h ys db')"
  by (induction xs arbitrary: db) (auto split: prod.splits sum.splits)

definition stored :: "'d libs \<Rightarrow> uint64 \<Rightarrow> 'd db \<Rightarrow> ethLog \<Rightarrow> bool" where
  "stored L chain db l \<longleftrightarrow> (log_key L chain l, log_BlockNumber l) \<in> set (map (\<lambda>r. (event_key r, ce_BlockNumber r)) (contract_events db))"

lemma isPresent_stored: "isPresent L chain l db = Inr (stored L chain db l)"
  by (simp add: isPresent_def IsContractEventPresent_def list_ex_iff stored_def log_key_def event_key_def image_iff) metis

lemma stored_key: "stored L chain db l \<Longrightarrow> log_key L chain l \<in> set (map event_key (contract_events db))"
  by (auto simp: stored_def)

lemma processHistorical_checked: "processHistorical L chain h True ls db = apply_all h ls db"
  by (induction ls arbitrary: db) (auto split: sum.splits prod.splits)

lemma processHistorical_new:
  assumes "\<forall>l \<in> set old. stored L chain db l" and "\<forall>l \<in> set new. \<not> stored L chain db l"
  shows "processHistorical L chain h False (old @ new) db = apply_all h new db"
  using assms(1)
proof (induction old)
  case Nil
  then show ?case using assms(2) by (cases new) (auto simp: isPresent_stored processHistorical_checked split: prod.splits sum.splits)
qed (simp add: isPresent_stored)

lemma processCurrent_checked:
  "\<forall>l \<in> set ls. \<not> log_Removed l \<Longrightarrow>
    (case processCurrent L chain h True ls lastBlock db of (r, b, db') \<Rightarrow> (r, db')) = apply_all h ls db"
  by (induction ls arbitrary: db lastBlock) (auto split: sum.splits prod.splits)

lemma processCurrent_new:
  assumes "\<forall>l \<in> set old. stored L chain db l" and "\<forall>l \<in> set new. \<not> stored L chain db l"
    and "\<forall>l \<in> set (old @ new). \<not> log_Removed l"
  shows "(case processCurrent L chain h False (old @ new) lastBlock db of (r, b, db') \<Rightarrow> (r, db')) = apply_all h new db"
  using assms(1,3)
proof (induction old arbitrary: lastBlock)
  case Nil
  show ?case
  proof (cases new)
    case (Cons l ls)
    then show ?thesis
      using Nil.prems(2) assms(2) processCurrent_checked [of ls L chain h "log_BlockNumber l"]
      by (auto simp: isPresent_stored split: sum.splits prod.splits)
  qed simp
qed (simp add: isPresent_stored)

text \<open>Success of a run of the hub reactor stores one row per log.\<close>

lemma apply_all_events:
  assumes "apply_all (\<lambda>l. ChannelHubReactor_HandleEvent L B (clock l) r l) ls db = (Inr (), db')"
    and "\<forall>l \<in> set ls. log_event B l \<noteq> None"
  shows "contract_events db' = contract_events db @ map (\<lambda>l. event_row L (hr_blockchainID r) (the (log_event B l)) l) ls"
  using assms
proof (induction ls arbitrary: db)
  case (Cons l ls)
  then obtain db1 where s: "ChannelHubReactor_HandleEvent L B (clock l) r l db = (Inr (), db1)"
    "apply_all (\<lambda>l. ChannelHubReactor_HandleEvent L B (clock l) r l) ls db1 = (Inr (), db')"
    by (auto split: prod.splits sum.splits)
  obtain name where n: "log_event B l = Some name" using Cons.prems(2) by auto
  have "contract_events db1 = contract_events db @ [event_row L (hr_blockchainID r) name l]"
    using reactTo_ok [where dispatch = "dispatchHub L B (clock l) r" and l = l, OF events.keeps_dispatchHub
        s(1) [unfolded ChannelHubReactor_HandleEvent_def] n] by blast
  then show ?case using Cons.IH [OF s(2)] Cons.prems(2) n by simp
qed simp

text \<open>C20 (refinement). The listener delivers exactly once and in order. Let the historical logs be
  stored ones followed by new ones, and let the live stream repeat logs that are stored by then before its
  own new ones. Then processing both streams is the same as applying the new logs one after the other:
  nothing is skipped and nothing is applied twice, also when an event fails.\<close>

theorem listener_exactly_once:
  assumes "\<forall>l \<in> set (newHist @ newLive). log_event B l \<noteq> None"
    and "\<forall>l \<in> set (oldLive @ newLive). \<not> log_Removed l"
    and "\<forall>l \<in> set oldHist. stored L (hr_blockchainID r) db l"
    and "\<forall>l \<in> set (newHist @ newLive). log_key L (hr_blockchainID r) l \<notin> set (map event_key (contract_events db))"
    and "distinct (map (log_key L (hr_blockchainID r)) (newHist @ newLive))"
    and "\<forall>l \<in> set oldLive. stored L (hr_blockchainID r) db l \<or> l \<in> set newHist"
  shows "(case processEvents L (hr_blockchainID r) (\<lambda>l. ChannelHubReactor_HandleEvent L B (clock l) r l)
             (oldHist @ newHist) (oldLive @ newLive) lastBlock db of (res, b, db') \<Rightarrow> (res, db')) =
    apply_all (\<lambda>l. ChannelHubReactor_HandleEvent L B (clock l) r l) (newHist @ newLive) db"
proof -
  let ?h = "\<lambda>l. ChannelHubReactor_HandleEvent L B (clock l) r l" and ?chain = "hr_blockchainID r"
  have "\<forall>l \<in> set newHist. \<not> stored L ?chain db l" using assms(4) stored_key by fastforce
  then have hist: "processHistorical L ?chain ?h False (oldHist @ newHist) db = apply_all ?h newHist db"
    by (rule processHistorical_new [OF assms(3)])
  obtain res db1 where a: "apply_all ?h newHist db = (res, db1)" by (cases "apply_all ?h newHist db") auto
  show ?thesis
  proof (cases res)
    case (Inl e)
    then show ?thesis using hist a by (simp add: processEvents_def apply_all_append)
  next
    case (Inr u)
    then have ev: "contract_events db1 = contract_events db @ map (\<lambda>l. event_row L ?chain (the (log_event B l)) l) newHist"
      using a assms(1) by (intro apply_all_events) auto
    have "stored L ?chain db1 l" if "l \<in> set oldLive" for l
      using that assms(6) ev by (auto simp: stored_def event_row_def event_key_def log_key_def image_iff)
    moreover have "\<not> stored L ?chain db1 l" if "l \<in> set newLive" for l
    proof
      assume "stored L ?chain db1 l"
      then have "log_key L ?chain l \<in> set (map event_key (contract_events db)) \<union> log_key L ?chain ` set newHist"
        using stored_key ev by fastforce
      then show False using that assms(4,5) by auto
    qed
    ultimately show ?thesis using hist a Inr assms(2) processCurrent_new [of oldLive L ?chain db1 newLive ?h lastBlock]
      by (auto simp: processEvents_def apply_all_append)
  qed
qed

theorem listener_exactly_once_witness:
  "(case processEvents ref_libs (hr_blockchainID hub_reactor) (\<lambda>l. ChannelHubReactor_HandleEvent ref_libs created_bindings 5 hub_reactor l)
       ([lock_log] @ [lock_log \<lparr> log_Index := 5 \<rparr>]) ([lock_log \<lparr> log_Index := 5 \<rparr>] @ [lock_log \<lparr> log_Index := 6 \<rparr>]) 9 hub_db
     of (res, b, db') \<Rightarrow> (res, db')) =
   apply_all (\<lambda>l. ChannelHubReactor_HandleEvent ref_libs created_bindings 5 hub_reactor l)
     ([lock_log \<lparr> log_Index := 5 \<rparr>] @ [lock_log \<lparr> log_Index := 6 \<rparr>]) hub_db"
proof (rule listener_exactly_once)
  have e: "contract_events hub_db = [event_row ref_libs 137 ''ChannelCreated'' lock_log]"
    using reactTo_ok [where dispatch = "dispatchHub ref_libs created_bindings 5 hub_reactor" and l = lock_log, OF events.keeps_dispatchHub
        hub_db_run [unfolded ChannelHubReactor_HandleEvent_def], of "''ChannelCreated''"]
    by (simp add: log_event_def created_bindings_def lock_log_def hub_reactor_def empty_db_def)
  show "\<forall>l \<in> set [lock_log]. stored ref_libs (hr_blockchainID hub_reactor) hub_db l"
    by (simp add: stored_def e hub_reactor_def) (simp add: event_row_def)
  show "\<forall>l \<in> set ([lock_log \<lparr> log_Index := 5 \<rparr>] @ [lock_log \<lparr> log_Index := 6 \<rparr>]).
      log_key ref_libs (hr_blockchainID hub_reactor) l \<notin> set (map event_key (contract_events hub_db))"
    by (simp add: e hub_reactor_def log_key_def lock_log_def)
qed (simp_all add: log_event_def created_bindings_def lock_log_def log_key_def)

section \<open>The life cycle of a channel\<close>

text \<open>What a channel event means for the channel it names: the abstract state machine that the handlers
  implement. An event for the other kind of channel, a migration, and a challenge with an older state
  than the recorded one have no effect.\<close>

fun event_channel :: "chain_event \<Rightarrow> string" where
  "event_channel (HomeChannelCreated e) = ev_ChannelID e"
| "event_channel (HomeChannelMigrated e) = ev_ChannelID e"
| "event_channel (HomeChannelCheckpointed e) = ev_ChannelID e"
| "event_channel (HomeChannelChallenged e) = cev_ChannelID e"
| "event_channel (HomeChannelClosed e) = ev_ChannelID e"
| "event_channel (EscrowDepositInitiated e) = ev_ChannelID e"
| "event_channel (EscrowDepositChallenged e) = cev_ChannelID e"
| "event_channel (EscrowDepositFinalized e) = ev_ChannelID e"
| "event_channel (EscrowWithdrawalInitiated e) = ev_ChannelID e"
| "event_channel (EscrowWithdrawalChallenged e) = cev_ChannelID e"
| "event_channel (EscrowWithdrawalFinalized e) = ev_ChannelID e"

definition advance :: "ChannelType \<Rightarrow> ChannelStatus \<Rightarrow> channelEvent \<Rightarrow> Channel \<Rightarrow> Channel" where
  "advance ty status e c =
     (if ch_Type c = ty then c \<lparr> ch_StateVersion := ev_StateVersion e, ch_Status := status \<rparr> else c)"

definition challenge :: "ChannelType \<Rightarrow> channelChallengedEvent \<Rightarrow> Channel \<Rightarrow> Channel" where
  "challenge ty e c =
     (if ch_Type c = ty \<and> ch_StateVersion c \<le> cev_StateVersion e
      then c \<lparr> ch_StateVersion := cev_StateVersion e, ch_Status := ChannelStatusChallenged,
               ch_ChallengeExpiresAt := Some (sint (cev_ChallengeExpiry e)) \<rparr> else c)"

fun channel_next :: "chain_event \<Rightarrow> Channel \<Rightarrow> Channel" where
  "channel_next (HomeChannelCreated e) c = advance ChannelTypeHome ChannelStatusOpen e c"
| "channel_next (HomeChannelMigrated e) c = c"
| "channel_next (HomeChannelCheckpointed e) c =
     advance ChannelTypeHome (if ch_Status c = ChannelStatusChallenged then ChannelStatusOpen else ch_Status c) e c"
| "channel_next (HomeChannelChallenged e) c = challenge ChannelTypeHome e c"
| "channel_next (HomeChannelClosed e) c = advance ChannelTypeHome ChannelStatusClosed e c"
| "channel_next (EscrowDepositInitiated e) c = advance ChannelTypeEscrow ChannelStatusOpen e c"
| "channel_next (EscrowDepositChallenged e) c = challenge ChannelTypeEscrow e c"
| "channel_next (EscrowDepositFinalized e) c = advance ChannelTypeEscrow ChannelStatusClosed e c"
| "channel_next (EscrowWithdrawalInitiated e) c = advance ChannelTypeEscrow ChannelStatusOpen e c"
| "channel_next (EscrowWithdrawalChallenged e) c = challenge ChannelTypeEscrow e c"
| "channel_next (EscrowWithdrawalFinalized e) c = advance ChannelTypeEscrow ChannelStatusClosed e c"

text \<open>The identifier under which a channel is looked up.\<close>

definition lookup_id :: "string \<Rightarrow> string" where
  "lookup_id i = (let l = ToLower i in if \<not> HasPrefix l ''0x'' then ''0x'' @ l else l)"

lemma GetChannelByID_eq: "GetChannelByID db i = Inr (map_option databaseChannelToCore (find_channel db (lookup_id i)))"
  by (simp add: GetChannelByID_def lookup_id_def Let_def)

lemma find_update_where:
  assumes "\<And>r. cr_ChannelID (f r) = cr_ChannelID r"
  shows "find (\<lambda>r. cr_ChannelID r = i) (update_where (\<lambda>r. cr_ChannelID r = j) f rows) =
    (if i = j then map_option f (find (\<lambda>r. cr_ChannelID r = j) rows) else find (\<lambda>r. cr_ChannelID r = i) rows)"
  using assms by (induction rows) (auto simp: update_where_def)

text \<open>Writing back a channel that was read and changed only in version, status and challenge expiry.\<close>

lemma UpdateChannel_lookup:
  assumes "db_ok db" and "find_channel db j = Some r"
    and "c = databaseChannelToCore r \<lparr> ch_StateVersion := v, ch_Status := st, ch_ChallengeExpiresAt := x \<rparr>"
    and "UpdateChannel now c db = Inr ((), db')"
  shows "map_option databaseChannelToCore (find_channel db' i) =
    (if i = j then Some c else map_option databaseChannelToCore (find_channel db i))"
proof -
  have "cr_ChannelID r = j" "r \<in> set (channels db)"
    using assms(2) by (auto simp: find_channel_def find_Some_iff)
  then have low: "ToLower j = j" "ToLower (cr_Token r) = cr_Token r" "cr_ChannelID r = j"
    using assms(1) by (auto simp: db_ok_def lower_case_def)
  let ?f = "\<lambda>r. r \<lparr> cr_Status := ch_Status c, cr_StateVersion := ch_StateVersion c, cr_BlockchainID := ch_BlockchainID c,
     cr_Token := ToLower (ch_TokenAddress c), cr_Nonce := ch_Nonce c, cr_ChallengeExpiresAt := ch_ChallengeExpiresAt c, cr_UpdatedAt := now \<rparr>"
  have "channels db' = update_where (\<lambda>r. cr_ChannelID r = j) ?f (channels db)"
    using assms(3,4) low by (auto simp: UpdateChannel_def databaseChannelToCore_def)
  moreover have "databaseChannelToCore (?f r) = c" using assms(3) low by (simp add: databaseChannelToCore_def)
  ultimately show ?thesis using assms(2) by (simp add: find_channel_def find_update_where)
qed

lemma channel_next_shape: "\<exists>v st x. channel_next ev c = c \<lparr> ch_StateVersion := v, ch_Status := st, ch_ChallengeExpiresAt := x \<rparr>"
proof -
  have "\<exists>v st x. c = c \<lparr> ch_StateVersion := v, ch_Status := st, ch_ChallengeExpiresAt := x \<rparr>"
    by (rule exI [of _ "ch_StateVersion c"], rule exI [of _ "ch_Status c"], rule exI [of _ "ch_ChallengeExpiresAt c"]) simp
  moreover have "\<exists>v' st' x. c \<lparr> ch_StateVersion := v, ch_Status := st \<rparr> = c \<lparr> ch_StateVersion := v', ch_Status := st', ch_ChallengeExpiresAt := x \<rparr>" for v st
    by (rule exI [of _ v], rule exI [of _ st], rule exI [of _ "ch_ChallengeExpiresAt c"]) simp
  ultimately show ?thesis by (cases ev) (auto simp: advance_def challenge_def)
qed

text \<open>A handler either leaves the channels alone, where the state machine stays put, or writes the next state back.\<close>

definition channel_effect :: "int \<Rightarrow> chain_event \<Rightarrow> 'd db \<Rightarrow> 'd db \<Rightarrow> bool" where
  "channel_effect now ev db db' \<longleftrightarrow>
     channels db' = channels db \<and>
       (\<forall>r. find_channel db (lookup_id (event_channel ev)) = Some r \<longrightarrow> channel_next ev (databaseChannelToCore r) = databaseChannelToCore r) \<or>
     (\<exists>r db1. find_channel db (lookup_id (event_channel ev)) = Some r \<and>
        UpdateChannel now (channel_next ev (databaseChannelToCore r)) db = Inr ((), db1) \<and> channels db' = channels db1)"

lemma with_channel_effect:
  assumes "with_channel (event_channel ev) ty k db = Inr ((), db')"
    and "\<And>c. ch_Type c \<noteq> ty \<Longrightarrow> channel_next ev c = c"
    and "\<And>c. ch_Type c = ty \<Longrightarrow> k c db = Inr ((), db') \<Longrightarrow>
      channels db' = channels db \<and> channel_next ev c = c \<or>
      (\<exists>db1. UpdateChannel now (channel_next ev c) db = Inr ((), db1) \<and> channels db' = channels db1)"
  shows "channel_effect now ev db db'"
proof (cases "find_channel db (lookup_id (event_channel ev))")
  case None
  then show ?thesis using assms(1) by (simp add: with_channel_def GetChannelByID_eq channel_effect_def)
next
  case (Some r)
  show ?thesis
  proof (cases "ch_Type (databaseChannelToCore r) = ty")
    case True
    then have "k (databaseChannelToCore r) db = Inr ((), db')" using assms(1) Some by (simp add: with_channel_def GetChannelByID_eq)
    then show ?thesis using assms(3) [OF True] Some by (auto simp: channel_effect_def)
  next
    case False
    then show ?thesis using assms(1,2) Some by (auto simp: with_channel_def GetChannelByID_eq channel_effect_def)
  qed
qed

lemma home_event_effect:
  "HandleHomeChannelCreated L now e db = Inr ((), db') \<Longrightarrow> channel_effect now (HomeChannelCreated e) db db'"
  "HandleHomeChannelMigrated e db = Inr ((), db') \<Longrightarrow> channel_effect now (HomeChannelMigrated e) db db'"
  "HandleHomeChannelCheckpointed L now e db = Inr ((), db') \<Longrightarrow> channel_effect now (HomeChannelCheckpointed e) db db'"
  "HandleHomeChannelClosed L now e db = Inr ((), db') \<Longrightarrow> channel_effect now (HomeChannelClosed e) db db'"
  subgoal unfolding HandleHomeChannelCreated_def
    by (rule with_channel_effect [where ev = "HomeChannelCreated e", simplified]) (auto simp: advance_def RefreshUserEnforcedBalance_def)
  subgoal by (simp add: HandleHomeChannelMigrated_def channel_effect_def)
  subgoal unfolding HandleHomeChannelCheckpointed_def
    by (rule with_channel_effect [where ev = "HomeChannelCheckpointed e", simplified]) (auto simp: advance_def Let_def RefreshUserEnforcedBalance_def)
  subgoal unfolding HandleHomeChannelClosed_def
    by (rule with_channel_effect [where ev = "HomeChannelClosed e", simplified]) (auto simp: advance_def RefreshUserEnforcedBalance_def)
  done


lemma escrow_event_effect:
  "HandleEscrowDepositInitiated now e db = Inr ((), db') \<Longrightarrow> channel_effect now (EscrowDepositInitiated e) db db'"
  "HandleEscrowDepositFinalized now e db = Inr ((), db') \<Longrightarrow> channel_effect now (EscrowDepositFinalized e) db db'"
  "HandleEscrowWithdrawalInitiated now e db = Inr ((), db') \<Longrightarrow> channel_effect now (EscrowWithdrawalInitiated e) db db'"
  "HandleEscrowWithdrawalFinalized now e db = Inr ((), db') \<Longrightarrow> channel_effect now (EscrowWithdrawalFinalized e) db db'"
  subgoal unfolding HandleEscrowDepositInitiated_def
    by (rule with_channel_effect [where ev = "EscrowDepositInitiated e", simplified])
       (auto simp: advance_def ScheduleInitiateEscrowDeposit_def scheduleStateEnforcement_def split: option.splits if_splits)
  subgoal unfolding HandleEscrowDepositFinalized_def
    by (rule with_channel_effect [where ev = "EscrowDepositFinalized e", simplified]) (auto simp: advance_def)
  subgoal unfolding HandleEscrowWithdrawalInitiated_def
    by (rule with_channel_effect [where ev = "EscrowWithdrawalInitiated e", simplified]) (auto simp: advance_def)
  subgoal unfolding HandleEscrowWithdrawalFinalized_def
    by (rule with_channel_effect [where ev = "EscrowWithdrawalFinalized e", simplified]) (auto simp: advance_def)
  done

text \<open>After a challenge is recorded, only the queue and the balances change.\<close>

interpretation same_channels: db_relation "\<lambda>db db' :: 'd db. channels db' = channels db"
  by unfold_locales simp_all

lemma same_channels_tail:
  "keeps (\<lambda>db db'. channels db' = channels db) (RefreshUserEnforcedBalance L w a)"
  "keeps (\<lambda>db db'. channels db' = channels db) (ScheduleCheckpoint now i b)"
  "keeps (\<lambda>db db'. channels db' = channels db) (ScheduleFinalizeEscrowDeposit now i b)"
  "keeps (\<lambda>db db'. channels db' = channels db) (ScheduleFinalizeEscrowWithdrawal now i b)"
  by (auto simp: keeps_def RefreshUserEnforcedBalance_def ScheduleCheckpoint_def ScheduleFinalizeEscrowDeposit_def
      ScheduleFinalizeEscrowWithdrawal_def scheduleStateEnforcement_def split: if_splits)

lemma challenge_effect:
  assumes "with_channel (event_channel ev) ty (\<lambda>c db. if cev_StateVersion ce < ch_StateVersion c then Inr ((), db)
        else bindE (UpdateChannel now (challenged_channel ce c) db) (\<lambda>(_, db1). tail c db1)) db = Inr ((), db')"
    and "\<And>c. keeps (\<lambda>db db'. channels db' = channels db) (tail c)" and "\<And>c. channel_next ev c = challenge ty ce c"
  shows "channel_effect now ev db db'"
  using assms(1)
proof (rule with_channel_effect)
  fix c
  assume t: "ch_Type c = ty" and k: "(if cev_StateVersion ce < ch_StateVersion c then Inr ((), db)
        else bindE (UpdateChannel now (challenged_channel ce c) db) (\<lambda>(_, db1). tail c db1)) = Inr ((), db')"
  show "channels db' = channels db \<and> channel_next ev c = c \<or>
      (\<exists>db1. UpdateChannel now (channel_next ev c) db = Inr ((), db1) \<and> channels db' = channels db1)"
  proof (cases "cev_StateVersion ce < ch_StateVersion c")
    case True
    then have "\<not> ch_StateVersion c \<le> cev_StateVersion ce" by (simp add: not_le)
    then show ?thesis using k True by (simp add: assms(3) challenge_def)
  next
    case False
    then have "challenged_channel ce c = channel_next ev c" using t by (simp add: assms(3) challenge_def challenged_channel_def)
    then show ?thesis using k False keepsD [OF assms(2)] by auto
  qed
qed (simp add: assms(3) challenge_def)

lemma challenge_event_effect:
  "HandleHomeChannelChallenged L now ce db = Inr ((), db') \<Longrightarrow> channel_effect now (HomeChannelChallenged ce) db db'"
  "HandleEscrowDepositChallenged now ce db = Inr ((), db') \<Longrightarrow> channel_effect now (EscrowDepositChallenged ce) db db'"
  "HandleEscrowWithdrawalChallenged now ce db = Inr ((), db') \<Longrightarrow> channel_effect now (EscrowWithdrawalChallenged ce) db db'"
  unfolding HandleHomeChannelChallenged_def HandleEscrowDepositChallenged_def HandleEscrowWithdrawalChallenged_def
  subgoal by (erule challenge_effect [where ev = "HomeChannelChallenged ce", unfolded event_channel.simps])
      (intro same_channels.keeps_db_steps same_channels_tail, simp)
  subgoal by (erule challenge_effect [where ev = "EscrowDepositChallenged ce", unfolded event_channel.simps])
      (intro same_channels.keeps_db_steps same_channels_tail, simp)
  subgoal by (erule challenge_effect [where ev = "EscrowWithdrawalChallenged ce", unfolded event_channel.simps])
      (intro same_channels.keeps_db_steps same_channels_tail, simp)
  done

lemma handle_event_effect: "handle_event L now ev db = Inr ((), db') \<Longrightarrow> channel_effect now ev db db'"
  by (cases ev) (auto intro: home_event_effect escrow_event_effect challenge_event_effect)


definition open_channel :: Channel where
  "open_channel = NewChannel ''0xab'' ''0x01'' ''usdc'' ChannelTypeHome 137 ''0x02'' 7 3600 ''0x03''"

definition channel_db :: "ref_decimal db" where
  "channel_db = snd (projr (CreateChannel 4 open_channel empty_db))"

lemma channel_db_ok: "db_ok channel_db"
proof -
  have "CreateChannel 4 open_channel (empty_db :: ref_decimal db) = Inr ((), channel_db)"
    by (simp add: channel_db_def CreateChannel_def empty_db_def)
  from keepsD [OF constraints.keeps_CreateChannel this] show ?thesis by (simp add: ok_kept_def empty_db_ok)
qed


end
