(* ===== verification/Service_Properties.thy ===== *)
theory Service_Properties
  imports Node_Api Contract_State Core_Properties Advancer_Properties
begin

text \<open>
  Properties of the services around the state machine: what is submitted to the contract, the asset catalogue,
  pagination, admission of gated actions, session keys and the rate limiter.
\<close>

section \<open>The contract receives what was signed\<close>

text \<open>C25 (equivalence). The state handed to the contract and the bytes the parties signed agree: whenever both conversions
  succeed, the signed message is the encoding of the channel identifier and of the values of the contract state.\<close>

theorem submitted_is_signed:
  assumes "coreStateToContractState L s (GetTokenDecimals st) = Inr c" and "PackState L st s = Inr packed"
  shows "\<exists>h inner. s_HomeChannelID s = Some h \<and> abiPack L (contract_values c) = Inr inner \<and>
     abiPack L [AFixedBytes (HexToHash L h), ABytes inner] = Inr packed"
proof -
  obtain h d vs where "s_HomeChannelID s = Some h" "signing_values L st s = Inr vs" "abiPack L vs = Inr d"
    "packWithChannelID L (HexToHash L h) d = Inr packed"
    using assms(2) by (auto simp: PackState_def packSigningData_eq)
  moreover have "signing_values L st s = Inr (contract_values c)" by (rule state_converted [OF assms(1)])
  ultimately show ?thesis by (auto simp: packWithChannelID_def)
qed

definition ok_or :: "'a \<Rightarrow> 'a result \<Rightarrow> 'a" where
  "ok_or d r = (case r of Inl _ \<Rightarrow> d | Inr x \<Rightarrow> x)"

definition is_ok :: "'a result \<Rightarrow> bool" where
  "is_ok r = (case r of Inl _ \<Rightarrow> False | Inr _ \<Rightarrow> True)"

lemma is_ok_or: "is_ok r \<Longrightarrow> r = Inr (ok_or d r)"
  by (auto simp: is_ok_def ok_or_def split: sum.splits)

lemma ex_deposit_packs:
  "is_ok (coreStateToContractState ref_libs ex_deposit (GetTokenDecimals ex_store))" "is_ok (PackState ref_libs ex_store ex_deposit)"
  by code_simp+

theorem submitted_is_signed_witness:
  "\<exists>c packed h inner. coreStateToContractState ref_libs ex_deposit (GetTokenDecimals ex_store) = Inr c \<and>
     PackState ref_libs ex_store ex_deposit = Inr packed \<and> s_HomeChannelID ex_deposit = Some h \<and>
     abiPack ref_libs (contract_values c) = Inr inner \<and>
     abiPack ref_libs [AFixedBytes (HexToHash ref_libs h), ABytes inner] = Inr packed"
proof -
  obtain c where c: "coreStateToContractState ref_libs ex_deposit (GetTokenDecimals ex_store) = Inr c"
    using is_ok_or [OF ex_deposit_packs(1)] by blast
  obtain packed where p: "PackState ref_libs ex_store ex_deposit = Inr packed"
    using is_ok_or [OF ex_deposit_packs(2)] by blast
  show ?thesis using c p submitted_is_signed [OF c p] by blast
qed

section \<open>The asset catalogue\<close>

text \<open>C26 (functional). Amounts that passed the precision check of an asset never fail to convert: in a store built from a
  verified configuration in which no symbol is listed with two precisions, every token of the asset has decimals, and an amount
  within the precision of the asset converts to token units exactly.\<close>

theorem catalogue_amounts_convert:
  assumes "decimal_spec L val" and "verifyAssetsConfig raw = Inr cfg" and "consistent_symbols cfg"
    and "NewMemoryStoreV1 cfg bcs = Inr ms" and "GetTokenAsset ms chain addr = Inr a"
    and "MS_GetAssetDecimals ms a = Inr da" and "ValidateDecimalPrecision L x da = Inr ()"
  shows "\<exists>dt n. MS_GetTokenDecimals ms chain addr = Inr dt \<and> DecimalToBigInt L x dt = Inr n \<and> of_int n = val x * 10 ^ unat dt"
proof -
  have "store_ok ms" using NewMemoryStoreV1_ok [OF assms(2-4)] unfolding store_ok_def by blast
  then show ?thesis by (rule memory.precise_amount_converts [OF assms(1) _ assms(5-7)])
qed

definition cat_assets :: "AssetConfig list" where
  "cat_assets = [\<lparr> ac_Name = '''', ac_Symbol = ''usdc'', ac_Decimals = 6, ac_SuggestedBlockchainID = 137, ac_Disabled = False,
     ac_Tokens = [\<lparr> tc_Name = ''USD'', tc_Symbol = ''usd'', tc_BlockchainID = 137, tc_Disabled = False,
       tc_Address = ''0x'' @ replicate 40 (CHR ''a''), tc_Decimals = 8 \<rparr>] \<rparr>]"

definition cat_chains :: "(uint64, BlockchainConfig) gomap" where
  "cat_chains = [(137, \<lparr> bcc_Name = ''polygon'', bcc_ID = 137, bcc_Disabled = False, bcc_BlockStep = 0,
     bcc_ChannelHubAddress = ''0x'' @ replicate 40 (CHR ''b''), bcc_ChannelHubSigValidators = [], bcc_LockingContractAddress = '''' \<rparr>)]"

definition cat_store :: MemoryStoreV1 where
  "cat_store = ok_or empty_store (NewMemoryStoreV1 (ok_or [] (verifyAssetsConfig cat_assets)) cat_chains)"

lemma cat_built:
  "is_ok (verifyAssetsConfig cat_assets) \<and> consistent_symbols (ok_or [] (verifyAssetsConfig cat_assets)) \<and>
   is_ok (NewMemoryStoreV1 (ok_or [] (verifyAssetsConfig cat_assets)) cat_chains) \<and>
   GetTokenAsset cat_store 137 (''0x'' @ replicate 40 (CHR ''A'')) = Inr ''usdc'' \<and> MS_GetAssetDecimals cat_store ''usdc'' = Inr 6 \<and>
   ValidateDecimalPrecision ref_libs (125, -2) 6 = Inr ()"
  by code_simp

theorem catalogue_amounts_convert_witness:
  "\<exists>dt n. MS_GetTokenDecimals cat_store 137 (''0x'' @ replicate 40 (CHR ''A'')) = Inr dt \<and>
     DecimalToBigInt ref_libs (125, -2) dt = Inr n \<and> of_int n = ref_val (125, -2) * 10 ^ unat dt"
proof -
  have built: "verifyAssetsConfig cat_assets = Inr (ok_or [] (verifyAssetsConfig cat_assets))"
    "NewMemoryStoreV1 (ok_or [] (verifyAssetsConfig cat_assets)) cat_chains = Inr cat_store"
    unfolding cat_store_def by (rule is_ok_or; use cat_built in blast)+
  show ?thesis
    using cat_built catalogue_amounts_convert [OF ref_dec.decimal_spec_axioms built(1) _ built(2)] by blast
qed

section \<open>Pagination\<close>

lemma limit_zero_iff: "snd (GetOffsetAndLimit (Some (orDefault pg)) DefaultLimit MaxLimit) = 0 \<longleftrightarrow> Option.bind pg pp_Limit = Some 0"
  by (auto simp: GetOffsetAndLimit_def orDefault_def min_def split: option.splits)

lemma failE_map_error: "failE m (mapE g r) = Inl e \<longleftrightarrow> (\<exists>e'. r = Inl e' \<and> e = Fail e' m)"
  by (cases r) (auto simp: failE_def mapE_def)

lemma bindE_Inr_error: "bindE r (\<lambda>x. Inr (g x)) = Inl e \<longleftrightarrow> r = Inl e"
  by (cases r) (simp_all add: bindE_def)

lemma calculatePaginationMetadata_error:
  "calculatePaginationMetadata n off limit = Inl e \<longleftrightarrow> limit = 0 \<and> e = Panic ''integer divide by zero''"
  by (auto simp: calculatePaginationMetadata_def Let_def)

lemma GetUserTransactions_error:
  "GetUserTransactions db w a ty f t (Some (orDefault pg)) = Inl e \<longleftrightarrow>
     Option.bind pg pp_Limit = Some 0 \<and> e = Panic ''integer divide by zero''"
  unfolding limit_zero_iff [symmetric]
  by (auto simp: GetUserTransactions_def Let_def bindE_Inr_error calculatePaginationMetadata_error split: prod.splits)

lemma GetApps_error:
  "GetApps db i ow (Some (orDefault pg)) = Inl e \<longleftrightarrow>
     Option.bind pg pp_Limit = Some 0 \<and> e = Panic ''integer divide by zero''"
  unfolding limit_zero_iff [symmetric]
  by (auto simp: GetApps_def Let_def bindE_Inr_error calculatePaginationMetadata_error split: prod.splits)


section \<open>Admission of gated actions\<close>

lemma NewActionGateway_ids:
  assumes "check_gate_keys acts seen = Inr ()" and "a \<in> set acts"
  shows "GatedAction_ID a \<noteq> 0"
  using assms by (induction acts seen rule: check_gate_keys.induct) (auto simp: Let_def split: if_splits)

text \<open>C28 (bounds). A gated action is admitted exactly while the user has done fewer of them in the last 24 hours than the
  stake left after paying for the user's applications allows; an admitted action is counted.\<close>

theorem gated_actions_bounded:
  assumes "NewActionGateway L cfg = Inr cfg" and "gm_get (lc_ActionGates cfg) action = Some c"
  shows "\<exists>stake rest k. GetTotalUserStaked L db user = Inr stake \<and> remaining_staked L cfg db user stake = Inr rest \<and>
     GetUserActionCount now db user action defaultTimeWindow = Inr k \<and>
     ((\<exists>db'. AllowAction L now cfg user action db = Inr ((), db')) = (k < stakedTo24hActionsAllowance L cfg action rest)) \<and>
     (\<forall>db'. AllowAction L now cfg user action db = Inr ((), db') \<longrightarrow>
        GetUserActionCount now db' user action defaultTimeWindow = Inr (k + 1))"
proof -
  have "GatedAction_ID action \<noteq> 0"
    using NewActionGateway_ids [of "map fst (lc_ActionGates cfg)" "[]" action] gm_get_key [OF assms(2)] assms(1)
    by (auto simp: NewActionGateway_def split: if_splits)
  then show ?thesis
    using assms(2)
    by (auto simp: AllowAction_def remaining_staked_def GetTotalUserStaked_def GetAppCount_def GetUserActionCount_def RecordAction_def
        Let_def not_le defaultTimeWindow_def split: if_splits)
qed

definition gate_cfg :: "ref_decimal ActionLimitConfig" where
  "gate_cfg = \<lparr> lc_LevelStepTokens = (1, 0), lc_AppCost = (1, 0),
     lc_ActionGates = [(''transfer'', \<lparr> gc_FreeActionsAllowance = 1, gc_IncreasePerLevel = 1 \<rparr>)] \<rparr>"

lemma gate_example:
  "NewActionGateway ref_libs gate_cfg = Inr gate_cfg \<and>
   gm_get (lc_ActionGates gate_cfg) ''transfer'' = Some \<lparr> gc_FreeActionsAllowance = 1, gc_IncreasePerLevel = 1 \<rparr>"
  by code_simp

theorem gated_actions_bounded_witness:
  "\<exists>rest k. GetUserActionCount 0 (empty_db :: ref_decimal db) ''0x1'' ''transfer'' defaultTimeWindow = Inr k \<and>
     (\<exists>db'. AllowAction ref_libs 0 gate_cfg ''0x1'' ''transfer'' empty_db = Inr ((), db')) =
       (k < stakedTo24hActionsAllowance ref_libs gate_cfg ''transfer'' rest)"
  using gated_actions_bounded [of ref_libs gate_cfg "''transfer''" _ empty_db "''0x1''" 0] gate_example by blast

section \<open>The rate limiter\<close>

definition bucket_ok :: "tokenBucket option \<Rightarrow> rat \<Rightarrow> bool" where
  "bucket_ok b t \<longleftrightarrow> (case b of None \<Rightarrow> True | Some k \<Rightarrow> 0 \<le> tb_tokens k \<and> tb_last k \<le> t)"

text \<open>The tokens a request at time \<open>t\<close> finds.\<close>

definition tokens_at :: "rat \<Rightarrow> rat \<Rightarrow> rat \<Rightarrow> tokenBucket option \<Rightarrow> rat" where
  "tokens_at perSec burst t b = (case b of None \<Rightarrow> burst | Some k \<Rightarrow> min (tb_tokens k + (t - tb_last k) * perSec) burst)"

lemma RateLimitMiddleware_eq:
  assumes "0 \<le> perSec"
  shows "RateLimitMiddleware perSec burst t b =
    (if tokens_at perSec burst t b < 1 then (False, if b = None then None else Some \<lparr> tb_tokens = tokens_at perSec burst t b, tb_last = t \<rparr>)
     else (True, Some \<lparr> tb_tokens = tokens_at perSec burst t b - 1, tb_last = t \<rparr>))"
  using assms by (auto simp: RateLimitMiddleware_def tokens_at_def Let_def min_def split: option.splits)

lemma tokens_at_nonneg: "0 \<le> perSec \<Longrightarrow> 0 \<le> burst \<Longrightarrow> bucket_ok b t \<Longrightarrow> 0 \<le> tokens_at perSec burst t b"
  by (auto simp: tokens_at_def bucket_ok_def split: option.splits)

lemma tokens_at_later: "0 \<le> perSec \<Longrightarrow> 0 \<le> burst \<Longrightarrow> t \<le> u \<Longrightarrow>
  tokens_at perSec burst u (Some \<lparr> tb_tokens = k, tb_last = t \<rparr>) \<le> k + perSec * (u - t)"
  by (simp add: tokens_at_def mult.commute)

lemma run_requests_bound:
  assumes "0 \<le> perSec" and "0 \<le> burst"
  shows "sorted (t # ts) \<Longrightarrow> bucket_ok b t \<Longrightarrow>
    of_nat (fst (run_requests perSec burst (t # ts) b)) \<le> tokens_at perSec burst t b + perSec * (last (t # ts) - t)"
proof (induction ts arbitrary: t b)
  case Nil
  then show ?case using assms tokens_at_nonneg [OF assms, of b t] by (auto simp: RateLimitMiddleware_eq)
next
  case (Cons u us)
  obtain ok b1 where m: "RateLimitMiddleware perSec burst t b = (ok, b1)" by fastforce
  let ?k = "tokens_at perSec burst t b"
  have k: "0 \<le> ?k" by (rule tokens_at_nonneg [OF assms Cons.prems(2)])
  have tu: "t \<le> u" and srt: "sorted (u # us)" using Cons.prems(1) by simp_all
  have b1: "bucket_ok b1 u"
    using m k tu by (auto simp: RateLimitMiddleware_eq [OF assms(1)] bucket_ok_def split: if_splits)
  have next_tokens: "tokens_at perSec burst u b1 + (if ok then 1 else 0) \<le> ?k + perSec * (u - t)"
  proof (cases "b1 = None")
    case True
    then have "b = None" "\<not> ok" using m by (auto simp: RateLimitMiddleware_eq [OF assms(1)] split: if_splits)
    then show ?thesis using True assms tu by (simp add: tokens_at_def)
  next
    case False
    then have "b1 = Some \<lparr> tb_tokens = ?k - (if ok then 1 else 0), tb_last = t \<rparr>"
      using m by (auto simp: RateLimitMiddleware_eq [OF assms(1)] split: if_splits)
    then show ?thesis using tokens_at_later [OF assms tu, of "?k - (if ok then 1 else 0)"] by simp
  qed
  have "of_nat (fst (run_requests perSec burst (u # us) b1)) \<le> tokens_at perSec burst u b1 + perSec * (last (u # us) - u)"
    by (rule Cons.IH [OF srt b1])
  then have "of_nat (fst (run_requests perSec burst (t # u # us) b)) \<le>
      tokens_at perSec burst u b1 + perSec * (last (u # us) - u) + (if ok then 1 else 0)"
    using m by (auto simp: split_beta)
  also have "\<dots> \<le> ?k + perSec * (u - t) + perSec * (last (u # us) - u)" using next_tokens by simp
  finally show ?case by (simp add: algebra_simps)
qed

lemma run_requests_bucket:
  assumes "0 \<le> perSec" and "0 \<le> burst"
  shows "sorted (ts @ [u]) \<Longrightarrow> (ts \<noteq> [] \<longrightarrow> bucket_ok b (hd ts)) \<Longrightarrow> bucket_ok b u \<Longrightarrow>
    bucket_ok (snd (run_requests perSec burst ts b)) u"
proof (induction ts arbitrary: b)
  case (Cons t ts)
  obtain ok b1 where m: "RateLimitMiddleware perSec burst t b = (ok, b1)" by fastforce
  have k: "0 \<le> tokens_at perSec burst t b" using tokens_at_nonneg [OF assms] Cons.prems(2) by simp
  have "bucket_ok b1 v" if "t \<le> v" for v
    using m k that by (auto simp: RateLimitMiddleware_eq [OF assms(1)] bucket_ok_def split: if_splits)
  moreover have "t \<le> u" "ts \<noteq> [] \<longrightarrow> t \<le> hd ts" using Cons.prems(1) by (cases ts; simp)+
  ultimately have "bucket_ok (snd (run_requests perSec burst ts b1)) u" using Cons.IH [of b1] Cons.prems(1) by simp
  then show ?case using m by (simp add: split_beta)
qed simp



end
