(* ===== verification/Channel_Properties.thy ===== *)
theory Channel_Properties
  imports Channel_Api Advancer_Properties Core_Properties
begin

text \<open>
  Properties of the channel endpoints: the wire format, what an accepted state has passed, and what a
  transfer does to sender and receiver.
\<close>

section \<open>What the store methods change and read\<close>

lemma AllowAction_frame: "AllowAction L now cfg w g db = Inr ((), db') \<Longrightarrow> \<exists>al. db' = db \<lparr> action_log := al \<rparr>"
  by (auto simp: AllowAction_def RecordAction_def Let_def split: option.splits if_splits intro: exI [of _ "action_log db"])

lemma LockUserState_frame: "LockUserState L w a db = Inr (x, db') \<Longrightarrow> \<exists>ub. db' = db \<lparr> user_balances := ub \<rparr>"
  by (auto simp: LockUserState_def Let_def split: option.splits intro: exI [of _ "user_balances db"])

lemma StoreUserState_frame:
  "StoreUserState L s db = Inr ((), db') \<Longrightarrow>
     \<exists>ub. db' = db \<lparr> states := states db @ [coreStateToDB L s], user_balances := ub \<rparr>"
  by (auto simp: StoreUserState_def Let_def split: if_splits)

lemma RecordTransaction_frame:
  "RecordTransaction tx db = Inr ((), db') \<Longrightarrow>
     \<exists>t. db' = db \<lparr> transactions := transactions db @ [t] \<rparr> \<and> tx_Amount t = tx_Amount tx \<and> tx_TxType t = tx_TxType tx \<and>
       tx_FromAccount t = ToLower (tx_FromAccount tx) \<and> tx_ToAccount t = ToLower (tx_ToAccount tx)"
  by (auto simp: RecordTransaction_def Let_def split: if_splits)

lemma find_channel_frame:
  "find_channel (db \<lparr> action_log := al \<rparr>) = find_channel db" "find_channel (db \<lparr> user_balances := ub \<rparr>) = find_channel db"
  "find_channel (db \<lparr> states := ss \<rparr>) = find_channel db"
  by (simp_all add: find_channel_def fun_eq_iff)

lemmas read_defs = CheckOpenChannel_def GetLastUserState_def last_user_row_def load_opt_def load_state_def join_channel_def
  find_channel_frame EnsureNoOngoingStateTransitions_def ValidateChannelSessionKeyForAsset_def getChannelSigValidator_def

text \<open>Neither the action log nor the balance rows influence what the handlers read.\<close>

lemma read_action_log [simp]:
  "CheckOpenChannel (db \<lparr> action_log := al \<rparr>) w a = CheckOpenChannel db w a"
  "GetLastUserState (db \<lparr> action_log := al \<rparr>) w a b = GetLastUserState db w a b"
  "EnsureNoOngoingStateTransitions (db \<lparr> action_log := al \<rparr>) w a = EnsureNoOngoingStateTransitions db w a"
  "getChannelSigValidator now (db \<lparr> action_log := al \<rparr>) a = getChannelSigValidator now db a"
  by (simp_all add: read_defs cong: option.case_cong)

lemma read_user_balances [simp]:
  "CheckOpenChannel (db \<lparr> user_balances := ub \<rparr>) w a = CheckOpenChannel db w a"
  "GetLastUserState (db \<lparr> user_balances := ub \<rparr>) w a b = GetLastUserState db w a b"
  "EnsureNoOngoingStateTransitions (db \<lparr> user_balances := ub \<rparr>) w a = EnsureNoOngoingStateTransitions db w a"
  "getChannelSigValidator now (db \<lparr> user_balances := ub \<rparr>) a = getChannelSigValidator now db a"
  by (simp_all add: read_defs cong: option.case_cong)

text \<open>A new state of one wallet does not change the last state of another.\<close>

lemma read_other_wallet:
  assumes "sr_UserWallet r \<noteq> ToLower w"
  shows "GetLastUserState (db \<lparr> states := states db @ [r] \<rparr>) w a b = GetLastUserState db w a b"
proof -
  have "last_user_row (db \<lparr> states := states db @ [r] \<rparr>) w a b = last_user_row db w a b"
    using assms by (simp add: last_user_row_def)
  then show ?thesis by (simp add: GetLastUserState_def load_opt_def load_state_def join_channel_def find_channel_frame cong: option.case_cong)
qed

section \<open>The wire format\<close>

definition same_ledger :: "('d \<Rightarrow> rat) \<Rightarrow> 'd Ledger \<Rightarrow> 'd Ledger \<Rightarrow> bool" where
  "same_ledger val l m \<longleftrightarrow> l_TokenAddress m = l_TokenAddress l \<and> l_BlockchainID m = l_BlockchainID l \<and> ledger_vals val m = ledger_vals val l"

text \<open>Two states that differ only in how their amounts are represented.\<close>

definition same_state :: "('d \<Rightarrow> rat) \<Rightarrow> 'd State \<Rightarrow> 'd State \<Rightarrow> bool" where
  "same_state val s t \<longleftrightarrow>
     s_ID t = s_ID s \<and> s_Asset t = s_Asset s \<and> s_UserWallet t = s_UserWallet s \<and> s_Epoch t = s_Epoch s \<and> s_Version t = s_Version s \<and>
     s_HomeChannelID t = s_HomeChannelID s \<and> s_EscrowChannelID t = s_EscrowChannelID s \<and> s_UserSig t = s_UserSig s \<and> s_NodeSig t = s_NodeSig s \<and>
     t_Type (s_Transition t) = t_Type (s_Transition s) \<and> t_TxID (s_Transition t) = t_TxID (s_Transition s) \<and>
     t_AccountID (s_Transition t) = t_AccountID (s_Transition s) \<and> val (t_Amount (s_Transition t)) = val (t_Amount (s_Transition s)) \<and>
     same_ledger val (s_HomeLedger s) (s_HomeLedger t) \<and> rel_option (same_ledger val) (s_EscrowLedger s) (s_EscrowLedger t)"

context decimal_spec
begin

lemma toCoreLedger_ledgerToRPC: "\<exists>m. toCoreLedger L (ledgerToRPC L l) = Inr m \<and> same_ledger val l m"
proof -
  obtain a b c d where
    "dNewFromString L (dString L (l_UserBalance l)) = Inr a" "val a = val (l_UserBalance l)"
    "dNewFromString L (dString L (l_UserNetFlow l)) = Inr b" "val b = val (l_UserNetFlow l)"
    "dNewFromString L (dString L (l_NodeBalance l)) = Inr c" "val c = val (l_NodeBalance l)"
    "dNewFromString L (dString L (l_NodeNetFlow l)) = Inr d" "val d = val (l_NodeNetFlow l)"
    using String_val by metis
  then show ?thesis by (simp add: toCoreLedger_def ledgerToRPC_def same_ledger_def ledger_vals_def)
qed

lemma toCoreState_coreStateToRPC: "\<exists>t. toCoreState L (coreStateToRPC L s) = Inr t \<and> same_state val s t"
proof -
  obtain a where a: "dNewFromString L (dString L (t_Amount (s_Transition s))) = Inr a" "val a = val (t_Amount (s_Transition s))"
    using String_val by metis
  obtain h where h: "toCoreLedger L (ledgerToRPC L (s_HomeLedger s)) = Inr h" "same_ledger val (s_HomeLedger s) h"
    using toCoreLedger_ledgerToRPC by blast
  obtain e where e: "(case map_option (ledgerToRPC L) (s_EscrowLedger s) of None \<Rightarrow> Inr None | Some l \<Rightarrow> mapE Some (toCoreLedger L l)) = Inr e"
      "rel_option (same_ledger val) (s_EscrowLedger s) e"
  proof (cases "s_EscrowLedger s")
    case (Some l)
    then show ?thesis using that toCoreLedger_ledgerToRPC [of l] by force
  qed (use that in simp)
  show ?thesis using a h e by (simp add: toCoreState_def coreStateToRPC_def same_state_def Let_def)
qed

end

text \<open>C22 (roundtrip). A state sent over the wire and read back is the same state: identifiers, signatures and
  counters literally, amounts as numbers.\<close>

theorem wire_state_round_trip:
  assumes "decimal_spec L val"
  shows "\<exists>t. toCoreState L (coreStateToRPC L s) = Inr t \<and> same_state val s t"
  by (rule decimal_spec.toCoreState_coreStateToRPC [OF assms])

theorem wire_state_round_trip_witness:
  "\<exists>t. toCoreState ref_libs (coreStateToRPC ref_libs ex_lock) = Inr t \<and> same_state ref_val ex_lock t"
  by (rule wire_state_round_trip [OF ref_dec.decimal_spec_axioms])

section \<open>Submitting a state\<close>

text \<open>The user's signature over the packed state is of a kind the channel approved and valid for the wallet.\<close>

definition user_signed :: "'d libs \<Rightarrow> int \<Rightarrow> 'd db \<Rightarrow> string \<Rightarrow> 'd State \<Rightarrow> bytes \<Rightarrow> bool" where
  "user_signed L now db approved s packed \<longleftrightarrow>
     (\<exists>sig bytes ty. s_UserSig s = Some sig \<and> hexutilDecode L sig = Inr bytes \<and> GetSignerType bytes = Inr ty \<and>
        IsChannelSignerSupported L approved ty \<and>
        ChannelSigValidator_Verify L (getChannelSigValidator now db (s_Asset s)) (s_UserWallet s) packed bytes = Inr ())"

lemma checkUserSig_ok:
  "checkUserSig L now m1 m2 m3 approved s packed db = Inr ((), db') \<longleftrightarrow> db' = db \<and> user_signed L now db approved s packed"
  by (auto simp: checkUserSig_def user_signed_def split: option.splits)

text \<open>All checks a submitted state has passed, in terms of the database before the request.\<close>

definition state_admitted :: "'d libs \<Rightarrow> int \<Rightarrow> 'd ChannelHandler \<Rightarrow> 'd db \<Rightarrow> 'd State \<Rightarrow> 'd State \<Rightarrow> bytes \<Rightarrow> bool" where
  "state_admitted L now h db cur s packed \<longleftrightarrow>
     (\<exists>last approved. GetLastUserState db (s_UserWallet s) (s_Asset s) False = Inr last \<and> cur = orVoid L (s_Asset s) (s_UserWallet s) last \<and>
        CheckOpenChannel db (s_UserWallet s) (s_Asset s) = Inr (approved, True) \<and>
        EnsureNoOngoingStateTransitions db (s_UserWallet cur) (s_Asset cur) = Inr () \<and>
        ValidateAdvancement L (asset_store (h_memoryStore h)) cur s = Inr () \<and>
        PackState L (asset_store (h_memoryStore h)) s = Inr packed \<and> user_signed L now db approved s packed)"

lemma user_signed_frame [simp]:
  "user_signed L now (db \<lparr> action_log := al \<rparr>) approved s packed = user_signed L now db approved s packed"
  "user_signed L now (db \<lparr> user_balances := ub \<rparr>) approved s packed = user_signed L now db approved s packed"
  by (simp_all add: user_signed_def)

lemma SubmitState_tx_ok:
  assumes "SubmitState_tx L now h s db = Inr (sig, db')"
  shows "\<exists>cur packed al ub db1. state_admitted L now h db cur s packed \<and>
     nodeSign L (h_nodeKey h) packed = Inr sig \<and>
     StoreUserState L (s \<lparr> s_NodeSig := Some sig \<rparr>) (db \<lparr> action_log := al, user_balances := ub \<rparr>) = Inr ((), db1) \<and>
     recordSubmitted L now h (s \<lparr> s_NodeSig := Some sig \<rparr>) db1 = Inr ((), db')"
proof -
  from assms obtain dba dbl last approved packed db1 x where
    al: "AllowAction L now (h_actionGateway h) (s_UserWallet s) (TransitionType_GatedAction (t_Type (s_Transition s))) db = Inr ((), dba)"
    and lk: "LockUserState L (s_UserWallet s) (s_Asset s) dba = Inr (x, dbl)"
    and rest: "CheckOpenChannel dbl (s_UserWallet s) (s_Asset s) = Inr (approved, True)"
      "GetLastUserState dbl (s_UserWallet s) (s_Asset s) False = Inr last"
      "EnsureNoOngoingStateTransitions dbl (s_UserWallet (orVoid L (s_Asset s) (s_UserWallet s) last)) (s_Asset (orVoid L (s_Asset s) (s_UserWallet s) last)) = Inr ()"
      "ValidateAdvancement L (asset_store (h_memoryStore h)) (orVoid L (s_Asset s) (s_UserWallet s) last) s = Inr ()"
      "PackState L (asset_store (h_memoryStore h)) s = Inr packed" "user_signed L now dbl approved s packed"
      "nodeSign L (h_nodeKey h) packed = Inr sig"
      "StoreUserState L (s \<lparr> s_NodeSig := Some sig \<rparr>) dbl = Inr ((), db1)"
      "recordSubmitted L now h (s \<lparr> s_NodeSig := Some sig \<rparr>) db1 = Inr ((), db')"
    by (auto simp: SubmitState_tx_def Let_def checkUserSig_ok)
  obtain a u where "dba = db \<lparr> action_log := a \<rparr>" "dbl = dba \<lparr> user_balances := u \<rparr>"
    using AllowAction_frame [OF al] LockUserState_frame [OF lk] by blast
  then have d: "dbl = db \<lparr> action_log := a, user_balances := u \<rparr>" by simp
  have "state_admitted L now h db (orVoid L (s_Asset s) (s_UserWallet s) last) s packed"
    unfolding state_admitted_def using rest unfolding d by auto
  then show ?thesis using rest unfolding d by blast
qed

lemma recordSubmitted_types:
  assumes "recordSubmitted L now h s db = Inr ((), db')"
  shows "t_Type (s_Transition s) \<in> {TransitionTypeAcknowledgement, TransitionTypeHomeDeposit, TransitionTypeHomeWithdrawal,
    TransitionTypeTransferSend, TransitionTypeFinalize}"
  using assms by (auto simp: recordSubmitted_def Let_def split: if_splits)

lemma recordTransition_states: "recordTransition L now s rs db = Inr ((), db') \<Longrightarrow> states db' = states db"
  by (auto simp: recordTransition_def dest!: RecordTransaction_frame)

lemma issueTransferReceiverState_stored:
  "issueTransferReceiverState L h s db = Inr (r, db') \<Longrightarrow> states db' = states db @ [coreStateToDB L r]"
  by (auto simp: issueTransferReceiverState_def Let_def split: prod.splits dest!: LockUserState_frame StoreUserState_frame)

lemma recordSubmitted_states:
  assumes "recordSubmitted L now h s db = Inr ((), db')"
  shows "\<exists>more. states db' = states db @ more"
  using assms by (auto simp: recordSubmitted_def Let_def split: if_splits dest!: recordTransition_states issueTransferReceiverState_stored)

section \<open>An example transfer\<close>

text \<open>Small stand-ins for hashing, packing and signing, with the decimals of the reference instance: enough to
  run requests by rewriting.\<close>

fun small_encode :: "abi_value \<Rightarrow> bytes" where
  "small_encode (ABool b) = [if b then 1 else 0]"
| "small_encode (AUint w n) = [of_int n]"
| "small_encode (AInt w n) = [of_int n]"
| "small_encode (AAddress b) = b"
| "small_encode (AFixedBytes b) = b"
| "small_encode (ABytes b) = b"
| "small_encode (AString s) = string_bytes s"
| "small_encode (ATuple vs) = concat (map small_encode vs)"
| "small_encode (AArray vs) = concat (map small_encode vs)"

definition small_pack :: "abi_value list \<Rightarrow> bytes result" where "small_pack vs = Inr (concat (map small_encode vs))"
definition small_sign :: "bytes \<Rightarrow> bytes \<Rightarrow> bytes result" where "small_sign h k = Inr (k @ replicate 64 0)"
definition small_address :: "bytes \<Rightarrow> bytes" where "small_address k = replicate 19 0 @ take 1 k"
definition small_recover :: "bytes \<Rightarrow> bytes \<Rightarrow> bytes result" where "small_recover h s = Inr (replicate 19 0 @ take 1 s)"
definition small_hash :: "bytes \<Rightarrow> bytes" where "small_hash b = b"

definition small_libs :: "ref_decimal libs" where
  "small_libs = ref_libs \<lparr> keccak256 := small_hash, abiPack := small_pack, HexToHash := from_hex, HexToAddress := from_hex,
     ecSign := small_sign, ecPrivToAddress := small_address, ecSigToAddress := small_recover \<rparr>"

definition ref_negate :: "ref_decimal \<Rightarrow> ref_decimal" where "ref_negate d = (- fst d, snd d)"
definition ref_abs :: "ref_decimal \<Rightarrow> ref_decimal" where "ref_abs d = (\<bar>fst d\<bar>, snd d)"
definition ref_int_part :: "ref_decimal \<Rightarrow> uint64" where "ref_int_part d = of_int (ref_floor d)"

lemma small_libs_code [code]:
  "small_libs = \<lparr> dZero = (0, 0), dNew = Pair, dAdd = ref_add, dSub = ref_sub, dMul = ref_mul, dDiv = ref_div,
     dNeg = ref_negate, dAbs = ref_abs, dEqual = ref_equal, dLessThan = ref_less, dIsInteger = ref_is_integer,
     dBigInt = ref_bigint, dIntPart = ref_int_part, dExponent = snd, dString = ref_string, dNewFromString = ref_from_string,
     keccak256 = small_hash, abiPack = small_pack, abiUnpackSessionKeySig = ref_unpack, HexToHash = from_hex, HexToAddress = from_hex,
     IsHexAddress = ref_is_hex_address, hashHex = ref_encode, addressHex = ref_encode, hexutilDecode = ref_decode, hexutilEncode = ref_encode,
     ecSign = small_sign, ecPrivToAddress = small_address, ecSigToAddress = small_recover \<rparr>"
  by (simp add: small_libs_def ref_libs_def fun_eq_iff ref_negate_def ref_abs_def ref_int_part_def)

lemma small_decimal: "decimal_spec small_libs ref_val"
  using ref_dec.decimal_spec_axioms by (simp add: decimal_spec_def small_libs_def)

text \<open>A wallet with 100 usdc in an open channel sends 30 of them to a user without a channel.\<close>

definition tr_key :: bytes where "tr_key = [7]"

definition tr_wallet :: string where "tr_wallet = ''0x'' @ replicate 39 (CHR ''0'') @ ''7''"

definition tr_receiver :: string where "tr_receiver = ''0x'' @ replicate 40 (CHR ''2'')"

definition tr_funded :: "ref_decimal State" where
  "tr_funded = (let n = NextState small_libs (NewVoidState small_libs ''usdc'' tr_wallet);
      c = n \<lparr> s_HomeChannelID := Some ''0xaa'', s_HomeLedger := (s_HomeLedger n) \<lparr> l_TokenAddress := ''0x22'', l_BlockchainID := 137 \<rparr> \<rparr>
    in (ok_state (ApplyHomeDepositTransition small_libs c (100, 0)) c) \<lparr> s_NodeSig := Some ''0x00'' \<rparr>)"

definition tr_handler :: "ref_decimal ChannelHandler" where
  "tr_handler = \<lparr> h_memoryStore = empty_store \<lparr> ms_assetDecimals := [(''usdc'', 6)], ms_tokenDecimals := [(137, [(''0x22'', 6)])] \<rparr>,
     h_actionGateway = \<lparr> lc_LevelStepTokens = (1, 0), lc_AppCost = (1, 0), lc_ActionGates = [] \<rparr>,
     h_nodeKey = [5], h_nodeAddress = '''', h_minChallenge = 0, h_maxChallenge = 0, h_maxSessionKeyIDs = 0 \<rparr>"

definition tr_db :: "ref_decimal db" where
  "tr_db = empty_db \<lparr> states := [coreStateToDB small_libs tr_funded],
     channels := [\<lparr> cr_ChannelID = ''0xaa'', cr_UserWallet = tr_wallet, cr_Asset = ''usdc'', cr_Type = ChannelTypeHome,
       cr_BlockchainID = 137, cr_Token = ''0x22'', cr_ChallengeDuration = 0, cr_ChallengeExpiresAt = None, cr_Nonce = 1,
       cr_ApprovedSigValidators = '''', cr_Status = ChannelStatusOpen, cr_StateVersion = 1, cr_CreatedAt = 0, cr_UpdatedAt = 0 \<rparr>] \<rparr>"

definition tr_sig :: "bytes \<Rightarrow> ref_decimal State \<Rightarrow> string" where
  "tr_sig key s = hexutilEncode small_libs (ok_bytes (ChannelDefaultSigner_Sign small_libs key
     (ok_bytes (PackState small_libs (asset_store (h_memoryStore tr_handler)) s))))"

definition tr_state :: "ref_decimal State" where
  "tr_state = (let s = ok_state (ApplyTransferSendTransition small_libs (NextState small_libs tr_funded) tr_receiver (30, 0)) tr_funded
     in s \<lparr> s_UserSig := Some (tr_sig tr_key s) \<rparr>)"

definition tr_request :: RPC_StateV1 where "tr_request = coreStateToRPC small_libs tr_state"

definition tr_result :: "string result \<times> ref_decimal db" where
  "tr_result = SubmitState small_libs 1000 tr_handler tr_request tr_db"

lemma tr_result_accepted: "(case fst tr_result of Inr _ \<Rightarrow> True | Inl _ \<Rightarrow> False)"
  by code_simp

lemma tr_accepted: "\<exists>sig. SubmitState small_libs 1000 tr_handler tr_request tr_db = (Inr sig, snd tr_result)"
  using tr_result_accepted by (auto simp: tr_result_def split: sum.splits) (metis prod.collapse)

lemma tr_request_type: "rt_Type (rs_Transition tr_request) = TransitionTypeTransferSend"
  by code_simp

section \<open>Acceptance\<close>

text \<open>C23 (safety). The node signs and stores a submitted state only if the user has an open channel for the
  asset and no on-chain operation pending, the state is a legal successor of the last stored one, its packed
  form carries a valid signature of the user (or of an authorised session key) of an approved kind, and the transition is an
  acknowledgement, deposit, withdrawal, transfer or finalize. A refused request leaves the database as it was.\<close>

theorem submit_state_sound:
  "(\<forall>sig db'. SubmitState L now h req db = (Inr sig, db') \<longrightarrow>
      (\<exists>s cur packed. toCoreState L req = Inr s \<and> state_admitted L now h db cur s packed \<and>
         nodeSign L (h_nodeKey h) packed = Inr sig \<and>
         t_Type (s_Transition s) \<in> {TransitionTypeAcknowledgement, TransitionTypeHomeDeposit, TransitionTypeHomeWithdrawal,
           TransitionTypeTransferSend, TransitionTypeFinalize} \<and>
         coreStateToDB L (s \<lparr> s_NodeSig := Some sig \<rparr>) \<in> set (states db'))) \<and>
   (\<forall>e db'. SubmitState L now h req db = (Inl e, db') \<longrightarrow> db' = db)"
proof (intro conjI allI impI)
  fix sig db'
  assume "SubmitState L now h req db = (Inr sig, db')"
  then obtain s where s: "toCoreState L req = Inr s" "SubmitState_tx L now h s db = Inr (sig, db')"
    by (auto simp: SubmitState_def endpoint_ok)
  obtain cur packed al ub db1 where a: "state_admitted L now h db cur s packed" "nodeSign L (h_nodeKey h) packed = Inr sig"
    "StoreUserState L (s \<lparr> s_NodeSig := Some sig \<rparr>) (db \<lparr> action_log := al, user_balances := ub \<rparr>) = Inr ((), db1)"
    "recordSubmitted L now h (s \<lparr> s_NodeSig := Some sig \<rparr>) db1 = Inr ((), db')"
    using SubmitState_tx_ok [OF s(2)] by blast
  have "coreStateToDB L (s \<lparr> s_NodeSig := Some sig \<rparr>) \<in> set (states db')"
    using StoreUserState_frame [OF a(3)] recordSubmitted_states [OF a(4)] by auto
  then show "\<exists>s cur packed. toCoreState L req = Inr s \<and> state_admitted L now h db cur s packed \<and>
         nodeSign L (h_nodeKey h) packed = Inr sig \<and>
         t_Type (s_Transition s) \<in> {TransitionTypeAcknowledgement, TransitionTypeHomeDeposit, TransitionTypeHomeWithdrawal,
           TransitionTypeTransferSend, TransitionTypeFinalize} \<and>
         coreStateToDB L (s \<lparr> s_NodeSig := Some sig \<rparr>) \<in> set (states db')"
    using s(1) a(1,2) recordSubmitted_types [OF a(4)] by auto
qed (auto simp: SubmitState_def dest: endpoint_error)

theorem submit_state_sound_witness:
  "\<exists>sig s cur packed. SubmitState small_libs 1000 tr_handler tr_request tr_db = (Inr sig, snd tr_result) \<and>
     toCoreState small_libs tr_request = Inr s \<and> state_admitted small_libs 1000 tr_handler tr_db cur s packed \<and>
     coreStateToDB small_libs (s \<lparr> s_NodeSig := Some sig \<rparr>) \<in> set (states (snd tr_result))"
  using tr_accepted submit_state_sound [of small_libs 1000 tr_handler tr_request tr_db] by blast

section \<open>Transfers\<close>

text \<open>What a wallet owns of an asset: the user balance of its last state, nothing after a finalize.\<close>

definition funds_of :: "('d \<Rightarrow> rat) \<Rightarrow> 'd db \<Rightarrow> string \<Rightarrow> string \<Rightarrow> rat" where
  "funds_of val db wallet asset =
     (case GetLastUserState db wallet asset False of Inr (Some s) \<Rightarrow> fst (home_before val s) | _ \<Rightarrow> 0)"

lemma sr_fields [simp]:
  "sr_UserWallet (coreStateToDB L s) = ToLower (s_UserWallet s)" "sr_Asset (coreStateToDB L s) = s_Asset s"
  "sr_HomeUserBalance (coreStateToDB L s) = l_UserBalance (s_HomeLedger s)"
  by (simp_all add: coreStateToDB_def)

lemma fst_ledger_vals [simp]: "fst (ledger_vals val l) = val (l_UserBalance l)"
  by (simp add: ledger_vals_def)

lemma signIssued_fields:
  "signIssued L store k s = Inr s' \<Longrightarrow> s_UserWallet s' = s_UserWallet s \<and> s_Asset s' = s_Asset s \<and> s_HomeLedger s' = s_HomeLedger s"
  by (auto simp: signIssued_def split: if_splits)

lemma ApplyTransferReceive_fields:
  "ApplyTransferReceiveTransition L s w a x = Inr (t, s') \<Longrightarrow> s_UserWallet s' = s_UserWallet s \<and> s_Asset s' = s_Asset s"
  by (auto simp: ApplyTransferReceiveTransition_def Let_def)

context decimal_spec
begin

lemma home_before_orVoid:
  "GetLastUserState db w a False = Inr st \<Longrightarrow> fst (home_before val (orVoid L asset wallet st)) = funds_of val db w a"
  by (auto simp: funds_of_def orVoid_def home_before_def NewVoidState_def zero_ledger_def split: option.splits)

lemma fst_home_effect_send: "fst (home_effect TransitionTypeTransferSend a v) = fst v - a"
  and fst_home_effect_receive: "fst (home_effect TransitionTypeTransferReceive a v) = fst v + a"
  by (cases v; simp add: home_effect.simps)+

lemma issueTransferReceiverState_effect:
  assumes "issueTransferReceiverState L h s db = Inr (r, db')"
  shows "\<exists>rcv. NormalizeHexAddress (t_AccountID (s_Transition s)) = Inr rcv \<and> ToLower rcv \<noteq> ToLower (s_UserWallet s) \<and>
     (\<exists>st. GetLastUserState db rcv (s_Asset s) False = Inr st \<and>
        val (l_UserBalance (s_HomeLedger r)) = fst (home_before val (orVoid L (s_Asset s) rcv st)) + val (t_Amount (s_Transition s)) \<and>
        s_UserWallet r = s_UserWallet (orVoid L (s_Asset s) rcv st) \<and> s_Asset r = s_Asset (orVoid L (s_Asset s) rcv st)) \<and>
     (\<exists>ub. db' = db \<lparr> states := states db @ [coreStateToDB L r], user_balances := ub \<rparr>)"
proof -
  from assms obtain rcv x db1 st t n where
    rcv: "NormalizeHexAddress (t_AccountID (s_Transition s)) = Inr rcv" "\<not> EqualFold (s_UserWallet s) rcv"
    and lk: "LockUserState L rcv (s_Asset s) db = Inr (x, db1)"
    and st: "GetLastUserState db1 rcv (s_Asset s) False = Inr st"
    and ap: "ApplyTransferReceiveTransition L (NextState L (orVoid L (s_Asset s) rcv st)) (s_UserWallet s)
               (t_Amount (s_Transition s)) (t_TxID (s_Transition s)) = Inr (t, n)"
    and sg: "signIssued L (asset_store (h_memoryStore h)) (h_nodeKey h) n = Inr r"
    and so: "StoreUserState L r db1 = Inr ((), db')"
    by (auto simp: issueTransferReceiverState_def Let_def split: prod.splits)
  obtain ub where db1: "db1 = db \<lparr> user_balances := ub \<rparr>" using LockUserState_frame [OF lk] by blast
  have "val (l_UserBalance (s_HomeLedger n)) = fst (home_before val (orVoid L (s_Asset s) rcv st)) + val (t_Amount (s_Transition s))"
    using ApplyTransferReceive_effect [OF ap] receive_transition [OF ap]
    by (simp add: records_effect_def NextState_HomeLedger home_before_def zero_ledger_def flip: fst_ledger_vals)
       (auto simp: fst_home_effect_receive)
  then show ?thesis
    using rcv st sg signIssued_fields [OF sg] ApplyTransferReceive_fields [OF ap] StoreUserState_frame [OF so]
    unfolding db1 by (auto simp: EqualFold_def)
qed

end

lemma first_by_in: "first_by wins xs = Some x \<Longrightarrow> x \<in> set xs"
  by (induction xs arbitrary: x) (auto split: option.splits if_splits)

lemma GetLastUserState_key:
  "GetLastUserState db w a b = Inr (Some s) \<Longrightarrow> s_UserWallet s = ToLower w \<and> s_Asset s = a"
  by (auto simp: GetLastUserState_def last_user_row_def load_opt_def load_state_def databaseStateToCore_def Let_def
      split: option.splits dest!: first_by_in)

lemma orVoid_key:
  assumes "GetLastUserState db w a False = Inr st"
  shows "ToLower (s_UserWallet (orVoid L a w st)) = ToLower w" "s_Asset (orVoid L a w st) = a"
  using GetLastUserState_key [of db w a False] assms by (auto simp: orVoid_def NewVoidState_def split: option.splits)

lemma NormalizeHexAddress_eq: "NormalizeHexAddress s = Inr r \<Longrightarrow> r = ToLower s"
  by (auto simp: NormalizeHexAddress_def Let_def split: if_splits)

lemma recordTransition_transfer:
  assumes "recordTransition L now s (Some r) db = Inr ((), db')" and "t_Type (s_Transition s) = TransitionTypeTransferSend"
  shows "\<exists>t. db' = db \<lparr> transactions := transactions db @ [t] \<rparr> \<and> tx_TxType t = TransactionTypeTransfer \<and>
    tx_FromAccount t = ToLower (s_UserWallet s) \<and> tx_ToAccount t = ToLower (t_AccountID (s_Transition s)) \<and>
    tx_Amount t = t_Amount (s_Transition s)"
  using assms by (auto simp: recordTransition_def NewTransactionFromTransition_def transaction_route_def NewTransaction_def
      dest!: RecordTransaction_frame)

lemma state_row_other_wallet:
  assumes "ToLower w \<noteq> ToLower (s_UserWallet s)"
  shows "GetLastUserState (db \<lparr> action_log := al, states := states db @ [coreStateToDB L s], user_balances := ub \<rparr>) w a b =
    GetLastUserState db w a b"
  using read_other_wallet [of "coreStateToDB L s" w "db \<lparr> action_log := al \<rparr>"] assms by simp

text \<open>C24 (invariant). An accepted transfer conserves funds: it appends one state for the sender and one for the receiver,
  distinct wallets, for the same asset; the sender's balance drops by exactly the positive amount of the transition, the receiver's
  grows by it, no other state is touched, and a transfer transaction of that amount between the two is recorded.\<close>

theorem transfer_conserves:
  assumes "decimal_spec L val" and "SubmitState L now h req db = (Inr sig, db')"
    and "rt_Type (rs_Transition req) = TransitionTypeTransferSend"
  shows "\<exists>sender receiver t. states db' = states db @ [sender, receiver] \<and> transactions db' = transactions db @ [t] \<and>
     sr_UserWallet sender = ToLower (rs_UserWallet req) \<and> sr_UserWallet receiver = ToLower (rt_AccountID (rs_Transition req)) \<and>
     sr_UserWallet sender \<noteq> sr_UserWallet receiver \<and> sr_Asset sender = rs_Asset req \<and> sr_Asset receiver = rs_Asset req \<and>
     0 < val (tx_Amount t) \<and> tx_TxType t = TransactionTypeTransfer \<and>
     tx_FromAccount t = sr_UserWallet sender \<and> tx_ToAccount t = sr_UserWallet receiver \<and>
     val (sr_HomeUserBalance sender) = funds_of val db (rs_UserWallet req) (rs_Asset req) - val (tx_Amount t) \<and>
     val (sr_HomeUserBalance receiver) = funds_of val db (rt_AccountID (rs_Transition req)) (rs_Asset req) + val (tx_Amount t)"
proof -
  obtain s where s: "toCoreState L req = Inr s" "SubmitState_tx L now h s db = Inr (sig, db')"
    using assms(2) by (auto simp: SubmitState_def endpoint_ok)
  have req: "t_Type (s_Transition s) = TransitionTypeTransferSend" "s_UserWallet s = rs_UserWallet req"
    "s_Asset s = rs_Asset req" "t_AccountID (s_Transition s) = rt_AccountID (rs_Transition req)"
    using s(1) assms(3) by (auto simp: toCoreState_def Let_def)
  let ?p = "s \<lparr> s_NodeSig := Some sig \<rparr>"
  obtain cur packed al ub db1 where a: "state_admitted L now h db cur s packed"
    "StoreUserState L ?p (db \<lparr> action_log := al, user_balances := ub \<rparr>) = Inr ((), db1)"
    "recordSubmitted L now h ?p db1 = Inr ((), db')"
    using SubmitState_tx_ok [OF s(2)] by blast
  obtain r db2 where r: "issueTransferReceiverState L h ?p db1 = Inr (r, db2)" "recordTransition L now ?p (Some r) db2 = Inr ((), db')"
    using a(3) req(1) by (auto simp: recordSubmitted_def)
  obtain ub1 where db1: "db1 = db \<lparr> action_log := al, states := states db @ [coreStateToDB L ?p], user_balances := ub1 \<rparr>"
    using StoreUserState_frame [OF a(2)] by auto
  obtain last where last: "GetLastUserState db (s_UserWallet s) (s_Asset s) False = Inr last"
    "cur = orVoid L (s_Asset s) (s_UserWallet s) last" "ValidateAdvancement L (asset_store (h_memoryStore h)) cur s = Inr ()"
    using a(1) by (auto simp: state_admitted_def)
  obtain rcv st ub2 where rcv: "NormalizeHexAddress (t_AccountID (s_Transition s)) = Inr rcv" "ToLower rcv \<noteq> ToLower (s_UserWallet s)"
    "GetLastUserState db1 rcv (s_Asset s) False = Inr st"
    "val (l_UserBalance (s_HomeLedger r)) = fst (home_before val (orVoid L (s_Asset s) rcv st)) + val (t_Amount (s_Transition s))"
    "s_UserWallet r = s_UserWallet (orVoid L (s_Asset s) rcv st)" "s_Asset r = s_Asset (orVoid L (s_Asset s) rcv st)"
    "db2 = db1 \<lparr> states := states db1 @ [coreStateToDB L r], user_balances := ub2 \<rparr>"
    using decimal_spec.issueTransferReceiverState_effect [OF assms(1) r(1)] by auto
  have st: "GetLastUserState db rcv (s_Asset s) False = Inr st"
    using rcv(2,3) unfolding db1 by (subst (asm) state_row_other_wallet) simp_all
  obtain t where t: "db' = db2 \<lparr> transactions := transactions db2 @ [t] \<rparr>" "tx_TxType t = TransactionTypeTransfer"
    "tx_FromAccount t = ToLower (s_UserWallet s)" "tx_ToAccount t = ToLower (t_AccountID (s_Transition s))" "tx_Amount t = t_Amount (s_Transition s)"
    using recordTransition_transfer [OF r(2)] req(1) by auto
  have snd_bal: "val (l_UserBalance (s_HomeLedger s)) = funds_of val db (s_UserWallet s) (s_Asset s) - val (t_Amount (s_Transition s))"
    using decimal_spec.accepted_home_ledger(1) [OF assms(1) last(3)] req(1)
      decimal_spec.home_before_orVoid [OF assms(1) last(1)] last(2)
      decimal_spec.fst_home_effect_send [OF assms(1)]
    by (metis fst_ledger_vals)
  have amt: "0 < val (t_Amount (s_Transition s))"
    using decimal_spec.accepted_amount(2) [OF assms(1) last(3)] req(1) by simp
  have rl: "rcv = ToLower (rt_AccountID (rs_Transition req))" "ToLower rcv = ToLower (rt_AccountID (rs_Transition req))"
    using NormalizeHexAddress_eq [OF rcv(1)] req(4) by simp_all
  have bal: "funds_of val db rcv (s_Asset s) = funds_of val db (rt_AccountID (rs_Transition req)) (s_Asset s)"
    by (simp add: funds_of_def GetLastUserState_def last_user_row_def rl(2))
  show ?thesis
    using snd_bal amt rcv(2,4-7) t req rl orVoid_key [OF st] decimal_spec.home_before_orVoid [OF assms(1) st] bal
    by (intro exI [of _ "coreStateToDB L ?p"] exI [of _ "coreStateToDB L r"] exI [of _ t]) (auto simp: db1)
qed

theorem transfer_conserves_witness:
  "\<exists>sender receiver t. states (snd tr_result) = states tr_db @ [sender, receiver] \<and>
     transactions (snd tr_result) = transactions tr_db @ [t] \<and> 0 < ref_val (tx_Amount t) \<and>
     ref_val (sr_HomeUserBalance sender) = funds_of ref_val tr_db (rs_UserWallet tr_request) (rs_Asset tr_request) - ref_val (tx_Amount t) \<and>
     ref_val (sr_HomeUserBalance receiver) =
       funds_of ref_val tr_db (rt_AccountID (rs_Transition tr_request)) (rs_Asset tr_request) + ref_val (tx_Amount t)"
proof -
  obtain sig where sig: "SubmitState small_libs 1000 tr_handler tr_request tr_db = (Inr sig, snd tr_result)"
    using tr_accepted by blast
  show ?thesis
    using transfer_conserves [OF small_decimal sig tr_request_type] by blast
qed

end
