(* ===== verification/Key_Properties.thy ===== *)
theory Key_Properties
  imports Channel_Properties
begin

text \<open>
  Properties of channel session keys: submitting a key state and what the key may do afterwards.
\<close>

lemma max_version_Max: "max_version vs = (if vs = [] then None else Some (Max (set (0 # vs))))"
  unfolding Max.set_eq_fold by (cases vs) (simp_all add: max_version_def)

lemma max_version_snoc:
  assumes "\<And>x. x \<in> set vs \<Longrightarrow> x < v"
  shows "max_version (vs @ [v]) = Some v"
proof -
  have "Max (set (0 # vs @ [v])) = v" using assms by (intro Max_eqI) (auto intro: less_imp_le)
  then show ?thesis by (simp add: max_version_Max)
qed

lemma GetLastChannelSessionKeyVersion_ge:
  assumes "GetLastChannelSessionKeyVersion db w k = Inr l" and "r \<in> set (channel_keys db)"
    and "ckr_UserAddress r = ToLower w" and "ckr_SessionKey r = ToLower k"
  shows "ckr_Version r \<le> l"
proof -
  let ?vs = "map ckr_Version (filter (\<lambda>r. ckr_UserAddress r = ToLower w \<and> ckr_SessionKey r = ToLower k) (channel_keys db))"
  have r: "ckr_Version r \<in> set ?vs" using assms(2-4) by auto
  then have "?vs \<noteq> []" by (metis list.distinct(1) list.set_cases)
  then have "l = Max (set (0 # ?vs))"
    using assms(1) by (auto simp: GetLastChannelSessionKeyVersion_def max_version_Max)
  moreover have "ckr_Version r \<in> set (0 # ?vs)" using r by simp
  ultimately show ?thesis using Max_ge [OF finite_set] by blast
qed

lemma StoreChannelSessionKeyState_ok:
  assumes "StoreChannelSessionKeyState L now st db = Inr ((), db')"
  shows "\<exists>i hash. GetChannelSessionKeyAuthMetadataHashV1 L (csk_Version st) (csk_Assets st) (csk_ExpiresAt st) = Inr hash \<and>
     i \<notin> ckr_ID ` set (channel_keys db) \<and>
     channel_keys db' = channel_keys db @ [\<lparr> ckr_ID = i, ckr_UserAddress = ToLower (csk_UserAddress st),
       ckr_SessionKey = ToLower (csk_SessionKey st), ckr_Version = csk_Version st, ckr_MetadataHash = ToLower (hashHex L hash),
       ckr_ExpiresAt = csk_ExpiresAt st, ckr_UserSig = csk_UserSig st, ckr_CreatedAt = now \<rparr>] \<and>
     channel_key_assets db' = channel_key_assets db @ map (\<lambda>a. (i, ToLower a)) (csk_Assets st)"
  using assms by (auto simp: StoreChannelSessionKeyState_def Let_def insert_links_eq list_ex_iff split: if_splits)

text \<open>The link table only refers to stored key states (its foreign key).\<close>

definition links_resolved :: "'d db \<Rightarrow> bool" where
  "links_resolved db \<longleftrightarrow> fst ` set (channel_key_assets db) \<subseteq> ckr_ID ` set (channel_keys db)"

text \<open>C30 (functional). Submitting a state of a session key replaces its permissions: the request is accepted only with the wallet's
  signature and the next version, which becomes the last one; from then on the key may sign for an asset exactly until
  the new expiry, under the metadata hash of the new state and for the assets it lists, whatever earlier versions allowed.\<close>

theorem session_key_rotation:
  assumes "SubmitSessionKeyState L now h req db = (Inr (), db')" and "links_resolved db"
  shows "\<exists>st hash. checkSessionKeyRequest L now h req = Inr st \<and> ValidateChannelSessionKeyAuthSigV1 L st = Inr () \<and>
     GetLastChannelSessionKeyVersion db (csk_UserAddress st) (csk_SessionKey st) = Inr (csk_Version st - 1) \<and>
     GetLastChannelSessionKeyVersion db' (csk_UserAddress st) (csk_SessionKey st) = Inr (csk_Version st) \<and>
     GetChannelSessionKeyAuthMetadataHashV1 L (csk_Version st) (csk_Assets st) (csk_ExpiresAt st) = Inr hash \<and>
     (\<forall>now' asset mh. ValidateChannelSessionKeyForAsset now' db' (csk_UserAddress st) (csk_SessionKey st) asset mh =
        Inr (now' < csk_ExpiresAt st \<and> ToLower mh = ToLower (hashHex L hash) \<and> ToLower asset \<in> ToLower ` set (csk_Assets st)))"
proof -
  obtain st l where st: "checkSessionKeyRequest L now h req = Inr st"
    "GetLastChannelSessionKeyVersion db (csk_UserAddress st) (csk_SessionKey st) = Inr l" "csk_Version st = l + 1"
    "StoreChannelSessionKeyState L now st db = Inr ((), db')"
    using assms(1) by (auto simp: SubmitSessionKeyState_def SubmitSessionKeyState_tx_def endpoint_ok)
  have chk: "ValidateChannelSessionKeyAuthSigV1 L st = Inr ()" "csk_Version st \<noteq> 0"
    using st(1) by (auto simp: checkSessionKeyRequest_def Let_def split: if_splits)
  let ?u = "ToLower (csk_UserAddress st)" and ?k = "ToLower (csk_SessionKey st)"
  obtain i hash where new: "GetChannelSessionKeyAuthMetadataHashV1 L (csk_Version st) (csk_Assets st) (csk_ExpiresAt st) = Inr hash"
     "i \<notin> ckr_ID ` set (channel_keys db)"
     "channel_keys db' = channel_keys db @ [\<lparr> ckr_ID = i, ckr_UserAddress = ?u, ckr_SessionKey = ?k, ckr_Version = csk_Version st,
       ckr_MetadataHash = ToLower (hashHex L hash), ckr_ExpiresAt = csk_ExpiresAt st, ckr_UserSig = csk_UserSig st, ckr_CreatedAt = now \<rparr>]"
     "channel_key_assets db' = channel_key_assets db @ map (\<lambda>a. (i, ToLower a)) (csk_Assets st)"
    using StoreChannelSessionKeyState_ok [OF st(4)] by blast
  have older: "ckr_Version r < csk_Version st"
    if "r \<in> set (channel_keys db)" "ckr_UserAddress r = ?u" "ckr_SessionKey r = ?k" for r
  proof -
    have "l < l + 1" using chk(2) st(3) by (simp add: word_less_nat_alt unatSuc add.commute [of l])
    then show ?thesis using GetLastChannelSessionKeyVersion_ge [OF st(2) that] st(3) by simp
  qed
  have fresh: "(i, a) \<notin> set (channel_key_assets db)" for a
    using new(2) assms(2) unfolding links_resolved_def by (metis fst_conv image_eqI subsetD)
  have latest: "max_version (map ckr_Version (filter (\<lambda>r. ckr_UserAddress r = ?u \<and> ckr_SessionKey r = ?k) (channel_keys db'))) = Some (csk_Version st)"
    unfolding new(3) by (simp, rule max_version_snoc) (use older in auto)
  have "ValidateChannelSessionKeyForAsset now' db' (csk_UserAddress st) (csk_SessionKey st) asset mh =
      Inr (now' < csk_ExpiresAt st \<and> ToLower mh = ToLower (hashHex L hash) \<and> ToLower asset \<in> ToLower ` set (csk_Assets st))"
    for now' asset mh
    unfolding ValidateChannelSessionKeyForAsset_def Let_def latest unfolding new(3,4)
    using fresh by (auto simp: filter_empty_conv image_iff dest!: older)
  then show ?thesis
    using st(1-3) chk(1) new(1) latest by (auto simp: GetLastChannelSessionKeyVersion_def)
qed

text \<open>The wallet of the example transfer authorises a session key for one asset.\<close>

definition sk_unsigned :: RPC_ChannelSessionKeyStateV1 where
  "sk_unsigned = \<lparr> rk_UserAddress = tr_wallet, rk_SessionKey = tr_receiver, rk_Version = ''1'', rk_Assets = [''usdc''],
     rk_ExpiresAt = ''2000'', rk_UserSig = '''' \<rparr>"

definition sk_request :: RPC_ChannelSessionKeyStateV1 where
  "sk_request = sk_unsigned \<lparr> rk_UserSig := hexutilEncode small_libs (ok_bytes (EthereumMsgSigner_Sign small_libs tr_key
     (ok_bytes (PackChannelKeyStateV1 small_libs tr_receiver
       (ok_bytes (GetChannelSessionKeyAuthMetadataHashV1 small_libs 1 [''usdc''] 2000)))))) \<rparr>"

definition sk_result :: "unit result \<times> ref_decimal db" where
  "sk_result = SubmitSessionKeyState small_libs 1000 (tr_handler \<lparr> h_maxSessionKeyIDs := 5 \<rparr>) sk_request empty_db"

lemma sk_accepted: "fst sk_result = Inr ()"
  by code_simp

theorem session_key_rotation_witness:
  "\<exists>st. checkSessionKeyRequest small_libs 1000 (tr_handler \<lparr> h_maxSessionKeyIDs := 5 \<rparr>) sk_request = Inr st \<and>
     GetLastChannelSessionKeyVersion (snd sk_result) (csk_UserAddress st) (csk_SessionKey st) = Inr (csk_Version st)"
proof -
  have "SubmitSessionKeyState small_libs 1000 (tr_handler \<lparr> h_maxSessionKeyIDs := 5 \<rparr>) sk_request empty_db = (Inr (), snd sk_result)"
    using sk_accepted by (metis prod.collapse sk_result_def)
  moreover have "links_resolved (empty_db :: ref_decimal db)" by (simp add: links_resolved_def empty_db_def)
  ultimately show ?thesis using session_key_rotation by blast
qed

end
