(* ===== verification/Session_Ledger.thy ===== *)
theory Session_Ledger
  imports App_Session_Api Channel_Properties
begin

text \<open>
  The ledger of an app session as numbers: what a participant holds, what the session holds in total, what the
  store reports of it and how recording entries changes it.
\<close>

section \<open>Holdings\<close>

definition entry_val :: "('d \<Rightarrow> rat) \<Rightarrow> 'd AppLedgerEntryV1 \<Rightarrow> rat" where
  "entry_val val e = val (le_Credit e) - val (le_Debit e)"

definition holding :: "('d \<Rightarrow> rat) \<Rightarrow> 'd db \<Rightarrow> string \<Rightarrow> string \<Rightarrow> string \<Rightarrow> rat" where
  "holding val db sid wallet asset = sum_list (map (entry_val val)
     (filter (\<lambda>e. le_AccountID e = ToLower sid \<and> le_Wallet e = wallet \<and> le_AssetSymbol e = asset) (app_ledger db)))"

definition total :: "('d \<Rightarrow> rat) \<Rightarrow> 'd db \<Rightarrow> string \<Rightarrow> string \<Rightarrow> rat" where
  "total val db sid asset = sum_list (map (entry_val val)
     (filter (\<lambda>e. le_AccountID e = ToLower sid \<and> le_AssetSymbol e = asset) (app_ledger db)))"

text \<open>The wallets registered for a session, and that its ledger only has entries of them, in lower case.\<close>

definition members :: "'d db \<Rightarrow> string \<Rightarrow> string set" where
  "members db sid = apr_WalletAddress ` {p \<in> set (app_participants db). apr_AppSessionID p = ToLower sid}"

definition ledger_of_members :: "'d db \<Rightarrow> string \<Rightarrow> bool" where
  "ledger_of_members db sid \<longleftrightarrow>
     (\<forall>e \<in> set (app_ledger db). le_AccountID e = ToLower sid \<longrightarrow> le_Wallet e \<in> members db sid) \<and>
     (\<forall>w \<in> members db sid. ToLower w = w)"

lemma finite_members [simp]: "finite (members db sid)"
  by (simp add: members_def)

lemma sum_list_by_key:
  fixes f :: "'a \<Rightarrow> rat"
  assumes "finite W" and "\<And>e. e \<in> set es \<Longrightarrow> key e \<in> W"
  shows "sum_list (map f es) = (\<Sum>w\<in>W. sum_list (map f (filter (\<lambda>e. key e = w) es)))"
  using assms(2)
proof (induction es)
  case (Cons e es)
  have "(\<Sum>w\<in>W. sum_list (map f (filter (\<lambda>x. key x = w) (e # es)))) =
      (\<Sum>w\<in>W. (if key e = w then f e else 0) + sum_list (map f (filter (\<lambda>x. key x = w) es)))"
    by (rule sum.cong) auto
  also have "\<dots> = f e + (\<Sum>w\<in>W. sum_list (map f (filter (\<lambda>x. key x = w) es)))"
    using Cons.prems assms(1) by (simp add: sum.distrib)
  finally show ?case using Cons by simp
qed simp

lemma total_holdings:
  assumes "ledger_of_members db sid"
  shows "total val db sid a = (\<Sum>w\<in>members db sid. holding val db sid w a)"
proof -
  have "total val db sid a = (\<Sum>w\<in>members db sid. sum_list (map (entry_val val) (filter (\<lambda>e. le_Wallet e = w)
      (filter (\<lambda>e. le_AccountID e = ToLower sid \<and> le_AssetSymbol e = a) (app_ledger db)))))"
    unfolding total_def using assms by (intro sum_list_by_key) (auto simp: ledger_of_members_def)
  then show ?thesis by (simp add: holding_def conj_commute conj_left_commute)
qed

section \<open>What the store reports\<close>

lemma set_group_keys [simp]: "set (group_keys key xs) = key ` set xs"
  by (simp add: group_keys_def)

lemma distinct_group_keys [simp]: "distinct (group_keys key xs)"
  by (simp add: group_keys_def)

lemma gm_get_map_key [simp]: "gm_get (map (\<lambda>k. (k, f k)) ks) k = (if k \<in> set ks then Some (f k) else None)"
  by (simp add: gm_get_def map_of_map_restrict)

lemma gm_index_map_key [simp]: "gm_index z (map (\<lambda>k. (k, f k)) ks) k = (if k \<in> set ks then f k else z)"
  by (simp add: gm_index_def map_of_map_restrict)

context decimal_spec
begin

lemma val_sumD [simp]: "val (sumD L ds) = sum_list (map val ds)"
  by (induction ds) (simp_all add: sumD_def)

lemma val_balance_of: "val (balance_of L es) = sum_list (map (entry_val val) es)"
  by (induction es) (simp_all add: balance_of_def entry_val_def)

lemma session_balances:
  assumes "GetAppSessionBalances L db sid = Inr b"
  shows "val (gm_index (dZero L) b a) = total val db sid a"
    and "gm_get b a = Some v \<Longrightarrow> val v = total val db sid a" and "gm_get b a = None \<Longrightarrow> total val db sid a = 0"
proof -
  let ?rows = "filter (\<lambda>e. le_AccountID e = ToLower sid) (app_ledger db)"
  have b: "b = map (\<lambda>a. (a, balance_of L (filter (\<lambda>e. le_AssetSymbol e = a) ?rows))) (group_keys le_AssetSymbol ?rows)"
    using assms by (simp add: GetAppSessionBalances_def Let_def)
  have eq: "val (balance_of L (filter (\<lambda>e. le_AssetSymbol e = a) ?rows)) = total val db sid a"
    by (simp add: val_balance_of total_def conj_commute)
  have none: "total val db sid a = 0" if "a \<notin> le_AssetSymbol ` set ?rows"
  proof -
    have "filter (\<lambda>e. le_AccountID e = ToLower sid \<and> le_AssetSymbol e = a) (app_ledger db) = []"
      using that by (auto simp: filter_empty_conv)
    then show ?thesis by (simp add: total_def)
  qed
  show "val (gm_index (dZero L) b a) = total val db sid a" unfolding b using eq none by auto
  show "gm_get b a = Some v \<Longrightarrow> val v = total val db sid a" unfolding b using eq by (auto split: if_splits)
  show "gm_get b a = None \<Longrightarrow> total val db sid a = 0" unfolding b using none by (auto split: if_splits)
qed

lemma participant_rows:
  "filter (\<lambda>e. le_Wallet e = w \<and> le_AssetSymbol e = a) (participant_entries db (ToLower sid)) =
   (if w \<in> members db sid then filter (\<lambda>e. le_AccountID e = ToLower sid \<and> le_Wallet e = w \<and> le_AssetSymbol e = a) (app_ledger db) else [])"
  by (auto simp: participant_entries_def list_ex_iff members_def image_iff filter_empty_conv intro!: filter_cong)

lemma allocations_at:
  assumes "GetParticipantAllocations L db sid = Inr cur"
  shows "gm_get2 cur w a = Some v \<Longrightarrow> val v = holding val db sid w a \<and> w \<in> members db sid"
    and "w \<in> members db sid \<Longrightarrow> val (alloc_at L cur w a) = holding val db sid w a"
proof -
  let ?rows = "participant_entries db (ToLower sid)"
  have cur: "cur = map (\<lambda>w. (w, map (\<lambda>a. (a, balance_of L (filter (\<lambda>e. le_Wallet e = w \<and> le_AssetSymbol e = a) ?rows)))
       (group_keys le_AssetSymbol (filter (\<lambda>e. le_Wallet e = w) ?rows)))) (group_keys le_Wallet ?rows)"
    using assms by (simp add: GetParticipantAllocations_def Let_def)
  have get: "gm_get2 cur w a = (if \<exists>e \<in> set ?rows. le_Wallet e = w \<and> le_AssetSymbol e = a
      then Some (balance_of L (filter (\<lambda>e. le_Wallet e = w \<and> le_AssetSymbol e = a) ?rows)) else None)" for w a
    unfolding cur gm_get2_def by (auto simp: image_iff)
  have bal: "val (balance_of L (filter (\<lambda>e. le_Wallet e = w \<and> le_AssetSymbol e = a) ?rows)) =
      (if w \<in> members db sid then holding val db sid w a else 0)" for w a
    by (simp add: val_balance_of participant_rows holding_def)
  have mem: "w \<in> members db sid" if "\<exists>e \<in> set ?rows. le_Wallet e = w \<and> le_AssetSymbol e = a"
    using that by (auto simp: participant_entries_def list_ex_iff members_def image_iff)
  show "gm_get2 cur w a = Some v \<Longrightarrow> val v = holding val db sid w a \<and> w \<in> members db sid"
    using get [of w a] bal [of w a] mem by (auto split: if_splits)
  have "holding val db sid w a = 0" if "w \<in> members db sid" "\<not> (\<exists>e \<in> set ?rows. le_Wallet e = w \<and> le_AssetSymbol e = a)"
  proof -
    have "filter (\<lambda>e. le_Wallet e = w \<and> le_AssetSymbol e = a) ?rows = []" using that(2) by (simp add: filter_empty_conv)
    then show ?thesis using that(1) bal [of w a] by (simp add: balance_of_def sumD_def)
  qed
  then show "w \<in> members db sid \<Longrightarrow> val (alloc_at L cur w a) = holding val db sid w a"
    using get [of w a] bal [of w a] by (auto simp: alloc_at_def)
qed

end

section \<open>Allocation maps\<close>

definition wf_alloc :: "'d allocations \<Rightarrow> bool" where
  "wf_alloc m \<longleftrightarrow> distinct (map fst m) \<and> (\<forall>p i. (p, i) \<in> set m \<longrightarrow> distinct (map fst i))"

lemma wf_alloc_Nil [simp]: "wf_alloc []"
  by (simp add: wf_alloc_def)

lemma set_gm_put: "distinct (map fst m) \<Longrightarrow> set (gm_put k v m) = insert (k, v) {x \<in> set m. fst x \<noteq> k}"
  by (induction k v m rule: gm_put.induct) (auto simp: image_iff)

lemma gm_index_in: "gm_index [] m k = i \<Longrightarrow> i = [] \<or> (k, i) \<in> set m"
  by (auto simp: gm_index_def split: option.splits dest: map_of_SomeD)

lemma wf_alloc_put2: "wf_alloc m \<Longrightarrow> wf_alloc (gm_put2 p a v m)"
  using gm_index_in [of m p]
  by (auto simp: wf_alloc_def gm_put2_def distinct_gm_put set_gm_put)

lemma in_alloc_entries:
  assumes "wf_alloc m"
  shows "(p, a, x) \<in> set (alloc_entries m) \<longleftrightarrow> gm_get2 m p a = Some x"
proof -
  have "gm_get2 m p a = Some x \<longleftrightarrow> (\<exists>i. (p, i) \<in> set m \<and> (a, x) \<in> set i)"
    unfolding gm_get2_iff gm_get_def using assms by (auto simp: wf_alloc_def)
  then show ?thesis by (auto simp: alloc_entries_def)
qed

lemma distinct_concat_keys:
  assumes "distinct (map fst m)" and "\<And>p i. (p, i) \<in> set m \<Longrightarrow> distinct (map fst i)"
  shows "distinct (map (\<lambda>(p, a, x). (p, a)) (concat (map (\<lambda>(p, i). map (\<lambda>(a, x). (p, a, x)) i) m)))"
  using assms
proof (induction m)
  case (Cons q m)
  obtain p i where q: "q = (p, i)" by fastforce
  have "distinct (map (\<lambda>(p, a, x). (p, a)) (map (\<lambda>(a, x). (p, a, x)) i))"
    using Cons.prems(2) [of p i] q by (force simp: distinct_map inj_on_def)
  then show ?case using Cons.IH Cons.prems q by (force simp: image_iff)
qed simp

lemma distinct_alloc_entries: "wf_alloc m \<Longrightarrow> distinct (map (\<lambda>(p, a, x). (p, a)) (alloc_entries m))"
  unfolding alloc_entries_def wf_alloc_def by (intro distinct_concat_keys) auto

lemma GetParticipantAllocations_wf: "GetParticipantAllocations L db sid = Inr cur \<Longrightarrow> wf_alloc cur"
  by (auto simp: GetParticipantAllocations_def Let_def wf_alloc_def comp_def)

lemma gm_index_Some: "k \<in> fst ` set m \<Longrightarrow> gm_get m k = Some (gm_index z m k)"
  by (auto simp: gm_get_def gm_index_def split: option.splits dest: weak_map_of_SomeI)

lemma in_sorted_entries: "(p, a, x) \<in> set (sorted_entries L m) \<longleftrightarrow> gm_get2 m p a = Some x"
proof -
  have "(p, a, x) \<in> set (sorted_entries L m) \<longleftrightarrow> p \<in> fst ` set m \<and> a \<in> fst ` set (gm_index [] m p) \<and> x = gm_index (dZero L) (gm_index [] m p) a"
    by (auto simp: sorted_entries_def Let_def)
  also have "\<dots> \<longleftrightarrow> gm_get2 m p a = Some x"
  proof (cases "p \<in> fst ` set m \<and> a \<in> fst ` set (gm_index [] m p)")
    case True
    then show ?thesis using gm_index_Some [of p m] gm_index_Some [of a "gm_index [] m p" "dZero L"] by (auto simp: gm_get2_def)
  next
    case False
    have "gm_get2 m p a \<noteq> Some y" for y
    proof
      assume "gm_get2 m p a = Some y"
      then obtain i where i: "gm_get m p = Some i" "gm_get i a = Some y" by (auto simp: gm_get2_iff)
      then have "gm_index [] m p = i" by (simp add: gm_index_def gm_get_def)
      then show False using gm_get_key [OF i(1)] gm_get_key [OF i(2)] False by simp
    qed
    then show ?thesis using False by auto
  qed
  finally show ?thesis .
qed

lemma distinct_sorted_entries:
  assumes "wf_alloc m"
  shows "distinct (map (\<lambda>(p, a, x). (p, a)) (sorted_entries L m))"
proof -
  define f where "f p = map (\<lambda>a. (a, gm_index (dZero L) (gm_index [] m p) a)) (SortFunc string_less (map fst (gm_index [] m p)))" for p
  have "sorted_entries L m = concat (map (\<lambda>(p, i). map (\<lambda>(a, x). (p, a, x)) i) (map (\<lambda>p. (p, f p)) (SortFunc string_less (map fst m))))"
    by (simp add: sorted_entries_def Let_def comp_def f_def)
  moreover have "distinct (map fst (f p))" for p
    using assms gm_index_in [of m p] by (auto simp: f_def comp_def wf_alloc_def intro!: distinct_SortFunc)
  moreover have "distinct (map fst (map (\<lambda>p. (p, f p)) (SortFunc string_less (map fst m))))"
    using assms by (simp add: comp_def distinct_SortFunc wf_alloc_def)
  ultimately show ?thesis by (simp only:) (rule distinct_concat_keys, auto)
qed

section \<open>Recording entries\<close>

text \<open>\<open>db'\<close> is \<open>db\<close> with entries of members of the session added, which change the holdings by \<open>d\<close>.\<close>

definition ledger_moved :: "('d \<Rightarrow> rat) \<Rightarrow> string \<Rightarrow> 'd db \<Rightarrow> 'd db \<Rightarrow> (string \<Rightarrow> string \<Rightarrow> rat) \<Rightarrow> bool" where
  "ledger_moved val sid db db' d \<longleftrightarrow>
     (\<exists>es. app_ledger db' = app_ledger db @ es \<and> app_participants db' = app_participants db \<and>
        (\<forall>e \<in> set es. le_AccountID e = ToLower sid \<and> le_Wallet e \<in> members db sid) \<and>
        (\<forall>w a. holding val db' sid w a = holding val db sid w a + d w a))"

lemma members_cong: "app_participants db' = app_participants db \<Longrightarrow> members db' sid = members db sid"
  by (simp add: members_def)

lemma ledger_moved_same:
  "(\<And>w a. d w a = 0) \<Longrightarrow> app_ledger db' = app_ledger db \<Longrightarrow> app_participants db' = app_participants db \<Longrightarrow>
     ledger_moved val sid db db' d"
  by (simp add: ledger_moved_def holding_def)

lemma ledger_moved_cong: "ledger_moved val sid db db' d \<Longrightarrow> (\<And>w a. d w a = e w a) \<Longrightarrow> ledger_moved val sid db db' e"
  by (simp add: ledger_moved_def)

lemma ledger_moved_trans:
  assumes "ledger_moved val sid db db1 d" and "ledger_moved val sid db1 db2 e"
  shows "ledger_moved val sid db db2 (\<lambda>w a. d w a + e w a)"
  using assms members_cong [of db1 db sid] unfolding ledger_moved_def by force

lemma ledger_moved_members: "ledger_moved val sid db db' d \<Longrightarrow> members db' sid = members db sid"
  by (auto simp: ledger_moved_def members_def)

lemma ledger_moved_holding: "ledger_moved val sid db db' d \<Longrightarrow> holding val db' sid w a = holding val db sid w a + d w a"
  by (auto simp: ledger_moved_def)

lemma ledger_moved_ok: "ledger_moved val sid db db' d \<Longrightarrow> ledger_of_members db sid \<Longrightarrow> ledger_of_members db' sid"
  by (auto simp: ledger_moved_def ledger_of_members_def members_def)

lemma forS_moved:
  assumes "\<And>p a x db db'. (p, a, x) \<in> set es \<Longrightarrow> members db sid = M \<Longrightarrow> f (p, a, x) () db = Inr ((), db') \<Longrightarrow>
       ledger_moved val sid db db' (\<lambda>w b. if w = p \<and> b = a then g p a x else 0)"
    and "forS f es () db = Inr ((), db')" and "members db sid = M"
  shows "ledger_moved val sid db db' (\<lambda>w b. \<Sum>(p, a, x)\<leftarrow>es. if w = p \<and> b = a then g p a x else 0)"
  using assms
proof (induction es arbitrary: db)
  case Nil
  then show ?case by (auto intro: ledger_moved_same)
next
  case (Cons e es)
  obtain p a x where e: "e = (p, a, x)" by (metis prod_cases3)
  obtain db1 where s: "f (p, a, x) () db = Inr ((), db1)" "forS f es () db1 = Inr ((), db')"
    using Cons.prems(2) e by auto
  have 1: "ledger_moved val sid db db1 (\<lambda>w b. if w = p \<and> b = a then g p a x else 0)"
    using Cons.prems(1) [of p a x] s(1) e Cons.prems(3) by simp
  have 2: "ledger_moved val sid db1 db' (\<lambda>w b. \<Sum>(p, a, x)\<leftarrow>es. if w = p \<and> b = a then g p a x else 0)"
    using Cons.IH [of db1] Cons.prems(1,3) s(2) ledger_moved_members [OF 1] by simp
  show ?case using ledger_moved_trans [OF 1 2] e by simp
qed

lemma forS_each:
  "forS f es () db = Inr ((), db') \<Longrightarrow> e \<in> set es \<Longrightarrow> \<exists>d d'. f e () d = Inr ((), d')"
  by (induction es arbitrary: db) auto

lemma sum_by_distinct_key:
  assumes "distinct (map (\<lambda>(p, a, x). (p, a)) es)"
  shows "(p, a, x) \<in> set es \<Longrightarrow> (\<Sum>(q, b, y)\<leftarrow>es. if p = q \<and> a = b then g q b y else (0 :: rat)) = g p a x"
    and "\<forall>x. (p, a, x) \<notin> set es \<Longrightarrow> (\<Sum>(q, b, y)\<leftarrow>es. if p = q \<and> a = b then g q b y else (0 :: rat)) = 0"
proof -
  show none: "\<forall>x. (p, a, x) \<notin> set es \<Longrightarrow> (\<Sum>(q, b, y)\<leftarrow>es. if p = q \<and> a = b then g q b y else (0 :: rat)) = 0" for es
    by (induction es) auto
  show "(p, a, x) \<in> set es \<Longrightarrow> (\<Sum>(q, b, y)\<leftarrow>es. if p = q \<and> a = b then g q b y else (0 :: rat)) = g p a x"
    using assms
  proof (induction es)
    case (Cons e es)
    obtain q b y where e: "e = (q, b, y)" by (metis prod_cases3)
    show ?case
    proof (cases "q = p \<and> b = a")
      case True
      then have "\<forall>x. (p, a, x) \<notin> set es" using Cons.prems(2) e by force
      then show ?thesis using none [of es] True Cons.prems e by auto
    next
      case False
      then show ?thesis using Cons e by auto
    qed
  qed simp
qed

context decimal_spec
begin

lemma RecordLedgerEntry_moved:
  assumes "RecordLedgerEntry L p sid a x db = Inr ((), db')" and "ToLower p = p" and "p \<in> members db sid"
  shows "ledger_moved val sid db db' (\<lambda>w b. if w = p \<and> b = a then val x else 0)"
  using assms by (auto simp: ledger_moved_def RecordLedgerEntry_def Let_def holding_def entry_val_def split: if_splits)

end

end
