(* ===== verification/Session_Properties.thy ===== *)
theory Session_Properties
  imports Session_Ledger
begin

text \<open>
  Properties of app sessions: whose signatures an update needs and what each intent does to the ledger.
\<close>

section \<open>Participants and weights\<close>

lemma foldl_put_get:
  "gm_get (foldl (\<lambda>m p. gm_put (k p) (v p) m) m ps) w \<noteq> None \<longleftrightarrow> w \<in> k ` set ps \<or> gm_get m w \<noteq> None"
  by (induction ps arbitrary: m) (auto split: if_splits)

lemma weights_members:
  assumes "GetAppSession db sid = Inr (Some s)" and "\<forall>w \<in> members db sid. ToLower w = w"
  shows "gm_get (getParticipantWeights (se_Participants s)) w \<noteq> None \<longleftrightarrow> w \<in> members db sid"
    and "se_SessionID s = ToLower sid"
proof -
  obtain r where r: "find_session db sid = Some r" "s = load_session db r"
    using assms(1) by (auto simp: GetAppSession_def)
  have id: "asr_ID r = ToLower sid" using r(1) by (auto simp: find_session_def find_Some_iff)
  then show "se_SessionID s = ToLower sid" using r(2) by (simp add: load_session_def databaseAppSessionToCore_def)
  have "set (se_Participants s) = (\<lambda>p. \<lparr> ap_WalletAddress = apr_WalletAddress p, ap_SignatureWeight = apr_SignatureWeight p \<rparr>) `
      {p \<in> set (app_participants db). apr_AppSessionID p = ToLower sid}"
    using r(2) id by (simp add: load_session_def databaseAppSessionToCore_def session_participants_def)
  then have "(\<lambda>p. ToLower (ap_WalletAddress p)) ` set (se_Participants s) = ToLower ` members db sid"
    by (simp add: members_def image_image)
  moreover have "ToLower ` members db sid = members db sid" using assms(2) by simp
  ultimately have "(\<lambda>p. ToLower (ap_WalletAddress p)) ` set (se_Participants s) = members db sid" by simp
  then show "gm_get (getParticipantWeights (se_Participants s)) w \<noteq> None \<longleftrightarrow> w \<in> members db sid"
    unfolding getParticipantWeights_def by (subst foldl_put_get) simp
qed

section \<open>Operate\<close>

lemma foldE_check: "foldE f xs () = Inr () \<longleftrightarrow> (\<forall>x \<in> set xs. f x () = Inr ())"
  by (induction xs) auto

text \<open>The amount an update assigns to a participant.\<close>

definition allocated :: "('d \<Rightarrow> rat) \<Rightarrow> 'd AppAllocationV1 list \<Rightarrow> string \<Rightarrow> string \<Rightarrow> rat" where
  "allocated val als w a = (case find (\<lambda>al. al_Participant al = w \<and> al_Asset al = a) als of None \<Rightarrow> 0 | Some al \<Rightarrow> val (al_Amount al))"

lemma handleOperateIntent_ok:
  assumes "handleOperateIntent L h upd cur W db = Inr ((), db')"
  shows "\<exists>b inc sm db1.
     (GetAppSessionBalances L db (au_AppSessionID upd) = Inr b) \<and>
     (foldE (operateStep L (asset_store (ah_memoryStore h)) W) (au_Allocations upd) ([], []) = Inr (inc, sm)) \<and>
     (forS (\<lambda>(participant, asset, currentAmount) _.
       if dIsZero L currentAmount then retS ()
       else (case gm_get2 inc participant asset of
       None \<Rightarrow> failS (RPCError ''operate intent missing allocation'')
       | Some incomingAmount \<Rightarrow>
       let diff = dSub L incomingAmount currentAmount in
       if \<not> dIsZero L diff then rpcS ''failed to record operate ledger entry'' (RecordLedgerEntry L participant (au_AppSessionID upd) asset diff)
       else retS ())) (alloc_entries cur) () db = Inr ((), db1)) \<and>
     (forS (\<lambda>(participant, asset, incomingAmount) _.
       if dIsZero L incomingAmount then retS ()
       else if dIsZero L (alloc_at L cur participant asset) \<and> \<not> dIsZero L incomingAmount
       then rpcS ''failed to record new allocation ledger entry'' (RecordLedgerEntry L participant (au_AppSessionID upd) asset incomingAmount)
       else retS ()) (alloc_entries inc) () db1 = Inr ((), db')) \<and>
     (foldE (\<lambda>(asset, totalAlloc) _. if \<not> dEqual L totalAlloc (gm_index (dZero L) b asset)
       then Inl (RPCError ''operate intent allocation mismatch'') else Inr ()) sm () = Inr ()) \<and>
     (foldE (\<lambda>(asset, sessionBalance) _. if dIsZero L sessionBalance then Inr ()
       else if gm_get sm asset = None then Inl (RPCError ''operate intent missing allocations'') else Inr ()) b () = Inr ())"
  using assms by (auto simp: handleOperateIntent_def Let_def)

context decimal_spec
begin

lemma alloc_at_put2: "val (alloc_at L (gm_put2 p a v m) w b) = (if w = p \<and> b = a then val v else val (alloc_at L m w b))"
  by (simp add: alloc_at_def)

lemma operate_cons:
  "foldE (operateStep L st W) (x # als) (inc, sm) = Inr r \<Longrightarrow>
     gm_get W (al_Participant x) \<noteq> None \<and> 0 \<le> val (al_Amount x) \<and> gm_get2 inc (al_Participant x) (al_Asset x) = None \<and>
     foldE (operateStep L st W) als (gm_put2 (al_Participant x) (al_Asset x) (al_Amount x) inc,
       gm_put (al_Asset x) (case gm_get sm (al_Asset x) of Some e \<Rightarrow> dAdd L e (al_Amount x) | None \<Rightarrow> al_Amount x) sm) = Inr r"
  by (auto simp: operateStep_def Let_def split: if_splits)

lemma operate_fold_wf:
  "foldE (operateStep L st W) als (inc, sm) = Inr (inc', sm') \<Longrightarrow> wf_alloc inc \<Longrightarrow> wf_alloc inc'"
  by (induction als arbitrary: inc sm) (auto simp del: foldE.simps(2) dest!: operate_cons intro: wf_alloc_put2)

lemma operate_fold_get:
  "foldE (operateStep L st W) als (inc, sm) = Inr (inc', sm') \<Longrightarrow>
     gm_get2 inc' p a = (case gm_get2 inc p a of Some v \<Rightarrow> Some v
       | None \<Rightarrow> map_option al_Amount (find (\<lambda>al. al_Participant al = p \<and> al_Asset al = a) als))"
proof (induction als arbitrary: inc sm)
  case (Cons x als)
  show ?case using operate_cons [OF Cons.prems] Cons.IH by (auto split: option.splits)
qed (auto split: option.splits)

lemma operate_fold_checked:
  "foldE (operateStep L st W) als (inc, sm) = Inr (inc', sm') \<Longrightarrow> al \<in> set als \<Longrightarrow>
     0 \<le> val (al_Amount al) \<and> gm_get W (al_Participant al) \<noteq> None"
  by (induction als arbitrary: inc sm) (auto simp del: foldE.simps(2) dest!: operate_cons)

lemma operate_fold_assets:
  "foldE (operateStep L st W) als (inc, sm) = Inr (inc', sm') \<Longrightarrow>
     gm_get sm' a = None \<longleftrightarrow> gm_get sm a = None \<and> a \<notin> al_Asset ` set als"
proof (induction als arbitrary: inc sm)
  case (Cons x als)
  note s = operate_cons [OF Cons.prems, THEN conjunct2, THEN conjunct2, THEN conjunct2]
  show ?case unfolding Cons.IH [OF s] by auto
qed simp

lemma operate_fold_sum:
  assumes "finite M"
  shows "foldE (operateStep L st W) als (inc, sm) = Inr (inc', sm') \<Longrightarrow> al_Participant ` set als \<subseteq> M \<Longrightarrow>
     val (gm_index (dZero L) sm' a) + (\<Sum>w\<in>M. val (alloc_at L inc w a)) =
     val (gm_index (dZero L) sm a) + (\<Sum>w\<in>M. val (alloc_at L inc' w a))"
proof (induction als arbitrary: inc sm)
  case (Cons x als)
  let ?p = "al_Participant x" and ?b = "al_Asset x" and ?v = "al_Amount x"
  let ?sm = "gm_put ?b (case gm_get sm ?b of Some e \<Rightarrow> dAdd L e ?v | None \<Rightarrow> ?v) sm"
  have s: "gm_get2 inc ?p ?b = None" "foldE (operateStep L st W) als (gm_put2 ?p ?b ?v inc, ?sm) = Inr (inc', sm')"
    using operate_cons [OF Cons.prems(1)] by blast+
  have "val (gm_index (dZero L) ?sm a) = val (gm_index (dZero L) sm a) + (if a = ?b then val ?v else 0)"
    by (auto simp: gm_index_def gm_get_def split: option.splits)
  moreover have "(\<Sum>w\<in>M. val (alloc_at L (gm_put2 ?p ?b ?v inc) w a)) =
      (\<Sum>w\<in>M. val (alloc_at L inc w a) + (if w = ?p \<and> a = ?b then val ?v else 0))"
    using s(1) by (intro sum.cong) (auto simp: alloc_at_put2 alloc_at_def)
  moreover have "(\<Sum>w\<in>M. if w = ?p \<and> a = ?b then val ?v else 0) = (if a = ?b then val ?v else 0)"
    using Cons.prems(2) assms by auto
  ultimately show ?case using Cons.IH [OF s(2)] Cons.prems(2) by (simp add: sum.distrib)
qed simp

lemma allocated_eq:
  assumes "foldE (operateStep L st W) als ([], []) = Inr (inc, sm)"
  shows "val (alloc_at L inc w a) = allocated val als w a"
  using operate_fold_get [OF assms] by (simp add: alloc_at_def allocated_def gm_get2_def split: option.splits)

lemma record_moved:
  assumes "(if dIsZero L y then retS () else rpcS m (RecordLedgerEntry L p sid a y)) db = Inr ((), db')"
    and "ToLower p = p" and "p \<in> members db sid"
  shows "ledger_moved val sid db db' (\<lambda>w b. if w = p \<and> b = a then val y else 0)"
  using assms RecordLedgerEntry_moved [of p sid a y db db'] by (auto intro!: ledger_moved_same split: if_splits)

lemma operate_holdings:
  assumes run: "forS (\<lambda>(participant, asset, currentAmount) _.
          if dIsZero L currentAmount then retS ()
          else (case gm_get2 inc participant asset of
              None \<Rightarrow> failS (RPCError m1)
            | Some incomingAmount \<Rightarrow>
                let diff = dSub L incomingAmount currentAmount in
                if \<not> dIsZero L diff then rpcS m2 (RecordLedgerEntry L participant sid asset diff) else retS ()))
        (alloc_entries cur) () db = Inr ((), db1)"
    "forS (\<lambda>(participant, asset, incomingAmount) _.
          if dIsZero L incomingAmount then retS ()
          else if dIsZero L (alloc_at L cur participant asset) \<and> \<not> dIsZero L incomingAmount
            then rpcS m3 (RecordLedgerEntry L participant sid asset incomingAmount)
          else retS ()) (alloc_entries inc) () db1 = Inr ((), db')"
    and cur: "GetParticipantAllocations L db sid = Inr cur" and ok: "ledger_of_members db sid"
    and inc: "wf_alloc inc" "\<And>p a v. gm_get2 inc p a = Some v \<Longrightarrow> p \<in> members db sid"
  shows "ledger_moved val sid db db' (\<lambda>w a. if w \<in> members db sid then val (alloc_at L inc w a) - holding val db sid w a else 0)"
proof -
  define g1 where "g1 p a x = (if val x = 0 then 0 else (case gm_get2 inc p a of None \<Rightarrow> 0 | Some v \<Rightarrow> val v - val x))" for p a x
  define g2 where "g2 p a v = (if val (alloc_at L cur p a) = 0 then val v else 0)" for p a v
  have wf: "wf_alloc cur" by (rule GetParticipantAllocations_wf [OF cur])
  have low: "ToLower w = w" if "w \<in> members db sid" for w using ok that by (simp add: ledger_of_members_def)
  have mem: "p \<in> members db sid" "val x = holding val db sid p a" if "(p, a, x) \<in> set (alloc_entries cur)" for p a x
    using that allocations_at(1) [OF cur] by (auto simp: in_alloc_entries [OF wf])
  have body1: "ledger_moved val sid d d' (\<lambda>w b. if w = p \<and> b = a then g1 p a x else 0)"
    if e: "(p, a, x) \<in> set (alloc_entries cur)" and d: "members d sid = members db sid"
      and f: "(if dIsZero L x then retS () else (case gm_get2 inc p a of None \<Rightarrow> failS (RPCError m1) | Some v \<Rightarrow>
          let diff = dSub L v x in if \<not> dIsZero L diff then rpcS m2 (RecordLedgerEntry L p sid a diff) else retS ())) d = Inr ((), d')"
    for p a x d d'
  proof (cases "val x = 0")
    case True
    then show ?thesis using f by (auto simp: g1_def intro!: ledger_moved_same)
  next
    case False
    then obtain v where v: "gm_get2 inc p a = Some v" using f by (auto split: option.splits)
    then have "(if dIsZero L (dSub L v x) then retS () else rpcS m2 (RecordLedgerEntry L p sid a (dSub L v x))) d = Inr ((), d')"
      using f False by (simp add: Let_def split: if_splits)
    then show ?thesis
      by (rule ledger_moved_cong [OF record_moved [OF _ low [OF mem(1) [OF e]]]]) (use False v mem(1) [OF e] d in \<open>simp_all add: g1_def\<close>)
  qed
  have body2: "ledger_moved val sid d d' (\<lambda>w b. if w = p \<and> b = a then g2 p a v else 0)"
    if e: "(p, a, v) \<in> set (alloc_entries inc)" and d: "members d sid = members db sid"
      and f: "(if dIsZero L v then retS () else if dIsZero L (alloc_at L cur p a) \<and> \<not> dIsZero L v
          then rpcS m3 (RecordLedgerEntry L p sid a v) else retS ()) d = Inr ((), d')"
    for p a v d d'
  proof -
    have p: "p \<in> members db sid" using inc(2) e by (simp add: in_alloc_entries [OF inc(1)])
    show ?thesis
    proof (cases "val (alloc_at L cur p a) = 0")
      case True
      then have "(if dIsZero L v then retS () else rpcS m3 (RecordLedgerEntry L p sid a v)) d = Inr ((), d')"
        using f by (simp split: if_splits)
      then show ?thesis
        by (rule ledger_moved_cong [OF record_moved [OF _ low [OF p]]]) (use True p d in \<open>simp_all add: g2_def\<close>)
    next
      case False
      then show ?thesis using f by (auto simp: g2_def intro!: ledger_moved_same split: if_splits)
    qed
  qed
  have step1: "ledger_moved val sid db db1 (\<lambda>w b. \<Sum>(p, a, x)\<leftarrow>alloc_entries cur. if w = p \<and> b = a then g1 p a x else 0)"
    by (rule forS_moved [OF _ run(1) refl], rule body1) auto
  have step2: "ledger_moved val sid db1 db' (\<lambda>w b. \<Sum>(p, a, x)\<leftarrow>alloc_entries inc. if w = p \<and> b = a then g2 p a x else 0)"
    by (rule forS_moved [OF _ run(2) ledger_moved_members [OF step1]], rule body2) auto
  have listed: "gm_get2 inc w a \<noteq> None" if "gm_get2 cur w a = Some x" "val x \<noteq> 0" for w a x
    using forS_each [OF run(1), of "(w, a, x)"] that by (auto simp: in_alloc_entries [OF wf] split: option.splits)
  show ?thesis
  proof (rule ledger_moved_cong [OF ledger_moved_trans [OF step1 step2]])
    fix w a
    have s1: "(\<Sum>(p, b, x)\<leftarrow>alloc_entries cur. if w = p \<and> a = b then g1 p b x else 0) =
        (case gm_get2 cur w a of None \<Rightarrow> 0 | Some x \<Rightarrow> g1 w a x)"
      using sum_by_distinct_key [OF distinct_alloc_entries [OF wf], where p = w and a = a and g = g1] by (auto simp: in_alloc_entries [OF wf] split: option.splits)
    have s2: "(\<Sum>(p, b, x)\<leftarrow>alloc_entries inc. if w = p \<and> a = b then g2 p b x else 0) =
        (case gm_get2 inc w a of None \<Rightarrow> 0 | Some x \<Rightarrow> g2 w a x)"
      using sum_by_distinct_key [OF distinct_alloc_entries [OF inc(1)], where p = w and a = a and g = g2] by (auto simp: in_alloc_entries [OF inc(1)] split: option.splits)
    show "(\<Sum>(p, b, x)\<leftarrow>alloc_entries cur. if w = p \<and> a = b then g1 p b x else 0) +
        (\<Sum>(p, b, x)\<leftarrow>alloc_entries inc. if w = p \<and> a = b then g2 p b x else 0) =
        (if w \<in> members db sid then val (alloc_at L inc w a) - holding val db sid w a else 0)"
      unfolding s1 s2
      using allocations_at [OF cur, of w a] listed [of w a] inc(2) [of w a]
      by (auto simp: g1_def g2_def alloc_at_def split: option.splits)
  qed
qed

lemma total_moved:
  assumes "ledger_moved val sid db db' (\<lambda>w a. if w \<in> members db sid then f w a - holding val db sid w a else 0)"
    and "ledger_of_members db sid"
  shows "total val db' sid a = (\<Sum>w\<in>members db sid. f w a)"
proof -
  have "total val db' sid a = (\<Sum>w\<in>members db sid. holding val db' sid w a)"
    using total_holdings [OF ledger_moved_ok [OF assms]] ledger_moved_members [OF assms(1)] by simp
  also have "\<dots> = (\<Sum>w\<in>members db sid. f w a)"
    using assms(1) by (intro sum.cong) (auto simp: ledger_moved_def)
  finally show ?thesis .
qed

lemma operate_effect:
  assumes run: "handleOperateIntent L h upd cur W db = Inr ((), db')"
    and cur: "GetParticipantAllocations L db (au_AppSessionID upd) = Inr cur" and ok: "ledger_of_members db (au_AppSessionID upd)"
    and W: "\<And>w. gm_get W w \<noteq> None \<longleftrightarrow> w \<in> members db (au_AppSessionID upd)"
  shows "\<forall>al \<in> set (au_Allocations upd). 0 \<le> val (al_Amount al) \<and> al_Participant al \<in> members db (au_AppSessionID upd)"
    and "ledger_moved val (au_AppSessionID upd) db db' (\<lambda>w a. if w \<in> members db (au_AppSessionID upd)
       then allocated val (au_Allocations upd) w a - holding val db (au_AppSessionID upd) w a else 0)"
    and "total val db' (au_AppSessionID upd) a = total val db (au_AppSessionID upd) a"
proof -
  let ?sid = "au_AppSessionID upd" and ?als = "au_Allocations upd"
  let ?M = "members db ?sid"
  obtain b inc sm db1 where r: "GetAppSessionBalances L db ?sid = Inr b"
      "foldE (operateStep L (asset_store (ah_memoryStore h)) W) ?als ([], []) = Inr (inc, sm)"
      "forS (\<lambda>(participant, asset, currentAmount) _.
          if dIsZero L currentAmount then retS ()
          else (case gm_get2 inc participant asset of
              None \<Rightarrow> failS (RPCError ''operate intent missing allocation'')
            | Some incomingAmount \<Rightarrow>
                let diff = dSub L incomingAmount currentAmount in
                if \<not> dIsZero L diff then rpcS ''failed to record operate ledger entry'' (RecordLedgerEntry L participant ?sid asset diff)
                else retS ())) (alloc_entries cur) () db = Inr ((), db1)"
      "forS (\<lambda>(participant, asset, incomingAmount) _.
          if dIsZero L incomingAmount then retS ()
          else if dIsZero L (alloc_at L cur participant asset) \<and> \<not> dIsZero L incomingAmount
            then rpcS ''failed to record new allocation ledger entry'' (RecordLedgerEntry L participant ?sid asset incomingAmount)
          else retS ()) (alloc_entries inc) () db1 = Inr ((), db')"
      "foldE (\<lambda>(asset, totalAlloc) _. if \<not> dEqual L totalAlloc (gm_index (dZero L) b asset)
          then Inl (RPCError ''operate intent allocation mismatch'') else Inr ()) sm () = Inr ()"
      "foldE (\<lambda>(asset, sessionBalance) _. if dIsZero L sessionBalance then Inr ()
          else if gm_get sm asset = None then Inl (RPCError ''operate intent missing allocations'') else Inr ()) b () = Inr ()"
    using handleOperateIntent_ok [OF run] by blast
  note checks = r(5,6) [unfolded foldE_check]
  have get: "gm_get2 inc p a = map_option al_Amount (find (\<lambda>al. al_Participant al = p \<and> al_Asset al = a) ?als)" for p a
    using operate_fold_get [OF r(2)] by (simp add: gm_get2_def)
  show chk: "\<forall>al \<in> set ?als. 0 \<le> val (al_Amount al) \<and> al_Participant al \<in> ?M"
    using operate_fold_checked [OF r(2)] W by blast
  have mem: "p \<in> ?M" if "gm_get2 inc p a = Some v" for p a v
    using that chk by (auto simp: get find_Some_iff)
  have "ledger_moved val ?sid db db' (\<lambda>w a. if w \<in> ?M then val (alloc_at L inc w a) - holding val db ?sid w a else 0)"
    by (rule operate_holdings [OF r(3,4) cur ok operate_fold_wf [OF r(2) wf_alloc_Nil] mem])
  then show moved: "ledger_moved val ?sid db db' (\<lambda>w a. if w \<in> ?M then allocated val ?als w a - holding val db ?sid w a else 0)"
    using allocated_eq [OF r(2)] by (simp cong: if_cong)
  have sums: "val (gm_index (dZero L) sm a) = (\<Sum>w\<in>?M. allocated val ?als w a)"
    using operate_fold_sum [OF finite_members r(2), of db ?sid a] chk allocated_eq [OF r(2)]
    by (auto simp: alloc_at_def gm_get2_def)
  have "val (gm_index (dZero L) sm a) = total val db ?sid a"
  proof (cases "gm_get sm a")
    case None
    then have "val v = 0" if "gm_get b a = Some v" for v
      using checks(2) that by (fastforce simp: gm_get_def dest!: map_of_SomeD split: if_splits)
    then show ?thesis
      using None session_balances(2,3) [OF r(1), of a] by (cases "gm_get b a") (auto simp: gm_index_def gm_get_def)
  next
    case (Some t)
    then have "val t = val (gm_index (dZero L) b a)"
      using checks(1) by (fastforce simp: gm_get_def dest!: map_of_SomeD split: if_splits)
    then show ?thesis using Some session_balances(1) [OF r(1), of a] by (simp add: gm_index_def gm_get_def)
  qed
  then show "total val db' ?sid a = total val db ?sid a" using sums total_moved [OF moved ok] by simp
qed

end

section \<open>An accepted update\<close>

text \<open>The action log plays no role for sessions.\<close>

lemma load_session_action_log [simp]: "load_session (db \<lparr> action_log := al \<rparr>) = load_session db"
  by (simp add: fun_eq_iff load_session_def session_participants_def)

lemma session_reads [simp]:
  "GetAppSession (db \<lparr> action_log := al \<rparr>) sid = GetAppSession db sid"
  "GetParticipantAllocations L (db \<lparr> action_log := al \<rparr>) sid = GetParticipantAllocations L db sid"
  "GetAppSessionKeyOwner now (db \<lparr> action_log := al \<rparr>) k sid = GetAppSessionKeyOwner now db k sid"
  "members (db \<lparr> action_log := al \<rparr>) sid = members db sid"
  "holding val (db \<lparr> action_log := al \<rparr>) sid w a = holding val db sid w a"
  "total val (db \<lparr> action_log := al \<rparr>) sid a = total val db sid a"
  "ledger_of_members (db \<lparr> action_log := al \<rparr>) sid = ledger_of_members db sid"
  by (simp_all add: GetAppSession_def find_session_def GetParticipantAllocations_def
      participant_entries_def GetAppSessionKeyOwner_def members_def holding_def total_def ledger_of_members_def cong: option.case_cong)

lemma verifyQuorum_action_log [simp]:
  "verifyQuorum L now (db \<lparr> action_log := al \<rparr>) sid W q d sigs = verifyQuorum L now db sid W q d sigs"
  by (simp add: verifyQuorum_def recoverSigner_def cong: if_cong)

lemma allowOwner_frame: "allowOwner L now h i g db = Inr ((), db') \<Longrightarrow> \<exists>al. db' = db \<lparr> action_log := al \<rparr>"
  by (auto simp: allowOwner_def intro: exI [of _ "action_log db"] split: if_splits option.splits dest!: AllowAction_frame)

definition runIntent :: "'d libs \<Rightarrow> int \<Rightarrow> 'd AppHandler \<Rightarrow> 'd AppStateUpdateV1 \<Rightarrow> 'd allocations \<Rightarrow> (string, uint8) gomap \<Rightarrow> ('d, unit) db_op" where
  "runIntent L now h upd cur W =
     (if au_Intent upd = AppStateUpdateIntentOperate then handleOperateIntent L h upd cur W
      else if au_Intent upd = AppStateUpdateIntentWithdraw then handleWithdrawIntent L now h upd cur W
      else if au_Intent upd = AppStateUpdateIntentClose then handleCloseIntent L now h upd cur W
      else retS ())"

lemma GetParticipantAllocations_lower [simp]: "GetParticipantAllocations L db (ToLower sid) = GetParticipantAllocations L db sid"
  by (simp add: GetParticipantAllocations_def)

lemma se_SessionID_lower: "GetAppSession db sid = Inr (Some s) \<Longrightarrow> se_SessionID s = ToLower sid"
  by (auto simp: GetAppSession_def find_session_def load_session_def databaseAppSessionToCore_def find_Some_iff)

lemma SubmitAppState_tx_ok:
  assumes "SubmitAppState_tx L now h sigs upd db = Inr ((), db')"
  shows "\<exists>s al packed cur db2. GetAppSession db (au_AppSessionID upd) = Inr (Some s) \<and> se_Status s \<noteq> AppSessionStatusClosed \<and>
     au_Version upd = se_Version s + 1 \<and> PackAppStateUpdateV1 L upd = Inr packed \<and>
     verifyQuorum L now db (au_AppSessionID upd) (getParticipantWeights (se_Participants s)) (se_Quorum s) packed sigs = Inr () \<and>
     GetParticipantAllocations L db (au_AppSessionID upd) = Inr cur \<and>
     runIntent L now h upd cur (getParticipantWeights (se_Participants s)) (db \<lparr> action_log := al \<rparr>) = Inr ((), db2) \<and>
     bumpSession now (au_SessionData upd)
       (if au_Intent upd = AppStateUpdateIntentClose then s \<lparr> se_Status := AppSessionStatusClosed \<rparr> else s) db2 = Inr ((), db')"
proof -
  from assms obtain s db1 packed cur db2 where
    s: "GetAppSession db (au_AppSessionID upd) = Inr (Some s)" "se_Status s \<noteq> AppSessionStatusClosed"
    and al: "allowOwner L now h (se_ApplicationID s) (AppStateUpdateIntent_GatedAction (au_Intent upd)) db = Inr ((), db1)"
    and rest: "au_Version upd = se_Version s + 1" "PackAppStateUpdateV1 L upd = Inr packed"
      "verifyQuorum L now db1 (au_AppSessionID upd) (getParticipantWeights (se_Participants s)) (se_Quorum s) packed sigs = Inr ()"
      "GetParticipantAllocations L db1 (se_SessionID s) = Inr cur"
      "runIntent L now h upd cur (getParticipantWeights (se_Participants s)) db1 = Inr ((), db2)"
      "bumpSession now (au_SessionData upd)
         (if au_Intent upd = AppStateUpdateIntentClose then s \<lparr> se_Status := AppSessionStatusClosed \<rparr> else s) db2 = Inr ((), db')"
    by (auto simp: SubmitAppState_tx_def Let_def found_def runIntent_def split: option.splits)
  obtain a where "db1 = db \<lparr> action_log := a \<rparr>" using allowOwner_frame [OF al] by blast
  then show ?thesis
    using s rest se_SessionID_lower [OF s(1)] by (intro exI [of _ s] exI [of _ a]) auto
qed

lemma bumpSession_ok:
  assumes "bumpSession now d s db = Inr ((), db')" and "find_session db sid = Some r" and "se_SessionID s = asr_ID r" and "se_Version s = asr_Version r"
  shows "\<exists>rows. db' = db \<lparr> app_sessions := rows \<rparr> \<and> map_option asr_Version (find_session db' sid) = Some (se_Version s + 1) \<and>
     map_option asr_Status (find_session db' sid) = Some (se_Status s)"
proof -
  have low: "ToLower (asr_ID r) = asr_ID r" "asr_ID r = ToLower sid"
    using assms(2) by (auto simp: find_session_def find_Some_iff)
  have find_map: "find P xs = Some r \<Longrightarrow> M r \<Longrightarrow> (\<And>x. P (if M x then f x else x) = P x) \<Longrightarrow> find P (map (\<lambda>x. if M x then f x else x) xs) = Some (f r)" for P M f xs
    by (induction xs) (auto split: if_splits)
  show ?thesis
    using assms low by (auto simp: bumpSession_def UpdateAppSession_def Let_def find_session_def update_where_def find_map split: if_splits)
qed

section \<open>Quorum\<close>

definition weight_of :: "AppSessionV1 \<Rightarrow> string \<Rightarrow> nat" where
  "weight_of s w = (case gm_get (getParticipantWeights (se_Participants s)) w of None \<Rightarrow> 0 | Some k \<Rightarrow> unat k)"

lemma quorum_fold:
  assumes "foldE (\<lambda>sigHex acc. bindE (rec sigHex) (\<lambda>w. countSigner W w acc)) sigs (sb, q) = Inr (sb', q')"
    and "distinct sb" and "unat q \<le> (\<Sum>w\<leftarrow>sb. case gm_get W w of None \<Rightarrow> 0 | Some k \<Rightarrow> unat k)"
  shows "distinct sb' \<and> (\<forall>w \<in> set sb'. w \<in> set sb \<or> (\<exists>sig \<in> set sigs. rec sig = Inr w)) \<and>
     unat q' \<le> (\<Sum>w\<leftarrow>sb'. case gm_get W w of None \<Rightarrow> 0 | Some k \<Rightarrow> unat k)"
  using assms
proof (induction sigs arbitrary: sb q)
  case (Cons sig sigs)
  obtain w where w: "rec sig = Inr w" using Cons.prems(1) by auto
  obtain k where k: "gm_get W w = Some k" using Cons.prems(1) w by (auto simp: countSigner_def split: option.splits)
  have "unat (q + k) \<le> unat q + unat k" by (simp add: unat_word_ariths)
  then show ?case
    using Cons.IH [of sb q] Cons.IH [of "w # sb" "q + k"] Cons.prems w k
    by (auto simp: countSigner_def split: if_splits)
qed auto

lemma verifyQuorum_ok:
  assumes "verifyQuorum L now db sid W quorum d sigs = Inr ()"
  shows "\<exists>signers. distinct signers \<and> (\<forall>w \<in> set signers. \<exists>sig \<in> set sigs. recoverSigner L now db sid d sig = Inr w) \<and>
     unat quorum \<le> (\<Sum>w\<leftarrow>signers. case gm_get W w of None \<Rightarrow> 0 | Some k \<Rightarrow> unat k)"
proof -
  obtain sb q where f: "foldE (\<lambda>sigHex acc. bindE (recoverSigner L now db sid d sigHex) (\<lambda>w. countSigner W w acc)) sigs ([], 0) = Inr (sb, q)"
    and q: "\<not> q < quorum"
    using assms by (auto simp: verifyQuorum_def split: if_splits)
  show ?thesis using quorum_fold [OF f] q by (intro exI [of _ sb]) (auto simp: not_less word_le_nat_alt)
qed

text \<open>No intent touches the session itself or its participants.\<close>

definition same_sessions :: "'d db \<Rightarrow> 'd db \<Rightarrow> bool" where
  "same_sessions d d' \<longleftrightarrow> app_sessions d' = app_sessions d \<and> app_participants d' = app_participants d"

lemma forS_rel:
  assumes "forS f es () db = Inr ((), db')" and "\<And>e d d'. e \<in> set es \<Longrightarrow> f e () d = Inr ((), d') \<Longrightarrow> R d d'" and "reflp R" and "transp R"
  shows "R db db'"
  using assms(1,2)
proof (induction es arbitrary: db)
  case Nil
  then show ?case using assms(3) by (simp add: reflpD)
next
  case (Cons e es)
  then obtain d where "f e () db = Inr ((), d)" "forS f es () d = Inr ((), db')" by auto
  then show ?case using Cons.IH [of d] Cons.prems(2) assms(4) by (meson list.set_intros transpD)
qed

lemma same_sessions_order: "reflp same_sessions" "transp same_sessions"
  by (auto simp: same_sessions_def reflp_def transp_def)

lemma RecordLedgerEntry_sessions: "RecordLedgerEntry L p sid a x db = Inr ((), db') \<Longrightarrow> same_sessions db db'"
  by (auto simp: RecordLedgerEntry_def Let_def same_sessions_def split: if_splits)

lemma issueReleaseReceiverState_sessions: "issueReleaseReceiverState L now h w a sid x db = Inr ((), db') \<Longrightarrow> same_sessions db db'"
  by (auto simp: issueReleaseReceiverState_def same_sessions_def
      dest!: LockUserState_frame StoreUserState_frame RecordTransaction_frame)

lemma forS_sessions:
  assumes "forS f es () db = Inr ((), db')" and "\<And>p a x d d'. f (p, a, x) () d = Inr ((), d') \<Longrightarrow> same_sessions d d'"
  shows "same_sessions db db'"
  by (rule forS_rel [OF assms(1) _ same_sessions_order]) (metis assms(2) prod_cases3)

lemma same_sessions_refl [simp]: "same_sessions db db"
  by (simp add: same_sessions_def)

lemma same_sessions_trans: "same_sessions d e \<Longrightarrow> same_sessions e f \<Longrightarrow> same_sessions d f"
  by (simp add: same_sessions_def)

lemma handleOperateIntent_frame:
  assumes "handleOperateIntent L h upd cur W db = Inr ((), db')"
  shows "\<exists>es. db' = db \<lparr> app_ledger := es \<rparr>"
proof -
  define R :: "'a db \<Rightarrow> 'a db \<Rightarrow> bool" where "R d d' \<longleftrightarrow> (\<exists>es. d' = d \<lparr> app_ledger := es \<rparr>)" for d d'
  have refl: "R d d" for d unfolding R_def by (rule exI [of _ "app_ledger d"]) simp
  then have R: "reflp R" "transp R" "R d d" for d
    by (auto simp: R_def reflp_def transp_def)
  have rec: "RecordLedgerEntry L p sid a x d = Inr ((), d') \<Longrightarrow> R d d'" for p sid a x d d'
    using refl [of d] by (auto simp: R_def RecordLedgerEntry_def Let_def split: if_splits)
  show ?thesis
    using handleOperateIntent_ok [OF assms]
  proof (elim exE conjE, goal_cases)
    case (1 b inc sm db1)
    have "R db db1"
      by (rule forS_rel [OF 1(3) _ R(1,2)]) (auto simp: Let_def R(3) split: if_splits option.splits prod.splits dest: rec)
    moreover have "R db1 db'"
      by (rule forS_rel [OF 1(4) _ R(1,2)]) (auto simp: R(3) split: if_splits prod.splits dest: rec)
    ultimately show ?case using R(2) unfolding R_def [symmetric] by (meson transpD)
  qed
qed

lemma handleOperateIntent_sessions: "handleOperateIntent L h upd cur W db = Inr ((), db') \<Longrightarrow> same_sessions db db'"
  by (auto simp: same_sessions_def dest!: handleOperateIntent_frame)

lemma handleWithdrawIntent_sessions: "handleWithdrawIntent L now h upd cur W db = Inr ((), db') \<Longrightarrow> same_sessions db db'"
  by (auto simp: handleWithdrawIntent_def Let_def elim!: forS_sessions
      split: if_splits option.splits intro: same_sessions_trans [OF RecordLedgerEntry_sessions issueReleaseReceiverState_sessions])

lemma handleCloseIntent_sessions: "handleCloseIntent L now h upd cur W db = Inr ((), db') \<Longrightarrow> same_sessions db db'"
  by (auto simp: handleCloseIntent_def Let_def elim!: forS_sessions
      split: if_splits option.splits intro: same_sessions_trans [OF RecordLedgerEntry_sessions issueReleaseReceiverState_sessions])

lemma runIntent_sessions: "runIntent L now h upd cur W db = Inr ((), db') \<Longrightarrow> same_sessions db db'"
  by (auto simp: runIntent_def handleOperateIntent_sessions handleWithdrawIntent_sessions handleCloseIntent_sessions split: if_splits)

section \<open>A session of two wallets\<close>

text \<open>The wallet of the example transfer and another one share a session in which the first has 100 usdc; both have
  to sign.\<close>

definition se_key :: bytes where "se_key = [8]"

definition se_partner :: string where "se_partner = ''0x'' @ replicate 39 (CHR ''0'') @ ''8''"

definition se_handler :: "ref_decimal AppHandler" where
  "se_handler = \<lparr> ah_memoryStore = h_memoryStore tr_handler, ah_actionGateway = h_actionGateway tr_handler, ah_nodeKey = [5],
     ah_appRegistryEnabled = False, ah_maxParticipants = 5, ah_maxSessionData = 100, ah_maxSessionKeyIDs = 5, ah_maxSignedUpdates = 5 \<rparr>"

definition se_db :: "ref_decimal db" where
  "se_db = empty_db \<lparr>
     app_sessions := [\<lparr> asr_ID = ''0xcc'', asr_ApplicationID = ''chess'', asr_Nonce = 1, asr_SessionData = '''', asr_Quorum = 2,
       asr_Version = 1, asr_Status = AppSessionStatusOpen, asr_CreatedAt = 0, asr_UpdatedAt = 0 \<rparr>],
     app_participants := [\<lparr> apr_AppSessionID = ''0xcc'', apr_WalletAddress = tr_wallet, apr_SignatureWeight = 1 \<rparr>,
       \<lparr> apr_AppSessionID = ''0xcc'', apr_WalletAddress = se_partner, apr_SignatureWeight = 1 \<rparr>],
     app_ledger := [\<lparr> le_AccountID = ''0xcc'', le_AssetSymbol = ''usdc'', le_Wallet = tr_wallet, le_Credit = (100, 0), le_Debit = (0, 0) \<rparr>] \<rparr>"

definition se_request :: "AppStateUpdateIntent \<Rightarrow> (string \<times> string) list \<Rightarrow> RPC_AppStateUpdateV1" where
  "se_request intent allocs = \<lparr> ru_AppSessionID = ''0xcc'', ru_Intent = intent, ru_Version = ''2'',
     ru_Allocations = map (\<lambda>(w, x). \<lparr> rl_Participant = w, rl_Asset = ''usdc'', rl_Amount = x \<rparr>) allocs, ru_SessionData = '''' \<rparr>"

definition se_sigs :: "RPC_AppStateUpdateV1 \<Rightarrow> string list" where
  "se_sigs req = (case unmapAppStateUpdateV1 small_libs req of Inl _ \<Rightarrow> [] | Inr upd \<Rightarrow>
     map (\<lambda>key. hexutilEncode small_libs (ok_bytes (AppSessionSignerV1_Sign small_libs (AppSessionSignerTypeV1_Wallet, key)
       (ok_bytes (PackAppStateUpdateV1 small_libs upd))))) [tr_key, se_key])"

definition se_result :: "RPC_AppStateUpdateV1 \<Rightarrow> unit result \<times> ref_decimal db" where
  "se_result req = SubmitAppState small_libs 1000 se_handler req (se_sigs req) se_db"

definition se_operate :: RPC_AppStateUpdateV1 where
  "se_operate = se_request AppStateUpdateIntentOperate [(tr_wallet, ''60''), (se_partner, ''40'')]"

lemma se_operate_accepted: "fst (se_result se_operate) = Inr ()"
  by code_simp

lemma se_result_ok: "fst (se_result req) = Inr () \<Longrightarrow> SubmitAppState small_libs 1000 se_handler req (se_sigs req) se_db = (Inr (), snd (se_result req))"
  unfolding se_result_def by (metis prod.collapse)

lemma se_db_members: "ledger_of_members se_db ''0xcc''"
  by code_simp


section \<open>Acceptance of an update\<close>

text \<open>C31 (safety). A session update needs its quorum: an accepted one is for a stored session that is not closed, carries the next
  version, which becomes the version of the session, and is signed by distinct participants (or session keys they authorised)
  whose weights add up to at least the quorum, although the code adds the weights in eight bits.\<close>

theorem app_state_quorum:
  assumes "SubmitAppState L now h req sigs db = (Inr (), db')"
  shows "\<exists>upd s packed signers. checkAppStateRequest L h req = Inr upd \<and> GetAppSession db (au_AppSessionID upd) = Inr (Some s) \<and>
     se_Status s \<noteq> AppSessionStatusClosed \<and> au_Version upd = se_Version s + 1 \<and>
     map_option asr_Version (find_session db' (au_AppSessionID upd)) = Some (au_Version upd) \<and>
     PackAppStateUpdateV1 L upd = Inr packed \<and> distinct signers \<and>
     (\<forall>w \<in> set signers. \<exists>sig \<in> set sigs. recoverSigner L now db (au_AppSessionID upd) packed sig = Inr w) \<and>
     unat (se_Quorum s) \<le> (\<Sum>w\<leftarrow>signers. weight_of s w)"
proof -
  obtain upd where upd: "checkAppStateRequest L h req = Inr upd" "SubmitAppState_tx L now h sigs upd db = Inr ((), db')"
    using assms by (auto simp: SubmitAppState_def endpoint_ok)
  let ?sid = "au_AppSessionID upd"
  obtain s al packed cur db2 where s: "GetAppSession db ?sid = Inr (Some s)" "se_Status s \<noteq> AppSessionStatusClosed"
    "au_Version upd = se_Version s + 1" "PackAppStateUpdateV1 L upd = Inr packed"
    "verifyQuorum L now db ?sid (getParticipantWeights (se_Participants s)) (se_Quorum s) packed sigs = Inr ()"
    "runIntent L now h upd cur (getParticipantWeights (se_Participants s)) (db \<lparr> action_log := al \<rparr>) = Inr ((), db2)"
    "bumpSession now (au_SessionData upd)
       (if au_Intent upd = AppStateUpdateIntentClose then s \<lparr> se_Status := AppSessionStatusClosed \<rparr> else s) db2 = Inr ((), db')"
    using SubmitAppState_tx_ok [OF upd(2)] by blast
  obtain r where r: "find_session db ?sid = Some r" "s = load_session db r" using s(1) by (auto simp: GetAppSession_def)
  have r2: "find_session db2 ?sid = Some r"
    using r(1) runIntent_sessions [OF s(6)] by (simp add: same_sessions_def find_session_def)
  have "map_option asr_Version (find_session db' ?sid) = Some (au_Version upd)"
    using bumpSession_ok [OF s(7) r2] r(2) s(3) by (auto simp: load_session_def databaseAppSessionToCore_def)
  then show ?thesis using upd(1) s(1-4) verifyQuorum_ok [OF s(5)] by (auto simp: weight_of_def)
qed

theorem app_state_quorum_witness:
  "\<exists>upd s packed signers. checkAppStateRequest small_libs se_handler se_operate = Inr upd \<and> GetAppSession se_db (au_AppSessionID upd) = Inr (Some s) \<and>
     au_Version upd = se_Version s + 1 \<and> PackAppStateUpdateV1 small_libs upd = Inr packed \<and> distinct signers \<and>
     (\<forall>w \<in> set signers. \<exists>sig \<in> set (se_sigs se_operate). recoverSigner small_libs 1000 se_db (au_AppSessionID upd) packed sig = Inr w) \<and>
     unat (se_Quorum s) \<le> (\<Sum>w\<leftarrow>signers. weight_of s w)"
  using app_state_quorum [OF se_result_ok [OF se_operate_accepted]] by blast

section \<open>Redistribution\<close>

text \<open>C32 (functional). An accepted operate update redistributes and nothing else: afterwards every participant holds exactly the amount the update
  assigns (nothing where it assigns none), the amounts are non-negative and go to participants only, the session holds
  as much of every asset as before, and no channel state or transaction is added.\<close>

theorem operate_reallocates:
  assumes "decimal_spec L val" and "SubmitAppState L now h req sigs db = (Inr (), db')"
    and "ru_Intent req = AppStateUpdateIntentOperate" and "ledger_of_members db (ru_AppSessionID req)"
  shows "\<exists>upd. unmapAppStateUpdateV1 L req = Inr upd \<and>
     (\<forall>al \<in> set (au_Allocations upd). 0 \<le> val (al_Amount al) \<and> al_Participant al \<in> members db (ru_AppSessionID req)) \<and>
     (\<forall>w \<in> members db (ru_AppSessionID req). \<forall>a. holding val db' (ru_AppSessionID req) w a = allocated val (au_Allocations upd) w a) \<and>
     (\<forall>a. total val db' (ru_AppSessionID req) a = total val db (ru_AppSessionID req) a) \<and>
     states db' = states db \<and> transactions db' = transactions db \<and> ledger_of_members db' (ru_AppSessionID req)"
proof -
  obtain upd where upd: "checkAppStateRequest L h req = Inr upd" "SubmitAppState_tx L now h sigs upd db = Inr ((), db')"
    using assms(2) by (auto simp: SubmitAppState_def endpoint_ok)
  have u: "unmapAppStateUpdateV1 L req = Inr upd" "au_AppSessionID upd = ru_AppSessionID req" "au_Intent upd = AppStateUpdateIntentOperate"
    using upd(1) assms(3) by (auto simp: checkAppStateRequest_def unmapAppStateUpdateV1_def split: if_splits)
  let ?sid = "au_AppSessionID upd"
  obtain s al cur db2 where s: "GetAppSession db ?sid = Inr (Some s)" "GetParticipantAllocations L db ?sid = Inr cur"
    "handleOperateIntent L h upd cur (getParticipantWeights (se_Participants s)) (db \<lparr> action_log := al \<rparr>) = Inr ((), db2)"
    "bumpSession now (au_SessionData upd) s db2 = Inr ((), db')"
    using SubmitAppState_tx_ok [OF upd(2)] u(3) by (auto simp: runIntent_def)
  have ok: "ledger_of_members db ?sid" using assms(4) u(2) by simp
  have W: "gm_get (getParticipantWeights (se_Participants s)) w \<noteq> None \<longleftrightarrow> w \<in> members db ?sid" for w
    using weights_members(1) [OF s(1)] ok by (simp add: ledger_of_members_def)
  note eff = decimal_spec.operate_effect [OF assms(1) s(3), simplified, OF s(2) ok W [simplified]]
  have db': "app_ledger db' = app_ledger db2" "app_participants db' = app_participants db2" "states db' = states db2" "transactions db' = transactions db2"
    using s(4) by (auto simp: bumpSession_def UpdateAppSession_def Let_def split: if_splits)
  have frame: "states db2 = states db" "transactions db2 = transactions db"
    using handleOperateIntent_frame [OF s(3)] by auto
  have same: "holding val db' ?sid w a = holding val db2 ?sid w a" "total val db' ?sid a = total val db2 ?sid a"
    "ledger_of_members db' ?sid = ledger_of_members db2 ?sid" for w a
    using db' by (simp_all add: holding_def total_def ledger_of_members_def members_def)
  have "holding val db2 ?sid w a = allocated val (au_Allocations upd) w a" if "w \<in> members db ?sid" for w a
    using eff(2) that by (auto simp: ledger_moved_def)
  then show ?thesis
    using u eff(1,3) ledger_moved_ok [OF eff(2)] ok db' frame same by auto
qed

theorem operate_reallocates_witness:
  "\<exists>upd. unmapAppStateUpdateV1 small_libs se_operate = Inr upd \<and>
     (\<forall>w \<in> members se_db ''0xcc''. \<forall>a. holding ref_val (snd (se_result se_operate)) ''0xcc'' w a = allocated ref_val (au_Allocations upd) w a) \<and>
     (\<forall>a. total ref_val (snd (se_result se_operate)) ''0xcc'' a = total ref_val se_db ''0xcc'' a)"
proof -
  have r: "ru_Intent se_operate = AppStateUpdateIntentOperate" "ru_AppSessionID se_operate = ''0xcc''"
    by (simp_all add: se_operate_def se_request_def)
  show ?thesis
    using operate_reallocates [OF small_decimal se_result_ok [OF se_operate_accepted] r(1)] se_db_members r(2) by auto
qed

end
