(* ===== verification/Session_Payouts.thy ===== *)
theory Session_Payouts
  imports Session_Properties
begin

text \<open>
  What leaves a session: the withdraw and close intents pay participants out of the session ledger into their
  channel states.
\<close>

section \<open>Releases\<close>

lemma last_user_row_other:
  assumes "states d' = states d @ rs" and "\<And>r. r \<in> set rs \<Longrightarrow> sr_UserWallet r \<noteq> ToLower w \<or> sr_Asset r \<noteq> a"
  shows "last_user_row d' w a b = last_user_row d w a b"
proof -
  have "filter (\<lambda>r. sr_UserWallet r = ToLower w \<and> sr_Asset r = a \<and> (b \<longrightarrow> is_signed r)) rs = []"
    using assms(2) by (auto simp: filter_empty_conv)
  then show ?thesis using assms(1) by (simp add: last_user_row_def)
qed

lemma funds_of_other:
  assumes "states d' = states d @ rs" and "channels d' = channels d"
    and "\<And>r. r \<in> set rs \<Longrightarrow> sr_UserWallet r \<noteq> ToLower w \<or> sr_Asset r \<noteq> a"
  shows "funds_of val d' w a = funds_of val d w a"
proof -
  have "find_channel d' = find_channel d" using assms(2) by (simp add: fun_eq_iff find_channel_def)
  then have "load_state d' = load_state d" by (intro ext) (simp add: load_state_def join_channel_def cong: option.case_cong)
  then show ?thesis
    using last_user_row_other [OF assms(1,3)] by (simp add: funds_of_def GetLastUserState_def load_opt_def cong: option.case_cong)
qed

lemma funds_of_lower: "funds_of val d (ToLower w) a = funds_of val d w a"
  by (simp add: funds_of_def GetLastUserState_def last_user_row_def)

text \<open>A state row and a transaction that document one release of session funds, on top of what \<open>db\<close> holds.\<close>

definition released :: "('d \<Rightarrow> rat) \<Rightarrow> string \<Rightarrow> 'd db \<Rightarrow> 'd StateRow \<Rightarrow> 'd Transaction \<Rightarrow> bool" where
  "released val sid db r t \<longleftrightarrow> sr_TransitionType r = TransitionTypeRelease \<and> tx_TxType t = TransactionTypeRelease \<and>
     tx_FromAccount t = ToLower sid \<and> tx_ToAccount t = sr_UserWallet r \<and> tx_Asset t = sr_Asset r \<and> 0 < val (tx_Amount t) \<and>
     val (sr_HomeUserBalance r) = funds_of val db (sr_UserWallet r) (sr_Asset r) + val (tx_Amount t)"

text \<open>One payment of \<open>y\<close>, nothing when \<open>y\<close> is zero.\<close>

definition paid :: "('d \<Rightarrow> rat) \<Rightarrow> string \<Rightarrow> string \<Rightarrow> string \<Rightarrow> rat \<Rightarrow> 'd db \<Rightarrow> 'd db \<Rightarrow> bool" where
  "paid val sid p a y d d' \<longleftrightarrow> (y = 0 \<and> d' = d) \<or>
     (\<exists>r t. states d' = states d @ [r] \<and> transactions d' = transactions d @ [t] \<and> channels d' = channels d \<and> released val sid d r t \<and>
        sr_UserWallet r = p \<and> sr_Asset r = a \<and> val (tx_Amount t) = y \<and> ledger_moved val sid d d' (\<lambda>w b. if w = p \<and> b = a then - y else 0))"

definition paid_sum :: "('d \<Rightarrow> rat) \<Rightarrow> 'd Transaction list \<Rightarrow> string \<Rightarrow> string \<Rightarrow> rat" where
  "paid_sum val ts w a = (\<Sum>t\<leftarrow>ts. if tx_ToAccount t = w \<and> tx_Asset t = a then val (tx_Amount t) else 0)"

text \<open>A series of payments.\<close>

definition payouts :: "('d \<Rightarrow> rat) \<Rightarrow> string \<Rightarrow> 'd db \<Rightarrow> 'd db \<Rightarrow> (string \<times> string) set \<Rightarrow> bool" where
  "payouts val sid db db' K \<longleftrightarrow>
     (\<exists>rs ts. states db' = states db @ rs \<and> transactions db' = transactions db @ ts \<and> channels db' = channels db \<and>
        list_all2 (released val sid db) rs ts \<and> (\<forall>r \<in> set rs. (sr_UserWallet r, sr_Asset r) \<in> K) \<and>
        ledger_moved val sid db db' (\<lambda>w a. - paid_sum val ts w a))"

lemma payouts_mono: "payouts val sid db db' K \<Longrightarrow> K \<subseteq> K' \<Longrightarrow> payouts val sid db db' K'"
  unfolding payouts_def by blast

lemma released_later:
  assumes "released val sid d r t" and "states d = states db @ rs" and "channels d = channels db"
    and "\<And>q. q \<in> set rs \<Longrightarrow> (sr_UserWallet q, sr_Asset q) \<noteq> (sr_UserWallet r, sr_Asset r)" and "ToLower (sr_UserWallet r) = sr_UserWallet r"
  shows "released val sid db r t"
proof -
  have "funds_of val d (sr_UserWallet r) (sr_Asset r) = funds_of val db (sr_UserWallet r) (sr_Asset r)"
    by (rule funds_of_other [OF assms(2,3)]) (use assms(4,5) in auto)
  then show ?thesis using assms(1) by (simp add: released_def)
qed

lemma paid_sum_append [simp]: "paid_sum val (ss @ ts) w a = paid_sum val ss w a + paid_sum val ts w a"
  by (simp add: paid_sum_def)

lemma forS_payouts:
  assumes "forS f es () db = Inr ((), db')" and "distinct (map (\<lambda>(p, a, x). (p, a)) es)" and "members db sid = M"
    and "\<And>p a x d d'. (p, a, x) \<in> set es \<Longrightarrow> members d sid = M \<Longrightarrow> f (p, a, x) () d = Inr ((), d') \<Longrightarrow>
       paid val sid p a (g p a x) d d'"
    and "\<And>p a x. (p, a, x) \<in> set es \<Longrightarrow> ToLower p = p"
  shows "payouts val sid db db' ((\<lambda>(p, a, x). (p, a)) ` set es)"
    and "ledger_moved val sid db db' (\<lambda>w b. \<Sum>(p, a, x)\<leftarrow>es. if w = p \<and> b = a then - g p a x else 0)"
proof -
  have moved: "ledger_moved val sid d d' (\<lambda>w b. if w = p \<and> b = a then - g p a x else 0)"
    if "paid val sid p a (g p a x) d d'" for p a x d d'
    using that unfolding paid_def by (auto intro: ledger_moved_same)
  show "ledger_moved val sid db db' (\<lambda>w b. \<Sum>(p, a, x)\<leftarrow>es. if w = p \<and> b = a then - g p a x else 0)"
    by (rule forS_moved [OF _ assms(1,3)]) (use moved assms(4) in blast)
  show "payouts val sid db db' ((\<lambda>(p, a, x). (p, a)) ` set es)"
    using assms
  proof (induction es arbitrary: db)
    case Nil
    then show ?case by (auto simp: payouts_def paid_sum_def intro!: ledger_moved_same)
  next
    case (Cons e es)
    obtain p a x where e: "e = (p, a, x)" by (metis prod_cases3)
    obtain d where d: "f (p, a, x) () db = Inr ((), d)" "forS f es () d = Inr ((), db')" using Cons.prems(1) e by auto
    have pd: "paid val sid p a (g p a x) db d" using Cons.prems(4) [of p a x] d(1) e Cons.prems(3) by auto
    have md: "members d sid = M" using ledger_moved_members [OF moved [OF pd]] Cons.prems(3) by simp
    have rest: "payouts val sid d db' ((\<lambda>(p, a, x). (p, a)) ` set es)"
    proof (rule Cons.IH [OF d(2) _ md])
      show "ToLower q = q" if "(q, b, y) \<in> set es" for q b y using Cons.prems(5) that by (meson list.set_intros(2))
    qed (use Cons.prems(2,4) e in auto)
    show ?case
    proof (cases "d = db")
      case True
      then show ?thesis using rest by (auto simp: payouts_def)
    next
      case False
      then obtain r t where rt: "states d = states db @ [r]" "transactions d = transactions db @ [t]" "channels d = channels db"
          "released val sid db r t" "sr_UserWallet r = p" "sr_Asset r = a" "val (tx_Amount t) = g p a x"
          "ledger_moved val sid db d (\<lambda>w b. if w = p \<and> b = a then - g p a x else 0)"
        using pd unfolding paid_def by blast
      obtain rs ts where rest': "states db' = states d @ rs" "transactions db' = transactions d @ ts" "channels db' = channels d"
          "list_all2 (released val sid d) rs ts" "\<forall>r \<in> set rs. (sr_UserWallet r, sr_Asset r) \<in> (\<lambda>(p, a, x). (p, a)) ` set es"
          "ledger_moved val sid d db' (\<lambda>w a. - paid_sum val ts w a)"
        using rest unfolding payouts_def by blast
      have fresh: "(p, a) \<notin> (\<lambda>(p, a, x). (p, a)) ` set es" using Cons.prems(2) e by auto
      have "list_all2 (released val sid db) rs ts"
        using rest'(4)
      proof (rule list.rel_mono_strong)
        fix q u assume q: "q \<in> set rs" "released val sid d q u"
        then have k: "(sr_UserWallet q, sr_Asset q) \<noteq> (p, a)" using rest'(5) fresh by metis
        have "ToLower (sr_UserWallet q) = sr_UserWallet q" using q(1) rest'(5) Cons.prems(5) by fastforce
        then show "released val sid db q u"
          by (intro released_later [OF q(2) rt(1,3)]) (use k rt(5,6) in auto)
      qed
      moreover have "ledger_moved val sid db db' (\<lambda>w b. - paid_sum val (t # ts) w b)"
        by (rule ledger_moved_cong [OF ledger_moved_trans [OF rt(8) rest'(6)]])
           (use rt(4-7) in \<open>auto simp: paid_sum_def released_def\<close>)
      ultimately show ?thesis
        unfolding payouts_def using rt rest' e by (intro exI [of _ "r # rs"] exI [of _ "t # ts"]) auto
    qed
  qed
qed

section \<open>Issuing a release\<close>

lemma ApplyRelease_fields:
  "ApplyReleaseTransition L s sid a = Inr (t, s') \<Longrightarrow> s_UserWallet s' = s_UserWallet s \<and> s_Asset s' = s_Asset s \<and> s_Transition s' = t \<and> t_AccountID t = sid"
  by (auto simp: ApplyReleaseTransition_def NewTransition_def Let_def)

lemma signIssued_transition: "signIssued L store k s = Inr s' \<Longrightarrow> s_Transition s' = s_Transition s"
  by (auto simp: signIssued_def split: if_splits)

lemma release_transaction:
  assumes "NewTransactionFromTransition L now None (Some r) t = Inr tx" and "t_Type t = TransitionTypeRelease"
  shows "tx_TxType tx = TransactionTypeRelease \<and> tx_FromAccount tx = t_AccountID t \<and> tx_ToAccount tx = s_UserWallet r \<and>
     tx_Asset tx = s_Asset r \<and> tx_Amount tx = t_Amount t"
  using assms by (auto simp: NewTransactionFromTransition_def transaction_route_def NewTransaction_def Let_def)

lemma RecordTransaction_asset:
  "RecordTransaction tx db = Inr ((), db') \<Longrightarrow> \<exists>t. db' = db \<lparr> transactions := transactions db @ [t] \<rparr> \<and> tx_Amount t = tx_Amount tx \<and>
     tx_TxType t = tx_TxType tx \<and> tx_FromAccount t = ToLower (tx_FromAccount tx) \<and> tx_ToAccount t = ToLower (tx_ToAccount tx) \<and> tx_Asset t = tx_Asset tx"
  by (auto simp: RecordTransaction_def Let_def split: if_splits)

context decimal_spec
begin

lemma fst_home_effect_release: "fst (home_effect TransitionTypeRelease a v) = fst v + a"
  by (cases v) (simp add: home_effect.simps)

lemma issueReleaseReceiverState_effect:
  assumes "issueReleaseReceiverState L now h w a sid x db = Inr ((), db')" and "0 < val x"
  shows "\<exists>r t ub. db' = db \<lparr> states := states db @ [r], user_balances := ub, transactions := transactions db @ [t] \<rparr> \<and>
     released val sid db r t \<and> sr_UserWallet r = ToLower w \<and> sr_Asset r = a \<and> tx_Amount t = x"
proof -
  from assms(1) obtain u db1 st t n s db2 tx where
    lk: "LockUserState L w a db = Inr (u, db1)" and st: "GetLastUserState db1 w a False = Inr st"
    and ap: "ApplyReleaseTransition L (NextState L (orVoid L a w st)) sid x = Inr (t, n)"
    and sg: "signIssued L (asset_store (ah_memoryStore h)) (ah_nodeKey h) n = Inr s"
    and so: "StoreUserState L s db1 = Inr ((), db2)"
    and tx: "NewTransactionFromTransition L now None (Some s) t = Inr tx" "RecordTransaction tx db2 = Inr ((), db')"
    by (auto simp: issueReleaseReceiverState_def)
  obtain ub where db1: "db1 = db \<lparr> user_balances := ub \<rparr>" using LockUserState_frame [OF lk] by blast
  obtain ub2 where db2: "db2 = db \<lparr> states := states db @ [coreStateToDB L s], user_balances := ub2 \<rparr>"
    using StoreUserState_frame [OF so] unfolding db1 by auto
  have st0: "GetLastUserState db w a False = Inr st" using st unfolding db1 by simp
  note t = release_transition [OF ap] ApplyRelease_fields [OF ap] signIssued_fields [OF sg] signIssued_transition [OF sg]
  have bal: "val (l_UserBalance (s_HomeLedger s)) = funds_of val db w a + val x"
    using ApplyRelease_effect [OF ap] t home_before_orVoid [OF st0, of a w]
    by (simp add: records_effect_def NextState_HomeLedger home_before_def zero_ledger_def flip: fst_ledger_vals)
       (auto simp: fst_home_effect_release)
  have keys: "ToLower (s_UserWallet s) = ToLower w" "s_Asset s = a" using t orVoid_key [OF st0] by auto
  obtain t' where t': "db' = db2 \<lparr> transactions := transactions db2 @ [t'] \<rparr>" "tx_Amount t' = x" "tx_TxType t' = TransactionTypeRelease"
    "tx_FromAccount t' = ToLower sid" "tx_ToAccount t' = ToLower w" "tx_Asset t' = a"
    using RecordTransaction_asset [OF tx(2)] release_transaction [OF tx(1)] t keys by auto
  have "released val sid db (coreStateToDB L s) t'"
    using t' t keys bal assms(2) by (auto simp: released_def funds_of_lower) (simp add: coreStateToDB_def)
  then show ?thesis using t'(1,2) keys unfolding db2 by (intro exI [of _ "coreStateToDB L s"] exI [of _ t'] exI [of _ ub2]) auto
qed

text \<open>An entry of the ledger and the release it pays for.\<close>

lemma pay_ok:
  assumes "RecordLedgerEntry L p sid a (dNeg L x) db = Inr ((), db1)" and "issueReleaseReceiverState L now h p a sid x db1 = Inr ((), db')"
    and "0 < val x" and "ToLower p = p" and "p \<in> members db sid"
  shows "paid val sid p a (val x) db db'"
proof -
  have m: "ledger_moved val sid db db1 (\<lambda>w b. if w = p \<and> b = a then - val x else 0)"
    using RecordLedgerEntry_moved [OF assms(1,4,5)] by (simp cong: if_cong)
  have db1: "states db1 = states db" "transactions db1 = transactions db" "channels db1 = channels db"
    using assms(1) by (auto simp: RecordLedgerEntry_def Let_def split: if_splits)
  obtain r t ub where i: "db' = db1 \<lparr> states := states db1 @ [r], user_balances := ub, transactions := transactions db1 @ [t] \<rparr>"
    "released val sid db1 r t" "sr_UserWallet r = ToLower p" "sr_Asset r = a" "tx_Amount t = x"
    using issueReleaseReceiverState_effect [OF assms(2,3)] by blast
  have "ledger_moved val sid db1 db' (\<lambda>_ _. 0)" using i(1) by (simp add: ledger_moved_same)
  from ledger_moved_trans [OF m this]
  have m2: "ledger_moved val sid db db' (\<lambda>w b. if w = p \<and> b = a then - val x else 0)" by (simp cong: if_cong)
  have "released val sid db r t"
    using i(2) funds_of_other [of db1 db "[]"] db1 by (simp add: released_def)
  then show ?thesis
    unfolding paid_def using i db1 m2 assms(4) by auto
qed

lemma closeStep_ok:
  "closeStep L W x inc = Inr r \<longleftrightarrow> gm_get W (al_Participant x) \<noteq> None \<and> 0 \<le> val (al_Amount x) \<and>
     gm_get2 inc (al_Participant x) (al_Asset x) = None \<and> r = gm_put2 (al_Participant x) (al_Asset x) (al_Amount x) inc"
  by (auto simp: closeStep_def checkAllocation_def)

lemma withdrawStep_ok:
  "withdrawStep L W cur x inc = Inr r \<longleftrightarrow> closeStep L W x inc = Inr r \<and>
     (val (alloc_at L cur (al_Participant x) (al_Asset x)) = 0 \<longrightarrow> val (al_Amount x) = 0)"
  by (auto simp: withdrawStep_def closeStep_def)

lemma close_fold_get:
  "foldE (closeStep L W) als inc = Inr inc' \<Longrightarrow>
     gm_get2 inc' p a = (case gm_get2 inc p a of Some v \<Rightarrow> Some v
       | None \<Rightarrow> map_option al_Amount (find (\<lambda>al. al_Participant al = p \<and> al_Asset al = a) als))"
proof (induction als arbitrary: inc)
  case (Cons x als)
  then have "gm_get2 inc (al_Participant x) (al_Asset x) = None"
    "foldE (closeStep L W) als (gm_put2 (al_Participant x) (al_Asset x) (al_Amount x) inc) = Inr inc'"
    by (auto simp: closeStep_ok)
  then show ?case using Cons.IH by (auto split: option.splits)
qed (auto split: option.splits)

lemma close_fold_nonneg: "foldE (closeStep L W) als inc = Inr inc' \<Longrightarrow> al \<in> set als \<Longrightarrow> 0 \<le> val (al_Amount al)"
  by (induction als arbitrary: inc) (auto simp: closeStep_ok)

text \<open>A withdrawal passes the checks of a close, and moreover assigns nothing new.\<close>

lemma withdraw_fold:
  "foldE (withdrawStep L W cur) als inc = Inr inc' \<Longrightarrow>
     foldE (closeStep L W) als inc = Inr inc' \<and>
     (\<forall>al \<in> set als. val (alloc_at L cur (al_Participant al) (al_Asset al)) = 0 \<longrightarrow> val (al_Amount al) = 0)"
  by (induction als arbitrary: inc) (auto simp: withdrawStep_ok)

lemma payouts_of_session:
  assumes cur: "GetParticipantAllocations L db sid = Inr cur" and ok: "ledger_of_members db sid"
    and run: "forS f (sorted_entries L cur) () db = Inr ((), db')"
    and body: "\<And>p a x d d'. gm_get2 cur p a = Some x \<Longrightarrow> members d sid = members db sid \<Longrightarrow> p \<in> members db sid \<Longrightarrow> ToLower p = p \<Longrightarrow>
        f (p, a, x) () d = Inr ((), d') \<Longrightarrow> paid val sid p a (g p a x) d d'"
    and none: "\<And>p a. gm_get2 cur p a = None \<Longrightarrow> p \<in> members db sid \<Longrightarrow> k p a = 0"
    and some: "\<And>p a x. gm_get2 cur p a = Some x \<Longrightarrow> g p a x = val x - k p a"
  shows "payouts val sid db db' UNIV" and "w \<in> members db sid \<Longrightarrow> holding val db' sid w a = k w a"
proof -
  note wf = GetParticipantAllocations_wf [OF cur]
  have mem: "p \<in> members db sid" "ToLower p = p" if "gm_get2 cur p a = Some x" for p a x
    using allocations_at(1) [OF cur that] ok by (auto simp: ledger_of_members_def)
  have step: "paid val sid p a (g p a x) d d'"
    if "(p, a, x) \<in> set (sorted_entries L cur)" "members d sid = members db sid" "f (p, a, x) () d = Inr ((), d')" for p a x d d'
    by (rule body) (use that mem in \<open>auto simp: in_sorted_entries\<close>)
  have low: "ToLower p = p" if "(p, a, x) \<in> set (sorted_entries L cur)" for p a x
    using that mem by (simp add: in_sorted_entries)
  note fp = forS_payouts [where g = g, OF run distinct_sorted_entries [OF wf] refl]
  have po: "payouts val sid db db' ((\<lambda>(p, a, x). (p, a)) ` set (sorted_entries L cur))"
    "ledger_moved val sid db db' (\<lambda>w b. \<Sum>(p, a, x)\<leftarrow>sorted_entries L cur. if w = p \<and> b = a then - g p a x else 0)"
    by (rule fp, erule (2) step, erule low)+
  show "payouts val sid db db' UNIV" by (rule payouts_mono [OF po(1) subset_UNIV])
  assume w: "w \<in> members db sid"
  have "(\<Sum>(p, b, x)\<leftarrow>sorted_entries L cur. if w = p \<and> a = b then - g p b x else 0) = k w a - holding val db sid w a"
  proof (cases "gm_get2 cur w a")
    case None
    then show ?thesis
      using sum_by_distinct_key(2) [OF distinct_sorted_entries [OF wf], where p = w and a = a and g = "\<lambda>p b x. - g p b x"]
        allocations_at(2) [OF cur w, of a] none [OF None w] by (simp add: in_sorted_entries alloc_at_def)
  next
    case (Some x)
    then show ?thesis
      using sum_by_distinct_key(1) [OF distinct_sorted_entries [OF wf], where p = w and a = a and x = x and g = "\<lambda>p b x. - g p b x"]
        allocations_at(1) [OF cur Some] some [OF Some] by (simp add: in_sorted_entries)
  qed
  then show "holding val db' sid w a = k w a" using ledger_moved_holding [OF po(2), of w a] by simp
qed

lemma withdraw_effect:
  assumes run: "handleWithdrawIntent L now h upd cur W db = Inr ((), db')"
    and cur: "GetParticipantAllocations L db (au_AppSessionID upd) = Inr cur" and ok: "ledger_of_members db (au_AppSessionID upd)"
  shows "payouts val (au_AppSessionID upd) db db' UNIV"
    and "w \<in> members db (au_AppSessionID upd) \<Longrightarrow> holding val db' (au_AppSessionID upd) w a = allocated val (au_Allocations upd) w a"
proof -
  let ?sid = "au_AppSessionID upd" and ?als = "au_Allocations upd"
  obtain inc where inc: "foldE (withdrawStep L W cur) ?als [] = Inr inc"
    and r: "forS (\<lambda>(participant, asset, currentAmount) _.
        if dIsZero L currentAmount then retS ()
        else (case gm_get2 inc participant asset of
            None \<Rightarrow> failS (RPCError ''withdraw intent missing allocation'')
          | Some incomingAmount \<Rightarrow>
              if dGreaterThan L incomingAmount currentAmount then failS (RPCError ''withdraw intent cannot increase allocations'')
              else if dLessThan L incomingAmount currentAmount then
                let withdrawAmount = dSub L currentAmount incomingAmount in
                bindS (rpcS ''failed to record withdrawal ledger entry'' (RecordLedgerEntry L participant ?sid asset (dNeg L withdrawAmount))) (\<lambda>_.
                bindS (rpcS ''failed to get asset decimals'' (liftS (GetAssetDecimals (asset_store (ah_memoryStore h)) asset))) (\<lambda>decimals.
                bindS (rpcS ''invalid withdraw amount for allocation'' (liftS (ValidateDecimalPrecision L withdrawAmount decimals))) (\<lambda>_.
                rpcS ''failed to issue release state for participant''
                  (issueReleaseReceiverState L now h participant asset ?sid withdrawAmount))))
              else retS ())) (sorted_entries L cur) () db = Inr ((), db')"
    using run unfolding handleWithdrawIntent_def Let_def bindS_eq liftS_eq by blast
  have get: "gm_get2 inc p a = map_option al_Amount (find (\<lambda>al. al_Participant al = p \<and> al_Asset al = a) ?als)" for p a
    using close_fold_get [of W ?als "[]" inc] withdraw_fold [OF inc] by (simp add: gm_get2_def)
  have alloc: "allocated val ?als p a = val (alloc_at L inc p a)" for p a
    by (simp add: allocated_def alloc_at_def get split: option.splits)
  have zero: "allocated val ?als p a = 0" if "val (alloc_at L cur p a) = 0" for p a
    using withdraw_fold [OF inc] that by (auto simp: allocated_def find_Some_iff split: option.splits)
  have body: "paid val ?sid p a (val x - allocated val ?als p a) d d'"
    if c: "gm_get2 cur p a = Some x" and m: "members d ?sid = members db ?sid" "p \<in> members db ?sid" and l: "ToLower p = p"
      and f: "(if dIsZero L x then retS ()
        else (case gm_get2 inc p a of
            None \<Rightarrow> failS (RPCError ''withdraw intent missing allocation'')
          | Some incomingAmount \<Rightarrow>
              if dGreaterThan L incomingAmount x then failS (RPCError ''withdraw intent cannot increase allocations'')
              else if dLessThan L incomingAmount x then
                let withdrawAmount = dSub L x incomingAmount in
                bindS (rpcS ''failed to record withdrawal ledger entry'' (RecordLedgerEntry L p ?sid a (dNeg L withdrawAmount))) (\<lambda>_.
                bindS (rpcS ''failed to get asset decimals'' (liftS (GetAssetDecimals (asset_store (ah_memoryStore h)) a))) (\<lambda>decimals.
                bindS (rpcS ''invalid withdraw amount for allocation'' (liftS (ValidateDecimalPrecision L withdrawAmount decimals))) (\<lambda>_.
                rpcS ''failed to issue release state for participant''
                  (issueReleaseReceiverState L now h p a ?sid withdrawAmount))))
              else retS ())) d = Inr ((), d')" for p a x d d'
  proof (cases "val x = 0")
    case True
    then show ?thesis using f zero [of p a] c by (simp add: paid_def alloc_at_def)
  next
    case False
    then obtain v where v: "gm_get2 inc p a = Some v" using f by (auto split: option.splits)
    then have av: "allocated val ?als p a = val v" by (simp add: alloc alloc_at_def)
    show ?thesis
    proof (cases "val v < val x")
      case True
      then obtain e where "RecordLedgerEntry L p ?sid a (dNeg L (dSub L x v)) d = Inr ((), e)"
          "issueReleaseReceiverState L now h p a ?sid (dSub L x v) e = Inr ((), d')"
        using f False v by (auto simp: Let_def)
      then show ?thesis using pay_ok [of p ?sid a "dSub L x v" d e now h d'] True l m av by simp
    next
      case False
      then show ?thesis using f v av \<open>val x \<noteq> 0\<close> by (auto simp: paid_def split: if_splits)
    qed
  qed
  have none: "allocated val ?als p a = 0" if "gm_get2 cur p a = None" for p a
    using zero that by (simp add: alloc_at_def)
  note po = payouts_of_session [where k = "allocated val ?als" and g = "\<lambda>p a x. val x - allocated val ?als p a", OF cur ok r]
  show "payouts val ?sid db db' UNIV" by (rule po(1)) (use body none in auto)
  show "w \<in> members db ?sid \<Longrightarrow> holding val db' ?sid w a = allocated val ?als w a" by (rule po(2)) (use body none in auto)
qed

lemma close_effect:
  assumes run: "handleCloseIntent L now h upd cur W db = Inr ((), db')"
    and cur: "GetParticipantAllocations L db (au_AppSessionID upd) = Inr cur" and ok: "ledger_of_members db (au_AppSessionID upd)"
  shows "payouts val (au_AppSessionID upd) db db' UNIV"
    and "w \<in> members db (au_AppSessionID upd) \<Longrightarrow> holding val db' (au_AppSessionID upd) w a = 0"
proof -
  let ?sid = "au_AppSessionID upd"
  obtain inc where inc: "foldE (closeStep L W) (au_Allocations upd) [] = Inr inc"
    and chk: "foldE (\<lambda>(participant, asset, currentAmount) _.
          if dIsZero L currentAmount then Inr ()
          else (case gm_get2 inc participant asset of
              None \<Rightarrow> Inl (RPCError ''close intent missing allocation'')
            | Some incomingAmount \<Rightarrow>
                if \<not> dEqual L incomingAmount currentAmount
                then Inl (RPCError ''close intent requires allocations to match current state'') else Inr ()))
          (alloc_entries cur) () = Inr ()"
    and r: "forS (\<lambda>(participant, asset, amount) _.
        if dIsZero L amount then retS ()
        else
          bindS (rpcS ''failed to record close ledger entry'' (RecordLedgerEntry L participant ?sid asset (dNeg L amount))) (\<lambda>_.
          rpcS ''failed to issue release state for participant''
            (issueReleaseReceiverState L now h participant asset ?sid amount)))
        (sorted_entries L cur) () db = Inr ((), db')"
    using run unfolding handleCloseIntent_def Let_def bindS_eq liftS_eq by (auto simp del: foldE.simps)
  have get: "gm_get2 inc p a = map_option al_Amount (find (\<lambda>al. al_Participant al = p \<and> al_Asset al = a) (au_Allocations upd))" for p a
    using close_fold_get [OF inc] by (simp add: gm_get2_def)
  have pos: "0 < val x" if c: "gm_get2 cur p a = Some x" and x: "val x \<noteq> 0" for p a x
  proof -
    have "(p, a, x) \<in> set (alloc_entries cur)"
      using c by (simp add: in_alloc_entries [OF GetParticipantAllocations_wf [OF cur]])
    then obtain v where v: "gm_get2 inc p a = Some v" "val v = val x"
      using chk x unfolding foldE_check by (fastforce split: option.splits if_splits)
    then obtain al where "al \<in> set (au_Allocations upd)" "al_Amount al = v"
      unfolding get by (metis (no_types, lifting) find_Some_iff map_option_eq_Some nth_mem)
    then show ?thesis using close_fold_nonneg [OF inc] v(2) x by force
  qed
  have body: "paid val ?sid p a (val x) d d'"
    if c: "gm_get2 cur p a = Some x" and m: "members d ?sid = members db ?sid" "p \<in> members db ?sid" and l: "ToLower p = p"
      and f: "(if dIsZero L x then retS ()
        else bindS (rpcS ''failed to record close ledger entry'' (RecordLedgerEntry L p ?sid a (dNeg L x))) (\<lambda>_.
          rpcS ''failed to issue release state for participant'' (issueReleaseReceiverState L now h p a ?sid x))) d = Inr ((), d')" for p a x d d'
  proof (cases "val x = 0")
    case True
    then show ?thesis using f by (simp add: paid_def)
  next
    case False
    then show ?thesis using f pay_ok [of p ?sid a x d _ now h d'] pos [OF c False] l m by auto
  qed
  note po = payouts_of_session [where k = "\<lambda>_ _. 0" and g = "\<lambda>_ _ x. val x", OF cur ok r]
  show "payouts val ?sid db db' UNIV" by (rule po(1)) (use body in auto)
  show "w \<in> members db ?sid \<Longrightarrow> holding val db' ?sid w a = 0" by (rule po(2)) (use body in auto)
qed

end

section \<open>An accepted withdrawal or close\<close>

text \<open>C33 (invariant). What leaves a session reaches the participants: an accepted withdraw or close update adds release states and
  release transactions in pairs, each giving a participant a positive amount on top of what the participant had; what a participant
  held in the session drops by exactly the amounts of the transactions in favour of the participant, to the amount the update assigns,
  and to nothing on a close, which also closes the session.\<close>

theorem session_payouts:
  assumes "decimal_spec L val" and "SubmitAppState L now h req sigs db = (Inr (), db')"
    and "ru_Intent req \<in> {AppStateUpdateIntentWithdraw, AppStateUpdateIntentClose}" and "ledger_of_members db (ru_AppSessionID req)"
  shows "\<exists>upd rs ts. unmapAppStateUpdateV1 L req = Inr upd \<and> states db' = states db @ rs \<and> transactions db' = transactions db @ ts \<and>
     list_all2 (released val (ru_AppSessionID req) db) rs ts \<and>
     (\<forall>w \<in> members db (ru_AppSessionID req). \<forall>a.
        holding val db' (ru_AppSessionID req) w a = holding val db (ru_AppSessionID req) w a - paid_sum val ts w a \<and>
        holding val db' (ru_AppSessionID req) w a =
          (if ru_Intent req = AppStateUpdateIntentClose then 0 else allocated val (au_Allocations upd) w a)) \<and>
     (ru_Intent req = AppStateUpdateIntentClose \<longrightarrow>
        map_option asr_Status (find_session db' (ru_AppSessionID req)) = Some AppSessionStatusClosed)"
proof -
  obtain upd where upd: "checkAppStateRequest L h req = Inr upd" "SubmitAppState_tx L now h sigs upd db = Inr ((), db')"
    using assms(2) by (auto simp: SubmitAppState_def endpoint_ok)
  have u: "unmapAppStateUpdateV1 L req = Inr upd" "au_AppSessionID upd = ru_AppSessionID req" "au_Intent upd = ru_Intent req"
    using upd(1) by (auto simp: checkAppStateRequest_def unmapAppStateUpdateV1_def split: if_splits)
  let ?sid = "au_AppSessionID upd" and ?close = "au_Intent upd = AppStateUpdateIntentClose"
  obtain s al cur db2 where s: "GetAppSession db ?sid = Inr (Some s)" "GetParticipantAllocations L db ?sid = Inr cur"
    "runIntent L now h upd cur (getParticipantWeights (se_Participants s)) (db \<lparr> action_log := al \<rparr>) = Inr ((), db2)"
    "bumpSession now (au_SessionData upd) (if ?close then s \<lparr> se_Status := AppSessionStatusClosed \<rparr> else s) db2 = Inr ((), db')"
    using SubmitAppState_tx_ok [OF upd(2)] by blast
  have ok: "ledger_of_members (db \<lparr> action_log := al \<rparr>) ?sid" and cur: "GetParticipantAllocations L (db \<lparr> action_log := al \<rparr>) ?sid = Inr cur"
    using assms(4) u(2) s(2) by simp_all
  have pay: "payouts val ?sid (db \<lparr> action_log := al \<rparr>) db2 UNIV \<and>
      (\<forall>w \<in> members db ?sid. \<forall>a. holding val db2 ?sid w a = (if ?close then 0 else allocated val (au_Allocations upd) w a))"
  proof (cases ?close)
    case True
    then have run: "handleCloseIntent L now h upd cur (getParticipantWeights (se_Participants s)) (db \<lparr> action_log := al \<rparr>) = Inr ((), db2)"
      using s(3) by (simp add: runIntent_def)
    show ?thesis using decimal_spec.close_effect [OF assms(1) run cur ok] True by simp
  next
    case False
    then have run: "handleWithdrawIntent L now h upd cur (getParticipantWeights (se_Participants s)) (db \<lparr> action_log := al \<rparr>) = Inr ((), db2)"
      using s(3) assms(3) u(3) by (auto simp: runIntent_def)
    show ?thesis using decimal_spec.withdraw_effect [OF assms(1) run cur ok] False by simp
  qed
  obtain rs ts where po: "states db2 = states db @ rs" "transactions db2 = transactions db @ ts"
      "list_all2 (released val ?sid (db \<lparr> action_log := al \<rparr>)) rs ts" "ledger_moved val ?sid (db \<lparr> action_log := al \<rparr>) db2 (\<lambda>w a. - paid_sum val ts w a)"
    using pay unfolding payouts_def by auto
  obtain r where r: "find_session db ?sid = Some r" "s = load_session db r" using s(1) by (auto simp: GetAppSession_def)
  have r2: "find_session db2 ?sid = Some r"
    using r(1) runIntent_sessions [OF s(3)] by (simp add: same_sessions_def find_session_def)
  have s': "se_SessionID (if ?close then s \<lparr> se_Status := AppSessionStatusClosed \<rparr> else s) = asr_ID r"
    "se_Version (if ?close then s \<lparr> se_Status := AppSessionStatusClosed \<rparr> else s) = asr_Version r"
    using r(2) by (simp_all add: load_session_def databaseAppSessionToCore_def)
  obtain rows where b: "db' = db2 \<lparr> app_sessions := rows \<rparr>" "?close \<Longrightarrow> map_option asr_Status (find_session db' ?sid) = Some AppSessionStatusClosed"
    using bumpSession_ok [OF s(4) r2 s'] by auto
  have rel: "list_all2 (released val ?sid db) rs ts"
    using po(3) by (rule list_all2_mono) (simp add: released_def funds_of_def)
  have hold: "holding val db' ?sid w a = holding val db2 ?sid w a" for w a using b(1) by (simp add: holding_def)
  have "holding val db2 ?sid w a = holding val db ?sid w a - paid_sum val ts w a" for w a
    using ledger_moved_holding [OF po(4), of w a] by simp
  then show ?thesis
    using u po(1,2) rel pay b hold by (intro exI [of _ upd] exI [of _ rs] exI [of _ ts]) auto
qed

definition se_withdraw :: RPC_AppStateUpdateV1 where
  "se_withdraw = se_request AppStateUpdateIntentWithdraw [(tr_wallet, ''70'')]"

lemma se_withdraw_accepted: "fst (se_result se_withdraw) = Inr ()"
  by code_simp

theorem session_payouts_witness:
  "\<exists>upd rs ts. unmapAppStateUpdateV1 small_libs se_withdraw = Inr upd \<and> states (snd (se_result se_withdraw)) = states se_db @ rs \<and>
     list_all2 (released ref_val ''0xcc'' se_db) rs ts \<and>
     (\<forall>w \<in> members se_db ''0xcc''. \<forall>a. holding ref_val (snd (se_result se_withdraw)) ''0xcc'' w a = allocated ref_val (au_Allocations upd) w a)"
proof -
  have r: "ru_Intent se_withdraw \<in> {AppStateUpdateIntentWithdraw, AppStateUpdateIntentClose}" "ru_AppSessionID se_withdraw = ''0xcc''"
    "ru_Intent se_withdraw \<noteq> AppStateUpdateIntentClose"
    by (simp_all add: se_withdraw_def se_request_def)
  show ?thesis
    using session_payouts [OF small_decimal se_result_ok [OF se_withdraw_accepted] r(1)] se_db_members r(2,3) by auto
qed

end
