(* ===== verification/Contract_Client.thy ===== *)
theory Contract_Client
  imports Contract_State Signing
begin

text \<open>
  The client of the contracts, \<^verbatim>\<open>src/pkg/blockchain/evm/blockchain_client.go\<close>, \<^verbatim>\<open>locking_client.go\<close> and
  \<^verbatim>\<open>client_opts.go\<close>. The generated bindings and the chain behind them are parameters: \<open>evm\<close> reads the chain \<open>'w\<close> and sends
  transactions to it. The client keeps one piece of state, the value its next transaction carries
  (\<^verbatim>\<open>transactOpts.Value\<close>); a method returns its result, the client and the chain.
\<close>

section \<open>Definitions for the contract\<close>

text \<open>\<^verbatim>\<open>(*big.Int).SetString(s, 0)\<close>: the prefix decides the base, underscores may separate digits.\<close>

definition numberBody :: "string \<Rightarrow> int \<times> string \<times> bool" where
  "numberBody ds =
     (if HasPrefix ds ''0x'' \<or> HasPrefix ds ''0X'' then (16, drop 2 ds, True)
      else if HasPrefix ds ''0b'' \<or> HasPrefix ds ''0B'' then (2, drop 2 ds, True)
      else if HasPrefix ds ''0o'' \<or> HasPrefix ds ''0O'' then (8, drop 2 ds, True)
      else if HasPrefix ds ''0'' \<and> 1 < length ds then (8, drop 1 ds, True)
      else (10, ds, False))"

fun separatorsOK :: "string \<Rightarrow> bool" where
  "separatorsOK [] = False"
| "separatorsOK [c] = (c \<noteq> CHR ''_'')"
| "separatorsOK (c # d # cs) = ((c \<noteq> CHR ''_'' \<or> d \<noteq> CHR ''_'') \<and> separatorsOK (d # cs))"

definition SetString0 :: "string \<Rightarrow> int option" where
  "SetString0 s =
     (let neg = HasPrefix s ''-'';
          (base, body, prefixed) = numberBody (if neg \<or> HasPrefix s ''+'' then drop 1 s else s);
          vals = map hex_val (filter (\<lambda>c. c \<noteq> CHR ''_'') body)
      in if separatorsOK body \<and> (prefixed \<or> hd body \<noteq> CHR ''_'') \<and> list_all (\<lambda>v. case v of None \<Rightarrow> False | Some n \<Rightarrow> n < base) vals
         then let n = foldl (\<lambda>n v. base * n + the v) 0 vals in Some (if neg then - n else n)
         else None)"

record ContractDefinition =
  cdf_ChallengeDuration :: uint32
  cdf_User :: bytes
  cdf_Node :: bytes
  cdf_Nonce :: uint64
  cdf_ApprovedSignatureValidators :: int
  cdf_Metadata :: bytes

definition coreDefToContractDef :: "'d libs \<Rightarrow> ChannelDefinition \<Rightarrow> string \<Rightarrow> string \<Rightarrow> bytes \<Rightarrow> ContractDefinition result" where
  "coreDefToContractDef L def asset userWallet nodeAddress =
     bindE (if cd_ApprovedSigValidators def = '''' then Inr 0
            else (case SetString0 (cd_ApprovedSigValidators def) of
                None \<Rightarrow> Inl (Err ''failed to parse approved sig validators'') | Some n \<Rightarrow> Inr n)) (\<lambda>approvedSigValidators.
     Inr \<lparr> cdf_ChallengeDuration = cd_Challenge def, cdf_User = HexToAddress L userWallet, cdf_Node = nodeAddress,
           cdf_Nonce = cd_Nonce def, cdf_ApprovedSignatureValidators = approvedSigValidators,
           cdf_Metadata = GenerateChannelMetadata L asset \<rparr>)"

section \<open>The chain\<close>

text \<open>The transactions the clients send: methods of the channel hub, of an ERC-20 token and of the locking contract.\<close>

datatype ContractCall =
    DepositToNode bytes int
  | WithdrawFromNode bytes bytes int
  | TokenApprove bytes bytes int
  | CreateChannelCall ContractDefinition ContractState
  | InitiateMigration ContractDefinition ContractState
  | CheckpointChannel bytes ContractState
  | DepositToChannel bytes ContractState
  | WithdrawFromChannel bytes ContractState
  | ChallengeChannel bytes ContractState bytes uint8
  | CloseChannel bytes ContractState
  | InitiateEscrowDepositCall ContractDefinition ContractState
  | ChallengeEscrowDepositCall bytes bytes uint8
  | FinalizeEscrowDepositCall bytes bytes ContractState
  | InitiateEscrowWithdrawalCall ContractDefinition ContractState
  | ChallengeEscrowWithdrawalCall bytes bytes uint8
  | FinalizeEscrowWithdrawalCall bytes bytes ContractState
  | RegisterNodeValidator uint8 bytes bytes
  | LockTokens bytes int
  | RelockTokens
  | UnlockTokens
  | WithdrawTokens bytes

record ChannelData =
  cda_Nonce :: uint64
  cda_ChallengeDuration :: uint32
  cda_Node :: bytes
  cda_LastState :: ContractState
  cda_ChallengeExpiry :: int

record EscrowData =
  eda_InitState :: ContractState
  eda_UnlockAt :: uint64
  eda_ChallengeExpiry :: uint64

record 'w evm =
  evm_Allowance :: "bytes \<Rightarrow> bytes \<Rightarrow> bytes \<Rightarrow> 'w \<Rightarrow> int result"
  evm_BalanceOf :: "bytes \<Rightarrow> bytes \<Rightarrow> 'w \<Rightarrow> int result"
  evm_BalanceAt :: "bytes \<Rightarrow> 'w \<Rightarrow> int result"
  evm_Decimals :: "bytes \<Rightarrow> 'w \<Rightarrow> uint8 result"
  evm_NodeBalance :: "bytes \<Rightarrow> 'w \<Rightarrow> int result"
  evm_OpenChannels :: "bytes \<Rightarrow> 'w \<Rightarrow> bytes list result"
  evm_ChannelData :: "bytes \<Rightarrow> 'w \<Rightarrow> ChannelData result"
  evm_EscrowDepositData :: "bytes \<Rightarrow> 'w \<Rightarrow> EscrowData result"
  evm_EscrowWithdrawalData :: "bytes \<Rightarrow> 'w \<Rightarrow> EscrowData result"
  evm_NodeValidator :: "uint8 \<Rightarrow> 'w \<Rightarrow> bytes result"
  evm_LockingAsset :: "bytes \<Rightarrow> 'w \<Rightarrow> bytes result"
  evm_LockedBalance :: "bytes \<Rightarrow> bytes \<Rightarrow> 'w \<Rightarrow> int result"
  evm_Transact :: "bytes \<Rightarrow> bytes \<Rightarrow> ContractCall \<Rightarrow> int option \<Rightarrow> 'w \<Rightarrow> bytes result \<times> 'w"

text \<open>\<open>evm_Transact\<close> takes the contract, the sender, the call and the value sent along.\<close>

record evm_AssetStore = AssetStore +
  as_GetTokenAddress :: "string \<Rightarrow> uint64 \<Rightarrow> string result"

record BlockchainClient =
  bcl_blockchainID :: uint64
  bcl_value :: "int option"
  bcl_from :: bytes
  bcl_key :: bytes
  bcl_nodeAddress :: bytes
  bcl_hub :: bytes
  bcl_assetStore :: evm_AssetStore
  bcl_requireCheckAllowance :: bool
  bcl_requireCheckBalance :: bool
  bcl_checkFee :: bool

section \<open>Methods as functions of the client and the chain\<close>

text \<open>A method that fails keeps what it did to the client and the chain so far.\<close>

type_synonym ('s, 'a) call_op = "'s \<Rightarrow> 'a result \<times> 's"

type_synonym ('w, 'a) eth_op = "(BlockchainClient \<times> 'w, 'a) call_op"

definition bindC :: "('s, 'a) call_op \<Rightarrow> ('a \<Rightarrow> ('s, 'b) call_op) \<Rightarrow> ('s, 'b) call_op" where
  "bindC m f = (\<lambda>s. case m s of (Inl e, s') \<Rightarrow> (Inl e, s') | (Inr a, s') \<Rightarrow> f a s')"

definition liftC :: "'a result \<Rightarrow> ('s, 'a) call_op" where "liftC r = (\<lambda>s. (r, s))"

definition readC :: "(BlockchainClient \<Rightarrow> 'w \<Rightarrow> 'a result) \<Rightarrow> ('w, 'a) eth_op" where
  "readC f = (\<lambda>(c, w). (f c w, (c, w)))"

text \<open>\<^verbatim>\<open>transactOpts.Value = value; defer func() { transactOpts.Value = nil }()\<close> around the rest of the method.\<close>

definition withValue :: "int \<Rightarrow> ('w, 'a) eth_op \<Rightarrow> ('w, 'a) eth_op" where
  "withValue v m = (\<lambda>(c, w). case m (c \<lparr> bcl_value := Some v \<rparr>, w) of (r, (c', w')) \<Rightarrow> (r, (c' \<lparr> bcl_value := None \<rparr>, w')))"

definition transactAt :: "'d libs \<Rightarrow> 'w evm \<Rightarrow> string \<Rightarrow> bytes \<Rightarrow> ContractCall \<Rightarrow> ('w, string) eth_op" where
  "transactAt L E msg contract call = (\<lambda>(c, w). case evm_Transact E contract (bcl_from c) call (bcl_value c) w of
     (r, w') \<Rightarrow> (mapE (hashHex L) (wrapE msg r), (c, w')))"

definition transact :: "'d libs \<Rightarrow> 'w evm \<Rightarrow> string \<Rightarrow> ContractCall \<Rightarrow> ('w, string) eth_op" where
  "transact L E msg call = bindC (readC (\<lambda>c w. Inr (bcl_hub c))) (\<lambda>hub. transactAt L E msg hub call)"

lemma bindC_code [code_unfold]:
  "bindC m f = (\<lambda>s. let (r, s') = m s in case r of Inl e \<Rightarrow> (Inl e, s') | Inr a \<Rightarrow> f a s')"
  by (auto simp: bindC_def fun_eq_iff split: prod.splits sum.splits)

section \<open>Reading the chain\<close>

definition zeroAddress :: bytes where "zeroAddress = replicate 20 0"

definition checkFeeFn :: "'w evm \<Rightarrow> BlockchainClient \<Rightarrow> 'w \<Rightarrow> unit result" where
  "checkFeeFn E c w =
     (if \<not> bcl_checkFee c then Inr ()
      else bindE (evm_BalanceAt E (bcl_from c) w) (\<lambda>balance.
           if balance \<le> 0 then Inl (Err ''insufficient balance for fee'') else Inr ()))"

definition getAllowance :: "'d libs \<Rightarrow> 'w evm \<Rightarrow> string \<Rightarrow> string \<Rightarrow> BlockchainClient \<Rightarrow> 'w \<Rightarrow> 'd result" where
  "getAllowance L E asset owner c w =
     bindE (wrapE ''failed to get token address'' (as_GetTokenAddress (bcl_assetStore c) asset (bcl_blockchainID c))) (\<lambda>tokenAddrHex.
     let tokenAddr = HexToAddress L tokenAddrHex in
     if tokenAddr = zeroAddress then Inr (dNew L 1 18)
     else
       bindE (wrapE ''failed to get allowance for token'' (evm_Allowance E tokenAddr (HexToAddress L owner) (bcl_hub c) w)) (\<lambda>allowance.
       bindE (wrapE ''failed to get token decimals'' (GetTokenDecimals (bcl_assetStore c) (bcl_blockchainID c) tokenAddrHex)) (\<lambda>decimals.
       Inr (dNew L allowance (- int (unat decimals))))))"

definition GetTokenBalance :: "'d libs \<Rightarrow> 'w evm \<Rightarrow> string \<Rightarrow> string \<Rightarrow> BlockchainClient \<Rightarrow> 'w \<Rightarrow> 'd result" where
  "GetTokenBalance L E asset walletAddress c w =
     bindE (wrapE ''failed to get token address'' (as_GetTokenAddress (bcl_assetStore c) asset (bcl_blockchainID c))) (\<lambda>tokenAddrHex.
     let tokenAddr = HexToAddress L tokenAddrHex; walletAddr = HexToAddress L walletAddress in
     if tokenAddr = zeroAddress then
       bindE (wrapE ''failed to get native balance for wallet'' (evm_BalanceAt E walletAddr w)) (\<lambda>balance.
       Inr (dNew L balance (- 18)))
     else
       bindE (wrapE ''failed to get balance for wallet'' (evm_BalanceOf E tokenAddr walletAddr w)) (\<lambda>balance.
       bindE (wrapE ''failed to get token decimals'' (GetTokenDecimals (bcl_assetStore c) (bcl_blockchainID c) tokenAddrHex)) (\<lambda>decimals.
       Inr (dNew L balance (- int (unat decimals))))))"

definition Client_GetNodeBalance :: "'d libs \<Rightarrow> 'w evm \<Rightarrow> string \<Rightarrow> BlockchainClient \<Rightarrow> 'w \<Rightarrow> 'd result" where
  "Client_GetNodeBalance L E token c w =
     bindE (wrapE ''failed to get node balance for token'' (evm_NodeBalance E (HexToAddress L token) w)) (\<lambda>balance.
     bindE (wrapE ''failed to get token decimals for token'' (GetTokenDecimals (bcl_assetStore c) (bcl_blockchainID c) token)) (\<lambda>decimals.
     Inr (dNew L balance (- int (unat decimals)))))"

definition GetOpenChannels :: "'d libs \<Rightarrow> 'w evm \<Rightarrow> string \<Rightarrow> BlockchainClient \<Rightarrow> 'w \<Rightarrow> string list result" where
  "GetOpenChannels L E user c w =
     mapE (map (hexutilEncode L)) (wrapE ''failed to get open channels for user'' (evm_OpenChannels E (HexToAddress L user) w))"

record 'd HomeChannelDataResponse =
  hcd_Definition :: ChannelDefinition
  hcd_Node :: string
  hcd_LastState :: "'d State"
  hcd_ChallengeExpiry :: uint64

definition GetHomeChannelData :: "'d libs \<Rightarrow> 'w evm \<Rightarrow> string \<Rightarrow> BlockchainClient \<Rightarrow> 'w \<Rightarrow> 'd HomeChannelDataResponse result" where
  "GetHomeChannelData L E homeChannelID c w =
     bindE (wrapE ''invalid channel ID'' (evm_hexToBytes32 L homeChannelID)) (\<lambda>channelIDBytes.
     bindE (wrapE ''failed to get channel data for channel'' (evm_ChannelData E channelIDBytes w)) (\<lambda>data.
     Inr \<lparr> hcd_Definition = \<lparr> cd_Nonce = cda_Nonce data, cd_Challenge = cda_ChallengeDuration data, cd_ApprovedSigValidators = '''' \<rparr>,
           hcd_Node = addressHex L (cda_Node data), hcd_LastState = contractStateToCoreState L (cda_LastState data) homeChannelID None,
           hcd_ChallengeExpiry = of_int (cda_ChallengeExpiry data) \<rparr>))"

record 'd EscrowDataResponse =
  edr_EscrowChannelID :: string
  edr_Node :: string
  edr_LastState :: "'d State"
  edr_UnlockExpiry :: uint64
  edr_ChallengeExpiry :: uint64

definition GetEscrowDepositData :: "'d libs \<Rightarrow> 'w evm \<Rightarrow> string \<Rightarrow> BlockchainClient \<Rightarrow> 'w \<Rightarrow> 'd EscrowDataResponse result" where
  "GetEscrowDepositData L E escrowChannelID c w =
     bindE (wrapE ''invalid escrow ID'' (evm_hexToBytes32 L escrowChannelID)) (\<lambda>escrowIDBytes.
     bindE (wrapE ''failed to get escrow deposit data for escrow'' (evm_EscrowDepositData E escrowIDBytes w)) (\<lambda>data.
     Inr \<lparr> edr_EscrowChannelID = escrowChannelID, edr_Node = addressHex L (bcl_nodeAddress c),
           edr_LastState = contractStateToCoreState L (eda_InitState data) '''' (Some escrowChannelID),
           edr_UnlockExpiry = eda_UnlockAt data, edr_ChallengeExpiry = eda_ChallengeExpiry data \<rparr>))"

text \<open>A withdrawal has no expiry fields; they stay zero.\<close>

definition GetEscrowWithdrawalData :: "'d libs \<Rightarrow> 'w evm \<Rightarrow> string \<Rightarrow> BlockchainClient \<Rightarrow> 'w \<Rightarrow> 'd EscrowDataResponse result" where
  "GetEscrowWithdrawalData L E escrowChannelID c w =
     bindE (wrapE ''invalid escrow ID'' (evm_hexToBytes32 L escrowChannelID)) (\<lambda>escrowIDBytes.
     bindE (wrapE ''failed to get escrow withdrawal data for escrow'' (evm_EscrowWithdrawalData E escrowIDBytes w)) (\<lambda>data.
     Inr \<lparr> edr_EscrowChannelID = escrowChannelID, edr_Node = addressHex L (bcl_nodeAddress c),
           edr_LastState = contractStateToCoreState L (eda_InitState data) '''' (Some escrowChannelID),
           edr_UnlockExpiry = 0, edr_ChallengeExpiry = 0 \<rparr>))"

section \<open>Sending transactions\<close>

text \<open>The funds check before a deposit.\<close>

definition checkDepositFunds :: "'d libs \<Rightarrow> 'w evm \<Rightarrow> 'd State \<Rightarrow> BlockchainClient \<Rightarrow> 'w \<Rightarrow> unit result" where
  "checkDepositFunds L E s c w =
     bindE (if bcl_requireCheckAllowance c then
              bindE (wrapE ''failed to get allowance'' (getAllowance L E (s_Asset s) (s_UserWallet s) c w)) (\<lambda>allowance.
              if dLessThan L allowance (t_Amount (s_Transition s))
              then Inl (Err ''allowance is not sufficient to cover the deposit amount'') else Inr ())
            else Inr ()) (\<lambda>_.
     if bcl_requireCheckBalance c then
       bindE (wrapE ''failed to check token balance'' (GetTokenBalance L E (s_Asset s) (s_UserWallet s) c w)) (\<lambda>tokenBalance.
       if dLessThan L tokenBalance (t_Amount (s_Transition s))
       then Inl (Err ''balance is not sufficient to cover the deposit amount'') else Inr ())
     else Inr ())"

text \<open>A deposit of the native token sends its amount along with the rest of the method.\<close>

definition withDeposit :: "'d libs \<Rightarrow> 'd State \<Rightarrow> ContractState \<Rightarrow> ('w, string) eth_op \<Rightarrow> ('w, string) eth_op" where
  "withDeposit L s cs rest =
     (if cl_Token (cs_HomeLedger cs) = zeroAddress then
        bindC (liftC (wrapE ''failed to convert native deposit amount to wei''
          (DecimalToBigInt L (t_Amount (s_Transition s)) (cl_Decimals (cs_HomeLedger cs))))) (\<lambda>value. withValue value rest)
      else rest)"

definition contractStateOf :: "'d libs \<Rightarrow> string \<Rightarrow> 'd State \<Rightarrow> ('w, ContractState) eth_op" where
  "contractStateOf L msg s = readC (\<lambda>c w. wrapE msg (coreStateToContractState L s (GetTokenDecimals (bcl_assetStore c))))"

definition contractDefOf :: "'d libs \<Rightarrow> ChannelDefinition \<Rightarrow> 'd State \<Rightarrow> ('w, ContractDefinition) eth_op" where
  "contractDefOf L def s = readC (\<lambda>c w. wrapE ''failed to convert channel definition''
     (coreDefToContractDef L def (s_Asset s) (s_UserWallet s) (bcl_nodeAddress c)))"

definition channelIDOf :: "'d libs \<Rightarrow> string \<Rightarrow> string \<Rightarrow> string option \<Rightarrow> ('w, bytes) eth_op" where
  "channelIDOf L missing invalid channelID = liftC (case channelID of
     None \<Rightarrow> Inl (Err missing) | Some i \<Rightarrow> wrapE invalid (evm_hexToBytes32 L i))"

definition Client_Deposit :: "'d libs \<Rightarrow> 'w evm \<Rightarrow> string \<Rightarrow> 'd \<Rightarrow> ('w, string) eth_op" where
  "Client_Deposit L E token amount =
     (let tokenAddr = HexToAddress L token in
      bindC (readC (\<lambda>c w. wrapE ''failed to get token decimals for token'' (GetTokenDecimals (bcl_assetStore c) (bcl_blockchainID c) token))) (\<lambda>decimals.
      bindC (liftC (wrapE ''failed to convert amount to big.Int'' (DecimalToBigInt L amount decimals))) (\<lambda>amountBig.
      (if tokenAddr = zeroAddress then withValue amountBig else (\<lambda>rest. rest))
        (bindC (readC (checkFeeFn E)) (\<lambda>_. transact L E ''failed to deposit to node'' (DepositToNode tokenAddr amountBig))))))"

definition Client_Withdraw :: "'d libs \<Rightarrow> 'w evm \<Rightarrow> string \<Rightarrow> string \<Rightarrow> 'd \<Rightarrow> ('w, string) eth_op" where
  "Client_Withdraw L E to token amount =
     bindC (readC (\<lambda>c w. wrapE ''failed to get token decimals for token'' (GetTokenDecimals (bcl_assetStore c) (bcl_blockchainID c) token))) (\<lambda>decimals.
     bindC (liftC (wrapE ''failed to convert amount to big.Int'' (DecimalToBigInt L amount decimals))) (\<lambda>amountBig.
     bindC (readC (checkFeeFn E)) (\<lambda>_.
     transact L E ''failed to withdraw from node'' (WithdrawFromNode (HexToAddress L to) (HexToAddress L token) amountBig))))"

definition Client_Approve :: "'d libs \<Rightarrow> 'w evm \<Rightarrow> string \<Rightarrow> 'd \<Rightarrow> ('w, string) eth_op" where
  "Client_Approve L E asset amount =
     bindC (readC (\<lambda>c w. wrapE ''failed to get token address'' (as_GetTokenAddress (bcl_assetStore c) asset (bcl_blockchainID c)))) (\<lambda>tokenAddrHex.
     let tokenAddr = HexToAddress L tokenAddrHex in
     if tokenAddr = zeroAddress then liftC (Inl (Err ''native tokens do not require approval''))
     else
       bindC (readC (\<lambda>c w. wrapE ''failed to get token decimals'' (GetTokenDecimals (bcl_assetStore c) (bcl_blockchainID c) tokenAddrHex))) (\<lambda>decimals.
       bindC (liftC (wrapE ''failed to convert amount to big.Int'' (DecimalToBigInt L amount decimals))) (\<lambda>amountBig.
       bindC (readC (checkFeeFn E)) (\<lambda>_.
       bindC (readC (\<lambda>c w. Inr (bcl_hub c))) (\<lambda>hub.
       transactAt L E ''failed to approve token spending'' tokenAddr (TokenApprove tokenAddr hub amountBig))))))"

definition Client_Create :: "'d libs \<Rightarrow> 'w evm \<Rightarrow> ChannelDefinition \<Rightarrow> 'd State \<Rightarrow> ('w, string) eth_op" where
  "Client_Create L E def initCCS =
     bindC (contractDefOf L def initCCS) (\<lambda>contractDef.
     bindC (contractStateOf L ''failed to convert state'' initCCS) (\<lambda>contractState.
     let intent = cs_Intent contractState;
         send = bindC (readC (checkFeeFn E)) (\<lambda>_. transact L E ''failed to create channel'' (CreateChannelCall contractDef contractState)) in
     if intent = INTENT_OPERATE \<or> intent = INTENT_WITHDRAW then send
     else if intent = INTENT_DEPOSIT then
       bindC (readC (checkDepositFunds L E initCCS)) (\<lambda>_. withDeposit L initCCS contractState send)
     else liftC (Inl (Err ''unsupported intent for create''))))"

definition Client_MigrateChannelHere :: "'d libs \<Rightarrow> 'w evm \<Rightarrow> ChannelDefinition \<Rightarrow> 'd State \<Rightarrow> ('w, string) eth_op" where
  "Client_MigrateChannelHere L E def candidate =
     bindC (contractDefOf L def candidate) (\<lambda>contractDef.
     bindC (contractStateOf L ''failed to convert candidate state'' candidate) (\<lambda>contractCandidate.
     bindC (readC (checkFeeFn E)) (\<lambda>_.
     transact L E ''failed to initiate migration'' (InitiateMigration contractDef contractCandidate))))"

definition homeIDOf :: "'d libs \<Rightarrow> 'd State \<Rightarrow> ('w, bytes) eth_op" where
  "homeIDOf L s = channelIDOf L ''candidate state must have a home channel ID'' ''invalid channel ID'' (s_HomeChannelID s)"

definition escrowIDOf :: "'d libs \<Rightarrow> 'd State \<Rightarrow> ('w, bytes) eth_op" where
  "escrowIDOf L s = channelIDOf L ''candidate state must have an escrow channel ID'' ''invalid escrow ID'' (s_EscrowChannelID s)"

definition Client_Checkpoint :: "'d libs \<Rightarrow> 'w evm \<Rightarrow> 'd State \<Rightarrow> ('w, string) eth_op" where
  "Client_Checkpoint L E candidate =
     bindC (homeIDOf L candidate) (\<lambda>channelIDBytes.
     bindC (contractStateOf L ''failed to convert candidate state'' candidate) (\<lambda>contractCandidate.
     bindC (readC (checkFeeFn E)) (\<lambda>_.
     let intent = cs_Intent contractCandidate; send = transact L E ''failed to checkpoint channel'' in
     if intent = INTENT_OPERATE then send (CheckpointChannel channelIDBytes contractCandidate)
     else if intent = INTENT_DEPOSIT then
       bindC (readC (checkDepositFunds L E candidate)) (\<lambda>_.
       withDeposit L candidate contractCandidate (send (DepositToChannel channelIDBytes contractCandidate)))
     else if intent = INTENT_WITHDRAW then send (WithdrawFromChannel channelIDBytes contractCandidate)
     else liftC (Inl (Err ''unsupported intent for checkpointing'')))))"

definition Client_Challenge :: "'d libs \<Rightarrow> 'w evm \<Rightarrow> 'd State \<Rightarrow> bytes \<Rightarrow> uint8 \<Rightarrow> ('w, string) eth_op" where
  "Client_Challenge L E candidate challengerSig challengerIdx =
     bindC (homeIDOf L candidate) (\<lambda>channelIDBytes.
     bindC (contractStateOf L ''failed to convert candidate state'' candidate) (\<lambda>contractCandidate.
     bindC (readC (checkFeeFn E)) (\<lambda>_.
     transact L E ''failed to challenge channel'' (ChallengeChannel channelIDBytes contractCandidate challengerSig challengerIdx))))"

definition requireIntent :: "string \<Rightarrow> uint8 \<Rightarrow> ContractState \<Rightarrow> ('w, unit) eth_op" where
  "requireIntent msg intent cs = liftC (if cs_Intent cs \<noteq> intent then Inl (Err msg) else Inr ())"

definition Client_Close :: "'d libs \<Rightarrow> 'w evm \<Rightarrow> 'd State \<Rightarrow> ('w, string) eth_op" where
  "Client_Close L E candidate =
     bindC (homeIDOf L candidate) (\<lambda>channelIDBytes.
     bindC (contractStateOf L ''failed to convert candidate state'' candidate) (\<lambda>contractCandidate.
     bindC (requireIntent ''unsupported intent for close'' INTENT_CLOSE contractCandidate) (\<lambda>_.
     bindC (readC (checkFeeFn E)) (\<lambda>_.
     transact L E ''failed to close channel'' (CloseChannel channelIDBytes contractCandidate)))))"

definition Client_InitiateEscrowDeposit :: "'d libs \<Rightarrow> 'w evm \<Rightarrow> ChannelDefinition \<Rightarrow> 'd State \<Rightarrow> ('w, string) eth_op" where
  "Client_InitiateEscrowDeposit L E def initCCS =
     bindC (contractDefOf L def initCCS) (\<lambda>contractDef.
     bindC (contractStateOf L ''failed to convert state'' initCCS) (\<lambda>contractState.
     bindC (requireIntent ''unsupported intent for initiate escrow deposit'' INTENT_INITIATE_ESCROW_DEPOSIT contractState) (\<lambda>_.
     bindC (readC (checkFeeFn E)) (\<lambda>_.
     transact L E ''failed to initiate escrow deposit'' (InitiateEscrowDepositCall contractDef contractState)))))"

definition Client_ChallengeEscrowDeposit :: "'d libs \<Rightarrow> 'w evm \<Rightarrow> 'd State \<Rightarrow> bytes \<Rightarrow> uint8 \<Rightarrow> ('w, string) eth_op" where
  "Client_ChallengeEscrowDeposit L E candidate challengerSig challengerIdx =
     bindC (escrowIDOf L candidate) (\<lambda>escrowIDBytes.
     bindC (readC (checkFeeFn E)) (\<lambda>_.
     transact L E ''failed to challenge escrow deposit'' (ChallengeEscrowDepositCall escrowIDBytes challengerSig challengerIdx)))"

text \<open>Both missing identifiers are reported before either is decoded.\<close>

definition bothIDsOf :: "'d libs \<Rightarrow> 'd State \<Rightarrow> ('w, bytes \<times> bytes) eth_op" where
  "bothIDsOf L s =
     bindC (liftC (if s_HomeChannelID s = None then Inl (Err ''candidate state must have a home channel ID'')
                   else if s_EscrowChannelID s = None then Inl (Err ''candidate state must have an escrow channel ID'') else Inr ())) (\<lambda>_.
     bindC (homeIDOf L s) (\<lambda>channelIDBytes.
     bindC (escrowIDOf L s) (\<lambda>escrowIDBytes. liftC (Inr (channelIDBytes, escrowIDBytes)))))"

definition Client_FinalizeEscrowDeposit :: "'d libs \<Rightarrow> 'w evm \<Rightarrow> 'd State \<Rightarrow> ('w, string) eth_op" where
  "Client_FinalizeEscrowDeposit L E candidate =
     bindC (bothIDsOf L candidate) (\<lambda>(channelIDBytes, escrowIDBytes).
     bindC (contractStateOf L ''failed to convert candidate state'' candidate) (\<lambda>contractCandidate.
     bindC (requireIntent ''unsupported intent for finalize escrow deposit'' INTENT_FINALIZE_ESCROW_DEPOSIT contractCandidate) (\<lambda>_.
     bindC (readC (checkFeeFn E)) (\<lambda>_.
     transact L E ''failed to finalize escrow deposit'' (FinalizeEscrowDepositCall channelIDBytes escrowIDBytes contractCandidate)))))"

definition Client_InitiateEscrowWithdrawal :: "'d libs \<Rightarrow> 'w evm \<Rightarrow> ChannelDefinition \<Rightarrow> 'd State \<Rightarrow> ('w, string) eth_op" where
  "Client_InitiateEscrowWithdrawal L E def initCCS =
     bindC (contractDefOf L def initCCS) (\<lambda>contractDef.
     bindC (contractStateOf L ''failed to convert state'' initCCS) (\<lambda>contractState.
     bindC (requireIntent ''unsupported intent for initiate escrow withdrawal'' INTENT_INITIATE_ESCROW_WITHDRAWAL contractState) (\<lambda>_.
     bindC (readC (checkFeeFn E)) (\<lambda>_.
     transact L E ''failed to initiate escrow withdrawal'' (InitiateEscrowWithdrawalCall contractDef contractState)))))"

definition Client_ChallengeEscrowWithdrawal :: "'d libs \<Rightarrow> 'w evm \<Rightarrow> 'd State \<Rightarrow> bytes \<Rightarrow> uint8 \<Rightarrow> ('w, string) eth_op" where
  "Client_ChallengeEscrowWithdrawal L E candidate challengerSig challengerIdx =
     bindC (escrowIDOf L candidate) (\<lambda>escrowIDBytes.
     bindC (readC (checkFeeFn E)) (\<lambda>_.
     transact L E ''failed to challenge escrow withdrawal'' (ChallengeEscrowWithdrawalCall escrowIDBytes challengerSig challengerIdx)))"

definition Client_FinalizeEscrowWithdrawal :: "'d libs \<Rightarrow> 'w evm \<Rightarrow> 'd State \<Rightarrow> ('w, string) eth_op" where
  "Client_FinalizeEscrowWithdrawal L E candidate =
     bindC (liftC (if s_HomeChannelID candidate = None then Inl (Err ''candidate state must have a home channel ID'')
                   else if s_EscrowChannelID candidate = None then Inl (Err ''candidate state must have an escrow channel ID'')
                   else if s_EscrowLedger candidate = None then Inl (Err ''candidate state must have an escrow ledger'') else Inr ())) (\<lambda>_.
     bindC (bothIDsOf L candidate) (\<lambda>(channelIDBytes, escrowIDBytes).
     bindC (contractStateOf L ''failed to convert candidate state'' candidate) (\<lambda>contractCandidate.
     bindC (requireIntent ''unsupported intent for finalize escrow withdrawal'' INTENT_FINALIZE_ESCROW_WITHDRAWAL contractCandidate) (\<lambda>_.
     bindC (readC (checkFeeFn E)) (\<lambda>_.
     transact L E ''failed to finalize escrow withdrawal'' (FinalizeEscrowWithdrawalCall channelIDBytes escrowIDBytes contractCandidate))))))"

definition EnsureSigValidatorRegistered :: "'d libs \<Rightarrow> 'w evm \<Rightarrow> uint8 \<Rightarrow> string \<Rightarrow> bool \<Rightarrow> ('w, unit) eth_op" where
  "EnsureSigValidatorRegistered L E validatorID validatorAddress checkOnly =
     (let validatorAddr = HexToAddress L validatorAddress in
      bindC (readC (\<lambda>c w. wrapE ''failed to check if validator is registered'' (evm_NodeValidator E validatorID w))) (\<lambda>registered.
      if registered = validatorAddr then liftC (Inr ())
      else if registered \<noteq> zeroAddress then liftC (Inl (Err ''validator ID is already registered with a different address''))
      else if checkOnly then liftC (Inl (Err ''validator ID is not registered''))
      else
        bindC (readC (checkFeeFn E)) (\<lambda>_.
        bindC (readC (\<lambda>c w. wrapE ''failed to encode validator registration message'' (abiPack L
          [AUint 256 (uint (bcl_blockchainID c)), AAddress (bcl_hub c), AUint 8 (uint validatorID), AAddress validatorAddr]))) (\<lambda>message.
        bindC (readC (\<lambda>c w. wrapE ''failed to sign validator registration message''
          (EthereumRawSigner_Sign L (bcl_key c) (ComputeEthereumSignedMessageHash L message)))) (\<lambda>sig.
        bindC (transact L E ''failed to register validator'' (RegisterNodeValidator validatorID validatorAddr sig)) (\<lambda>_.
        liftC (Inr ())))))))"

section \<open>The locking contract\<close>

text \<open>\<^verbatim>\<open>transactOpts\<close> is nil in a client without signer.\<close>

record LockingClient =
  lkc_contract :: bytes
  lkc_sender :: "bytes option"
  lkc_tokenAddress :: bytes
  lkc_tokenDecimals :: uint8

definition Locking_GetTokenDecimals :: "'w evm \<Rightarrow> bytes \<Rightarrow> 'w \<Rightarrow> (bytes \<times> uint8) result" where
  "Locking_GetTokenDecimals E contract w =
     bindE (wrapE ''failed to get asset from the Locking contract'' (evm_LockingAsset E contract w)) (\<lambda>tokenAddress.
     bindE (wrapE ''failed to get decimals for token'' (evm_Decimals E tokenAddress w)) (\<lambda>decimals.
     Inr (tokenAddress, decimals)))"

definition NewLockingClient :: "'w evm \<Rightarrow> bytes \<Rightarrow> bytes option \<Rightarrow> 'w \<Rightarrow> LockingClient result" where
  "NewLockingClient E contract sender w =
     bindE (Locking_GetTokenDecimals E contract w) (\<lambda>(tokenAddress, decimals).
     Inr \<lparr> lkc_contract = contract, lkc_sender = sender, lkc_tokenAddress = tokenAddress, lkc_tokenDecimals = decimals \<rparr>)"

definition lockingTransact :: "'d libs \<Rightarrow> 'w evm \<Rightarrow> LockingClient \<Rightarrow> string \<Rightarrow> bytes \<Rightarrow> ContractCall result \<Rightarrow> 'w \<Rightarrow> string result \<times> 'w" where
  "lockingTransact L E c msg contract call w =
     (case lkc_sender c of
        None \<Rightarrow> (Inl (Err ''transaction signer not configured''), w)
      | Some sender \<Rightarrow> (case call of
            Inl e \<Rightarrow> (Inl e, w)
          | Inr k \<Rightarrow> (case evm_Transact E contract sender k None w of (r, w') \<Rightarrow> (mapE (hashHex L) (wrapE msg r), w'))))"

definition Locking_Lock :: "'d libs \<Rightarrow> 'w evm \<Rightarrow> LockingClient \<Rightarrow> string \<Rightarrow> 'd \<Rightarrow> 'w \<Rightarrow> string result \<times> 'w" where
  "Locking_Lock L E c targetWalletAddress amount w =
     (if \<not> IsHexAddress L targetWalletAddress then (Inl (Err ''invalid address''), w)
      else lockingTransact L E c ''failed to send lock transaction'' (lkc_contract c)
        (mapE (LockTokens (HexToAddress L targetWalletAddress))
          (wrapE ''failed to convert amount with decimal precision'' (DecimalToBigInt L amount (lkc_tokenDecimals c)))) w)"

definition Locking_Relock :: "'d libs \<Rightarrow> 'w evm \<Rightarrow> LockingClient \<Rightarrow> 'w \<Rightarrow> string result \<times> 'w" where
  "Locking_Relock L E c = lockingTransact L E c ''failed to send relock transaction'' (lkc_contract c) (Inr RelockTokens)"

definition Locking_Unlock :: "'d libs \<Rightarrow> 'w evm \<Rightarrow> LockingClient \<Rightarrow> 'w \<Rightarrow> string result \<times> 'w" where
  "Locking_Unlock L E c = lockingTransact L E c ''failed to send unlock transaction'' (lkc_contract c) (Inr UnlockTokens)"

definition Locking_Withdraw :: "'d libs \<Rightarrow> 'w evm \<Rightarrow> LockingClient \<Rightarrow> string \<Rightarrow> 'w \<Rightarrow> string result \<times> 'w" where
  "Locking_Withdraw L E c destination =
     lockingTransact L E c ''failed to send withdraw transaction'' (lkc_contract c) (Inr (WithdrawTokens (HexToAddress L destination)))"

definition Locking_ApproveToken :: "'d libs \<Rightarrow> 'w evm \<Rightarrow> LockingClient \<Rightarrow> 'd \<Rightarrow> 'w \<Rightarrow> string result \<times> 'w" where
  "Locking_ApproveToken L E c amount w =
     (case evm_LockingAsset E (lkc_contract c) w of
        Inl e \<Rightarrow> lockingTransact L E c '''' [] (bindE (wrapE ''failed to convert amount with decimal precision''
                   (DecimalToBigInt L amount (lkc_tokenDecimals c))) (\<lambda>_. wrapE ''failed to get asset from Locking contract'' (Inl e))) w
      | Inr tokenAddress \<Rightarrow>
          lockingTransact L E c ''failed to send approve transaction'' tokenAddress
            (mapE (TokenApprove tokenAddress (lkc_contract c))
              (wrapE ''failed to convert amount with decimal precision'' (DecimalToBigInt L amount (lkc_tokenDecimals c)))) w)"

definition Locking_GetBalance :: "'d libs \<Rightarrow> 'w evm \<Rightarrow> LockingClient \<Rightarrow> string \<Rightarrow> 'w \<Rightarrow> 'd result" where
  "Locking_GetBalance L E c user w =
     bindE (wrapE ''failed to get balance'' (evm_LockedBalance E (lkc_contract c) (HexToAddress L user) w)) (\<lambda>balance.
     Inr (dNew L balance (- int (unat (lkc_tokenDecimals c)))))"

end
