(* ===== verification/Client_Properties.thy ===== *)
theory Client_Properties
  imports Contract_Client Channel_Properties
begin

text \<open>
  What the contract client sends: every method sends at most one transaction, for the call the request and the intent of its
  state ask for, with the native value of a deposit and nothing otherwise.
\<close>

section \<open>Requests\<close>

datatype 'd ClientRequest =
    ReqDeposit string 'd
  | ReqWithdraw string string 'd
  | ReqApprove string 'd
  | ReqCreate ChannelDefinition "'d State"
  | ReqMigrate ChannelDefinition "'d State"
  | ReqCheckpoint "'d State"
  | ReqChallenge "'d State" bytes uint8
  | ReqClose "'d State"
  | ReqInitiateEscrowDeposit ChannelDefinition "'d State"
  | ReqChallengeEscrowDeposit "'d State" bytes uint8
  | ReqFinalizeEscrowDeposit "'d State"
  | ReqInitiateEscrowWithdrawal ChannelDefinition "'d State"
  | ReqChallengeEscrowWithdrawal "'d State" bytes uint8
  | ReqFinalizeEscrowWithdrawal "'d State"

fun perform :: "'d libs \<Rightarrow> 'w evm \<Rightarrow> 'd ClientRequest \<Rightarrow> ('w, string) eth_op" where
  "perform L E (ReqDeposit token amount) = Client_Deposit L E token amount"
| "perform L E (ReqWithdraw to token amount) = Client_Withdraw L E to token amount"
| "perform L E (ReqApprove asset amount) = Client_Approve L E asset amount"
| "perform L E (ReqCreate def s) = Client_Create L E def s"
| "perform L E (ReqMigrate def s) = Client_MigrateChannelHere L E def s"
| "perform L E (ReqCheckpoint s) = Client_Checkpoint L E s"
| "perform L E (ReqChallenge s sig i) = Client_Challenge L E s sig i"
| "perform L E (ReqClose s) = Client_Close L E s"
| "perform L E (ReqInitiateEscrowDeposit def s) = Client_InitiateEscrowDeposit L E def s"
| "perform L E (ReqChallengeEscrowDeposit s sig i) = Client_ChallengeEscrowDeposit L E s sig i"
| "perform L E (ReqFinalizeEscrowDeposit s) = Client_FinalizeEscrowDeposit L E s"
| "perform L E (ReqInitiateEscrowWithdrawal def s) = Client_InitiateEscrowWithdrawal L E def s"
| "perform L E (ReqChallengeEscrowWithdrawal s sig i) = Client_ChallengeEscrowWithdrawal L E s sig i"
| "perform L E (ReqFinalizeEscrowWithdrawal s) = Client_FinalizeEscrowWithdrawal L E s"

text \<open>The state of a call is the converted state of the request.\<close>

definition converts :: "'d libs \<Rightarrow> BlockchainClient \<Rightarrow> 'd State \<Rightarrow> ContractState \<Rightarrow> bool" where
  "converts L c s cs \<longleftrightarrow> coreStateToContractState L s (GetTokenDecimals (bcl_assetStore c)) = Inr cs"

definition names :: "'d libs \<Rightarrow> string option \<Rightarrow> bytes \<Rightarrow> bool" where
  "names L i b \<longleftrightarrow> (\<exists>x. i = Some x \<and> evm_hexToBytes32 L x = Inr b)"

definition describes :: "'d libs \<Rightarrow> BlockchainClient \<Rightarrow> ChannelDefinition \<Rightarrow> 'd State \<Rightarrow> ContractDefinition \<Rightarrow> bool" where
  "describes L c def s d \<longleftrightarrow> coreDefToContractDef L def (s_Asset s) (s_UserWallet s) (bcl_nodeAddress c) = Inr d"

text \<open>The native amount a deposit carries.\<close>

definition native_deposit :: "('d \<Rightarrow> rat) \<Rightarrow> 'd \<Rightarrow> bytes \<Rightarrow> uint8 \<Rightarrow> int option \<Rightarrow> bool" where
  "native_deposit val amount token decimals v \<longleftrightarrow>
     (if token = zeroAddress then \<exists>n. v = Some n \<and> of_int n = val amount * 10 ^ unat decimals else v = None)"

text \<open>The calls a request may lead to, with the value they carry.\<close>

fun call_for :: "'d libs \<Rightarrow> ('d \<Rightarrow> rat) \<Rightarrow> BlockchainClient \<Rightarrow> 'd ClientRequest \<Rightarrow> ContractCall \<Rightarrow> int option \<Rightarrow> bool" where
  "call_for L val c (ReqDeposit token amount) call v \<longleftrightarrow> (\<exists>n dec. call = DepositToNode (HexToAddress L token) n \<and>
     GetTokenDecimals (bcl_assetStore c) (bcl_blockchainID c) token = Inr dec \<and> of_int n = val amount * 10 ^ unat dec \<and>
     native_deposit val amount (HexToAddress L token) dec v)"
| "call_for L val c (ReqWithdraw to token amount) call v \<longleftrightarrow> v = None \<and> (\<exists>n dec. call = WithdrawFromNode (HexToAddress L to) (HexToAddress L token) n \<and>
     GetTokenDecimals (bcl_assetStore c) (bcl_blockchainID c) token = Inr dec \<and> of_int n = val amount * 10 ^ unat dec)"
| "call_for L val c (ReqApprove asset amount) call v \<longleftrightarrow> v = None \<and> (\<exists>t n dec. call = TokenApprove (HexToAddress L t) (bcl_hub c) n \<and> HexToAddress L t \<noteq> zeroAddress \<and>
     as_GetTokenAddress (bcl_assetStore c) asset (bcl_blockchainID c) = Inr t \<and>
     GetTokenDecimals (bcl_assetStore c) (bcl_blockchainID c) t = Inr dec \<and> of_int n = val amount * 10 ^ unat dec)"
| "call_for L val c (ReqCreate def s) call v \<longleftrightarrow> (\<exists>d cs. call = CreateChannelCall d cs \<and> describes L c def s d \<and> converts L c s cs \<and>
     cs_Intent cs \<in> {INTENT_OPERATE, INTENT_DEPOSIT, INTENT_WITHDRAW} \<and>
     (if cs_Intent cs = INTENT_DEPOSIT
      then native_deposit val (t_Amount (s_Transition s)) (cl_Token (cs_HomeLedger cs)) (cl_Decimals (cs_HomeLedger cs)) v else v = None))"
| "call_for L val c (ReqMigrate def s) call v \<longleftrightarrow> v = None \<and> (\<exists>d cs. call = InitiateMigration d cs \<and> describes L c def s d \<and> converts L c s cs)"
| "call_for L val c (ReqCheckpoint s) call v \<longleftrightarrow> (\<exists>i cs. names L (s_HomeChannelID s) i \<and> converts L c s cs \<and>
     (cs_Intent cs = INTENT_OPERATE \<and> call = CheckpointChannel i cs \<and> v = None \<or>
      cs_Intent cs = INTENT_WITHDRAW \<and> call = WithdrawFromChannel i cs \<and> v = None \<or>
      cs_Intent cs = INTENT_DEPOSIT \<and> call = DepositToChannel i cs \<and>
        native_deposit val (t_Amount (s_Transition s)) (cl_Token (cs_HomeLedger cs)) (cl_Decimals (cs_HomeLedger cs)) v))"
| "call_for L val c (ReqChallenge s sig k) call v \<longleftrightarrow> v = None \<and> (\<exists>i cs. names L (s_HomeChannelID s) i \<and> converts L c s cs \<and> call = ChallengeChannel i cs sig k)"
| "call_for L val c (ReqClose s) call v \<longleftrightarrow> v = None \<and> (\<exists>i cs. names L (s_HomeChannelID s) i \<and> converts L c s cs \<and> cs_Intent cs = INTENT_CLOSE \<and> call = CloseChannel i cs)"
| "call_for L val c (ReqInitiateEscrowDeposit def s) call v \<longleftrightarrow> v = None \<and> (\<exists>d cs. call = InitiateEscrowDepositCall d cs \<and> describes L c def s d \<and> converts L c s cs \<and>
     cs_Intent cs = INTENT_INITIATE_ESCROW_DEPOSIT)"
| "call_for L val c (ReqChallengeEscrowDeposit s sig k) call v \<longleftrightarrow> v = None \<and> (\<exists>i. names L (s_EscrowChannelID s) i \<and> call = ChallengeEscrowDepositCall i sig k)"
| "call_for L val c (ReqFinalizeEscrowDeposit s) call v \<longleftrightarrow> v = None \<and> (\<exists>i j cs. names L (s_HomeChannelID s) i \<and> names L (s_EscrowChannelID s) j \<and>
     converts L c s cs \<and> cs_Intent cs = INTENT_FINALIZE_ESCROW_DEPOSIT \<and> call = FinalizeEscrowDepositCall i j cs)"
| "call_for L val c (ReqInitiateEscrowWithdrawal def s) call v \<longleftrightarrow> v = None \<and> (\<exists>d cs. call = InitiateEscrowWithdrawalCall d cs \<and> describes L c def s d \<and> converts L c s cs \<and>
     cs_Intent cs = INTENT_INITIATE_ESCROW_WITHDRAWAL)"
| "call_for L val c (ReqChallengeEscrowWithdrawal s sig k) call v \<longleftrightarrow> v = None \<and> (\<exists>i. names L (s_EscrowChannelID s) i \<and> call = ChallengeEscrowWithdrawalCall i sig k)"
| "call_for L val c (ReqFinalizeEscrowWithdrawal s) call v \<longleftrightarrow> v = None \<and> s_EscrowLedger s \<noteq> None \<and> (\<exists>i j cs. names L (s_HomeChannelID s) i \<and> names L (s_EscrowChannelID s) j \<and>
     converts L c s cs \<and> cs_Intent cs = INTENT_FINALIZE_ESCROW_WITHDRAWAL \<and> call = FinalizeEscrowWithdrawalCall i j cs)"

section \<open>One transaction at most\<close>

text \<open>A method leaves the client as it was and either fails without touching the chain or sends one allowed transaction.\<close>

definition one_call :: "'w evm \<Rightarrow> BlockchainClient \<Rightarrow> 'w \<Rightarrow> (ContractCall \<Rightarrow> int option \<Rightarrow> bool) \<Rightarrow> 'a result \<times> (BlockchainClient \<times> 'w) \<Rightarrow> bool" where
  "one_call E c w ok = (\<lambda>(r, (c', w')). c' = c \<and>
     (\<not> isOk r \<and> w' = w \<or>
      (\<exists>contract call v h. ok call v \<and> evm_Transact E contract (bcl_from c) call v w = (h, w') \<and> isOk r = isOk h)))"

named_theorems one_call_intro

lemma one_call_readC [one_call_intro]:
  "(\<And>a. f c w = Inr a \<Longrightarrow> one_call E c w ok (k a (c, w))) \<Longrightarrow> one_call E c w ok (bindC (readC f) k (c, w))"
  by (cases "f c w") (auto simp: bindC_def readC_def one_call_def)

lemma one_call_liftC [one_call_intro]:
  "(\<And>a. r = Inr a \<Longrightarrow> one_call E c w ok (k a (c, w))) \<Longrightarrow> one_call E c w ok (bindC (liftC r) k (c, w))"
  by (cases r) (auto simp: bindC_def liftC_def one_call_def)

lemma one_call_fail [one_call_intro]: "one_call E c w ok (liftC (Inl e) (c, w))"
  by (simp add: one_call_def liftC_def)

lemma one_call_transactAt [one_call_intro]: "ok call (bcl_value c) \<Longrightarrow> one_call E c w ok (transactAt L E msg contract call (c, w))"
proof -
  obtain h w' where h: "evm_Transact E contract (bcl_from c) call (bcl_value c) w = (h, w')" by fastforce
  have "isOk (mapE (hashHex L) (wrapE msg h)) = isOk h" by (cases h) auto
  then show "ok call (bcl_value c) \<Longrightarrow> ?thesis" using h by (auto simp: one_call_def transactAt_def)
qed

lemma one_call_transact [one_call_intro]: "ok call (bcl_value c) \<Longrightarrow> one_call E c w ok (transact L E msg call (c, w))"
  unfolding transact_def by (rule one_call_readC) (rule one_call_transactAt)

lemma one_call_withValue [one_call_intro]:
  assumes "one_call E (c \<lparr> bcl_value := Some v \<rparr>) w ok (m (c \<lparr> bcl_value := Some v \<rparr>, w))" and "bcl_value c = None"
  shows "one_call E c w ok (withValue v m (c, w))"
  using assms by (auto simp: one_call_def withValue_def split: prod.splits)


text \<open>The parts of the methods.\<close>

lemma one_call_ids [one_call_intro]:
  "(\<And>i. names L (s_HomeChannelID s) i \<Longrightarrow> one_call E c w ok (k i (c, w))) \<Longrightarrow> one_call E c w ok (bindC (homeIDOf L s) k (c, w))"
  "(\<And>i. names L (s_EscrowChannelID s) i \<Longrightarrow> one_call E c w ok (k i (c, w))) \<Longrightarrow> one_call E c w ok (bindC (escrowIDOf L s) k (c, w))"
  by (auto simp: homeIDOf_def escrowIDOf_def channelIDOf_def names_def intro!: one_call_liftC split: option.splits)

lemma one_call_both [one_call_intro]:
  assumes "\<And>i j. names L (s_HomeChannelID s) i \<Longrightarrow> names L (s_EscrowChannelID s) j \<Longrightarrow> one_call E c w ok (k (i, j) (c, w))"
  shows "one_call E c w ok (bindC (bothIDsOf L s) k (c, w))"
  using assms
  by (fastforce simp: bothIDsOf_def homeIDOf_def escrowIDOf_def channelIDOf_def names_def bindC_def liftC_def one_call_def
      split: option.splits sum.splits if_splits)

lemma one_call_convert [one_call_intro]:
  "(\<And>cs. converts L c s cs \<Longrightarrow> one_call E c w ok (k cs (c, w))) \<Longrightarrow> one_call E c w ok (bindC (contractStateOf L msg s) k (c, w))"
  "(\<And>d. describes L c def s d \<Longrightarrow> one_call E c w ok (m d (c, w))) \<Longrightarrow> one_call E c w ok (bindC (contractDefOf L def s) m (c, w))"
  by (auto simp: contractStateOf_def contractDefOf_def converts_def describes_def intro!: one_call_readC)

lemma one_call_intent [one_call_intro]:
  "(cs_Intent cs = i \<Longrightarrow> one_call E c w ok (k () (c, w))) \<Longrightarrow> one_call E c w ok (bindC (requireIntent msg i cs) k (c, w))"
  by (auto simp: requireIntent_def intro!: one_call_liftC split: if_splits)

context decimal_spec
begin

lemma one_call_deposit:
  assumes "bcl_value c = None"
    and "\<And>v. native_deposit val (t_Amount (s_Transition s)) (cl_Token (cs_HomeLedger cs)) (cl_Decimals (cs_HomeLedger cs)) v \<Longrightarrow>
       one_call E (c \<lparr> bcl_value := v \<rparr>) w ok (m (c \<lparr> bcl_value := v \<rparr>, w))"
  shows "one_call E c w ok (withDeposit L s cs m (c, w))"
proof (cases "cl_Token (cs_HomeLedger cs) = zeroAddress")
  case True
  then show ?thesis
    unfolding withDeposit_def
    by (auto intro!: one_call_intro assms simp: native_deposit_def DecimalToBigInt_exact)
next
  case False
  then have "one_call E (c \<lparr> bcl_value := None \<rparr>) w ok (m (c \<lparr> bcl_value := None \<rparr>, w))"
    by (intro assms(2)) (simp add: native_deposit_def)
  moreover have "c \<lparr> bcl_value := None \<rparr> = c" using assms(1) by (cases c) simp
  ultimately show ?thesis using False by (simp add: withDeposit_def)
qed


lemmas client_methods = Client_Deposit_def Client_Withdraw_def Client_Approve_def Client_Create_def Client_MigrateChannelHere_def
  Client_Checkpoint_def Client_Challenge_def Client_Close_def Client_InitiateEscrowDeposit_def Client_ChallengeEscrowDeposit_def
  Client_FinalizeEscrowDeposit_def Client_InitiateEscrowWithdrawal_def Client_ChallengeEscrowWithdrawal_def Client_FinalizeEscrowWithdrawal_def

lemma perform_one_call:
  assumes "bcl_value c = None"
  shows "one_call E c w (call_for L val c req) (perform L E req (c, w))"
  using assms
  by (cases req)
     (auto simp: client_methods Let_def native_deposit_def DecimalToBigInt_exact intro!: one_call_intro one_call_deposit)

end

section \<open>The client's transactions\<close>


text \<open>A chain that keeps the transactions it received, and a deposit of 100 units of a native token into an open channel.\<close>

definition log_evm :: "(ContractCall \<times> int option) list evm" where
  "log_evm = \<lparr> evm_Allowance = (\<lambda>_ _ _ _. Inr 0), evm_BalanceOf = (\<lambda>_ _ _. Inr 0), evm_BalanceAt = (\<lambda>_ _. Inr (10 ^ 22)), evm_Decimals = (\<lambda>_ _. Inr 18),
     evm_NodeBalance = (\<lambda>_ _. Inr 0), evm_OpenChannels = (\<lambda>_ _. Inr []), evm_ChannelData = (\<lambda>_ _. Inl (Err '''')),
     evm_EscrowDepositData = (\<lambda>_ _. Inl (Err '''')), evm_EscrowWithdrawalData = (\<lambda>_ _. Inl (Err '''')), evm_NodeValidator = (\<lambda>_ _. Inr zeroAddress),
     evm_LockingAsset = (\<lambda>_ _. Inr zeroAddress), evm_LockedBalance = (\<lambda>_ _ _. Inr 0),
     evm_Transact = (\<lambda>_ _ call v w. (Inr [], w @ [(call, v)])) \<rparr>"

definition nat_client :: BlockchainClient where
  "nat_client = \<lparr> bcl_blockchainID = 137, bcl_value = None, bcl_from = [7], bcl_key = [7], bcl_nodeAddress = [5], bcl_hub = [9],
     bcl_assetStore = \<lparr> GetAssetDecimals = (\<lambda>_. Inr 18), GetTokenDecimals = (\<lambda>_ _. Inr 18),
       as_GetTokenAddress = (\<lambda>_ _. Inr (''0x'' @ replicate 40 (CHR ''0''))) \<rparr>,
     bcl_requireCheckAllowance = True, bcl_requireCheckBalance = True, bcl_checkFee = True \<rparr>"

definition nat_state :: "ref_decimal State" where
  "nat_state = tr_funded \<lparr> s_HomeChannelID := Some (''0x'' @ replicate 64 (CHR ''1'')),
     s_HomeLedger := (s_HomeLedger tr_funded) \<lparr> l_TokenAddress := ''0x'' @ replicate 40 (CHR ''0'') \<rparr> \<rparr>"

definition nat_result :: "string result \<times> (BlockchainClient \<times> (ContractCall \<times> int option) list)" where
  "nat_result = perform small_libs log_evm (ReqCheckpoint nat_state) (nat_client, [])"

lemma nat_accepted: "isOk (fst nat_result) \<and> map snd (snd (snd nat_result)) = [Some (10 ^ 20)]"
  by code_simp


end
