(* ===== verification/Sdk_Client.thy ===== *)
theory Sdk_Client
  imports Node_Api Contract_Client
begin

text \<open>
  The client library \<^verbatim>\<open>src/sdk/go\<close>: the conversions of \<^verbatim>\<open>utils.go\<close>, the asset cache, the helpers of \<^verbatim>\<open>client.go\<close> and the
  channel and session operations of \<^verbatim>\<open>channel.go\<close> and \<^verbatim>\<open>app_session.go\<close>. The node is reached through the methods of the RPC client,
  a record of functions of the node's state \<open>'n\<close>: the transport itself is a parameter.
\<close>

section \<open>Conversions\<close>

definition transformLedger :: "'d libs \<Rightarrow> RPC_LedgerV1 \<Rightarrow> 'd Ledger result" where
  "transformLedger L ledger =
     bindE (wrapE ''failed to parse blockchain ID'' (ParseUint64 (rl_BlockchainID ledger))) (\<lambda>blockchainID.
     bindE (wrapE ''failed to parse user balance'' (dNewFromString L (rl_UserBalance ledger))) (\<lambda>userBalance.
     bindE (wrapE ''failed to parse user net flow'' (dNewFromString L (rl_UserNetFlow ledger))) (\<lambda>userNetFlow.
     bindE (wrapE ''failed to parse node balance'' (dNewFromString L (rl_NodeBalance ledger))) (\<lambda>nodeBalance.
     bindE (wrapE ''failed to parse node net flow'' (dNewFromString L (rl_NodeNetFlow ledger))) (\<lambda>nodeNetFlow.
     Inr \<lparr> l_TokenAddress = rl_TokenAddress ledger, l_BlockchainID = blockchainID, l_UserBalance = userBalance,
           l_UserNetFlow = userNetFlow, l_NodeBalance = nodeBalance, l_NodeNetFlow = nodeNetFlow \<rparr>)))))"

definition transformState :: "'d libs \<Rightarrow> RPC_StateV1 \<Rightarrow> 'd State result" where
  "transformState L state =
     bindE (wrapE ''failed to parse epoch'' (ParseUint64 (rs_Epoch state))) (\<lambda>epoch.
     bindE (wrapE ''failed to parse version'' (ParseUint64 (rs_Version state))) (\<lambda>version.
     bindE (wrapE ''failed to parse transition amount'' (dNewFromString L (rt_Amount (rs_Transition state)))) (\<lambda>transitionAmount.
     bindE (wrapE ''failed to transform home ledger'' (transformLedger L (rs_HomeLedger state))) (\<lambda>homeLedger.
     bindE (wrapE ''failed to transform escrow ledger''
       (case rs_EscrowLedger state of None \<Rightarrow> Inr None | Some l \<Rightarrow> mapE Some (transformLedger L l))) (\<lambda>escrowLedger.
     Inr \<lparr> s_ID = rs_ID state,
           s_Transition = \<lparr> t_Type = rt_Type (rs_Transition state), t_TxID = rt_TxID (rs_Transition state),
             t_AccountID = rt_AccountID (rs_Transition state), t_Amount = transitionAmount \<rparr>,
           s_Asset = rs_Asset state, s_UserWallet = rs_UserWallet state, s_Epoch = epoch, s_Version = version,
           s_HomeChannelID = rs_HomeChannelID state, s_EscrowChannelID = rs_EscrowChannelID state,
           s_HomeLedger = homeLedger, s_EscrowLedger = escrowLedger,
           s_UserSig = rs_UserSig state, s_NodeSig = rs_NodeSig state \<rparr>)))))"

definition transformLedgerToRPC :: "'d libs \<Rightarrow> 'd Ledger \<Rightarrow> RPC_LedgerV1" where
  "transformLedgerToRPC L ledger =
     \<lparr> rl_TokenAddress = l_TokenAddress ledger, rl_BlockchainID = FormatUint64 (l_BlockchainID ledger),
       rl_UserBalance = dString L (l_UserBalance ledger), rl_UserNetFlow = dString L (l_UserNetFlow ledger),
       rl_NodeBalance = dString L (l_NodeBalance ledger), rl_NodeNetFlow = dString L (l_NodeNetFlow ledger) \<rparr>"

definition transformStateToRPC :: "'d libs \<Rightarrow> 'd State \<Rightarrow> RPC_StateV1" where
  "transformStateToRPC L state =
     \<lparr> rs_ID = s_ID state,
       rs_Transition = \<lparr> rt_Type = t_Type (s_Transition state), rt_TxID = t_TxID (s_Transition state),
         rt_AccountID = t_AccountID (s_Transition state), rt_Amount = dString L (t_Amount (s_Transition state)) \<rparr>,
       rs_Asset = s_Asset state, rs_UserWallet = s_UserWallet state, rs_Epoch = FormatUint64 (s_Epoch state),
       rs_Version = FormatUint64 (s_Version state), rs_HomeChannelID = s_HomeChannelID state,
       rs_EscrowChannelID = s_EscrowChannelID state, rs_HomeLedger = transformLedgerToRPC L (s_HomeLedger state),
       rs_EscrowLedger = map_option (transformLedgerToRPC L) (s_EscrowLedger state),
       rs_UserSig = s_UserSig state, rs_NodeSig = s_NodeSig state \<rparr>"

definition transformChannelDefinitionToRPC :: "ChannelDefinition \<Rightarrow> RPC_ChannelDefinitionV1" where
  "transformChannelDefinitionToRPC def =
     \<lparr> rd_Nonce = FormatUint64 (cd_Nonce def), rd_Challenge = cd_Challenge def, rd_ApprovedSigValidators = cd_ApprovedSigValidators def \<rparr>"

text \<open>Unknown types and statuses, and a state version that does not parse, become zero.\<close>

definition transformChannel :: "RPC_ChannelV1 \<Rightarrow> Channel result" where
  "transformChannel channel =
     (let channelType = (if rc_Type channel = ''home'' then ChannelTypeHome else if rc_Type channel = ''escrow'' then ChannelTypeEscrow else 0);
          channelStatus = (if rc_Status channel = ''void'' then ChannelStatusVoid else if rc_Status channel = ''open'' then ChannelStatusOpen
            else if rc_Status channel = ''challenged'' then ChannelStatusChallenged else if rc_Status channel = ''closed'' then ChannelStatusClosed else 0);
          stateVersion = (case ParseUint64 (rc_StateVersion channel) of Inl _ \<Rightarrow> 0 | Inr v \<Rightarrow> v) in
      bindE (wrapE ''failed to parse blockchain ID'' (ParseUint64 (rc_BlockchainID channel))) (\<lambda>blockchainID.
      bindE (wrapE ''failed to parse nonce'' (ParseUint64 (rc_Nonce channel))) (\<lambda>nonce.
      Inr \<lparr> ch_ChannelID = rc_ChannelID channel, ch_UserWallet = rc_UserWallet channel, ch_Asset = rc_Asset channel, ch_Type = channelType,
            ch_BlockchainID = blockchainID, ch_TokenAddress = rc_TokenAddress channel, ch_ChallengeDuration = rc_ChallengeDuration channel,
            ch_ChallengeExpiresAt = None, ch_Nonce = nonce, ch_ApprovedSigValidators = rc_ApprovedSigValidators channel,
            ch_Status = channelStatus, ch_StateVersion = stateVersion \<rparr>)))"

definition transformToken :: "RPC_TokenV1 \<Rightarrow> Token result" where
  "transformToken token =
     bindE (wrapE ''failed to parse blockchain ID'' (ParseUint64 (rtk_BlockchainID token))) (\<lambda>blockchainID.
     Inr \<lparr> tok_Name = rtk_Name token, tok_Symbol = rtk_Symbol token, tok_Address = rtk_Address token,
           tok_BlockchainID = blockchainID, tok_Decimals = rtk_Decimals token \<rparr>)"

definition transformAssets :: "RPC_AssetV1 list \<Rightarrow> Asset list result" where
  "transformAssets assets = mapME (\<lambda>asset.
     bindE (mapME transformToken (ras_Tokens asset)) (\<lambda>tokens.
     bindE (wrapE ''failed to parse suggested blockchain ID'' (ParseUint64 (ras_SuggestedBlockchainID asset))) (\<lambda>suggestedBlockchainID.
     Inr \<lparr> as_Name = ras_Name asset, as_Decimals = ras_Decimals asset, as_Symbol = ras_Symbol asset,
           as_SuggestedBlockchainID = suggestedBlockchainID, as_Tokens = tokens \<rparr>))) assets"

record NodeConfig =
  nc_NodeAddress :: string
  nc_NodeVersion :: string
  nc_SupportedSigValidators :: "ChannelSignerType list"
  nc_Blockchains :: "Blockchain list"

definition transformNodeConfig :: "string \<times> string \<times> ChannelSignerType list \<times> RPC_BlockchainInfoV1 list \<Rightarrow> NodeConfig result" where
  "transformNodeConfig = (\<lambda>(nodeAddress, nodeVersion, validators, infos).
     bindE (mapME (\<lambda>info.
         bindE (wrapE ''failed to parse blockchain ID'' (ParseUint64 (rbi_BlockchainID info))) (\<lambda>blockchainID.
         Inr \<lparr> bc_Name = rbi_Name info, bc_ID = blockchainID, bc_ChannelHubAddress = rbi_ChannelHubAddress info,
               bc_LockingContractAddress = rbi_LockingContractAddress info, bc_BlockStep = 0 \<rparr>)) infos) (\<lambda>blockchains.
     Inr \<lparr> nc_NodeAddress = nodeAddress, nc_NodeVersion = nodeVersion, nc_SupportedSigValidators = validators, nc_Blockchains = blockchains \<rparr>))"

definition transformBalances :: "'d libs \<Rightarrow> RPC_BalanceEntryV1 list \<Rightarrow> 'd BalanceEntry list result" where
  "transformBalances L balances = mapME (\<lambda>balance.
     bindE (wrapE ''failed to parse balance amount'' (dNewFromString L (rb_Amount balance))) (\<lambda>amount.
     bindE (wrapE ''failed to parse enforced amount'' (dNewFromString L (rb_Enforced balance))) (\<lambda>enforced.
     Inr \<lparr> be_Asset = rb_Asset balance, be_Balance = amount, be_Enforced = enforced \<rparr>))) balances"

definition transformAppDefinition :: "RPC_AppDefinitionV1 \<Rightarrow> AppDefinitionV1 result" where
  "transformAppDefinition def =
     bindE (wrapE ''failed to parse nonce'' (ParseUint64 (ra_Nonce def))) (\<lambda>nonce.
     Inr \<lparr> ad_ApplicationID = ra_Application def,
           ad_Participants = map (\<lambda>p. \<lparr> ap_WalletAddress = rp_WalletAddress p, ap_SignatureWeight = rp_SignatureWeight p \<rparr>) (ra_Participants def),
           ad_Quorum = ra_Quorum def, ad_Nonce = nonce \<rparr>)"

definition transformAppDefinitionToRPC :: "AppDefinitionV1 \<Rightarrow> RPC_AppDefinitionV1" where
  "transformAppDefinitionToRPC def =
     \<lparr> ra_Application = ad_ApplicationID def,
       ra_Participants = map (\<lambda>p. \<lparr> rp_WalletAddress = ap_WalletAddress p, rp_SignatureWeight = ap_SignatureWeight p \<rparr>) (ad_Participants def),
       ra_Quorum = ad_Quorum def, ra_Nonce = FormatUint64 (ad_Nonce def) \<rparr>"

definition transformAppStateUpdateToRPC :: "'d libs \<Rightarrow> 'd AppStateUpdateV1 \<Rightarrow> RPC_AppStateUpdateV1" where
  "transformAppStateUpdateToRPC L update =
     \<lparr> ru_AppSessionID = au_AppSessionID update, ru_Intent = au_Intent update, ru_Version = FormatUint64 (au_Version update),
       ru_Allocations = map (\<lambda>a. \<lparr> rl_Participant = al_Participant a, rl_Asset = al_Asset a, rl_Amount = dString L (al_Amount a) \<rparr>) (au_Allocations update),
       ru_SessionData = au_SessionData update \<rparr>"

definition transformSignedAppStateUpdateToRPC :: "'d libs \<Rightarrow> 'd SignedAppStateUpdateV1 \<Rightarrow> RPC_AppStateUpdateV1 \<times> string list" where
  "transformSignedAppStateUpdateToRPC L update = (transformAppStateUpdateToRPC L (su_AppStateUpdate update), su_QuorumSigs update)"

definition transformChannelSessionKeyStateToRPC :: "ChannelSessionKeyStateV1 \<Rightarrow> RPC_ChannelSessionKeyStateV1" where
  "transformChannelSessionKeyStateToRPC state =
     \<lparr> rk_UserAddress = csk_UserAddress state, rk_SessionKey = csk_SessionKey state, rk_Version = FormatUint64 (csk_Version state),
       rk_Assets = csk_Assets state, rk_ExpiresAt = show_int (csk_ExpiresAt state), rk_UserSig = csk_UserSig state \<rparr>"

definition transformChannelSessionKeyState :: "RPC_ChannelSessionKeyStateV1 \<Rightarrow> ChannelSessionKeyStateV1 result" where
  "transformChannelSessionKeyState state =
     bindE (wrapE ''failed to parse version'' (ParseUint64 (rk_Version state))) (\<lambda>version.
     bindE (wrapE ''failed to parse expires_at'' (Atoi (rk_ExpiresAt state))) (\<lambda>expiresAtUnix.
     Inr \<lparr> csk_UserAddress = ToLower (rk_UserAddress state), csk_SessionKey = ToLower (rk_SessionKey state), csk_Version = version,
           csk_Assets = rk_Assets state, csk_ExpiresAt = expiresAtUnix, csk_UserSig = rk_UserSig state \<rparr>))"

definition transformChannelSessionKeyStates :: "RPC_ChannelSessionKeyStateV1 list \<Rightarrow> ChannelSessionKeyStateV1 list result" where
  "transformChannelSessionKeyStates keyStates =
     mapME (\<lambda>s. wrapE ''failed to transform channel session key state'' (transformChannelSessionKeyState s)) keyStates"

definition transformSessionKeyStateToRPC :: "AppSessionKeyStateV1 \<Rightarrow> RPC_AppSessionKeyStateV1" where
  "transformSessionKeyStateToRPC state =
     \<lparr> rak_UserAddress = ask_UserAddress state, rak_SessionKey = ask_SessionKey state, rak_Version = FormatUint64 (ask_Version state),
       rak_ApplicationIDs = ask_ApplicationIDs state, rak_AppSessionIDs = ask_AppSessionIDs state,
       rak_ExpiresAt = show_int (ask_ExpiresAt state), rak_UserSig = ask_UserSig state \<rparr>"

definition transformSessionKeyState :: "RPC_AppSessionKeyStateV1 \<Rightarrow> AppSessionKeyStateV1 result" where
  "transformSessionKeyState state =
     bindE (wrapE ''failed to parse version'' (ParseUint64 (rak_Version state))) (\<lambda>version.
     bindE (wrapE ''failed to parse expires_at'' (Atoi (rak_ExpiresAt state))) (\<lambda>expiresAtUnix.
     Inr \<lparr> ask_UserAddress = ToLower (rak_UserAddress state), ask_SessionKey = ToLower (rak_SessionKey state), ask_Version = version,
           ask_ApplicationIDs = rak_ApplicationIDs state, ask_AppSessionIDs = rak_AppSessionIDs state,
           ask_ExpiresAt = expiresAtUnix, ask_UserSig = rak_UserSig state \<rparr>))"

definition transformSessionKeyStates :: "RPC_AppSessionKeyStateV1 list \<Rightarrow> AppSessionKeyStateV1 list result" where
  "transformSessionKeyStates keyStates =
     mapME (\<lambda>s. wrapE ''failed to transform session key state'' (transformSessionKeyState s)) keyStates"

section \<open>The node as the client sees it\<close>

record ('n, 'd) RpcClient =
  rpc_GetConfig :: "'n \<Rightarrow> (string \<times> string \<times> ChannelSignerType list \<times> RPC_BlockchainInfoV1 list) result"
  rpc_GetAssets :: "string option \<Rightarrow> 'n \<Rightarrow> RPC_AssetV1 list result"
  rpc_GetLatestState :: "string \<Rightarrow> string \<Rightarrow> bool \<Rightarrow> 'n \<Rightarrow> RPC_StateV1 result"
  rpc_GetHomeChannel :: "string \<Rightarrow> string \<Rightarrow> 'n \<Rightarrow> RPC_ChannelV1 result"
  rpc_GetEscrowChannel :: "string \<Rightarrow> 'n \<Rightarrow> RPC_ChannelV1 result"
  rpc_GetBalances :: "string \<Rightarrow> 'n \<Rightarrow> RPC_BalanceEntryV1 list result"
  rpc_GetLastKeyStates :: "string \<Rightarrow> string option \<Rightarrow> 'n \<Rightarrow> RPC_ChannelSessionKeyStateV1 list result"
  rpc_SubmitState :: "RPC_StateV1 \<Rightarrow> ('n, string) call_op"
  rpc_RequestCreation :: "RPC_StateV1 \<Rightarrow> RPC_ChannelDefinitionV1 \<Rightarrow> ('n, string) call_op"
  rpc_SubmitSessionKeyState :: "RPC_ChannelSessionKeyStateV1 \<Rightarrow> ('n, unit) call_op"
  rpc_SubmitDepositState :: "RPC_AppStateUpdateV1 \<Rightarrow> string list \<Rightarrow> RPC_StateV1 \<Rightarrow> ('n, string) call_op"
  rpc_SubmitAppState :: "RPC_AppStateUpdateV1 \<Rightarrow> string list \<Rightarrow> ('n, unit) call_op"
  rpc_RebalanceAppSessions :: "(RPC_AppStateUpdateV1 \<times> string list) list \<Rightarrow> ('n, string) call_op"

record SdkClient =
  sdk_key :: bytes
  sdk_Sign :: "bytes \<Rightarrow> bytes result"
  sdk_homeBlockchains :: "(string, uint64) gomap"
  sdk_cache :: "(string, Asset) gomap"
  sdk_blockchainClients :: "(uint64, BlockchainClient) gomap"

text \<open>\<open>sdk_Sign\<close> is the state signer, of the wallet or of a session key; the blockchain clients are the ones \<^verbatim>\<open>WithBlockchainRPC\<close>
  configures.\<close>

definition queryC :: "('s \<Rightarrow> 'a result) \<Rightarrow> ('s, 'a) call_op" where "queryC f = (\<lambda>s. (f s, s))"

definition wrapC :: "string \<Rightarrow> ('s, 'a) call_op \<Rightarrow> ('s, 'a) call_op" where
  "wrapC msg m = (\<lambda>s. case m s of (r, s') \<Rightarrow> (wrapE msg r, s'))"

section \<open>Node information\<close>

definition Sdk_GetConfig :: "('n, 'd) RpcClient \<Rightarrow> 'n \<Rightarrow> NodeConfig result" where
  "Sdk_GetConfig rpc n = bindE (wrapE ''failed to get config'' (rpc_GetConfig rpc n)) transformNodeConfig"

definition Sdk_GetAssets :: "('n, 'd) RpcClient \<Rightarrow> uint64 option \<Rightarrow> 'n \<Rightarrow> Asset list result" where
  "Sdk_GetAssets rpc blockchainID n =
     bindE (wrapE ''failed to get assets'' (rpc_GetAssets rpc (map_option FormatUint64 blockchainID) n)) transformAssets"

definition Sdk_GetBalances :: "'d libs \<Rightarrow> ('n, 'd) RpcClient \<Rightarrow> string \<Rightarrow> 'n \<Rightarrow> 'd BalanceEntry list result" where
  "Sdk_GetBalances L rpc wallet n = bindE (wrapE ''failed to get balances'' (rpc_GetBalances rpc wallet n)) (transformBalances L)"

definition getNodeAddress :: "('n, 'd) RpcClient \<Rightarrow> 'n \<Rightarrow> string result" where
  "getNodeAddress rpc n = mapE nc_NodeAddress (wrapE ''failed to get node config'' (Sdk_GetConfig rpc n))"

definition getSupportedSigValidatorsBitmap :: "'d libs \<Rightarrow> ('n, 'd) RpcClient \<Rightarrow> 'n \<Rightarrow> string result" where
  "getSupportedSigValidatorsBitmap L rpc n =
     mapE (\<lambda>cfg. BuildSigValidatorsBitmap L (nc_SupportedSigValidators cfg)) (wrapE ''failed to get node config'' (Sdk_GetConfig rpc n))"

definition contractAddress :: "(Blockchain \<Rightarrow> string) \<Rightarrow> string \<Rightarrow> ('n, 'd) RpcClient \<Rightarrow> uint64 \<Rightarrow> 'n \<Rightarrow> string result" where
  "contractAddress addr missing rpc blockchainID n =
     bindE (wrapE ''failed to get node config'' (Sdk_GetConfig rpc n)) (\<lambda>cfg.
     case find (\<lambda>bc. bc_ID bc = blockchainID) (nc_Blockchains cfg) of
       None \<Rightarrow> Inl (Err ''blockchain not found in node config'')
     | Some bc \<Rightarrow> if addr bc = '''' then Inl (Err missing) else Inr (addr bc))"

definition getChannelHubAddress :: "('n, 'd) RpcClient \<Rightarrow> uint64 \<Rightarrow> 'n \<Rightarrow> string result" where
  "getChannelHubAddress = contractAddress bc_ChannelHubAddress ''channel hub address not configured for blockchain''"

definition getLockingContractAddress :: "('n, 'd) RpcClient \<Rightarrow> uint64 \<Rightarrow> 'n \<Rightarrow> string result" where
  "getLockingContractAddress = contractAddress bc_LockingContractAddress ''locking contract address not configured for blockchain''"

definition getTokenAddress :: "('n, 'd) RpcClient \<Rightarrow> uint64 \<Rightarrow> string \<Rightarrow> 'n \<Rightarrow> string result" where
  "getTokenAddress rpc blockchainID asset n =
     bindE (wrapE ''failed to get assets'' (Sdk_GetAssets rpc (Some blockchainID) n)) (\<lambda>assets.
     case find (\<lambda>a. EqualFold (as_Symbol a) asset) assets of
       None \<Rightarrow> Inl (Err ''asset not found'')
     | Some a \<Rightarrow> (case find (\<lambda>t. tok_BlockchainID t = blockchainID) (as_Tokens a) of
           None \<Rightarrow> Inl (Err ''asset not available on blockchain'') | Some t \<Rightarrow> Inr (tok_Address t)))"

section \<open>The asset cache\<close>

text \<open>The cache only grows, by fetching all assets of the node. A lookup is a function of the cache it starts with; an operation
  on an asset first looks up the asset (\<open>sdk_store\<close>), and the later lookups of its tokens start from the cache this leaves.\<close>

type_synonym sdk_assets = "(string, Asset) gomap"

definition populateCache :: "('n, 'd) RpcClient \<Rightarrow> 'n \<Rightarrow> sdk_assets \<Rightarrow> sdk_assets result" where
  "populateCache rpc n cache =
     bindE (wrapE ''failed to fetch assets'' (Sdk_GetAssets rpc None n)) (\<lambda>assets.
     foldE (\<lambda>a m. if list_ex (\<lambda>t. tok_Decimals t < as_Decimals a) (as_Tokens a)
                  then Inl (Err ''asset decimals must not exceed token decimals'')
                  else Inr (gm_put (ToLower (as_Symbol a)) a m)) assets cache)"

text \<open>An asset that is not cached is looked for again after fetching.\<close>

definition cachedAsset :: "('n, 'd) RpcClient \<Rightarrow> string \<Rightarrow> 'n \<Rightarrow> sdk_assets \<Rightarrow> Asset option result" where
  "cachedAsset rpc asset n cache =
     (case gm_get cache (ToLower asset) of
        Some a \<Rightarrow> Inr (Some a)
      | None \<Rightarrow> bindE (populateCache rpc n cache) (\<lambda>cache1. Inr (gm_get cache1 (ToLower asset))))"

text \<open>A token is looked up in what is cached; only an empty cache is filled first.\<close>

definition cachedTokens :: "('n, 'd) RpcClient \<Rightarrow> 'n \<Rightarrow> sdk_assets \<Rightarrow> sdk_assets result" where
  "cachedTokens rpc n cache = (if cache = [] then populateCache rpc n cache else Inr cache)"

definition findToken :: "uint64 \<Rightarrow> string \<Rightarrow> sdk_assets \<Rightarrow> (Asset \<times> Token) option" where
  "findToken blockchainID tokenAddress cache =
     (case [(a, t). (k, a) \<leftarrow> cache, t \<leftarrow> as_Tokens a, tok_BlockchainID t = blockchainID \<and> EqualFold (tok_Address t) (ToLower tokenAddress)] of
        [] \<Rightarrow> None | p # _ \<Rightarrow> Some p)"

definition Cache_GetAssetDecimals :: "('n, 'd) RpcClient \<Rightarrow> 'n \<Rightarrow> sdk_assets \<Rightarrow> string \<Rightarrow> uint8 result" where
  "Cache_GetAssetDecimals rpc n cache asset =
     bindE (cachedAsset rpc asset n cache) (\<lambda>a. case a of None \<Rightarrow> Inl (Err ''asset not found'') | Some x \<Rightarrow> Inr (as_Decimals x))"

definition Cache_GetTokenDecimals :: "('n, 'd) RpcClient \<Rightarrow> 'n \<Rightarrow> sdk_assets \<Rightarrow> uint64 \<Rightarrow> string \<Rightarrow> uint8 result" where
  "Cache_GetTokenDecimals rpc n cache blockchainID tokenAddress =
     bindE (cachedTokens rpc n cache) (\<lambda>m. case findToken blockchainID tokenAddress m of
       None \<Rightarrow> Inl (Err ''token not found'') | Some (a, t) \<Rightarrow> Inr (tok_Decimals t))"

definition Cache_GetTokenAsset :: "('n, 'd) RpcClient \<Rightarrow> 'n \<Rightarrow> sdk_assets \<Rightarrow> uint64 \<Rightarrow> string \<Rightarrow> string result" where
  "Cache_GetTokenAsset rpc n cache blockchainID tokenAddress =
     bindE (cachedTokens rpc n cache) (\<lambda>m. case findToken blockchainID tokenAddress m of
       None \<Rightarrow> Inl (Err ''token not found'') | Some (a, t) \<Rightarrow> Inr (as_Symbol a))"

definition tokenOn :: "uint64 \<Rightarrow> Asset \<Rightarrow> Token option" where
  "tokenOn blockchainID a = find (\<lambda>t. tok_BlockchainID t = blockchainID) (as_Tokens a)"

definition Cache_GetTokenAddress :: "('n, 'd) RpcClient \<Rightarrow> 'n \<Rightarrow> sdk_assets \<Rightarrow> string \<Rightarrow> uint64 \<Rightarrow> string result" where
  "Cache_GetTokenAddress rpc n cache asset blockchainID =
     bindE (cachedTokens rpc n cache) (\<lambda>m.
     bindE (cachedAsset rpc asset n m) (\<lambda>a. case a of
       None \<Rightarrow> Inl (Err ''asset not found'')
     | Some x \<Rightarrow> (case tokenOn blockchainID x of None \<Rightarrow> Inl (Err ''asset not available on blockchain'') | Some t \<Rightarrow> Inr (tok_Address t))))"

definition GetSuggestedBlockchainID :: "('n, 'd) RpcClient \<Rightarrow> 'n \<Rightarrow> sdk_assets \<Rightarrow> string \<Rightarrow> uint64 result" where
  "GetSuggestedBlockchainID rpc n cache asset =
     bindE (cachedAsset rpc asset n cache) (\<lambda>a. case a of
       None \<Rightarrow> Inl (Err ''asset not found'')
     | Some x \<Rightarrow> if as_SuggestedBlockchainID x = 0 then Inl (Err ''no suggested blockchain ID for asset'') else Inr (as_SuggestedBlockchainID x))"

definition AssetExistsOnBlockchain :: "('n, 'd) RpcClient \<Rightarrow> 'n \<Rightarrow> sdk_assets \<Rightarrow> uint64 \<Rightarrow> string \<Rightarrow> bool result" where
  "AssetExistsOnBlockchain rpc n cache blockchainID asset =
     mapE (\<lambda>a. case a of None \<Rightarrow> False | Some x \<Rightarrow> tokenOn blockchainID x \<noteq> None) (cachedAsset rpc asset n cache)"

definition cacheAfter :: "('n, 'd) RpcClient \<Rightarrow> string \<Rightarrow> 'n \<Rightarrow> sdk_assets \<Rightarrow> sdk_assets" where
  "cacheAfter rpc asset n cache =
     (if gm_get cache (ToLower asset) \<noteq> None then cache
      else (case populateCache rpc n cache of Inl _ \<Rightarrow> cache | Inr cache1 \<Rightarrow> cache1))"

definition sdk_store :: "('n, 'd) RpcClient \<Rightarrow> SdkClient \<Rightarrow> string \<Rightarrow> 'n \<Rightarrow> AssetStore" where
  "sdk_store rpc c asset n =
     (let cache = cacheAfter rpc asset n (sdk_cache c) in
      \<lparr> GetAssetDecimals = Cache_GetAssetDecimals rpc n cache, GetTokenDecimals = Cache_GetTokenDecimals rpc n cache \<rparr>)"

definition SetHomeBlockchain :: "('n, 'd) RpcClient \<Rightarrow> SdkClient \<Rightarrow> string \<Rightarrow> uint64 \<Rightarrow> 'n \<Rightarrow> SdkClient result" where
  "SetHomeBlockchain rpc c asset blockchainId n =
     (if gm_get (sdk_homeBlockchains c) asset \<noteq> None then Inl (Err ''home blockchain is already set for asset'')
      else bindE (AssetExistsOnBlockchain rpc n (sdk_cache c) blockchainId asset) (\<lambda>ok.
           if \<not> ok then Inl (Err ''asset not supported on blockchain'')
           else Inr (c \<lparr> sdk_homeBlockchains := gm_put asset blockchainId (sdk_homeBlockchains c) \<rparr>)))"

section \<open>Signing and submitting states\<close>

definition GetUserAddress :: "'d libs \<Rightarrow> SdkClient \<Rightarrow> string" where
  "GetUserAddress L c = EthereumAddress_String L (ecPrivToAddress L (sdk_key c))"

definition Sdk_GetLatestState :: "'d libs \<Rightarrow> ('n, 'd) RpcClient \<Rightarrow> string \<Rightarrow> string \<Rightarrow> bool \<Rightarrow> 'n \<Rightarrow> 'd State result" where
  "Sdk_GetLatestState L rpc wallet asset onlySigned n =
     bindE (wrapE ''failed to get latest state'' (rpc_GetLatestState rpc wallet asset onlySigned n)) (\<lambda>r.
     wrapE ''failed to transform state'' (transformState L r))"

definition Sdk_GetHomeChannel :: "('n, 'd) RpcClient \<Rightarrow> string \<Rightarrow> string \<Rightarrow> 'n \<Rightarrow> Channel result" where
  "Sdk_GetHomeChannel rpc wallet asset n =
     bindE (wrapE ''failed to get home channel'' (rpc_GetHomeChannel rpc wallet asset n)) (\<lambda>r.
     wrapE ''failed to transform channel'' (transformChannel r))"

definition Sdk_GetEscrowChannel :: "('n, 'd) RpcClient \<Rightarrow> string \<Rightarrow> 'n \<Rightarrow> Channel result" where
  "Sdk_GetEscrowChannel rpc escrowChannelID n =
     bindE (wrapE ''failed to get escrow channel'' (rpc_GetEscrowChannel rpc escrowChannelID n)) (\<lambda>r.
     wrapE ''failed to transform channel'' (transformChannel r))"

definition ValidateAndSignState :: "'d libs \<Rightarrow> ('n, 'd) RpcClient \<Rightarrow> SdkClient \<Rightarrow> 'd State \<Rightarrow> 'd State \<Rightarrow> 'n \<Rightarrow> string result" where
  "ValidateAndSignState L rpc c currentState proposedState n =
     (let store = sdk_store rpc c (s_Asset proposedState) n in
      bindE (wrapE ''state validation failed'' (ValidateAdvancement L store currentState proposedState)) (\<lambda>_.
      bindE (wrapE ''failed to pack state'' (PackState L store proposedState)) (\<lambda>packedState.
      bindE (wrapE ''failed to sign state hash'' (sdk_Sign c packedState)) (\<lambda>signature.
      Inr (hexutilEncode L signature)))))"

definition submitState :: "'d libs \<Rightarrow> ('n, 'd) RpcClient \<Rightarrow> 'd State \<Rightarrow> ('n, string) call_op" where
  "submitState L rpc state = wrapC ''failed to submit state'' (rpc_SubmitState rpc (transformStateToRPC L state))"

definition requestChannelCreation :: "'d libs \<Rightarrow> ('n, 'd) RpcClient \<Rightarrow> 'd State \<Rightarrow> ChannelDefinition \<Rightarrow> ('n, string) call_op" where
  "requestChannelCreation L rpc state channelDef = wrapC ''failed to request channel creation''
     (rpc_RequestCreation rpc (transformStateToRPC L state) (transformChannelDefinitionToRPC channelDef))"

text \<open>The proposed state is returned with both signatures, as the code leaves it.\<close>

definition signAndSubmitState :: "'d libs \<Rightarrow> ('n, 'd) RpcClient \<Rightarrow> SdkClient \<Rightarrow> 'd State \<Rightarrow> 'd State \<Rightarrow> ('n, 'd State) call_op" where
  "signAndSubmitState L rpc c currentState proposedState =
     bindC (queryC (\<lambda>n. wrapE ''failed to sign state'' (ValidateAndSignState L rpc c currentState proposedState n))) (\<lambda>sig.
     let signedState = proposedState \<lparr> s_UserSig := Some sig \<rparr> in
     bindC (wrapC ''failed to submit state'' (submitState L rpc signedState)) (\<lambda>nodeSig.
     liftC (Inr (signedState \<lparr> s_NodeSig := Some nodeSig \<rparr>))))"

section \<open>Channel operations\<close>

definition DefaultChallengePeriod :: uint32 where "DefaultChallengePeriod = 86400"

definition generateNonce :: "int \<Rightarrow> uint64" where "generateNonce unixNano = of_int unixNano"

text \<open>The operations that open a channel when there is none differ in the transition they apply. An error of the query counts as
  no channel.\<close>

definition latestOrNone :: "'d libs \<Rightarrow> ('n, 'd) RpcClient \<Rightarrow> string \<Rightarrow> string \<Rightarrow> 'n \<Rightarrow> 'd State option" where
  "latestOrNone L rpc wallet asset n = (case Sdk_GetLatestState L rpc wallet asset False n of Inl _ \<Rightarrow> None | Inr s \<Rightarrow> Some s)"

definition hasChannel :: "'d State option \<Rightarrow> bool" where
  "hasChannel state = (case state of None \<Rightarrow> False | Some s \<Rightarrow> s_HomeChannelID s \<noteq> None)"

definition openChannel ::
  "'d libs \<Rightarrow> int \<Rightarrow> ('n, 'd) RpcClient \<Rightarrow> SdkClient \<Rightarrow> ('d State \<Rightarrow> ('d Transition \<times> 'd State) result) \<Rightarrow> 'd State
   \<Rightarrow> string \<Rightarrow> uint64 \<Rightarrow> string \<Rightarrow> string \<Rightarrow> ('n, 'd State) call_op" where
  "openChannel L unixNano rpc c apply' state bitmap blockchainID tokenAddress nodeAddress =
     (let channelDef = \<lparr> cd_Nonce = generateNonce unixNano, cd_Challenge = DefaultChallengePeriod, cd_ApprovedSigValidators = bitmap \<rparr> in
      bindC (liftC (wrapE ''failed to apply channel creation''
        (ApplyChannelCreation L (NextState L state) channelDef blockchainID tokenAddress nodeAddress))) (\<lambda>(_, created).
      bindC (liftC (wrapE ''failed to apply transition'' (apply' created))) (\<lambda>(_, newState).
      bindC (queryC (\<lambda>n. wrapE ''failed to sign state'' (ValidateAndSignState L rpc c state newState n))) (\<lambda>sig.
      let signedState = newState \<lparr> s_UserSig := Some sig \<rparr> in
      bindC (wrapC ''failed to request channel creation'' (requestChannelCreation L rpc signedState channelDef)) (\<lambda>nodeSig.
      liftC (Inr (signedState \<lparr> s_NodeSig := Some nodeSig \<rparr>)))))))"

definition advanceChannel ::
  "'d libs \<Rightarrow> ('n, 'd) RpcClient \<Rightarrow> SdkClient \<Rightarrow> ('d State \<Rightarrow> ('d Transition \<times> 'd State) result) \<Rightarrow> 'd State \<Rightarrow> ('n, 'd State) call_op" where
  "advanceChannel L rpc c apply' state =
     bindC (liftC (wrapE ''failed to apply transition'' (apply' (NextState L state)))) (\<lambda>(_, nextState).
     signAndSubmitState L rpc c state nextState)"

text \<open>\<^verbatim>\<open>Deposit\<close> and \<^verbatim>\<open>Withdraw\<close> take the blockchain from the caller and read the node's data first.\<close>

definition onBlockchain ::
  "'d libs \<Rightarrow> int \<Rightarrow> ('n, 'd) RpcClient \<Rightarrow> SdkClient \<Rightarrow> uint64 \<Rightarrow> string \<Rightarrow> ('d State \<Rightarrow> ('d Transition \<times> 'd State) result)
   \<Rightarrow> ('n, 'd State) call_op" where
  "onBlockchain L unixNano rpc c blockchainID asset apply' =
     (let userWallet = GetUserAddress L c in
      bindC (queryC (getNodeAddress rpc)) (\<lambda>nodeAddress.
      bindC (queryC (getTokenAddress rpc blockchainID asset)) (\<lambda>tokenAddress.
      bindC (queryC (\<lambda>n. Inr (latestOrNone L rpc userWallet asset n))) (\<lambda>state.
      if \<not> hasChannel state then
        bindC (queryC (\<lambda>n. wrapE ''failed to get sig validators bitmap'' (getSupportedSigValidatorsBitmap L rpc n))) (\<lambda>bitmap.
        openChannel L unixNano rpc c apply' (orVoid L asset userWallet state) bitmap blockchainID tokenAddress nodeAddress)
      else advanceChannel L rpc c apply' (the state)))))"

definition Sdk_Deposit :: "'d libs \<Rightarrow> int \<Rightarrow> ('n, 'd) RpcClient \<Rightarrow> SdkClient \<Rightarrow> uint64 \<Rightarrow> string \<Rightarrow> 'd \<Rightarrow> ('n, 'd State) call_op" where
  "Sdk_Deposit L unixNano rpc c blockchainID asset amount =
     onBlockchain L unixNano rpc c blockchainID asset (\<lambda>s. ApplyHomeDepositTransition L s amount)"

definition Sdk_Withdraw :: "'d libs \<Rightarrow> int \<Rightarrow> ('n, 'd) RpcClient \<Rightarrow> SdkClient \<Rightarrow> uint64 \<Rightarrow> string \<Rightarrow> 'd \<Rightarrow> ('n, 'd State) call_op" where
  "Sdk_Withdraw L unixNano rpc c blockchainID asset amount =
     onBlockchain L unixNano rpc c blockchainID asset (\<lambda>s. ApplyHomeWithdrawalTransition L s amount)"

text \<open>\<^verbatim>\<open>Transfer\<close> and \<^verbatim>\<open>Acknowledge\<close> find the blockchain of a new channel themselves.\<close>

definition homeBlockchain :: "('n, 'd) RpcClient \<Rightarrow> SdkClient \<Rightarrow> string \<Rightarrow> 'd State \<Rightarrow> 'n \<Rightarrow> uint64 result" where
  "homeBlockchain rpc c asset state n =
     (case gm_get (sdk_homeBlockchains c) asset of
        Some i \<Rightarrow> Inr i
      | None \<Rightarrow> if l_BlockchainID (s_HomeLedger state) \<noteq> 0 then Inr (l_BlockchainID (s_HomeLedger state))
                else GetSuggestedBlockchainID rpc n (sdk_cache c) asset)"

definition openHome ::
  "'d libs \<Rightarrow> int \<Rightarrow> ('n, 'd) RpcClient \<Rightarrow> SdkClient \<Rightarrow> string \<Rightarrow> ('d State \<Rightarrow> ('d Transition \<times> 'd State) result) \<Rightarrow> 'd State
   \<Rightarrow> ('n, 'd State) call_op" where
  "openHome L unixNano rpc c asset apply' state =
     bindC (queryC (\<lambda>n. wrapE ''failed to get sig validators bitmap'' (getSupportedSigValidatorsBitmap L rpc n))) (\<lambda>bitmap.
     bindC (queryC (homeBlockchain rpc c asset state)) (\<lambda>blockchainID.
     bindC (queryC (getNodeAddress rpc)) (\<lambda>nodeAddress.
     bindC (queryC (getTokenAddress rpc blockchainID asset)) (\<lambda>tokenAddress.
     openChannel L unixNano rpc c apply' state bitmap blockchainID tokenAddress nodeAddress))))"

definition Sdk_Transfer :: "'d libs \<Rightarrow> int \<Rightarrow> ('n, 'd) RpcClient \<Rightarrow> SdkClient \<Rightarrow> string \<Rightarrow> string \<Rightarrow> 'd \<Rightarrow> ('n, 'd State) call_op" where
  "Sdk_Transfer L unixNano rpc c recipientWallet asset amount =
     (let senderWallet = GetUserAddress L c; apply' = (\<lambda>s. ApplyTransferSendTransition L s recipientWallet amount) in
      bindC (queryC (\<lambda>n. Inr (latestOrNone L rpc senderWallet asset n))) (\<lambda>state.
      if \<not> hasChannel state then openHome L unixNano rpc c asset apply' (orVoid L asset senderWallet state)
      else advanceChannel L rpc c apply' (the state)))"

definition Sdk_Acknowledge :: "'d libs \<Rightarrow> int \<Rightarrow> ('n, 'd) RpcClient \<Rightarrow> SdkClient \<Rightarrow> string \<Rightarrow> ('n, 'd State) call_op" where
  "Sdk_Acknowledge L unixNano rpc c asset =
     (let userWallet = GetUserAddress L c in
      bindC (queryC (\<lambda>n. Inr (latestOrNone L rpc userWallet asset n))) (\<lambda>state.
      if \<not> hasChannel state then openHome L unixNano rpc c asset (ApplyAcknowledgementTransition L) (orVoid L asset userWallet state)
      else if s_UserSig (the state) \<noteq> None then liftC (Inl (Err ''state already acknowledged by user''))
      else advanceChannel L rpc c (ApplyAcknowledgementTransition L) (the state)))"

definition Sdk_CloseHomeChannel :: "'d libs \<Rightarrow> ('n, 'd) RpcClient \<Rightarrow> SdkClient \<Rightarrow> string \<Rightarrow> ('n, 'd State) call_op" where
  "Sdk_CloseHomeChannel L rpc c asset =
     bindC (queryC (Sdk_GetLatestState L rpc (GetUserAddress L c) asset False)) (\<lambda>state.
     if s_HomeChannelID state = None then liftC (Inl (Err ''no channel exists for asset''))
     else advanceChannel L rpc c (ApplyFinalizeTransition L) state)"

section \<open>On-chain operations\<close>

text \<open>The chain \<open>'b\<close> is the second part of the client's world; the client of a blockchain comes from the configuration and is the same
  after a call, so it is not threaded.\<close>

definition getOrInitBlockchainClient :: "SdkClient \<Rightarrow> uint64 \<Rightarrow> BlockchainClient result" where
  "getOrInitBlockchainClient c chainID =
     (case gm_get (sdk_blockchainClients c) chainID of
        None \<Rightarrow> Inl (Err ''blockchain RPC not configured for chain'') | Some bc \<Rightarrow> Inr bc)"

definition onChain :: "string \<Rightarrow> BlockchainClient \<Rightarrow> ('b, string) eth_op \<Rightarrow> 'b \<Rightarrow> string result \<times> 'b" where
  "onChain msg bc m b = (case m (bc, b) of (r, (_, b')) \<Rightarrow> (wrapE msg r, b'))"

definition failing :: "'a result \<Rightarrow> ('a \<Rightarrow> 'b \<Rightarrow> string result \<times> 'b) \<Rightarrow> 'b \<Rightarrow> string result \<times> 'b" where
  "failing r f b = (case r of Inl e \<Rightarrow> (Inl e, b) | Inr a \<Rightarrow> f a b)"

definition Sdk_Checkpoint :: "'d libs \<Rightarrow> ('n, 'd) RpcClient \<Rightarrow> 'b evm \<Rightarrow> SdkClient \<Rightarrow> string \<Rightarrow> 'n \<Rightarrow> 'b \<Rightarrow> string result \<times> 'b" where
  "Sdk_Checkpoint L rpc E c asset n =
     (let userWallet = GetUserAddress L c in
      failing (wrapE ''failed to get latest signed state'' (Sdk_GetLatestState L rpc userWallet asset True n)) (\<lambda>state.
      failing (if s_HomeChannelID state = None then Inl (Err ''no channel exists for asset'') else Inr ()) (\<lambda>_.
      failing (getOrInitBlockchainClient c (l_BlockchainID (s_HomeLedger state))) (\<lambda>bc.
      failing (wrapE ''failed to get home channel'' (Sdk_GetHomeChannel rpc userWallet asset n)) (\<lambda>channel.
      let ty = t_Type (s_Transition state) in
      if ty \<in> {TransitionTypeAcknowledgement, TransitionTypeHomeDeposit, TransitionTypeHomeWithdrawal, TransitionTypeTransferSend,
               TransitionTypeTransferReceive, TransitionTypeCommit, TransitionTypeRelease} then
        (if ch_Status channel = ChannelStatusVoid then
           onChain ''failed to create channel on blockchain'' bc (Client_Create L E
             \<lparr> cd_Nonce = ch_Nonce channel, cd_Challenge = ch_ChallengeDuration channel, cd_ApprovedSigValidators = ch_ApprovedSigValidators channel \<rparr> state)
         else onChain ''failed to checkpoint on blockchain'' bc (Client_Checkpoint L E state))
      else if ty = TransitionTypeFinalize then onChain ''failed to close channel on blockchain'' bc (Client_Close L E state)
      else (\<lambda>b. (Inl (Err ''transition type does not require a blockchain operation''), b)))))))"

definition Sdk_Challenge :: "'d libs \<Rightarrow> ('n, 'd) RpcClient \<Rightarrow> 'b evm \<Rightarrow> SdkClient \<Rightarrow> 'd State \<Rightarrow> 'n \<Rightarrow> 'b \<Rightarrow> string result \<times> 'b" where
  "Sdk_Challenge L rpc E c state n =
     (let store = sdk_store rpc c (s_Asset state) n; anyKey = (\<lambda>_ _ _. Inr True) in
      case (s_UserSig state, s_NodeSig state) of
        (Some userSig, Some nodeSig) \<Rightarrow>
          failing (if s_HomeChannelID state = None then Inl (Err ''state must have a home channel ID'') else Inr ()) (\<lambda>_.
          failing (wrapE ''failed to pack state'' (PackState L store state)) (\<lambda>packedState.
          failing (wrapE ''invalid user signature encoding'' (hexutilDecode L userSig)) (\<lambda>userSigBytes.
          failing (wrapE ''invalid user signature'' (ChannelSigValidator_Verify L anyKey (s_UserWallet state) packedState userSigBytes)) (\<lambda>_.
          failing (getNodeAddress rpc n) (\<lambda>nodeAddress.
          failing (wrapE ''invalid node signature encoding'' (hexutilDecode L nodeSig)) (\<lambda>nodeSigBytes.
          failing (wrapE ''invalid node signature'' (ChannelSigValidator_Verify L anyKey nodeAddress packedState nodeSigBytes)) (\<lambda>_.
          failing (wrapE ''failed to pack challenge state'' (PackChallengeState L store state)) (\<lambda>challengeData.
          failing (wrapE ''failed to sign challenge'' (sdk_Sign c challengeData)) (\<lambda>challengerSig.
          failing (getOrInitBlockchainClient c (l_BlockchainID (s_HomeLedger state))) (\<lambda>bc.
          onChain ''failed to challenge on blockchain'' bc (Client_Challenge L E state challengerSig 0)))))))))))
      | _ \<Rightarrow> (\<lambda>b. (Inl (Err ''state must have both user and node signatures''), b)))"

section \<open>Sessions and session keys\<close>

definition SubmitAppSessionDeposit ::
  "'d libs \<Rightarrow> ('n, 'd) RpcClient \<Rightarrow> SdkClient \<Rightarrow> 'd AppStateUpdateV1 \<Rightarrow> string list \<Rightarrow> string \<Rightarrow> 'd \<Rightarrow> ('n, string) call_op" where
  "SubmitAppSessionDeposit L rpc c appStateUpdate quorumSigs asset depositAmount =
     (let appUpdate = transformAppStateUpdateToRPC L appStateUpdate in
      bindC (queryC (\<lambda>n. wrapE ''failed to get latest state'' (Sdk_GetLatestState L rpc (GetUserAddress L c) asset False n))) (\<lambda>currentState.
      bindC (liftC (wrapE ''failed to apply commit transition''
        (ApplyCommitTransition L (NextState L currentState) (ru_AppSessionID appUpdate) depositAmount))) (\<lambda>(_, nextState).
      bindC (queryC (\<lambda>n. wrapE ''failed to sign state'' (ValidateAndSignState L rpc c currentState nextState n))) (\<lambda>stateSig.
      wrapC ''failed to submit deposit state'' (rpc_SubmitDepositState rpc appUpdate quorumSigs
        (transformStateToRPC L (nextState \<lparr> s_UserSig := Some stateSig \<rparr>)))))))"

definition Sdk_SubmitAppState :: "'d libs \<Rightarrow> ('n, 'd) RpcClient \<Rightarrow> 'd AppStateUpdateV1 \<Rightarrow> string list \<Rightarrow> ('n, unit) call_op" where
  "Sdk_SubmitAppState L rpc appStateUpdate quorumSigs =
     wrapC ''failed to submit app state'' (rpc_SubmitAppState rpc (transformAppStateUpdateToRPC L appStateUpdate) quorumSigs)"

definition Sdk_RebalanceAppSessions :: "'d libs \<Rightarrow> ('n, 'd) RpcClient \<Rightarrow> 'd SignedAppStateUpdateV1 list \<Rightarrow> ('n, string) call_op" where
  "Sdk_RebalanceAppSessions L rpc signedUpdates =
     wrapC ''failed to rebalance app sessions'' (rpc_RebalanceAppSessions rpc (map (transformSignedAppStateUpdateToRPC L) signedUpdates))"

definition SubmitChannelSessionKeyState :: "('n, 'd) RpcClient \<Rightarrow> ChannelSessionKeyStateV1 \<Rightarrow> ('n, unit) call_op" where
  "SubmitChannelSessionKeyState rpc state =
     wrapC ''failed to submit channel session key state'' (rpc_SubmitSessionKeyState rpc (transformChannelSessionKeyStateToRPC state))"

definition GetLastChannelKeyStates :: "('n, 'd) RpcClient \<Rightarrow> string \<Rightarrow> string option \<Rightarrow> 'n \<Rightarrow> ChannelSessionKeyStateV1 list result" where
  "GetLastChannelKeyStates rpc userAddress sessionKey n =
     bindE (wrapE ''failed to get last channel key states'' (rpc_GetLastKeyStates rpc userAddress sessionKey n)) (\<lambda>r.
     wrapE ''failed to transform channel session key states'' (transformChannelSessionKeyStates r))"

definition SignChannelSessionKeyState :: "'d libs \<Rightarrow> SdkClient \<Rightarrow> ChannelSessionKeyStateV1 \<Rightarrow> string result" where
  "SignChannelSessionKeyState L c state =
     bindE (wrapE ''failed to compute metadata hash''
       (GetChannelSessionKeyAuthMetadataHashV1 L (csk_Version state) (csk_Assets state) (csk_ExpiresAt state))) (\<lambda>metadataHash.
     bindE (wrapE ''failed to pack channel session key state'' (PackChannelKeyStateV1 L (csk_SessionKey state) metadataHash)) (\<lambda>packed.
     mapE (hexutilEncode L) (wrapE ''failed to sign channel session key state'' (EthereumMsgSigner_Sign L (sdk_key c) packed))))"

text \<open>\<^verbatim>\<open>sig[1:]\<close> drops the signer type and panics on an empty signature.\<close>

definition SignSessionKeyState :: "'d libs \<Rightarrow> SdkClient \<Rightarrow> AppSessionKeyStateV1 \<Rightarrow> string result" where
  "SignSessionKeyState L c state =
     bindE (wrapE ''failed to pack session key state'' (PackAppSessionKeyStateV1 L state)) (\<lambda>packed.
     bindE (wrapE ''failed to sign session key state'' (sdk_Sign c packed)) (\<lambda>sig.
     if sig = [] then Inl (Panic ''slice bounds out of range'') else Inr (hexutilEncode L (tl sig))))"

section \<open>A client joined to a node\<close>

text \<open>The methods of the RPC client answered by the endpoints of a node, over a transport that delivers.\<close>

definition node_rpc ::
  "'d libs \<Rightarrow> int \<Rightarrow> 'd ChannelHandler \<Rightarrow> 'd AppHandler \<Rightarrow> string \<Rightarrow> ('d db, 'd) RpcClient" where
  "node_rpc L now h ah nodeVersion =
     \<lparr> rpc_GetConfig = (\<lambda>_. GetConfig (h_memoryStore h) (h_nodeAddress h) nodeVersion),
       rpc_GetAssets = (\<lambda>chain _. Api_GetAssets (h_memoryStore h) chain),
       rpc_GetLatestState = (\<lambda>w a s db. GetLatestState L db w a s),
       rpc_GetHomeChannel = (\<lambda>w a db. GetHomeChannel db w a),
       rpc_GetEscrowChannel = (\<lambda>i db. GetEscrowChannel db i),
       rpc_GetBalances = (\<lambda>w db. GetBalances L db w),
       rpc_GetLastKeyStates = (\<lambda>u k db. GetLastKeyStates db u k),
       rpc_SubmitState = SubmitState L now h,
       rpc_RequestCreation = RequestCreation L now h,
       rpc_SubmitSessionKeyState = SubmitSessionKeyState L now h,
       rpc_SubmitDepositState = SubmitDepositState L now ah,
       rpc_SubmitAppState = SubmitAppState L now ah,
       rpc_RebalanceAppSessions = RebalanceAppSessions L now ah \<rparr>"

end
