(* ===== verification/Sdk_Properties.thy ===== *)
theory Sdk_Properties
  imports Sdk_Client Channel_Properties
begin

text \<open>
  The client library against a node: what a successful operation has achieved, and the operations of a user whose channel was closed.
\<close>

section \<open>Successful calls\<close>

lemma bindC_ok [simp]: "bindC m f s = (Inr b, s') \<longleftrightarrow> (\<exists>a s1. m s = (Inr a, s1) \<and> f a s1 = (Inr b, s'))"
  by (auto simp: bindC_def split: prod.splits sum.splits)

lemma liftC_ok [simp]: "liftC r s = (Inr b, s') \<longleftrightarrow> r = Inr b \<and> s' = s"
  by (auto simp: liftC_def)

lemma queryC_ok [simp]: "queryC f s = (Inr b, s') \<longleftrightarrow> f s = Inr b \<and> s' = s"
  by (auto simp: queryC_def)

lemma wrapC_ok [simp]: "wrapC msg m s = (Inr b, s') \<longleftrightarrow> m s = (Inr b, s')"
  by (auto simp: wrapC_def split: prod.splits)

section \<open>Closed channels\<close>

lemma transformLedgerToRPC_eq: "transformLedgerToRPC = ledgerToRPC"
  by (simp add: fun_eq_iff transformLedgerToRPC_def ledgerToRPC_def)

lemma transformStateToRPC_eq: "transformStateToRPC = coreStateToRPC"
  by (intro ext) (simp add: transformStateToRPC_def coreStateToRPC_def transformLedgerToRPC_eq)

text \<open>A proposed state without home channel is never signed.\<close>

lemma signAndSubmit_no_channel:
  "s_HomeChannelID p = None \<Longrightarrow> \<exists>e. signAndSubmitState L rpc c s p n = (Inl e, n)"
  by (simp add: signAndSubmitState_def ValidateAndSignState_def ValidateAdvancement_def bindC_def queryC_def Let_def)

lemma advance_final:
  assumes "IsFinal s" and "\<And>p t q. s_HomeChannelID p = None \<Longrightarrow> f p = Inr (t, q) \<Longrightarrow> s_HomeChannelID q = None"
  shows "\<exists>e. advanceChannel L rpc c f s n = (Inl e, n)"
proof (cases "f (NextState L s)")
  case (Inr r)
  have "s_HomeChannelID (NextState L s) = None" using assms(1) by (simp add: NextState_HomeChannelID)
  then have "s_HomeChannelID (snd r) = None" using Inr assms(2) [of "NextState L s" "fst r" "snd r"] by simp
  then show ?thesis using Inr signAndSubmit_no_channel [of "snd r"] by (cases r) (simp add: advanceChannel_def bindC_def liftC_def)
qed (simp add: advanceChannel_def bindC_def liftC_def)

lemma apply_keeps_no_channel:
  "s_HomeChannelID p = None \<Longrightarrow> ApplyHomeDepositTransition L p a = Inr (t, q) \<Longrightarrow> s_HomeChannelID q = None"
  "s_HomeChannelID p = None \<Longrightarrow> ApplyHomeWithdrawalTransition L p a = Inr (t, q) \<Longrightarrow> s_HomeChannelID q = None"
  "s_HomeChannelID p = None \<Longrightarrow> ApplyTransferSendTransition L p w a = Inr (t, q) \<Longrightarrow> s_HomeChannelID q = None"
  "s_HomeChannelID p = None \<Longrightarrow> ApplyAcknowledgementTransition L p = Inr (t, q) \<Longrightarrow> s_HomeChannelID q = None"
  "s_HomeChannelID p = None \<Longrightarrow> ApplyFinalizeTransition L p = Inr (t, q) \<Longrightarrow> s_HomeChannelID q = None"
  by (auto simp: ApplyHomeDepositTransition_def ApplyHomeWithdrawalTransition_def ApplyTransferSendTransition_def
      ApplyAcknowledgementTransition_def ApplyFinalizeTransition_def Let_def split: if_splits)



text \<open>A node whose last state of the example wallet is final.\<close>

definition closed_reply :: RPC_StateV1 where
  "closed_reply = coreStateToRPC small_libs (tr_funded \<lparr> s_Transition := (s_Transition tr_funded) \<lparr> t_Type := TransitionTypeFinalize \<rparr> \<rparr>)"

definition closed_state :: "ref_decimal State" where
  "closed_state = (case transformState small_libs closed_reply of Inr s \<Rightarrow> s | Inl _ \<Rightarrow> tr_funded)"

lemma closed_state_ok: "isOk (transformState small_libs closed_reply) \<and> IsFinal closed_state \<and> s_HomeChannelID closed_state = Some ''0xaa''"
  by code_simp

definition sdk_example :: SdkClient where
  "sdk_example = \<lparr> sdk_key = tr_key, sdk_Sign = ChannelDefaultSigner_Sign small_libs tr_key, sdk_homeBlockchains = [],
     sdk_cache = [(''usdc'', \<lparr> as_Name = ''USDC'', as_Decimals = 6, as_Symbol = ''usdc'', as_SuggestedBlockchainID = 137,
       as_Tokens = [\<lparr> tok_Name = ''USDC'', tok_Symbol = ''usdc'', tok_Address = ''0x22'', tok_BlockchainID = 137, tok_Decimals = 6 \<rparr>] \<rparr>)],
     sdk_blockchainClients = [] \<rparr>"

definition closed_rpc :: "(nat, ref_decimal) RpcClient" where
  "closed_rpc = \<lparr> rpc_GetConfig = (\<lambda>_. Inl (Err '''')), rpc_GetAssets = (\<lambda>_ _. Inl (Err '''')), rpc_GetLatestState = (\<lambda>_ _ _ _. Inr closed_reply),
     rpc_GetHomeChannel = (\<lambda>_ _ _. Inl (Err '''')), rpc_GetEscrowChannel = (\<lambda>_ _. Inl (Err '''')), rpc_GetBalances = (\<lambda>_ _. Inl (Err '''')),
     rpc_GetLastKeyStates = (\<lambda>_ _ _. Inl (Err '''')), rpc_SubmitState = (\<lambda>_ n. (Inr '''', n + 1)), rpc_RequestCreation = (\<lambda>_ _ n. (Inr '''', n + 1)),
     rpc_SubmitSessionKeyState = (\<lambda>_ n. (Inr (), n + 1)), rpc_SubmitDepositState = (\<lambda>_ _ _ n. (Inr '''', n + 1)),
     rpc_SubmitAppState = (\<lambda>_ _ n. (Inr (), n + 1)), rpc_RebalanceAppSessions = (\<lambda>_ n. (Inr '''', n + 1)) \<rparr>"


section \<open>Agreement with the node\<close>

datatype 'd SdkRequest = SdkDeposit uint64 string 'd | SdkWithdraw uint64 string 'd | SdkTransfer string string 'd
  | SdkAcknowledge string | SdkClose string

fun sdk_run :: "'d libs \<Rightarrow> int \<Rightarrow> ('n, 'd) RpcClient \<Rightarrow> SdkClient \<Rightarrow> 'd SdkRequest \<Rightarrow> ('n, 'd State) call_op" where
  "sdk_run L nano rpc c (SdkDeposit chain asset amount) = Sdk_Deposit L nano rpc c chain asset amount"
| "sdk_run L nano rpc c (SdkWithdraw chain asset amount) = Sdk_Withdraw L nano rpc c chain asset amount"
| "sdk_run L nano rpc c (SdkTransfer to asset amount) = Sdk_Transfer L nano rpc c to asset amount"
| "sdk_run L nano rpc c (SdkAcknowledge asset) = Sdk_Acknowledge L nano rpc c asset"
| "sdk_run L nano rpc c (SdkClose asset) = Sdk_CloseHomeChannel L rpc c asset"

text \<open>Every successful operation ends in one of the two submissions.\<close>

lemma openChannel_ok:
  assumes "openChannel L nano rpc c f s bitmap chain token node n = (Inr st, n')"
  shows "\<exists>p def sig. st = p \<lparr> s_NodeSig := Some sig \<rparr> \<and> s_UserSig p \<noteq> None \<and>
     rpc_RequestCreation rpc (coreStateToRPC L p) (transformChannelDefinitionToRPC def) n = (Inr sig, n')"
proof -
  define def where "def = \<lparr> cd_Nonce = generateNonce nano, cd_Challenge = DefaultChallengePeriod, cd_ApprovedSigValidators = bitmap \<rparr>"
  obtain q sig nodeSig where "rpc_RequestCreation rpc (coreStateToRPC L (q \<lparr> s_UserSig := Some sig \<rparr>)) (transformChannelDefinitionToRPC def) n = (Inr nodeSig, n')"
      "st = q \<lparr> s_UserSig := Some sig, s_NodeSig := Some nodeSig \<rparr>"
    using assms unfolding openChannel_def def_def [symmetric]
    by (auto simp: requestChannelCreation_def transformStateToRPC_eq Let_def)
  then show ?thesis by (intro exI [of _ "q \<lparr> s_UserSig := Some sig \<rparr>"] exI [of _ def] exI [of _ nodeSig]) simp
qed

lemma advanceChannel_ok:
  assumes "advanceChannel L rpc c f s n = (Inr st, n')"
  shows "\<exists>p sig. st = p \<lparr> s_NodeSig := Some sig \<rparr> \<and> s_UserSig p \<noteq> None \<and> rpc_SubmitState rpc (coreStateToRPC L p) n = (Inr sig, n')"
proof -
  obtain q sig nodeSig where "rpc_SubmitState rpc (coreStateToRPC L (q \<lparr> s_UserSig := Some sig \<rparr>)) n = (Inr nodeSig, n')"
      "st = q \<lparr> s_UserSig := Some sig, s_NodeSig := Some nodeSig \<rparr>"
    using assms by (auto simp: advanceChannel_def signAndSubmitState_def submitState_def transformStateToRPC_eq Let_def)
  then show ?thesis by (intro exI [of _ "q \<lparr> s_UserSig := Some sig \<rparr>"] exI [of _ nodeSig]) simp
qed

lemma sdk_run_ok:
  assumes "sdk_run L nano rpc c req n = (Inr st, n')"
  shows "\<exists>p sig. st = p \<lparr> s_NodeSig := Some sig \<rparr> \<and> s_UserSig p \<noteq> None \<and>
     (rpc_SubmitState rpc (coreStateToRPC L p) n = (Inr sig, n') \<or>
      (\<exists>def. rpc_RequestCreation rpc (coreStateToRPC L p) (transformChannelDefinitionToRPC def) n = (Inr sig, n')))"
proof -
  have "(\<exists>f s. advanceChannel L rpc c f s n = (Inr st, n')) \<or> (\<exists>f s b i t a. openChannel L nano rpc c f s b i t a n = (Inr st, n'))"
    using assms
    by (cases req)
       (auto simp: Sdk_Deposit_def Sdk_Withdraw_def onBlockchain_def Sdk_Transfer_def openHome_def Sdk_Acknowledge_def Sdk_CloseHomeChannel_def Let_def
         split: if_splits)
  then show ?thesis using advanceChannel_ok openChannel_ok by metis
qed

text \<open>What the node checked before it signed a state.\<close>

definition countersigned :: "'d libs \<Rightarrow> 'd ChannelHandler \<Rightarrow> 'd db \<Rightarrow> 'd State \<Rightarrow> string \<Rightarrow> bool" where
  "countersigned L h db t sig \<longleftrightarrow>
     (\<exists>last packed. GetLastUserState db (s_UserWallet t) (s_Asset t) False = Inr last \<and>
        ValidateAdvancement L (asset_store (h_memoryStore h)) (orVoid L (s_Asset t) (s_UserWallet t) last) t = Inr () \<and>
        PackState L (asset_store (h_memoryStore h)) t = Inr packed \<and> nodeSign L (h_nodeKey h) packed = Inr sig)"

lemma CreateChannel_frame: "CreateChannel now ch db = Inr ((), db') \<Longrightarrow> \<exists>cs. db' = db \<lparr> channels := cs \<rparr>"
  by (auto simp: CreateChannel_def Let_def split: if_splits)

lemma recordCreation_states:
  "recordCreation L now h s db = Inr ((), db') \<Longrightarrow> \<exists>more. states db' = states db @ more"
  by (auto simp: recordCreation_def Let_def split: if_splits dest!: recordTransition_states issueTransferReceiverState_stored)

lemma SubmitState_stored:
  assumes "SubmitState L now h req db = (Inr sig, db')"
  shows "\<exists>t. toCoreState L req = Inr t \<and> countersigned L h db t sig \<and> coreStateToDB L (t \<lparr> s_NodeSig := Some sig \<rparr>) \<in> set (states db')"
proof -
  obtain s where s: "toCoreState L req = Inr s" "SubmitState_tx L now h s db = Inr (sig, db')"
    using assms by (auto simp: SubmitState_def endpoint_ok)
  obtain cur packed al ub db1 where a: "state_admitted L now h db cur s packed" "nodeSign L (h_nodeKey h) packed = Inr sig"
    "StoreUserState L (s \<lparr> s_NodeSig := Some sig \<rparr>) (db \<lparr> action_log := al, user_balances := ub \<rparr>) = Inr ((), db1)"
    "recordSubmitted L now h (s \<lparr> s_NodeSig := Some sig \<rparr>) db1 = Inr ((), db')"
    using SubmitState_tx_ok [OF s(2)] by blast
  have "coreStateToDB L (s \<lparr> s_NodeSig := Some sig \<rparr>) \<in> set (states db')"
    using StoreUserState_frame [OF a(3)] recordSubmitted_states [OF a(4)] by auto
  then show ?thesis using s(1) a(1,2) by (auto simp: countersigned_def state_admitted_def)
qed

lemma RequestCreation_stored:
  assumes "RequestCreation L now h req def db = (Inr sig, db')"
  shows "\<exists>t. toCoreState L (req \<lparr> rs_UserWallet := ToLower (rs_UserWallet req) \<rparr>) = Inr t \<and> countersigned L h db t sig \<and>
     coreStateToDB L (t \<lparr> s_NodeSig := Some sig \<rparr>) \<in> set (states db')"
proof -
  obtain t d where t: "checkCreationRequest L h req def = Inr (t, d)" "RequestCreation_tx L now h (t, d) db = Inr (sig, db')"
    using assms by (auto simp: RequestCreation_def endpoint_ok)
  have core: "toCoreState L (req \<lparr> rs_UserWallet := ToLower (rs_UserWallet req) \<rparr>) = Inr t"
    using t(1) by (auto simp: checkCreationRequest_def dest!: NormalizeHexAddress_eq split: if_splits)
  obtain u db1 last packed db2 ch db3 where
    lk: "LockUserState L (s_UserWallet t) (s_Asset t) db = Inr (u, db1)"
    and ls: "GetLastUserState db1 (s_UserWallet t) (s_Asset t) False = Inr last"
    and va: "ValidateAdvancement L (asset_store (h_memoryStore h)) (orVoid L (s_Asset t) (s_UserWallet t) last) t = Inr ()"
    and pk: "PackState L (asset_store (h_memoryStore h)) t = Inr packed" and sg: "nodeSign L (h_nodeKey h) packed = Inr sig"
    and cr: "CreateChannel now ch db1 = Inr ((), db2)"
    and so: "StoreUserState L (t \<lparr> s_NodeSig := Some sig \<rparr>) db2 = Inr ((), db3)"
    and rc: "recordCreation L now h (t \<lparr> s_NodeSig := Some sig \<rparr>) db3 = Inr ((), db')"
    using t(2) by (auto simp: RequestCreation_tx_def Let_def checkUserSig_ok)
  have "GetLastUserState db (s_UserWallet t) (s_Asset t) False = Inr last" using ls LockUserState_frame [OF lk] by auto
  moreover have "coreStateToDB L (t \<lparr> s_NodeSig := Some sig \<rparr>) \<in> set (states db')"
    using StoreUserState_frame [OF so] recordCreation_states [OF rc] by auto
  ultimately show ?thesis using core va pk sg by (auto simp: countersigned_def)
qed


text \<open>The example wallet sends 30 usdc through the library to the example node.\<close>

definition sdk_sessions :: "ref_decimal AppHandler" where
  "sdk_sessions = \<lparr> ah_memoryStore = h_memoryStore tr_handler, ah_actionGateway = h_actionGateway tr_handler, ah_nodeKey = [5],
     ah_appRegistryEnabled = False, ah_maxParticipants = 5, ah_maxSessionData = 100, ah_maxSessionKeyIDs = 5, ah_maxSignedUpdates = 5 \<rparr>"

definition agree_result :: "ref_decimal State result \<times> ref_decimal db" where
  "agree_result = sdk_run small_libs 1 (node_rpc small_libs 1000 tr_handler sdk_sessions '''') sdk_example (SdkTransfer tr_receiver ''usdc'' (30, 0)) tr_db"

lemma agree_ok: "isOk (fst agree_result)"
  by code_simp


end
