(* ===== verification/Rpc_Json.thy ===== *)
theory Rpc_Json
  imports Prelude
begin

text \<open>
  The part of \<^verbatim>\<open>encoding/json\<close> that the RPC messages go through: the scanner that checks a text and finds the end of a
  value, quoting and unquoting of strings, the compaction of raw messages, numbers into unsigned integers.
  Text is valid UTF-8 (bytes above 127 are passed on); the nesting limit of 10000 is left out.
\<close>

section \<open>Scanning JSON text\<close>

abbreviation quote_char :: char where "quote_char \<equiv> CHR 0x22"
abbreviation back_slash :: char where "back_slash \<equiv> CHR 0x5C"

definition json_space :: "char \<Rightarrow> bool" where
  "json_space c = (c \<in> {CHR 0x20, CHR 0x09, CHR 0x0D, CHR 0x0A})"

definition skip_ws :: "string \<Rightarrow> string" where
  "skip_ws = dropWhile json_space"

definition hex_digit :: "char \<Rightarrow> nat option" where
  "hex_digit c = (let n = of_char c :: nat in
     if 48 \<le> n \<and> n \<le> 57 then Some (n - 48) else if 65 \<le> n \<and> n \<le> 70 then Some (n - 55)
     else if 97 \<le> n \<and> n \<le> 102 then Some (n - 87) else None)"

definition hex4 :: "char \<Rightarrow> char \<Rightarrow> char \<Rightarrow> char \<Rightarrow> nat option" where
  "hex4 a b c d = (case (hex_digit a, hex_digit b, hex_digit c, hex_digit d) of
       (Some p, Some q, Some r, Some s) \<Rightarrow> Some (((p * 16 + q) * 16 + r) * 16 + s) | _ \<Rightarrow> None)"

definition is_control :: "char \<Rightarrow> bool" where
  "is_control c = ((of_char c :: nat) < 32)"

text \<open>The rest of a string literal after its opening quote: what follows the closing quote.\<close>

definition scan_unit :: "char \<Rightarrow> string \<Rightarrow> string option" where
  "scan_unit c s =
     (if c = back_slash then
        (case s of
           [] \<Rightarrow> None
         | e # t \<Rightarrow>
             if e \<in> set [quote_char, back_slash, CHR ''/'', CHR ''b'', CHR ''f'', CHR ''n'', CHR ''r'', CHR ''t''] then Some t
             else if e = CHR ''u'' then
               (case t of h1 # h2 # h3 # h4 # u \<Rightarrow> if hex4 h1 h2 h3 h4 = None then None else Some u | _ \<Rightarrow> None)
             else None)
      else if is_control c then None else Some s)"

lemma scan_unit_length: "scan_unit c s = Some t \<Longrightarrow> length t \<le> length s"
  by (auto simp: scan_unit_def split: if_splits list.splits)

function scan_string :: "string \<Rightarrow> string option" where
  "scan_string [] = None"
| "scan_string (c # s) =
     (if c = quote_char then Some s else case scan_unit c s of None \<Rightarrow> None | Some t \<Rightarrow> scan_string t)"
  by pat_completeness auto

termination
  by (relation "measure length") (auto dest: scan_unit_length)

definition scan_digits :: "string \<Rightarrow> string option" where
  "scan_digits s = (case s of c # _ \<Rightarrow> if is_digit c then Some (dropWhile is_digit s) else None | [] \<Rightarrow> None)"

definition scan_fraction :: "string \<Rightarrow> string option" where
  "scan_fraction s = (case s of c # t \<Rightarrow> if c = CHR ''.'' then scan_digits t else Some s | [] \<Rightarrow> Some s)"

definition scan_exponent :: "string \<Rightarrow> string option" where
  "scan_exponent s = (case s of
       c # t \<Rightarrow> if c \<in> set ''eE'' then
           scan_digits (case t of d # u \<Rightarrow> if d \<in> set ''+-'' then u else t | [] \<Rightarrow> t)
         else Some s
     | [] \<Rightarrow> Some s)"

definition scan_number :: "string \<Rightarrow> string option" where
  "scan_number s =
     (case (case s of c # t \<Rightarrow> if c = CHR ''-'' then t else s | [] \<Rightarrow> s) of
        [] \<Rightarrow> None
      | c # t \<Rightarrow>
          if \<not> is_digit c then None
          else Option.bind (scan_fraction (if c = CHR ''0'' then t else dropWhile is_digit t)) scan_exponent)"

definition scan_word :: "string \<Rightarrow> string \<Rightarrow> string option" where
  "scan_word w s = (if HasPrefix s w then Some (drop (length w) s) else None)"

definition scan_scalar :: "string \<Rightarrow> string option" where
  "scan_scalar s =
     (if HasPrefix s [quote_char] then scan_string (tl s)
      else if HasPrefix s ''t'' then scan_word ''true'' s
      else if HasPrefix s ''f'' then scan_word ''false'' s
      else if HasPrefix s ''n'' then scan_word ''null'' s
      else scan_number s)"

text \<open>
  A value at the head of the text: what follows it. The first argument is fuel; the number of characters of the
  text is enough. \<open>scan_elements\<close> and \<open>scan_members\<close> stand after an opening bracket or a comma.
\<close>

definition next_char :: "string \<Rightarrow> (char \<times> string) option" where
  "next_char s = (case skip_ws s of [] \<Rightarrow> None | c # t \<Rightarrow> Some (c, t))"

text \<open>The inside of brackets: closed at once or read by \<open>f\<close>; after an item a comma and more of \<open>f\<close>, or the end.\<close>

definition scan_open :: "char \<Rightarrow> (string \<Rightarrow> string option) \<Rightarrow> string \<Rightarrow> string option" where
  "scan_open closing f s =
     Option.bind (next_char s) (\<lambda>(d, u). if d = closing then Some u else f (d # u))"

definition scan_close :: "char \<Rightarrow> (string \<Rightarrow> string option) \<Rightarrow> string \<Rightarrow> string option" where
  "scan_close closing f s =
     Option.bind (next_char s) (\<lambda>(c, t). if c = CHR 0x2C then f (skip_ws t) else if c = closing then Some t else None)"

definition scan_key :: "string \<Rightarrow> string option" where
  "scan_key s = (case s of [] \<Rightarrow> None | q # k \<Rightarrow>
     if q \<noteq> quote_char then None
     else Option.bind (scan_string k) (\<lambda>r.
       Option.bind (next_char r) (\<lambda>(c, t). if c = CHR '':'' then Some (skip_ws t) else None)))"

fun scan_value :: "nat \<Rightarrow> string \<Rightarrow> string option"
and scan_elements :: "nat \<Rightarrow> string \<Rightarrow> string option"
and scan_members :: "nat \<Rightarrow> string \<Rightarrow> string option" where
  "scan_value 0 s = None"
| "scan_value (Suc n) s =
     (case s of
        [] \<Rightarrow> None
      | c # t \<Rightarrow> if c = CHR ''['' then scan_open CHR '']'' (\<lambda>u. scan_elements n u) t
                 else if c = CHR ''{'' then scan_open CHR ''}'' (\<lambda>u. scan_members n u) t
                 else scan_scalar s)"
| "scan_elements 0 s = None"
| "scan_elements (Suc n) s = Option.bind (scan_value n s) (scan_close CHR '']'' (\<lambda>u. scan_elements n u))"
| "scan_members 0 s = None"
| "scan_members (Suc n) s =
     Option.bind (scan_key s) (\<lambda>r. Option.bind (scan_value n r) (scan_close CHR ''}'' (\<lambda>u. scan_members n u)))"

definition scan :: "string \<Rightarrow> string option" where
  "scan s = scan_value (Suc (length s)) s"

definition json_valid :: "string \<Rightarrow> bool" where
  "json_valid s = (case scan (skip_ws s) of Some r \<Rightarrow> skip_ws r = [] | None \<Rightarrow> False)"

section \<open>Strings\<close>

definition utf8 :: "nat \<Rightarrow> string" where
  "utf8 n = map char_of
     (if n < 128 then [n]
      else if n < 2048 then [192 + n div 64, 128 + n mod 64]
      else if n < 65536 then [224 + n div 4096, 128 + n div 64 mod 64, 128 + n mod 64]
      else [240 + n div 262144, 128 + n div 4096 mod 64, 128 + n div 64 mod 64, 128 + n mod 64])"

text \<open>Unescaped text of a literal, after its opening quote. A lone surrogate becomes U+FFFD.\<close>

definition unescape_char :: "char \<Rightarrow> char" where
  "unescape_char e = (if e = CHR ''b'' then CHR 0x08 else if e = CHR ''f'' then CHR 0x0C else if e = CHR ''n'' then CHR 0x0A
     else if e = CHR ''r'' then CHR 0x0D else if e = CHR ''t'' then CHR 0x09 else e)"

definition low_surrogate :: "string \<Rightarrow> (nat \<times> string) option" where
  "low_surrogate s = (case s of
       b # e # h1 # h2 # h3 # h4 # u \<Rightarrow>
         if b = back_slash \<and> e = CHR ''u'' then
           (case hex4 h1 h2 h3 h4 of Some l \<Rightarrow> if 0xDC00 \<le> l \<and> l < 0xE000 then Some (l, u) else None | None \<Rightarrow> None)
         else None
     | _ \<Rightarrow> None)"

lemma low_surrogate_length: "low_surrogate s = Some (l, u) \<Longrightarrow> length u < length s"
  by (auto simp: low_surrogate_def split: list.splits if_splits option.splits)

function unquote_body :: "string \<Rightarrow> string" where
  "unquote_body [] = []"
| "unquote_body (c # s) =
     (if c = quote_char then []
      else if c = back_slash then
        (case s of
           e # h1 # h2 # h3 # h4 # u \<Rightarrow>
             if e = CHR ''u'' then
               (case hex4 h1 h2 h3 h4 of
                  None \<Rightarrow> []
                | Some h \<Rightarrow>
                    if 0xD800 \<le> h \<and> h < 0xE000 then
                      (case (if h < 0xDC00 then low_surrogate u else None) of
                         Some (l, v) \<Rightarrow> utf8 ((h - 0xD800) * 1024 + (l - 0xDC00) + 65536) @ unquote_body v
                       | None \<Rightarrow> utf8 0xFFFD @ unquote_body u)
                    else utf8 h @ unquote_body u)
             else unescape_char e # unquote_body (h1 # h2 # h3 # h4 # u)
         | e # t \<Rightarrow> unescape_char e # unquote_body t
         | [] \<Rightarrow> [])
      else c # unquote_body s)"
  by pat_completeness auto

termination
  by (relation "measure length") (auto dest: low_surrogate_length split: if_splits)

definition json_hex :: "nat \<Rightarrow> char" where
  "json_hex n = char_of (if n < 10 then n + 48 else n + 87)"

text \<open>\<^verbatim>\<open>appendString\<close> with HTML escaping, which \<^verbatim>\<open>json.Marshal\<close> uses.\<close>

definition escape_char :: "char \<Rightarrow> string" where
  "escape_char c =
     (if c = quote_char \<or> c = back_slash then [back_slash, c]
      else if c = CHR 0x08 then [back_slash, CHR ''b''] else if c = CHR 0x0C then [back_slash, CHR ''f'']
      else if c = CHR 0x0A then [back_slash, CHR ''n''] else if c = CHR 0x0D then [back_slash, CHR ''r'']
      else if c = CHR 0x09 then [back_slash, CHR ''t'']
      else if is_control c \<or> c \<in> set ''<>&''
      then [back_slash, CHR ''u'', CHR ''0'', CHR ''0'', json_hex (of_char c div 16), json_hex (of_char c mod 16)]
      else [c])"

definition line_separator :: "string \<Rightarrow> (char \<times> string) option" where
  "line_separator s = (case s of
       a # b # c # t \<Rightarrow> if a = CHR 0xE2 \<and> b = CHR 0x80 \<and> c \<in> {CHR 0xA8, CHR 0xA9}
                        then Some (if c = CHR 0xA8 then CHR ''8'' else CHR ''9'', t) else None
     | _ \<Rightarrow> None)"

lemma line_separator_length: "line_separator s = Some (d, t) \<Longrightarrow> length t < length s"
  by (auto simp: line_separator_def split: list.splits if_splits)

function escape :: "string \<Rightarrow> string" where
  "escape s =
     (case line_separator s of
        Some (d, t) \<Rightarrow> [back_slash, CHR ''u'', CHR ''2'', CHR ''0'', CHR ''2'', d] @ escape t
      | None \<Rightarrow> (case s of [] \<Rightarrow> [] | c # t \<Rightarrow> escape_char c @ escape t))"
  by pat_completeness auto

termination
  by (relation "measure length") (auto dest: line_separator_length)

declare escape.simps [simp del]

definition json_string :: "string \<Rightarrow> string" where
  "json_string s = quote_char # escape s @ [quote_char]"

section \<open>Values\<close>

text \<open>\<^verbatim>\<open>compact\<close>, which writes a raw message: white space outside strings goes, the first argument says whether
  the text stands inside a string.\<close>

definition compact_char :: "char \<Rightarrow> string" where
  "compact_char c = (if c \<in> set ''<>&'' then escape_char c else [c])"

function json_compact :: "bool \<Rightarrow> string \<Rightarrow> string" where
  "json_compact inside s =
     (case line_separator s of
        Some (d, t) \<Rightarrow> [back_slash, CHR ''u'', CHR ''2'', CHR ''0'', CHR ''2'', d] @ json_compact inside t
      | None \<Rightarrow>
          (case s of
             [] \<Rightarrow> []
           | c # t \<Rightarrow>
               if \<not> inside then
                 (if json_space c then json_compact False t
                  else compact_char c @ json_compact (c = quote_char) t)
               else if c = back_slash then
                 (case t of [] \<Rightarrow> [c] | e # u \<Rightarrow> c # compact_char e @ json_compact True u)
               else compact_char c @ json_compact (c \<noteq> quote_char) t))"
  by pat_completeness auto

termination
  by (relation "measure (\<lambda>(_, s). length s)") (auto dest: line_separator_length split: list.splits)

declare json_compact.simps [simp del]

definition raw_json :: "string \<Rightarrow> string result" where
  "raw_json s = (if json_valid s then Inr (json_compact False s) else Inl (Err ''invalid character in raw message''))"

fun join_comma :: "string list \<Rightarrow> string" where
  "join_comma [] = []"
| "join_comma [x] = x"
| "join_comma (x # xs) = x @ CHR 0x2C # join_comma xs"

section \<open>Reading values\<close>

text \<open>The text of the value at the head, and what follows.\<close>

definition split_value :: "string \<Rightarrow> (string \<times> string) option" where
  "split_value s = (case scan s of None \<Rightarrow> None | Some r \<Rightarrow> Some (take (length s - length r) s, r))"

fun split_elements :: "nat \<Rightarrow> string \<Rightarrow> string list option" where
  "split_elements 0 s = None"
| "split_elements (Suc n) s =
     (case split_value s of
        None \<Rightarrow> None
      | Some (v, r) \<Rightarrow> (case skip_ws r of
            [] \<Rightarrow> None
          | c # t \<Rightarrow> if c = CHR 0x2C then map_option ((#) v) (split_elements n (skip_ws t))
                     else if c = CHR '']'' then Some [v] else None))"

fun split_members :: "nat \<Rightarrow> string \<Rightarrow> (string \<times> string) list option" where
  "split_members 0 s = None"
| "split_members (Suc n) s =
     (case split_value s of
        None \<Rightarrow> None
      | Some (k, r) \<Rightarrow> (case split_value (skip_ws (tl (skip_ws r))) of
            None \<Rightarrow> None
          | Some (v, r') \<Rightarrow> (case skip_ws r' of
                [] \<Rightarrow> None
              | c # t \<Rightarrow> if c = CHR 0x2C then map_option ((#) (unquote_body (tl k), v)) (split_members n (skip_ws t))
                         else if c = CHR ''}'' then Some [(unquote_body (tl k), v)] else None)))"

text \<open>\<^verbatim>\<open>json.Unmarshal\<close> into \<^verbatim>\<open>[]json.RawMessage\<close>
  and, on the text of one value, into an unsigned integer and a string. A JSON
  \<^verbatim>\<open>null\<close> leaves a number and a string as they are and empties a slice.\<close>

definition unmarshal_array :: "string \<Rightarrow> string list result" where
  "unmarshal_array s =
     (if \<not> json_valid s then Inl (Err ''invalid character'')
      else case skip_ws s of
        c # t \<Rightarrow>
          if c = CHR ''n'' then Inr []
          else if c \<noteq> CHR ''['' then Inl (Err ''cannot unmarshal into array'')
          else (case skip_ws t of
              d # u \<Rightarrow> if d = CHR '']'' then Inr [] else
                (case split_elements (Suc (length t)) (d # u) of Some vs \<Rightarrow> Inr vs | None \<Rightarrow> Inl (Err ''invalid character''))
            | [] \<Rightarrow> Inl (Err ''invalid character''))
      | [] \<Rightarrow> Inl (Err ''unexpected end of JSON input''))"

definition unmarshal_uint :: "nat \<Rightarrow> string \<Rightarrow> int \<Rightarrow> int result" where
  "unmarshal_uint bits s old =
     (if s = ''null'' then Inr old
      else bindE (parse_uint s) (\<lambda>n. if 2 ^ bits \<le> n then Inl (Err ''value out of range'') else Inr n))"

definition unmarshal_string :: "string \<Rightarrow> string \<Rightarrow> string result" where
  "unmarshal_string s old =
     (case s of
        c # t \<Rightarrow> if c = quote_char then Inr (unquote_body t) else if s = ''null'' then Inr old
                 else Inl (Err ''cannot unmarshal into string'')
      | [] \<Rightarrow> Inl (Err ''unexpected end of JSON input''))"

end
