(* ===== verification/Json_Laws.thy ===== *)
theory Json_Laws
  imports Rpc_Json
begin

text \<open>
  Laws of the JSON functions: a quoted string is read back, a scanner takes the same characters whatever follows, as
  much fuel as there are characters is enough, lists and objects that the encoder joins are split again, and
  compaction turns every JSON text into one that nothing surrounds.
\<close>

section \<open>Strings survive quoting\<close>

lemma unquote_plain [simp]:
  "unquote_body (quote_char # r) = []"
  "c \<noteq> quote_char \<Longrightarrow> c \<noteq> back_slash \<Longrightarrow> unquote_body (c # r) = c # unquote_body r"
  by simp_all

lemma unquote_escaped: "e \<noteq> CHR ''u'' \<Longrightarrow> unquote_body (back_slash # e # t) = unescape_char e # unquote_body t"
  by (simp split: list.splits)

lemma unquote_code_point:
  "hex4 a b c d = Some h \<Longrightarrow> h < 0xD800 \<Longrightarrow>
     unquote_body (back_slash # CHR ''u'' # a # b # c # d # t) = utf8 h @ unquote_body t"
  by simp

declare unquote_body.simps(2) [simp del]

lemma hex_digit_char: "n < 16 \<Longrightarrow> hex_digit (json_hex n) = Some n"
  by (simp add: hex_digit_def json_hex_def Let_def of_char_of)

lemma hex4_char:
  "hex4 CHR ''0'' CHR ''0'' (json_hex (of_char c div 16)) (json_hex (of_char c mod 16)) = Some (of_char c)"
proof -
  have "(of_char c :: nat) div 16 < 16" using nat_of_char_less_256 [of c] by linarith
  moreover have "hex_digit CHR ''0'' = Some 0" by (simp add: hex_digit_def)
  ultimately show ?thesis by (simp add: hex4_def hex_digit_char)
qed

lemma hex4_separator: "d \<in> {CHR ''8'', CHR ''9''} \<Longrightarrow> hex4 CHR ''2'' CHR ''0'' CHR ''2'' d = Some (if d = CHR ''8'' then 0x2028 else 0x2029)"
  by (auto simp: hex4_def hex_digit_def)

lemma utf8_ascii: "(of_char c :: nat) < 128 \<Longrightarrow> utf8 (of_char c) = [c]"
  by (simp add: utf8_def)

lemma utf8_separator: "utf8 0x2028 = [CHR 0xE2, CHR 0x80, CHR 0xA8]" "utf8 0x2029 = [CHR 0xE2, CHR 0x80, CHR 0xA9]"
  using char_of_char [of "CHR 0xE2", where ?'a = nat] char_of_char [of "CHR 0x80", where ?'a = nat]
    char_of_char [of "CHR 0xA8", where ?'a = nat] char_of_char [of "CHR 0xA9", where ?'a = nat]
  by (simp_all add: utf8_def)

lemma separator_shape:
  "line_separator s = Some (d, t) \<longleftrightarrow> d \<in> {CHR ''8'', CHR ''9''} \<and> s = utf8 (if d = CHR ''8'' then 0x2028 else 0x2029) @ t"
  by (auto simp: line_separator_def utf8_separator split: list.splits if_splits)

lemma escaped_small: "is_control c \<or> c \<in> set ''<>&'' \<Longrightarrow> (of_char c :: nat) < 128"
  by (auto simp: is_control_def)

lemma scan_escape_char: "scan_string (escape_char c @ r) = scan_string r"
  by (auto simp: escape_char_def scan_unit_def hex4_char)

lemma unquote_escape_char: "unquote_body (escape_char c @ r) = c # unquote_body r"
proof (cases "is_control c \<or> c \<in> set ''<>&''")
  case True
  then show ?thesis using escaped_small [OF True]
    by (simp add: escape_char_def unquote_escaped unescape_char_def unquote_code_point [OF hex4_char] utf8_ascii
        split del: if_split) (simp add: unquote_escaped unescape_char_def unquote_code_point [OF hex4_char] utf8_ascii)
next
  case False
  then show ?thesis by (simp add: escape_char_def unquote_escaped unescape_char_def)
qed

lemma scan_separator: "d \<in> {CHR ''8'', CHR ''9''} \<Longrightarrow>
    scan_string (back_slash # CHR ''u'' # CHR ''2'' # CHR ''0'' # CHR ''2'' # d # r) = scan_string r"
  by (auto simp: scan_unit_def hex4_separator)

lemma unquote_separator: "d \<in> {CHR ''8'', CHR ''9''} \<Longrightarrow>
    unquote_body (back_slash # CHR ''u'' # CHR ''2'' # CHR ''0'' # CHR ''2'' # d # r)
      = utf8 (if d = CHR ''8'' then 0x2028 else 0x2029) @ unquote_body r"
  by (rule unquote_code_point [OF hex4_separator]) auto

lemma escape_separator: "line_separator s = Some (d, t) \<Longrightarrow>
    escape s = [back_slash, CHR ''u'', CHR ''2'', CHR ''0'', CHR ''2'', d] @ escape t"
  by (subst escape.simps) simp

lemma escape_other: "line_separator (c # t) = None \<Longrightarrow> escape (c # t) = escape_char c @ escape t" "escape [] = []"
  by (simp_all add: escape.simps [of "c # t"] escape.simps [of "[]"] line_separator_def)

lemma scan_escape [simp]: "scan_string (escape s @ quote_char # r) = Some r"
proof (induction s rule: escape.induct)
  case (1 s)
  show ?case
  proof (cases "line_separator s")
    case None
    then show ?thesis using "1.IH"(1) [OF None] by (cases s) (simp_all only: escape_other append_assoc scan_escape_char, simp)
  next
    case (Some p)
    then obtain d t where s: "line_separator s = Some (d, t)" by (cases p) auto
    then have "d \<in> {CHR ''8'', CHR ''9''}" by (simp add: separator_shape)
    then show ?thesis using "1.IH"(2) [OF s refl] by (simp only: escape_separator [OF s] append_Cons append_Nil scan_separator)
  qed
qed

lemma unquote_escape [simp]: "unquote_body (escape s @ quote_char # r) = s"
proof (induction s rule: escape.induct)
  case (1 s)
  show ?case
  proof (cases "line_separator s")
    case None
    then show ?thesis using "1.IH"(1) [OF None] by (cases s) (simp_all add: escape_other unquote_escape_char)
  next
    case (Some p)
    then obtain d t where s: "line_separator s = Some (d, t)" by (cases p) auto
    then have d: "d \<in> {CHR ''8'', CHR ''9''}" and t: "s = utf8 (if d = CHR ''8'' then 0x2028 else 0x2029) @ t"
      unfolding separator_shape by blast+
    have "unquote_body (escape s @ quote_char # r) = utf8 (if d = CHR ''8'' then 0x2028 else 0x2029) @ t"
      using d "1.IH"(2) [OF s refl] by (simp only: escape_separator [OF s] append_Cons append_Nil unquote_separator)
    then show ?thesis using t by simp
  qed
qed

section \<open>Values survive scanning\<close>

text \<open>A text that cannot continue a number.\<close>

definition stops :: "string \<Rightarrow> bool" where
  "stops t = (case t of [] \<Rightarrow> True | c # _ \<Rightarrow> \<not> is_digit c \<and> c \<notin> set ''.eE'')"

lemma skip_ws_append: "skip_ws s = c # u \<Longrightarrow> skip_ws (s @ t) = c # u @ t"
  unfolding skip_ws_def by (induction s) auto

lemma skip_ws_length: "length (skip_ws s) \<le> length s"
  unfolding skip_ws_def by (rule length_dropWhile_le)

lemma scan_unit_append: "scan_unit c s = Some r \<Longrightarrow> scan_unit c (s @ t) = Some (r @ t)"
  by (auto simp: scan_unit_def split: if_splits list.splits)

lemma scan_string_append: "scan_string s = Some r \<Longrightarrow> scan_string (s @ t) = Some (r @ t)"
  by (induction s rule: scan_string.induct) (auto simp: scan_unit_append split: if_splits option.splits)

lemma scan_string_length: "scan_string s = Some r \<Longrightarrow> length r < length s"
  by (induction s rule: scan_string.induct) (fastforce dest: scan_unit_length split: if_splits option.splits)+

lemma dropWhile_digits: "stops t \<Longrightarrow> dropWhile is_digit (s @ t) = dropWhile is_digit s @ t"
  by (induction s) (auto simp: stops_def split: list.splits)

lemma scan_digits_append: "stops t \<Longrightarrow> scan_digits s = Some r \<Longrightarrow> scan_digits (s @ t) = Some (r @ t)"
  by (auto simp: scan_digits_def dropWhile_digits split: list.splits if_splits)

lemma scan_fraction_append: "stops t \<Longrightarrow> scan_fraction s = Some r \<Longrightarrow> scan_fraction (s @ t) = Some (r @ t)"
  by (cases s) (auto simp: scan_fraction_def scan_digits_append stops_def split: list.splits if_splits)

lemma scan_exponent_append: "stops t \<Longrightarrow> scan_exponent s = Some r \<Longrightarrow> scan_exponent (s @ t) = Some (r @ t)"
proof (cases s)
  case Nil
  then show "stops t \<Longrightarrow> scan_exponent s = Some r \<Longrightarrow> ?thesis" by (auto simp: scan_exponent_def stops_def split: list.splits)
next
  case (Cons c u)
  assume t: "stops t" and e: "scan_exponent s = Some r"
  show ?thesis
  proof (cases u)
    case Nil
    then show ?thesis using Cons e by (auto simp: scan_exponent_def scan_digits_def split: if_splits)
  next
    case (Cons d v)
    then show ?thesis using \<open>s = c # u\<close> e scan_digits_append [OF t, of "d # v"] scan_digits_append [OF t, of v]
      by (auto simp: scan_exponent_def split: if_splits)
  qed
qed

lemma scan_number_append: "stops t \<Longrightarrow> scan_number s = Some r \<Longrightarrow> scan_number (s @ t) = Some (r @ t)"
proof -
  assume t: "stops t" and s: "scan_number s = Some r"
  let ?strip = "\<lambda>s :: string. case s of c # u \<Rightarrow> if c = CHR ''-'' then u else s | [] \<Rightarrow> s"
  obtain c u where c: "?strip s = c # u" "is_digit c"
      and rest: "Option.bind (scan_fraction (if c = CHR ''0'' then u else dropWhile is_digit u)) scan_exponent = Some r"
    using s by (auto simp: scan_number_def split: list.splits if_splits)
  have "?strip (s @ t) = c # u @ t" using c by (cases s) (auto split: if_splits)
  moreover have "Option.bind (scan_fraction (if c = CHR ''0'' then u @ t else dropWhile is_digit (u @ t))) scan_exponent = Some (r @ t)"
    using rest scan_fraction_append [OF t] scan_exponent_append [OF t]
    by (fastforce simp: dropWhile_digits [OF t] bind_eq_Some_conv)
  ultimately show ?thesis using c(2) by (simp add: scan_number_def)
qed

lemma scan_digits_length: "scan_digits s = Some r \<Longrightarrow> length r \<le> length s"
  by (auto simp: scan_digits_def intro: le_SucI length_dropWhile_le split: list.splits if_splits)

lemma scan_number_length: "scan_number s = Some r \<Longrightarrow> length r < length s"
proof -
  assume s: "scan_number s = Some r"
  have f: "length v \<le> length u" if "scan_fraction u = Some v" for u v
    using that scan_digits_length by (fastforce simp: scan_fraction_def split: list.splits if_splits)
  have e: "length v \<le> length u" if "scan_exponent u = Some v" for u v
    using that scan_digits_length by (fastforce simp: scan_exponent_def split: list.splits if_splits)
  have d: "length (dropWhile is_digit u) \<le> length u" for u by (rule length_dropWhile_le)
  show ?thesis using s
    by (auto simp: scan_number_def bind_eq_Some_conv split: list.splits if_splits dest!: f e)
      (use d in \<open>meson le_trans le_imp_less_Suc less_SucI\<close>)+
qed

lemma scan_word_append: "scan_word w s = Some r \<Longrightarrow> scan_word w (s @ t) = Some (r @ t)"
proof -
  assume "scan_word w s = Some r"
  then have w: "take (length w) s = w" and r: "r = drop (length w) s" by (auto simp: scan_word_def HasPrefix_iff split: if_splits)
  have "length w \<le> length s" using arg_cong [OF w, of length] by simp
  then show ?thesis using w r by (simp add: scan_word_def HasPrefix_iff)
qed

lemma scan_word_length: "scan_word (c # w) s = Some r \<Longrightarrow> length r < length s"
  by (cases s) (auto simp: scan_word_def split: if_splits)

lemma scan_scalar_append: "stops t \<Longrightarrow> scan_scalar s = Some r \<Longrightarrow> s \<noteq> [] \<Longrightarrow> scan_scalar (s @ t) = Some (r @ t)"
  using scan_string_append [of "tl s" r t] scan_word_append [of _ s r t] scan_number_append [of t s r]
  by (cases s) (simp_all add: scan_scalar_def split: if_splits)

lemma scan_scalar_length: "scan_scalar s = Some r \<Longrightarrow> s \<noteq> [] \<Longrightarrow> length r < length s"
  using scan_string_length [of "tl s" r] scan_word_length [of _ _ s r] scan_number_length [of s r]
  by (cases s) (auto simp: scan_scalar_def split: if_splits)

lemma next_char_append: "next_char s = Some (c, u) \<Longrightarrow> next_char (s @ t) = Some (c, u @ t)"
  by (auto simp: next_char_def skip_ws_append split: list.splits)

lemma next_char_skip: "next_char s = Some (c, u) \<Longrightarrow> length u < length s"
  using skip_ws_length [of s] by (auto simp: next_char_def split: list.splits)

lemma skip_ws_append': "skip_ws s \<noteq> [] \<Longrightarrow> skip_ws (s @ t) = skip_ws s @ t"
  by (cases "skip_ws s") (simp_all add: skip_ws_append)

lemma scan_open_append:
  assumes "\<And>u. f u = Some r \<Longrightarrow> f (u @ t) = Some (r @ t)" and "scan_open c f s = Some r"
  shows "scan_open c f (s @ t) = Some (r @ t)"
proof -
  obtain d u where d: "next_char s = Some (d, u)" "(if d = c then Some u else f (d # u)) = Some r"
    using assms(2) by (auto simp: scan_open_def bind_eq_Some_conv)
  then show ?thesis using assms(1) [of "d # u"] by (auto simp: scan_open_def next_char_append split: if_splits)
qed

lemma scan_close_append:
  assumes "\<And>u. f u = Some r \<Longrightarrow> f (u @ t) = Some (r @ t)" and "f [] = None" and "scan_close c f s = Some r"
  shows "scan_close c f (s @ t) = Some (r @ t)"
proof -
  obtain d u where d: "next_char s = Some (d, u)"
      "(if d = CHR 0x2C then f (skip_ws u) else if d = c then Some u else None) = Some r"
    using assms(3) by (auto simp: scan_close_def bind_eq_Some_conv)
  have "skip_ws u \<noteq> []" if "d = CHR 0x2C" using d(2) that assms(2) by (cases "skip_ws u") auto
  then show ?thesis using d assms(1) [of "skip_ws u"]
    by (auto simp: scan_close_def next_char_append skip_ws_append' split: if_splits)
qed

lemma scan_key_append: "scan_key s = Some r \<Longrightarrow> r \<noteq> [] \<Longrightarrow> scan_key (s @ t) = Some (r @ t)"
  by (auto simp: scan_key_def bind_eq_Some_conv scan_string_append next_char_append skip_ws_append' split: list.splits if_splits)

lemma scan_Nil [simp]: "scan_value n [] = None" "scan_elements n [] = None" "scan_members n [] = None"
  by (cases n; simp add: scan_key_def; cases "n - 1"; simp)+

lemma scan_append:
  "stops t \<Longrightarrow> scan_value n s = Some r \<Longrightarrow> scan_value n (s @ t) = Some (r @ t)"
  "stops t \<Longrightarrow> scan_elements n s = Some r \<Longrightarrow> scan_elements n (s @ t) = Some (r @ t)"
  "stops t \<Longrightarrow> scan_members n s = Some r \<Longrightarrow> scan_members n (s @ t) = Some (r @ t)"
proof (induction n s and n s and n s arbitrary: r and r and r rule: scan_value_scan_elements_scan_members.induct)
  case (2 n s)
  then show ?case using scan_scalar_append [of t s r]
    by (cases s) (auto intro!: scan_open_append split: if_splits)
next
  case (4 n s)
  then show ?case by (auto simp: bind_eq_Some_conv intro!: scan_close_append)
next
  case (6 n s)
  then obtain u v where u: "scan_key s = Some u" "scan_value n u = Some v" "scan_close CHR ''}'' (\<lambda>u. scan_members n u) v = Some r"
    by (auto simp: bind_eq_Some_conv)
  then have "u \<noteq> []" by auto
  then show ?case using 6 u by (simp add: scan_key_append scan_close_append)
qed simp_all

text \<open>As much fuel as there are characters is enough.\<close>

lemma scan_open_transfer:
  assumes "\<And>u. length u \<le> length s \<Longrightarrow> f u = Some r \<Longrightarrow> length r < length u \<and> g u = Some r" and "scan_open c f s = Some r"
  shows "length r < length s \<and> scan_open c g s = Some r"
proof -
  obtain d u where d: "next_char s = Some (d, u)" "(if d = c then Some u else f (d # u)) = Some r"
    using assms(2) by (auto simp: scan_open_def bind_eq_Some_conv)
  then show ?thesis using assms(1) [of "d # u"] next_char_skip [OF d(1)] by (auto simp: scan_open_def split: if_splits)
qed

lemma scan_close_transfer:
  assumes "\<And>u. length u < length s \<Longrightarrow> f u = Some r \<Longrightarrow> length r < length u \<and> g u = Some r" and "scan_close c f s = Some r"
  shows "length r < length s \<and> scan_close c g s = Some r"
proof -
  obtain d u where d: "next_char s = Some (d, u)"
      "(if d = CHR 0x2C then f (skip_ws u) else if d = c then Some u else None) = Some r"
    using assms(2) by (auto simp: scan_close_def bind_eq_Some_conv)
  then have "length (skip_ws u) < length s" using next_char_skip skip_ws_length [of u] by (meson le_less_trans)
  then show ?thesis using d assms(1) [of "skip_ws u"] next_char_skip [OF d(1)] by (auto simp: scan_close_def split: if_splits)
qed

lemma scan_key_length: "scan_key s = Some r \<Longrightarrow> length r < length s"
  using skip_ws_length
  by (fastforce simp: scan_key_def bind_eq_Some_conv dest!: scan_string_length next_char_skip split: list.splits if_splits
      intro: le_less_trans)

lemma item_bound:
  assumes v: "length v < length s \<and> (\<forall>m. length s - length v \<le> m \<longrightarrow> scan_value m s = Some v)"
    and ih: "\<And>u. f n u = Some r \<Longrightarrow> length r < length u \<and> (\<forall>m. length u - length r \<le> m \<longrightarrow> f m u = Some r)"
    and c: "scan_close c (f n) v = Some r"
  shows "length r < length v \<and> (\<forall>m. length s - length r \<le> Suc m \<longrightarrow> scan_value m s = Some v \<and> scan_close c (f m) v = Some r)"
proof -
  have len: "length r < length v" using scan_close_transfer [of v "f n" r "f n", OF _ c] ih by blast
  have "scan_close c (f m) v = Some r" if "length s - length r \<le> Suc m" for m
    using scan_close_transfer [of v "f n" r "f m", OF _ c] ih that v by fastforce
  then show ?thesis using v len by auto
qed

lemma bracket_bound:
  assumes ih: "\<And>u. f n u = Some r \<Longrightarrow> length r < length u \<and> (\<forall>m. length u - length r \<le> m \<longrightarrow> f m u = Some r)"
    and o: "scan_open c (f n) t = Some r"
  shows "length r < length t \<and> (\<forall>m. length t - length r \<le> m \<longrightarrow> scan_open c (f m) t = Some r)"
proof -
  have "length r < length t" using scan_open_transfer [of t "f n" r "f n", OF _ o] ih by blast
  moreover have "scan_open c (f m) t = Some r" if "length t - length r \<le> m" for m
    using scan_open_transfer [of t "f n" r "f m", OF _ o] ih that by fastforce
  ultimately show ?thesis by blast
qed

lemma Suc_bound: "(\<forall>k. a - b \<le> Suc k \<longrightarrow> P (Suc k)) \<Longrightarrow> b < a \<Longrightarrow> \<forall>m. a - b \<le> m \<longrightarrow> P m" for a b :: nat
  by (metis (no_types, lifting) diff_is_0_eq le_zero_eq not_le not0_implies_Suc)

lemma scan_bound:
  "scan_value n s = Some r \<Longrightarrow> length r < length s \<and> (\<forall>m. length s - length r \<le> m \<longrightarrow> scan_value m s = Some r)"
  "scan_elements n s = Some r \<Longrightarrow> length r < length s \<and> (\<forall>m. length s - length r \<le> m \<longrightarrow> scan_elements m s = Some r)"
  "scan_members n s = Some r \<Longrightarrow> length r < length s \<and> (\<forall>m. length s - length r \<le> m \<longrightarrow> scan_members m s = Some r)"
proof (induction n s and n s and n s arbitrary: r and r and r rule: scan_value_scan_elements_scan_members.induct)
  case (2 n s)
  then obtain c t where s: "s = c # t" by (cases s) auto
  consider "c = CHR ''[''" | "c = CHR ''{''" | "c \<noteq> CHR ''[''" "c \<noteq> CHR ''{''" by blast
  then have "length r < length s \<and> (\<forall>k. length s - length r \<le> Suc k \<longrightarrow> scan_value (Suc k) s = Some r)"
  proof cases
    case 1
    then have "scan_open CHR '']'' (scan_elements n) t = Some r" using 2(3) s by simp
    from bracket_bound [of scan_elements, OF 2(1) [OF s 1] this] show ?thesis using 1 s by auto
  next
    case curly: 2
    then have "scan_open CHR ''}'' (scan_members n) t = Some r" and "c \<noteq> CHR ''[''" using 2(3) s by simp_all
    from bracket_bound [of scan_members, OF 2(2) [OF s this(2) curly] this(1)] show ?thesis using curly s by auto
  next
    case 3
    then show ?thesis using 2(3) s scan_scalar_length [of s r] by simp
  qed
  then show ?case by (elim conjE) (intro conjI Suc_bound)
next
  case (4 n s)
  from 4(3) obtain v where v: "scan_value n s = Some v" "scan_close CHR '']'' (scan_elements n) v = Some r"
    by (auto simp: bind_eq_Some_conv)
  have "length r < length v \<and> (\<forall>m. length s - length r \<le> Suc m \<longrightarrow>
      scan_value m s = Some v \<and> scan_close CHR '']'' (scan_elements m) v = Some r)"
    by (rule item_bound [of v s scan_elements, OF 4(1) [OF v(1)] 4(2) [OF v(1)] v(2)])
  then show ?case using 4(1) [OF v(1)] by (intro conjI Suc_bound) auto
next
  case (6 n s)
  from 6(3) obtain w v where v: "scan_key s = Some w" "scan_value n w = Some v" "scan_close CHR ''}'' (scan_members n) v = Some r"
    by (auto simp: bind_eq_Some_conv)
  have "length r < length v \<and> (\<forall>m. length w - length r \<le> Suc m \<longrightarrow>
      scan_value m w = Some v \<and> scan_close CHR ''}'' (scan_members m) v = Some r)"
    by (rule item_bound [of v w scan_members, OF 6(1) [OF v(1,2)] 6(2) [OF v(1,2)] v(3)])
  then show ?case using 6(1) [OF v(1,2)] v(1) scan_key_length [OF v(1)] by (intro conjI Suc_bound) auto
qed simp_all

lemma scan_enough:
  "scan_value n s = Some r \<Longrightarrow> length s \<le> m \<Longrightarrow> scan_value m s = Some r"
  "scan_elements n s = Some r \<Longrightarrow> length s \<le> m \<Longrightarrow> scan_elements m s = Some r"
  "scan_members n s = Some r \<Longrightarrow> length s \<le> m \<Longrightarrow> scan_members m s = Some r"
  using scan_bound [of n s r] by auto

lemma scan_eqI: "scan_value n s = Some r \<Longrightarrow> scan s = Some r"
  unfolding scan_def by (rule scan_enough(1)) simp_all

text \<open>A text that is one JSON value, with nothing around it.\<close>

definition tight :: "string \<Rightarrow> bool" where
  "tight v = (scan v = Some [])"

lemma stops_Nil [simp]: "stops []" by (simp add: stops_def)

lemma stops_delim [simp]: "c \<in> {CHR 0x2C, CHR '']'', CHR ''}'', CHR '':''} \<Longrightarrow> stops (c # t)"
  by (auto simp: stops_def is_digit_def)

lemma tight_scan: "tight v \<Longrightarrow> stops t \<Longrightarrow> scan (v @ t) = Some t"
  using scan_append(1) [of t "Suc (length v)" v "[]"] scan_eqI unfolding tight_def scan_def by fastforce

lemma tight_split: "tight v \<Longrightarrow> stops t \<Longrightarrow> split_value (v @ t) = Some (v, t)"
  by (simp add: split_value_def tight_scan)

lemma tight_hd: "tight v \<Longrightarrow> \<exists>c u. v = c # u \<and> \<not> json_space c \<and> c \<noteq> CHR '']''"
proof (cases v)
  case (Cons c u)
  assume "tight v"
  then show ?thesis using Cons
    by (auto simp: tight_def scan_def json_space_def scan_scalar_def scan_number_def is_digit_def)
qed (simp add: tight_def scan_def)

lemma tight_skip: "tight v \<Longrightarrow> skip_ws (v @ t) = v @ t"
  using tight_hd [of v] by (auto simp: skip_ws_def)

lemma skip_delim [simp]:
  "\<not> json_space c \<Longrightarrow> skip_ws (c # t) = c # t" "\<not> json_space c \<Longrightarrow> next_char (c # t) = Some (c, t)"
  by (simp_all add: skip_ws_def next_char_def)

lemma space_delim [simp]: "\<not> json_space CHR 0x2C" "\<not> json_space CHR '']''" "\<not> json_space CHR ''}''" "\<not> json_space CHR '':''"
    "\<not> json_space CHR ''[''" "\<not> json_space CHR ''{''" "\<not> json_space CHR 0x22" "\<not> json_space CHR ''n''"
  by (simp_all add: json_space_def)

lemma scan_close_simps [simp]:
  "scan_close c f (CHR 0x2C # t) = f (skip_ws t)"
  "\<not> json_space c \<Longrightarrow> c \<noteq> CHR 0x2C \<Longrightarrow> scan_close c f (c # t) = Some t"
  by (simp_all add: scan_close_def)

lemma scan_open_next: "skip_ws t = d # u \<Longrightarrow> d \<noteq> c \<Longrightarrow> scan_open c f t = f (d # u)"
  by (simp add: scan_open_def next_char_def)

lemma scan_key_escape [simp]: "scan_key (quote_char # escape k @ quote_char # CHR '':'' # t) = Some (skip_ws t)"
  by (simp add: scan_key_def)

lemma tight_valid: "tight v \<Longrightarrow> json_valid v"
  using tight_skip [of v "[]"] by (simp add: json_valid_def tight_def skip_ws_def)

lemma show_nat_lead: "n \<noteq> 0 \<Longrightarrow> hd (show_nat n) \<noteq> CHR ''0''"
proof (induction n rule: show_nat.induct)
  case (1 n)
  show ?case
  proof (cases "n < 10")
    case True
    have "char_of (n + 48) \<noteq> CHR ''0''"
    proof
      assume "char_of (n + 48) = CHR ''0''"
      then have "(of_char (char_of (n + 48)) :: nat) = of_char CHR ''0''" by (rule arg_cong)
      then show False using True 1(2) by (simp add: of_char_of)
    qed
    then show ?thesis using True by (subst show_nat.simps) simp
  next
    case False
    then show ?thesis using 1(1) by (subst show_nat.simps) simp
  qed
qed

lemma tight_show_nat: "tight (show_nat n)"
proof -
  obtain c cs where c: "show_nat n = c # cs" "is_digit c" using show_nat_hd by blast
  have cs: "dropWhile is_digit cs = []" using show_nat_digits [of n] c by (simp add: list_all_iff)
  have "cs = []" if "c = CHR ''0''"
    using that c(1) show_nat_lead [of n] by (cases "n = 0") (auto simp: show_nat.simps [of 0])
  moreover have "c \<noteq> CHR ''-''" using c(2) by (auto simp: is_digit_def)
  ultimately have "scan_number (c # cs) = Some []" using c(2) cs
    by (simp add: scan_number_def scan_fraction_def scan_exponent_def del: dropWhile_eq_Nil_conv)
  moreover have "c \<notin> set [CHR ''['', CHR ''{'', quote_char, CHR ''t'', CHR ''f'', CHR ''n'']"
    using c(2) by (auto simp: is_digit_def)
  ultimately show ?thesis using c(1) by (simp add: tight_def scan_def scan_scalar_def)
qed

lemma tight_json_string: "tight (json_string s)"
  using scan_escape [of s "[]"] by (simp add: tight_def scan_def json_string_def scan_scalar_def del: scan_escape)

lemma tight_null: "tight ''null''"
  by (simp add: tight_def scan_def scan_scalar_def scan_word_def)

lemma tight_fuel: "tight v \<Longrightarrow> stops t \<Longrightarrow> length (v @ t) \<le> m \<Longrightarrow> scan_value m (v @ t) = Some t"
  using tight_scan [of v t] unfolding scan_def by (rule scan_enough(1))

lemma scan_elements_join:
  "vs \<noteq> [] \<Longrightarrow> \<forall>v \<in> set vs. tight v \<Longrightarrow> \<exists>n. scan_elements n (join_comma vs @ CHR '']'' # r) = Some r"
proof (induction vs rule: join_comma.induct)
  case (2 v)
  then show ?case by (intro exI [of _ "Suc (length (v @ CHR '']'' # r))"]) (simp add: tight_fuel del: length_append)
next
  case (3 v w ws)
  let ?u = "join_comma (w # ws) @ CHR '']'' # r"
  obtain n where n: "scan_elements n ?u = Some r" using 3 by auto
  have "tight w" using 3 by simp
  then have s: "skip_ws ?u = ?u" by (cases ws) (simp_all add: tight_skip)
  let ?m = "length (v @ CHR 0x2C # ?u)"
  have "scan_elements ?m ?u = Some r" by (rule scan_enough(2) [OF n]) simp
  then have "scan_elements (Suc ?m) (v @ CHR 0x2C # ?u) = Some r"
    using 3 s tight_fuel [of v "CHR 0x2C # ?u" ?m] by (simp del: length_append join_comma.simps)
  then show ?case by (simp only: join_comma.simps append_assoc append_Cons) (rule exI)
qed simp

lemma split_elements_join:
  "vs \<noteq> [] \<Longrightarrow> \<forall>v \<in> set vs. tight v \<Longrightarrow> length vs \<le> n \<Longrightarrow> split_elements n (join_comma vs @ CHR '']'' # r) = Some vs"
proof (induction vs arbitrary: n rule: join_comma.induct)
  case (2 v)
  then show ?case by (cases n) (simp_all add: tight_split)
next
  case (3 v w ws)
  have "tight w" using 3 by simp
  then have s: "skip_ws (join_comma (w # ws) @ CHR '']'' # r) = join_comma (w # ws) @ CHR '']'' # r"
    by (cases ws) (simp_all add: tight_skip)
  from 3 show ?case by (cases n) (simp_all add: tight_split s)
qed simp

definition member_text :: "string \<times> string \<Rightarrow> string" where
  "member_text kv = json_string (fst kv) @ CHR '':'' # snd kv"

lemma member_append: "member_text kv @ t = quote_char # escape (fst kv) @ quote_char # CHR '':'' # snd kv @ t"
  by (simp add: member_text_def json_string_def)

lemma member_skip: "skip_ws (join_comma (map member_text (kv # kvs)) @ t) = join_comma (map member_text (kv # kvs)) @ t"
  by (cases kvs) (simp_all add: member_append)

lemma scan_members_join:
  "kvs \<noteq> [] \<Longrightarrow> \<forall>kv \<in> set kvs. tight (snd kv) \<Longrightarrow>
     \<exists>n. scan_members n (join_comma (map member_text kvs) @ CHR ''}'' # r) = Some r"
proof (induction kvs rule: induct_list012)
  case (2 kv)
  let ?t = "CHR ''}'' # r"
  have "scan_members (Suc (length (snd kv @ ?t))) (member_text kv @ ?t) = Some r"
    using 2 tight_fuel [of "snd kv" ?t] by (simp add: member_append tight_skip del: length_append)
  then show ?case by (simp only: join_comma.simps list.map) (rule exI)
next
  case (3 kv kw kws)
  let ?u = "join_comma (map member_text (kw # kws)) @ CHR ''}'' # r"
  obtain n where n: "scan_members n ?u = Some r" using 3 by auto
  let ?m = "length (snd kv @ CHR 0x2C # ?u)"
  have "scan_members ?m ?u = Some r" by (rule scan_enough(3) [OF n]) simp
  then have "scan_members (Suc ?m) (member_text kv @ CHR 0x2C # ?u) = Some r"
    using 3 member_skip [of kw kws] tight_fuel [of "snd kv" "CHR 0x2C # ?u" ?m]
    by (simp add: member_append tight_skip del: length_append list.map)
  then show ?case by (simp only: join_comma.simps list.map append_assoc append_Cons) (rule exI)
qed simp

lemma split_member: "tight (snd kv) \<Longrightarrow> stops t \<Longrightarrow>
    split_value (member_text kv @ t) = Some (json_string (fst kv), CHR '':'' # snd kv @ t) \<and>
    split_value (skip_ws (snd kv @ t)) = Some (snd kv, t)"
  using tight_split [OF tight_json_string, of "CHR '':'' # snd kv @ t" "fst kv"]
  by (simp add: member_text_def tight_split tight_skip)

lemma unquote_json_string: "unquote_body (tl (json_string s)) = s"
  using unquote_escape [of s "[]"] by (simp add: json_string_def del: unquote_escape)

lemma split_members_join:
  "kvs \<noteq> [] \<Longrightarrow> \<forall>kv \<in> set kvs. tight (snd kv) \<Longrightarrow> length kvs \<le> n \<Longrightarrow>
     split_members n (join_comma (map member_text kvs) @ CHR ''}'' # r) = Some kvs"
proof (induction kvs arbitrary: n rule: induct_list012)
  case (2 kv)
  then show ?case using split_member [of kv "CHR ''}'' # r"] by (cases n) (simp_all add: unquote_json_string)
next
  case (3 kv kw kws)
  let ?t = "CHR 0x2C # join_comma (map member_text (kw # kws)) @ CHR ''}'' # r"
  obtain k where k: "n = Suc k" using 3(5) by (cases n) auto
  have "split_members k (join_comma (map member_text (kw # kws)) @ CHR ''}'' # r) = Some (kw # kws)" using 3(2-) k by simp
  moreover have "split_value (member_text kv @ ?t) = Some (json_string (fst kv), CHR '':'' # snd kv @ ?t)"
      "split_value (skip_ws (snd kv @ ?t)) = Some (snd kv, ?t)" using 3(4) split_member [of kv ?t] by auto
  ultimately have "split_members n (member_text kv @ ?t) = Some (kv # kw # kws)"
    using member_skip [of kw kws] k by (simp add: unquote_json_string del: list.map)
  then show ?case by (simp only: join_comma.simps list.map append_assoc append_Cons)
qed simp

lemma unmarshal_uint_text: "n < 2 ^ bits \<Longrightarrow> bits \<le> 64 \<Longrightarrow> unmarshal_uint bits (show_nat n) old = Inr (int n)"
proof -
  assume n: "n < 2 ^ bits" "bits \<le> 64"
  then have "n < 2 ^ 64" using power_increasing [of bits 64 "2 :: nat"] by linarith
  moreover have "show_nat n \<noteq> ''null''" using show_nat_digits [of n] by (auto simp: is_digit_def)
  moreover have "\<not> 2 ^ bits \<le> int n" using n(1) by (metis not_le of_nat_less_iff of_nat_numeral of_nat_power)
  ultimately show ?thesis by (simp add: unmarshal_uint_def parse_uint_show_nat)
qed

lemma unmarshal_string_text: "unmarshal_string (json_string s) old = Inr s"
  using unquote_json_string [of s] by (simp add: unmarshal_string_def json_string_def)

lemma unmarshal_array_text:
  assumes "vs \<noteq> []" and "\<forall>v \<in> set vs. tight v"
  shows "unmarshal_array (CHR ''['' # join_comma vs @ '']'') = Inr vs"
proof -
  let ?t = "join_comma vs @ '']''"
  obtain v ws where vs: "vs = v # ws" using assms(1) by (cases vs) auto
  then have v: "tight v" using assms(2) by simp
  then have skip: "skip_ws ?t = ?t" using vs by (cases ws) (simp_all add: tight_skip)
  obtain d u where d: "?t = d # u" using tight_hd [OF v] vs by (cases ws) auto
  have nd: "d \<noteq> CHR '']''"
    using tight_hd [OF v] d vs by (cases ws) auto
  obtain n where n: "scan_elements n ?t = Some []" using scan_elements_join [OF assms, of "[]"] by auto
  then have "scan_value (Suc n) (CHR ''['' # ?t) = Some []" using nd d skip by (simp add: scan_open_next)
  then have "tight (CHR ''['' # ?t)" unfolding tight_def by (rule scan_eqI)
  then have valid: "json_valid (CHR ''['' # ?t)" by (rule tight_valid)
  have "length vs \<le> length ?t"
  proof -
    have "length ws \<le> length (join_comma ws)" if "\<forall>w \<in> set ws. tight w" for ws
      using that by (induction ws rule: induct_list012) (auto dest: tight_hd)
    then show ?thesis using assms(2) by (simp add: le_SucI)
  qed
  then have "split_elements (Suc (length ?t)) ?t = Some vs"
    using split_elements_join [OF assms, of "Suc (length ?t)" "[]"] by simp
  then show ?thesis using valid skip d nd by (simp add: unmarshal_array_def)
qed

section \<open>Compaction keeps values\<close>

definition plain :: "char \<Rightarrow> bool" where
  "plain c = (c \<noteq> CHR 0xE2 \<and> c \<notin> set ''<>&'')"

lemma no_separator: "c \<noteq> CHR 0xE2 \<Longrightarrow> line_separator (c # t) = None"
  by (auto simp: line_separator_def split: list.splits)

lemma compact_Nil [simp]: "json_compact inside [] = []"
  by (simp add: json_compact.simps [of inside "[]"] line_separator_def)

lemma compact_outside:
  "plain c \<Longrightarrow> json_compact False (c # t) = (if json_space c then json_compact False t else c # json_compact (c = quote_char) t)"
  by (simp add: json_compact.simps [of False "c # t"] no_separator plain_def compact_char_def)

lemma compact_inside:
  "line_separator (c # t) = None \<Longrightarrow> c \<noteq> back_slash \<Longrightarrow>
     json_compact True (c # t) = compact_char c @ json_compact (c \<noteq> quote_char) t"
  "json_compact True (back_slash # e # u) = back_slash # compact_char e @ json_compact True u"
  by (simp_all add: json_compact.simps [of True "c # t"] json_compact.simps [of True "back_slash # e # u"] no_separator)

lemma compact_separator: "line_separator s = Some (d, t) \<Longrightarrow>
    json_compact inside s = [back_slash, CHR ''u'', CHR ''2'', CHR ''0'', CHR ''2'', d] @ json_compact inside t"
  by (simp add: json_compact.simps [of inside s])

lemma hex_plain: "hex_digit c \<noteq> None \<Longrightarrow> plain c \<and> c \<noteq> quote_char \<and> c \<noteq> back_slash \<and> \<not> json_space c"
  by (auto simp: hex_digit_def plain_def json_space_def)

lemma compact_hex: "hex_digit c \<noteq> None \<Longrightarrow> json_compact True (c # t) = c # json_compact True t"
  using hex_plain [of c] compact_inside(1) [of c t] no_separator [of c t] by (simp add: plain_def compact_char_def)

lemma scan_plain: "c \<noteq> quote_char \<Longrightarrow> c \<noteq> back_slash \<Longrightarrow> \<not> is_control c \<Longrightarrow> scan_string (c # t) = scan_string t"
  by (simp add: scan_unit_def)

lemma scan_over_separator: "line_separator s = Some (d, t) \<Longrightarrow> scan_string s = scan_string t"
  by (auto simp: separator_shape utf8_separator scan_plain is_control_def simp del: scan_string.simps(2))

lemma scan_compact_char: "c \<noteq> quote_char \<Longrightarrow> c \<noteq> back_slash \<Longrightarrow> \<not> is_control c \<Longrightarrow> scan_string (compact_char c @ t) = scan_string t"
  by (simp add: compact_char_def scan_escape_char scan_plain del: scan_string.simps(2))

lemma compact_escape:
  assumes "scan_unit back_slash u = Some v"
  shows "\<exists>p. json_compact True (back_slash # u) = p @ json_compact True v \<and> (\<forall>t. scan_string (p @ t) = scan_string t)"
proof -
  obtain e w where u: "u = e # w" using assms by (cases u) (auto simp: scan_unit_def)
  show ?thesis
  proof (cases "e = CHR ''u''")
    case True
    then obtain a b c d where w: "w = a # b # c # d # v" "hex4 a b c d \<noteq> None"
      using assms u by (auto simp: scan_unit_def split: list.splits if_splits)
    then have "hex_digit a \<noteq> None" "hex_digit b \<noteq> None" "hex_digit c \<noteq> None" "hex_digit d \<noteq> None"
      by (auto simp: hex4_def split: option.splits)
    then have "json_compact True (back_slash # u) = [back_slash, CHR ''u'', a, b, c, d] @ json_compact True v"
      using u True w by (simp add: compact_inside(2) compact_hex compact_char_def)
    moreover have "scan_string ([back_slash, CHR ''u'', a, b, c, d] @ t) = scan_string t" for t
      using w(2) by (auto simp: scan_unit_def)
    ultimately show ?thesis by blast
  next
    case False
    then have e: "e \<in> set [quote_char, back_slash, CHR ''/'', CHR ''b'', CHR ''f'', CHR ''n'', CHR ''r'', CHR ''t'']" "w = v"
      using assms u by (auto simp: scan_unit_def split: if_splits)
    then have "json_compact True (back_slash # u) = [back_slash, e] @ json_compact True v"
      using u by (auto simp: compact_inside(2) compact_char_def)
    moreover have "scan_string ([back_slash, e] @ t) = scan_string t" for t using e(1) by (auto simp: scan_unit_def)
    ultimately show ?thesis by blast
  qed
qed

lemma compact_string:
  "scan_string s = Some r \<Longrightarrow> \<exists>c. json_compact True s = c @ json_compact False r \<and> (\<forall>t. scan_string (c @ t) = Some t)"
proof (induction s rule: length_induct)
  case (1 s)
  have ih: "\<exists>c. json_compact True u = c @ json_compact False r \<and> (\<forall>t. scan_string (c @ t) = Some t)"
    if "length u < length s" "scan_string u = Some r" for u using 1(1) that by blast
  show ?case
  proof (cases "line_separator s")
    case (Some p)
    then obtain d u where u: "line_separator s = Some (d, u)" by (cases p) auto
    then obtain c where c: "json_compact True u = c @ json_compact False r" "\<forall>t. scan_string (c @ t) = Some t"
      using ih [of u] line_separator_length [OF u] scan_over_separator [OF u] 1(2) by auto
    have "d \<in> {CHR ''8'', CHR ''9''}" using u by (simp add: separator_shape)
    then show ?thesis using c compact_separator [OF u, of True]
      by (intro exI [of _ "[back_slash, CHR ''u'', CHR ''2'', CHR ''0'', CHR ''2'', d] @ c"])
        (simp add: scan_separator del: scan_string.simps(2))
  next
    case None
    obtain a u where s: "s = a # u" using 1(2) by (cases s) auto
    consider "a = quote_char" | "a = back_slash" | "a \<noteq> quote_char" "a \<noteq> back_slash" by blast
    then show ?thesis
    proof cases
      case 1
      then show ?thesis using \<open>scan_string s = Some r\<close> s None compact_inside(1) [of a u]
        by (intro exI [of _ "[quote_char]"]) (simp add: compact_char_def)
    next
      case 2
      then obtain v where v: "scan_unit back_slash u = Some v" "scan_string v = Some r"
        using \<open>scan_string s = Some r\<close> s by (auto split: option.splits)
      then obtain p c where "json_compact True (back_slash # u) = p @ json_compact True v" "\<forall>t. scan_string (p @ t) = scan_string t"
          "json_compact True v = c @ json_compact False r" "\<forall>t. scan_string (c @ t) = Some t"
        using compact_escape [OF v(1)] ih [of v] scan_unit_length [OF v(1)] s by auto
      then show ?thesis using 2 s by (intro exI [of _ "p @ c"]) simp
    next
      case 3
      then have n: "\<not> is_control a" "scan_string u = Some r" using \<open>scan_string s = Some r\<close> s by (auto simp: scan_unit_def split: if_splits)
      then obtain c where c: "json_compact True u = c @ json_compact False r" "\<forall>t. scan_string (c @ t) = Some t" using ih [of u] s by auto
      then show ?thesis using 3 n(1) s None compact_inside(1) [of a u]
        by (intro exI [of _ "compact_char a @ c"]) (simp add: scan_compact_char del: scan_string.simps(2))
    qed
  qed
qed

definition number_char :: "char \<Rightarrow> bool" where
  "number_char c = (is_digit c \<or> c \<in> set ''-+.eE'')"

text \<open>A scanner that reads a number, or a part of one, reads the same characters whatever follows what it left.\<close>

definition reads_prefix :: "(string \<Rightarrow> string option) \<Rightarrow> bool" where
  "reads_prefix f = (\<forall>s r. f s = Some r \<longrightarrow> (\<exists>w. s = w @ r \<and> list_all number_char w \<and>
     (\<forall>y z. r = y @ z \<longrightarrow> f (w @ y) = Some y)))"

lemma dropWhile_cut: "dropWhile P s = y @ z \<Longrightarrow> dropWhile P (takeWhile P s @ y) = y"
proof -
  assume s: "dropWhile P s = y @ z"
  have "dropWhile P (takeWhile P s @ y) = dropWhile P y"
    using set_takeWhileD [of _ P s] by (intro dropWhile_append2) blast
  moreover have "dropWhile P y = y"
  proof (cases y)
    case (Cons a b)
    then have "\<not> P a" using s hd_dropWhile [of P s] by simp
    then show ?thesis using Cons by simp
  qed simp
  ultimately show ?thesis by simp
qed

lemma digits_prefix: "reads_prefix scan_digits"
  unfolding reads_prefix_def
proof (intro allI impI)
  fix s r assume r: "scan_digits s = Some r"
  then obtain c t where s: "s = c # t" "is_digit c" "r = dropWhile is_digit s" by (auto simp: scan_digits_def split: list.splits if_splits)
  have "list_all number_char (takeWhile is_digit s)" by (auto simp: list_all_iff number_char_def dest: set_takeWhileD)
  moreover have "scan_digits (takeWhile is_digit s @ y) = Some y" if "r = y @ z" for y z
    using s that dropWhile_cut [of is_digit s y z] by (simp add: scan_digits_def)
  ultimately show "\<exists>w. s = w @ r \<and> list_all number_char w \<and> (\<forall>y z. r = y @ z \<longrightarrow> scan_digits (w @ y) = Some y)"
    using s by (intro exI [of _ "takeWhile is_digit s"]) simp
qed

lemma fraction_prefix: "reads_prefix scan_fraction"
  unfolding reads_prefix_def
proof (intro allI impI)
  fix s r assume r: "scan_fraction s = Some r"
  show "\<exists>w. s = w @ r \<and> list_all number_char w \<and> (\<forall>y z. r = y @ z \<longrightarrow> scan_fraction (w @ y) = Some y)"
  proof (cases "\<exists>t. s = CHR ''.'' # t")
    case True
    then obtain t where t: "s = CHR ''.'' # t" "scan_digits t = Some r" using r by (auto simp: scan_fraction_def)
    then obtain w where "t = w @ r" "list_all number_char w" "\<forall>y z. r = y @ z \<longrightarrow> scan_digits (w @ y) = Some y"
      using digits_prefix unfolding reads_prefix_def by blast
    then show ?thesis using t by (intro exI [of _ "CHR ''.'' # w"]) (auto simp: scan_fraction_def number_char_def)
  next
    case False
    then have "r = s" using r by (auto simp: scan_fraction_def split: list.splits if_splits)
    moreover have "scan_fraction y = Some y" if "s = y @ z" for y z using False that by (cases y) (auto simp: scan_fraction_def)
    ultimately show ?thesis by (intro exI [of _ "[]"]) auto
  qed
qed

lemma exponent_prefix: "reads_prefix scan_exponent"
  unfolding reads_prefix_def
proof (intro allI impI)
  fix s r assume r: "scan_exponent s = Some r"
  show "\<exists>w. s = w @ r \<and> list_all number_char w \<and> (\<forall>y z. r = y @ z \<longrightarrow> scan_exponent (w @ y) = Some y)"
  proof (cases "\<exists>c t. s = c # t \<and> c \<in> set ''eE''")
    case True
    then obtain c t where c: "s = c # t" "c \<in> set ''eE''" by blast
    let ?sign = "if t \<noteq> [] \<and> hd t \<in> set ''+-'' then [hd t] else []"
    define u where "u = drop (length ?sign) t"
    have t: "t = ?sign @ u" "u = (case t of d # u \<Rightarrow> if d \<in> set ''+-'' then u else t | [] \<Rightarrow> t)"
      by (cases t; simp add: u_def)+
    then have "scan_digits u = Some r" using r c by (simp add: scan_exponent_def)
    then obtain w where w: "u = w @ r" "list_all number_char w" "\<forall>y z. r = y @ z \<longrightarrow> scan_digits (w @ y) = Some y"
      using digits_prefix unfolding reads_prefix_def by blast
    have "scan_exponent (c # ?sign @ w @ y) = Some y" if y: "r = y @ z" for y z
    proof -
      have d: "scan_digits (w @ y) = Some y" using w(3) y by blast
      then obtain a b where a: "w @ y = a # b" "is_digit a" by (auto simp: scan_digits_def split: list.splits if_splits)
      then have "a \<notin> set ''+-''" by (auto simp: is_digit_def)
      then show ?thesis using c(2) d a(1) by (auto simp: scan_exponent_def)
    qed
    then show ?thesis using c t(1) w by (intro exI [of _ "c # ?sign @ w"]) (auto simp: number_char_def)
  next
    case False
    then have "r = s" using r by (cases s) (auto simp: scan_exponent_def)
    moreover have "scan_exponent y = Some y" if "s = y @ z" for y z using False that by (cases y) (auto simp: scan_exponent_def)
    ultimately show ?thesis by (intro exI [of _ "[]"]) auto
  qed
qed

lemma number_prefix:
  assumes "scan_number s = Some r"
  shows "\<exists>w. s = w @ r \<and> list_all number_char w \<and> scan_number w = Some []"
proof -
  let ?sign = "if s \<noteq> [] \<and> hd s = CHR ''-'' then ''-'' else ''''"
  define v where "v = drop (length ?sign) s"
  have v: "s = ?sign @ v" "v = (case s of c # t \<Rightarrow> if c = CHR ''-'' then t else s | [] \<Rightarrow> s)" by (cases s; simp add: v_def)+
  then obtain c u where c: "v = c # u" "is_digit c"
      "Option.bind (scan_fraction (if c = CHR ''0'' then u else dropWhile is_digit u)) scan_exponent = Some r"
    using assms by (auto simp: scan_number_def split: list.splits if_splits)
  let ?ds = "if c = CHR ''0'' then [] else takeWhile is_digit u" and ?x = "if c = CHR ''0'' then u else dropWhile is_digit u"
  obtain x where x: "scan_fraction ?x = Some x" "scan_exponent x = Some r" using c(3) by (auto simp: bind_eq_Some_conv)
  obtain f where f: "?x = f @ x" "list_all number_char f" "\<forall>y z. x = y @ z \<longrightarrow> scan_fraction (f @ y) = Some y"
    using fraction_prefix x(1) unfolding reads_prefix_def by blast
  obtain e where e: "x = e @ r" "list_all number_char e" "\<forall>y z. r = y @ z \<longrightarrow> scan_exponent (e @ y) = Some y"
    using exponent_prefix x(2) unfolding reads_prefix_def by blast
  have u: "u = ?ds @ f @ e @ r" using f(1) e(1) by (cases "c = CHR ''0''") (simp_all, metis takeWhile_dropWhile_id)
  have cut: "dropWhile is_digit (takeWhile is_digit u @ f @ e) = f @ e" if "c \<noteq> CHR ''0''"
    using that f(1) e(1) dropWhile_cut [of is_digit u "f @ e" r] by simp
  have "scan_fraction (f @ e) = Some e" "scan_exponent e = Some []" using f(3) e(1) e(3) [rule_format, of "[]" r] by auto
  moreover have "c \<noteq> CHR ''-''" using c(2) by (auto simp: is_digit_def)
  ultimately have "scan_number (?sign @ c # ?ds @ f @ e) = Some []"
    using c(2) cut by (simp add: scan_number_def)
  moreover have "list_all number_char (?sign @ c # ?ds @ f @ e)"
    using c(2) f(2) e(2) by (auto simp: list_all_iff number_char_def dest: set_takeWhileD)
  moreover have "s = (?sign @ c # ?ds @ f @ e) @ r" using v(1) c(1) u by simp
  ultimately show ?thesis by blast
qed

lemma number_plain: "number_char c \<Longrightarrow> plain c \<and> c \<noteq> quote_char \<and> \<not> json_space c"
  by (auto simp: number_char_def is_digit_def plain_def json_space_def)

lemma compact_plain:
  "\<forall>c \<in> set w. plain c \<and> c \<noteq> quote_char \<and> \<not> json_space c \<Longrightarrow> json_compact False (w @ r) = w @ json_compact False r"
  by (induction w) (simp_all add: compact_outside)

lemma scalar_compact:
  assumes "scan_scalar s = Some r" and "s \<noteq> []"
  shows "\<exists>c. hd c = hd s \<and> c \<noteq> [] \<and> json_compact False s = c @ json_compact False r \<and> (\<forall>t. stops t \<longrightarrow> scan_scalar (c @ t) = Some t)"
proof -
  obtain a u where s: "s = a # u" using assms(2) by (cases s) auto
  consider "a = quote_char" "scan_string u = Some r"
    | w where "w \<in> {''true'', ''false'', ''null''}" "scan_word w s = Some r"
    | "a \<notin> set [quote_char, CHR ''t'', CHR ''f'', CHR ''n'']" "scan_number s = Some r"
    using assms(1) s unfolding scan_scalar_def by (simp split: if_splits) blast+
  then show ?thesis
  proof cases
    case 1
    then obtain c where "json_compact True u = c @ json_compact False r" "\<forall>t. scan_string (c @ t) = Some t"
      using compact_string by blast
    then show ?thesis using 1(1) s
      by (intro exI [of _ "quote_char # c"]) (simp add: compact_outside plain_def json_space_def scan_scalar_def)
  next
    case 2
    then have "take (length w) s = w" "r = drop (length w) s" by (simp_all add: scan_word_def HasPrefix_iff split: if_splits)
    then have "s = w @ r" by (metis append_take_drop_id)
    moreover have "json_compact False (w @ r) = w @ json_compact False r"
      using 2(1) by (intro compact_plain) (auto simp: plain_def json_space_def)
    moreover have "scan_scalar (w @ t) = Some t" for t using 2(1) by (auto simp: scan_scalar_def scan_word_def)
    ultimately show ?thesis using 2(1) by (intro exI [of _ w]) auto
  next
    case 3
    then obtain w where w: "s = w @ r" "list_all number_char w" "scan_number w = Some []" using number_prefix by blast
    then have "w \<noteq> []" by (auto simp: scan_number_def)
    moreover have "scan_number (w @ t) = Some t" if "stops t" for t using scan_number_append [OF that w(3)] by simp
    moreover have "json_compact False s = w @ json_compact False r"
      using w(2) number_plain unfolding w(1) list_all_iff by (blast intro: compact_plain)
    ultimately show ?thesis using 3(1) s w(1) by (intro exI [of _ w]) (cases w; simp add: scan_scalar_def)
  qed
qed

text \<open>Of what it read, the scanner \<open>f\<close> also reads the compacted form.\<close>

definition reads_compact :: "(string \<Rightarrow> string option) \<Rightarrow> string \<Rightarrow> string \<Rightarrow> bool" where
  "reads_compact f s r = (\<exists>c. c \<noteq> [] \<and> hd c = hd s \<and> \<not> json_space (hd s) \<and>
     json_compact False s = c @ json_compact False r \<and> (\<forall>t. stops t \<longrightarrow> f (c @ t) = Some t))"

lemma compact_skip [simp]: "json_compact False (skip_ws s) = json_compact False s"
proof -
  have "json_compact False (c # t) = json_compact False t" if "json_space c" for c t
    using that compact_outside [of c t] by (auto simp: json_space_def plain_def)
  then show ?thesis unfolding skip_ws_def by (induction s) simp_all
qed

lemma next_char_compact: "next_char s = Some (c, t) \<Longrightarrow> json_compact False s = json_compact False (c # t) \<and> \<not> json_space c"
  using compact_skip [of s] by (auto simp: next_char_def skip_ws_def dropWhile_eq_Cons_conv split: list.splits)

lemma delim_compact: "c \<in> {CHR 0x2C, CHR '']'', CHR ''}'', CHR '':'', CHR ''['', CHR ''{''} \<Longrightarrow>
    json_compact False (c # t) = c # json_compact False t"
  using compact_outside [of c t] by (auto simp: plain_def json_space_def)

lemma scalar_head: "scan_scalar (a # u) = Some r \<Longrightarrow> \<not> json_space a"
  by (auto simp: json_space_def scan_scalar_def scan_number_def is_digit_def)

lemma next_char_front: "c \<noteq> [] \<Longrightarrow> \<not> json_space (hd c) \<Longrightarrow> skip_ws (c @ t) = c @ t \<and> next_char (c @ t) = Some (hd c, tl c @ t)"
  by (cases c) (simp_all add: skip_ws_def next_char_def)

lemma stops_front: "stops d \<Longrightarrow> d \<noteq> [] \<Longrightarrow> stops (d @ t)"
  by (cases d) (simp_all add: stops_def)

lemma open_compact:
  assumes "\<And>u. f u = Some r \<Longrightarrow> reads_compact f u r" and "scan_open cl f s = Some r" and "cl \<in> {CHR '']'', CHR ''}''}"
  shows "\<exists>c. json_compact False s = c @ json_compact False r \<and> (\<forall>t. stops t \<longrightarrow> scan_open cl f (c @ t) = Some t)"
proof -
  obtain d u where d: "next_char s = Some (d, u)" "(if d = cl then Some u else f (d # u)) = Some r"
    using assms(2) by (auto simp: scan_open_def bind_eq_Some_conv)
  show ?thesis
  proof (cases "d = cl")
    case True
    then show ?thesis using d next_char_compact [OF d(1)] assms(3) delim_compact [of cl u]
      by (intro exI [of _ "[cl]"]) (auto simp: scan_open_def)
  next
    case False
    then obtain c where c: "c \<noteq> []" "hd c = d" "\<not> json_space d" "json_compact False (d # u) = c @ json_compact False r"
        "\<forall>t. stops t \<longrightarrow> f (c @ t) = Some t" using assms(1) [of "d # u"] d(2) by (auto simp: reads_compact_def)
    then show ?thesis using False next_char_compact [OF d(1)] next_char_front [of c]
      by (intro exI [of _ c]) (cases c; auto simp: scan_open_def)
  qed
qed

lemma close_compact:
  assumes "\<And>u. f u = Some r \<Longrightarrow> reads_compact f u r" and "scan_close cl f s = Some r" and "cl \<in> {CHR '']'', CHR ''}''}"
  shows "\<exists>c. c \<noteq> [] \<and> stops c \<and> json_compact False s = c @ json_compact False r \<and> (\<forall>t. stops t \<longrightarrow> scan_close cl f (c @ t) = Some t)"
proof -
  obtain d u where d: "next_char s = Some (d, u)"
      "(if d = CHR 0x2C then f (skip_ws u) else if d = cl then Some u else None) = Some r"
    using assms(2) by (auto simp: scan_close_def bind_eq_Some_conv)
  show ?thesis
  proof (cases "d = CHR 0x2C")
    case True
    then obtain c where c: "c \<noteq> []" "\<not> json_space (hd c)" "json_compact False (skip_ws u) = c @ json_compact False r"
        "\<forall>t. stops t \<longrightarrow> f (c @ t) = Some t" using assms(1) [of "skip_ws u"] d(2) by (auto simp: reads_compact_def)
    then show ?thesis using True next_char_compact [OF d(1)] next_char_front [of c] delim_compact [of d u]
      by (intro exI [of _ "d # c"]) simp
  next
    case False
    then have "d = cl" "r = u" using d(2) by (auto split: if_splits)
    then show ?thesis using next_char_compact [OF d(1)] assms(3) delim_compact [of cl u]
      by (intro exI [of _ "[cl]"]) (auto simp: scan_close_def)
  qed
qed

lemma key_compact:
  assumes "scan_key s = Some r"
  shows "\<exists>c. hd s = quote_char \<and> hd c = quote_char \<and> json_compact False s = c @ json_compact False r \<and>
    (\<forall>t. scan_key (c @ t) = Some (skip_ws t))"
proof -
  obtain k v u where s: "s = quote_char # k" "scan_string k = Some v" "next_char v = Some (CHR '':'', u)" "r = skip_ws u"
    using assms by (auto simp: scan_key_def bind_eq_Some_conv split: list.splits if_splits)
  obtain c where c: "json_compact True k = c @ json_compact False v" "\<forall>t. scan_string (c @ t) = Some t"
    using compact_string [OF s(2)] by blast
  have "json_compact False s = (quote_char # c @ '':'') @ json_compact False r"
    using s c(1) next_char_compact [OF s(3)] delim_compact [of "CHR '':''" u] compact_outside [of quote_char k]
    by (simp add: plain_def)
  moreover have "scan_key ((quote_char # c @ '':'') @ t) = Some (skip_ws t)" for t using c(2) by (simp add: scan_key_def)
  ultimately show ?thesis using s(1) by (intro exI [of _ "quote_char # c @ '':''"]) simp
qed

lemma scan_compact:
  "scan_value n s = Some r \<Longrightarrow> reads_compact (scan_value n) s r"
  "scan_elements n s = Some r \<Longrightarrow> reads_compact (scan_elements n) s r"
  "scan_members n s = Some r \<Longrightarrow> reads_compact (scan_members n) s r"
proof (induction n s and n s and n s arbitrary: r and r and r rule: scan_value_scan_elements_scan_members.induct)
  case (2 n s)
  then obtain a u where s: "s = a # u" by (cases s) auto
  consider "a = CHR ''[''" | "a = CHR ''{''" | "a \<noteq> CHR ''[''" "a \<noteq> CHR ''{''" by blast
  then show ?case
  proof cases
    case 1
    then have "scan_open CHR '']'' (scan_elements n) u = Some r" using 2(3) s by simp
    from open_compact [OF 2(1) [OF s 1] this] obtain c where
      "json_compact False u = c @ json_compact False r" "\<forall>t. stops t \<longrightarrow> scan_open CHR '']'' (scan_elements n) (c @ t) = Some t" by auto
    then show ?thesis unfolding reads_compact_def using 1 s by (intro exI [of _ "a # c"]) (simp add: delim_compact)
  next
    case curly: 2
    then have "scan_open CHR ''}'' (scan_members n) u = Some r" and na: "a \<noteq> CHR ''[''" using 2(3) s by simp_all
    from open_compact [OF 2(2) [OF s na curly] this(1)] obtain c where
      "json_compact False u = c @ json_compact False r" "\<forall>t. stops t \<longrightarrow> scan_open CHR ''}'' (scan_members n) (c @ t) = Some t" by auto
    then show ?thesis unfolding reads_compact_def using curly s by (intro exI [of _ "a # c"]) (simp add: delim_compact)
  next
    case 3
    then have r: "scan_scalar s = Some r" using 2(3) s by simp
    then obtain c where c: "hd c = a" "c \<noteq> []" "json_compact False s = c @ json_compact False r" "\<forall>t. stops t \<longrightarrow> scan_scalar (c @ t) = Some t"
      using scalar_compact [OF r] s by auto
    then show ?thesis unfolding reads_compact_def using 3 s r scalar_head [of a u r] by (intro exI [of _ c]) (cases c; simp)
  qed
next
  case (4 n s)
  from 4(3) obtain v where v: "scan_value n s = Some v" "scan_close CHR '']'' (scan_elements n) v = Some r"
    by (auto simp: bind_eq_Some_conv)
  obtain c where c: "c \<noteq> []" "hd c = hd s" "\<not> json_space (hd s)" "json_compact False s = c @ json_compact False v"
      "\<forall>t. stops t \<longrightarrow> scan_value n (c @ t) = Some t" using 4(1) [OF v(1)] by (auto simp: reads_compact_def)
  obtain d where "d \<noteq> []" "stops d" "json_compact False v = d @ json_compact False r"
      "\<forall>t. stops t \<longrightarrow> scan_close CHR '']'' (scan_elements n) (d @ t) = Some t"
    using close_compact [OF 4(2) [OF v(1)] v(2)] by auto
  then show ?case unfolding reads_compact_def using c by (intro exI [of _ "c @ d"]) (auto simp: stops_front)
next
  case (6 n s)
  from 6(3) obtain w v where v: "scan_key s = Some w" "scan_value n w = Some v" "scan_close CHR ''}'' (scan_members n) v = Some r"
    by (auto simp: bind_eq_Some_conv)
  obtain k where k: "hd s = quote_char" "hd k = quote_char" "json_compact False s = k @ json_compact False w"
      "\<forall>t. scan_key (k @ t) = Some (skip_ws t)" using key_compact [OF v(1)] by blast
  then have "k \<noteq> []" using k(4) [rule_format, of "[]"] by (auto simp: scan_key_def skip_ws_def)
  obtain c where c: "c \<noteq> []" "\<not> json_space (hd c)" "json_compact False w = c @ json_compact False v"
      "\<forall>t. stops t \<longrightarrow> scan_value n (c @ t) = Some t" using 6(1) [OF v(1,2)] by (auto simp: reads_compact_def)
  obtain d where "d \<noteq> []" "stops d" "json_compact False v = d @ json_compact False r"
      "\<forall>t. stops t \<longrightarrow> scan_close CHR ''}'' (scan_members n) (d @ t) = Some t"
    using close_compact [OF 6(2) [OF v(1,2)] v(3)] by auto
  then show ?case unfolding reads_compact_def using c k \<open>k \<noteq> []\<close>
    by (intro exI [of _ "k @ c @ d"]) (auto simp: stops_front next_char_front)
qed simp_all

lemma valid_compact:
  assumes "json_valid v"
  shows "tight (json_compact False v)"
proof -
  obtain r where r: "scan (skip_ws v) = Some r" "skip_ws r = []" using assms by (auto simp: json_valid_def split: option.splits)
  obtain c where c: "json_compact False v = c @ json_compact False r" "\<forall>t. stops t \<longrightarrow> scan_value (Suc (length (skip_ws v))) (c @ t) = Some t"
    using scan_compact(1) [OF r(1) [unfolded scan_def]] by (auto simp: reads_compact_def)
  have "json_compact False r = []" using compact_skip [of r] r(2) by simp
  moreover have "scan c = Some []" using scan_eqI [OF c(2) [rule_format, OF stops_Nil]] by simp
  ultimately show ?thesis using c(1) by (simp add: tight_def)
qed

end
