(* ===== verification/Rpc_Message.thy ===== *)
theory Rpc_Message
  imports Json_Laws Memory_Store
begin

text \<open>
  \<^verbatim>\<open>src/pkg/rpc/message.go\<close> and \<^verbatim>\<open>error.go\<close>: the messages on the wire, their JSON text and the error payload.
  The payload of a message is a map from names to raw JSON texts.
\<close>

section \<open>Payloads\<close>

type_synonym Payload = "(string, string) gomap"

text \<open>A map is written with its keys in order; a nil map as \<^verbatim>\<open>null\<close>.\<close>

definition payload_json :: "Payload option \<Rightarrow> string result" where
  "payload_json p = (case p of
       None \<Rightarrow> Inr ''null''
     | Some m \<Rightarrow>
         bindE (mapME (\<lambda>k. bindE (raw_json (gm_index [] m k)) (\<lambda>v. Inr (json_string k @ CHR '':'' # v)))
           (SortFunc string_less (map fst m))) (\<lambda>members.
         Inr (CHR ''{'' # join_comma members @ ''}'')))"

section \<open>Messages\<close>

type_synonym MsgType = uint8

definition MsgTypeReq :: MsgType where "MsgTypeReq = 1"
definition MsgTypeResp :: MsgType where "MsgTypeResp = 2"
definition MsgTypeEvent :: MsgType where "MsgTypeEvent = 3"
definition MsgTypeRespErr :: MsgType where "MsgTypeRespErr = 4"

lemmas msg_type_defs = MsgTypeReq_def MsgTypeResp_def MsgTypeEvent_def MsgTypeRespErr_def

record Message =
  m_Type :: MsgType
  m_RequestID :: uint64
  m_Method :: string
  m_Payload :: "Payload option"
  m_Timestamp :: uint64

definition zero_message :: Message where
  "zero_message = \<lparr> m_Type = 0, m_RequestID = 0, m_Method = [], m_Payload = None, m_Timestamp = 0 \<rparr>"

definition NewMessage :: "uint64 \<Rightarrow> MsgType \<Rightarrow> uint64 \<Rightarrow> string \<Rightarrow> Payload option \<Rightarrow> Message" where
  "NewMessage now typ rid method params =
     \<lparr> m_Type = typ, m_RequestID = rid, m_Method = method,
       m_Payload = Some (case params of None \<Rightarrow> [] | Some p \<Rightarrow> p), m_Timestamp = now \<rparr>"

definition NewRequest :: "uint64 \<Rightarrow> uint64 \<Rightarrow> string \<Rightarrow> Payload option \<Rightarrow> Message" where
  "NewRequest now requestID method params = NewMessage now MsgTypeReq requestID method params"

definition NewResponse :: "uint64 \<Rightarrow> uint64 \<Rightarrow> string \<Rightarrow> Payload option \<Rightarrow> Message" where
  "NewResponse now requestID method params = NewMessage now MsgTypeResp requestID method params"

definition NewEvent :: "uint64 \<Rightarrow> uint64 \<Rightarrow> string \<Rightarrow> Payload option \<Rightarrow> Message" where
  "NewEvent now requestID method params = NewMessage now MsgTypeEvent requestID method params"

definition errorParamKey :: string where "errorParamKey = ''error''"

text \<open>The error text is put between quotes as it is.\<close>

definition NewErrorPayload :: "string \<Rightarrow> Payload" where
  "NewErrorPayload errMsg = [(errorParamKey, quote_char # errMsg @ [quote_char])]"

definition NewErrorResponse :: "uint64 \<Rightarrow> uint64 \<Rightarrow> string \<Rightarrow> string \<Rightarrow> Message" where
  "NewErrorResponse now requestID method errMsg =
     NewMessage now MsgTypeRespErr requestID method (Some (NewErrorPayload errMsg))"

definition MarshalJSON :: "Message \<Rightarrow> string result" where
  "MarshalJSON p =
     bindE (payload_json (m_Payload p)) (\<lambda>payload.
     Inr (CHR ''['' # join_comma [show_nat (unat (m_Type p)), show_nat (unat (m_RequestID p)), json_string (m_Method p),
            payload, show_nat (unat (m_Timestamp p))] @ '']''))"

section \<open>Reading messages\<close>

definition unmarshal_payload :: "string \<Rightarrow> Payload option \<Rightarrow> Payload option result" where
  "unmarshal_payload s old =
     (case s of
        c # t \<Rightarrow>
          if s = ''null'' then Inr None
          else if c \<noteq> CHR ''{'' then Inl (Err ''cannot unmarshal into map'')
          else (case skip_ws t of
              d # u \<Rightarrow> if d = CHR ''}'' then Inr (Some (case old of None \<Rightarrow> [] | Some m \<Rightarrow> m)) else
                (case split_members (Suc (length t)) (d # u) of
                   Some kvs \<Rightarrow> Inr (Some (foldl (\<lambda>m (k, v). gm_put k v m) (case old of None \<Rightarrow> [] | Some m \<Rightarrow> m) kvs))
                 | None \<Rightarrow> Inl (Err ''invalid character''))
            | [] \<Rightarrow> Inl (Err ''invalid character''))
      | [] \<Rightarrow> Inl (Err ''unexpected end of JSON input''))"

text \<open>The fields are filled one after the other: an error leaves those before it set.\<close>

definition UnmarshalJSON :: "string \<Rightarrow> Message \<Rightarrow> unit result \<times> Message" where
  "UnmarshalJSON data p =
     (case wrapE ''error reading RPCData as array'' (unmarshal_array data) of
        Inl e \<Rightarrow> (Inl e, p)
      | Inr rawArr \<Rightarrow>
          if length rawArr \<noteq> 5 then (Inl (Err ''invalid RPCData: expected 5 elements in array''), p)
          else case wrapE ''invalid type'' (unmarshal_uint 8 (rawArr ! 0) (uint (m_Type p))) of
            Inl e \<Rightarrow> (Inl e, p)
          | Inr t \<Rightarrow> (let p1 = p \<lparr> m_Type := of_int t \<rparr> in
            case wrapE ''invalid request_id'' (unmarshal_uint 64 (rawArr ! 1) (uint (m_RequestID p))) of
              Inl e \<Rightarrow> (Inl e, p1)
            | Inr i \<Rightarrow> (let p2 = p1 \<lparr> m_RequestID := of_int i \<rparr> in
              case wrapE ''invalid method'' (unmarshal_string (rawArr ! 2) (m_Method p)) of
                Inl e \<Rightarrow> (Inl e, p2)
              | Inr method \<Rightarrow> (let p3 = p2 \<lparr> m_Method := method \<rparr> in
                case wrapE ''invalid params'' (unmarshal_payload (rawArr ! 3) (m_Payload p)) of
                  Inl e \<Rightarrow> (Inl e, p3)
                | Inr params \<Rightarrow> (let p4 = p3 \<lparr> m_Payload := params \<rparr> in
                  case wrapE ''invalid timestamp'' (unmarshal_uint 64 (rawArr ! 4) (uint (m_Timestamp p))) of
                    Inl e \<Rightarrow> (Inl e, p4)
                  | Inr ts \<Rightarrow> (Inr (), p4 \<lparr> m_Timestamp := of_int ts \<rparr>))))))"

definition Payload_Error :: "Payload option \<Rightarrow> string option" where
  "Payload_Error p =
     (case gm_get (case p of None \<Rightarrow> [] | Some m \<Rightarrow> m) errorParamKey of
        None \<Rightarrow> None
      | Some raw \<Rightarrow>
          if \<not> json_valid raw then None
          else (case unmarshal_string (skip_ws raw) [] of Inr errMsg \<Rightarrow> Some errMsg | Inl _ \<Rightarrow> None))"

definition Message_Error :: "Message \<Rightarrow> string option" where
  "Message_Error r = (if m_Type r \<noteq> MsgTypeRespErr then None else Payload_Error (m_Payload r))"


section \<open>Messages survive the wire\<close>

text \<open>What the encoder writes for a payload: the keys in order, every value compacted. \<open>payload_ok\<close> says that
  it can: the keys are those of a map and every value is a JSON text.\<close>

definition written :: "Payload \<Rightarrow> Payload" where
  "written m = map (\<lambda>k. (k, json_compact False (gm_index [] m k))) (SortFunc string_less (map fst m))"

definition payload_ok :: "Payload \<Rightarrow> bool" where
  "payload_ok m = (distinct (map fst m) \<and> list_all (\<lambda>(k, v). json_valid v) m)"

lemma payload_ok_value:
  assumes "payload_ok m" and "k \<in> fst ` set m"
  shows "json_valid (gm_index [] m k) \<and> tight (json_compact False (gm_index [] m k))"
proof -
  obtain v where v: "(k, v) \<in> set m" using assms(2) by auto
  then have "gm_index [] m k = v" using assms(1) by (simp add: payload_ok_def gm_index_def)
  then show ?thesis using assms(1) v by (auto simp: payload_ok_def list_all_iff intro: valid_compact)
qed

lemma map_of_written: "map_of (written m) = map_option (json_compact False) \<circ> map_of m"
proof
  fix k
  show "map_of (written m) k = (map_option (json_compact False) \<circ> map_of m) k"
    using domIff [of k "map_of m"]
    by (cases "map_of m k") (auto simp: written_def map_of_map_restrict restrict_map_def gm_index_def dom_map_of_conv_image_fst)
qed

lemma written_keys: "map fst (written m) = SortFunc string_less (map fst m)"
  by (simp add: written_def comp_def)

lemma payload_text:
  assumes "payload_ok m"
  shows "payload_json (Some m) = Inr (CHR ''{'' # join_comma (map member_text (written m)) @ ''}'')"
proof -
  have "mapME (\<lambda>k. bindE (raw_json (gm_index [] m k)) (\<lambda>v. Inr (json_string k @ CHR '':'' # v))) ks
      = Inr (map member_text (map (\<lambda>k. (k, json_compact False (gm_index [] m k))) ks))" if "set ks \<subseteq> fst ` set m" for ks
    using that payload_ok_value [OF assms] by (induction ks) (simp_all add: raw_json_def member_text_def)
  then show ?thesis by (simp add: payload_json_def written_def)
qed

lemma written_tight: "payload_ok m \<Longrightarrow> kv \<in> set (written m) \<Longrightarrow> tight (snd kv)"
  using payload_ok_value [of m] unfolding written_def by fastforce

lemma tight_payload:
  assumes "payload_ok m"
  shows "tight (CHR ''{'' # join_comma (map member_text (written m)) @ ''}'')"
proof (cases "written m")
  case Nil
  then show ?thesis by (simp add: tight_def scan_def scan_open_def)
next
  case (Cons kv kvs)
  obtain n where n: "scan_members n (join_comma (map member_text (written m)) @ ''}'') = Some []"
    using scan_members_join [of "written m" "[]"] written_tight [OF assms] Cons by auto
  obtain d u where d: "join_comma (map member_text (written m)) @ ''}'' = d # u" "d = quote_char"
    using Cons by (cases kvs) (simp_all add: member_append)
  have "scan_value (Suc n) (CHR ''{'' # d # u) = Some []" using n d by (simp add: scan_open_next)
  then show ?thesis unfolding tight_def d(1) by (rule scan_eqI)
qed

lemma foldl_gm_put:
  "distinct (map fst acc @ map fst kvs) \<Longrightarrow> foldl (\<lambda>m (k, v). gm_put k v m) acc kvs = acc @ kvs"
proof (induction kvs arbitrary: acc)
  case (Cons kv kvs)
  have "gm_put k v acc = acc @ [(k, v)]" if "k \<notin> fst ` set acc" for k v
    using that by (induction acc) auto
  then show ?case using Cons by (cases kv) auto
qed simp

lemma unmarshal_payload_text:
  assumes "payload_ok m"
  shows "unmarshal_payload (CHR ''{'' # join_comma (map member_text (written m)) @ ''}'') None = Inr (Some (written m))"
proof (cases "written m")
  case Nil
  then show ?thesis by (simp add: unmarshal_payload_def)
next
  case (Cons kv kvs)
  let ?t = "join_comma (map member_text (written m)) @ ''}''"
  obtain u where u: "?t = quote_char # u" using Cons by (cases kvs) (simp_all add: member_append)
  have "length (written m) \<le> length ?t"
  proof -
    have "length ks \<le> length (join_comma (map member_text ks))" for ks
      by (induction ks rule: induct_list012) (simp_all add: member_text_def json_string_def)
    then show ?thesis by (simp add: le_SucI)
  qed
  then have "split_members (Suc (length ?t)) ?t = Some (written m)"
    using split_members_join [of "written m" "Suc (length ?t)" "[]"] written_tight [OF assms] Cons by simp
  moreover have "distinct (map fst (written m))"
    using assms by (simp add: written_keys distinct_SortFunc payload_ok_def)
  ultimately show ?thesis using u foldl_gm_put [of "[]" "written m"] by (simp add: unmarshal_payload_def)
qed


lemma payload_json_ok: "payload_json (Some m) = Inr x \<Longrightarrow> distinct (map fst m) \<Longrightarrow> payload_ok m"
proof -
  assume x: "payload_json (Some m) = Inr x" and d: "distinct (map fst m)"
  have "\<forall>k \<in> set ks. json_valid (gm_index [] m k)"
    if "mapME (\<lambda>k. bindE (raw_json (gm_index [] m k)) (\<lambda>v. Inr (json_string k @ CHR '':'' # v))) ks = Inr ys" for ks ys
    using that by (induction ks arbitrary: ys) (auto simp: raw_json_def split: if_splits)
  moreover obtain ys where "mapME (\<lambda>k. bindE (raw_json (gm_index [] m k)) (\<lambda>v. Inr (json_string k @ CHR '':'' # v)))
      (SortFunc string_less (map fst m)) = Inr ys" using x by (auto simp: payload_json_def)
  ultimately have "\<forall>k \<in> set (SortFunc string_less (map fst m)). json_valid (gm_index [] m k)" by blast
  then show ?thesis using d by (force simp: payload_ok_def list_all_iff gm_index_def)
qed

lemma message_survives:
  assumes "case m_Payload m of None \<Rightarrow> True | Some p \<Rightarrow> payload_ok p"
  shows "\<exists>wire. MarshalJSON m = Inr wire \<and>
    UnmarshalJSON wire zero_message = (Inr (), m \<lparr> m_Payload := map_option written (m_Payload m) \<rparr>)"
proof -
  obtain pt where pt: "payload_json (m_Payload m) = Inr pt" "tight pt"
      "unmarshal_payload pt None = Inr (map_option written (m_Payload m))"
  proof (cases "m_Payload m")
    case None
    show ?thesis by (rule that [of "''null''"]) (simp_all add: None payload_json_def tight_null unmarshal_payload_def)
  next
    case (Some p)
    then have p: "payload_ok p" using assms by simp
    show ?thesis by (rule that [unfolded Some, OF payload_text [OF p] tight_payload [OF p]]) (simp add: unmarshal_payload_text [OF p])
  qed
  let ?vs = "[show_nat (unat (m_Type m)), show_nat (unat (m_RequestID m)), json_string (m_Method m), pt, show_nat (unat (m_Timestamp m))]"
  have "unmarshal_array (CHR ''['' # join_comma ?vs @ '']'') = Inr ?vs"
    by (rule unmarshal_array_text) (simp_all add: pt(2) tight_show_nat tight_json_string)
  moreover have "unmarshal_uint 8 (show_nat (unat (m_Type m))) 0 = Inr (uint (m_Type m))"
      "unmarshal_uint 64 (show_nat (unat (m_RequestID m))) 0 = Inr (uint (m_RequestID m))"
      "unmarshal_uint 64 (show_nat (unat (m_Timestamp m))) 0 = Inr (uint (m_Timestamp m))"
    using unsigned_less [of "m_Type m", where ?'a = nat] unsigned_less [of "m_RequestID m", where ?'a = nat]
      unsigned_less [of "m_Timestamp m", where ?'a = nat]
    by (simp_all add: unmarshal_uint_text)
  ultimately show ?thesis using pt
    by (simp add: MarshalJSON_def UnmarshalJSON_def zero_message_def unmarshal_string_text wrapE_def)
qed

end
