(* ===== verification/Rpc_Node.thy ===== *)
theory Rpc_Node
  imports Rpc_Message Node_Api
begin

text \<open>
  \<^verbatim>\<open>src/pkg/rpc/context.go\<close>, \<^verbatim>\<open>node.go\<close>, \<^verbatim>\<open>methods.go\<close> and \<^verbatim>\<open>src/clearnode/api/rpc_router.go\<close>: how a frame
  that arrives on a connection finds its handlers and what is written back. A handler is what it does before
  \<^verbatim>\<open>c.Next()\<close>, whether it calls it, and what it does afterwards; every handler of the repository has this shape and
  calls \<^verbatim>\<open>Next\<close> at most once. A panic in a handler ends the process, since requests are processed in a
  goroutine of their own.
\<close>

section \<open>Contexts and handlers\<close>

datatype any_value = AnyBucket tokenBucket | AnyValue string

type_synonym SafeStorage = "(string, any_value) gomap"

definition NewSafeStorage :: SafeStorage where "NewSafeStorage = []"

definition Storage_Set :: "string \<Rightarrow> any_value \<Rightarrow> SafeStorage \<Rightarrow> SafeStorage" where
  "Storage_Set key value s = gm_put key value s"

definition Storage_Get :: "SafeStorage \<Rightarrow> string \<Rightarrow> any_value option" where
  "Storage_Get s key = gm_get s key"

text \<open>\<open>c_World\<close> is the state the endpoints work on, \<open>c_Now\<close> the clock in seconds.\<close>

record 'w Context =
  c_Request :: Message
  c_Response :: Message
  c_Storage :: SafeStorage
  c_World :: 'w
  c_Now :: rat

definition UnixMilli :: "rat \<Rightarrow> uint64" where
  "UnixMilli now = of_int \<lfloor>now * 1000\<rfloor>"

datatype 'w Handler = Handler (before: "'w Context \<Rightarrow> ('w Context \<times> bool) result") (after: "'w Context \<Rightarrow> 'w Context")

fun Next :: "'w Handler list \<Rightarrow> 'w Context \<Rightarrow> 'w Context result" where
  "Next [] c = Inr c"
| "Next (h # hs) c =
     bindE (before h c) (\<lambda>(c', go_on). if go_on then mapE (after h) (Next hs c') else Inr c')"

definition Succeed :: "string \<Rightarrow> Payload option \<Rightarrow> 'w Context \<Rightarrow> 'w Context" where
  "Succeed method payload c =
     c \<lparr> c_Response := NewResponse (UnixMilli (c_Now c)) (m_RequestID (c_Request c)) method payload \<rparr>"

definition fail_message :: "go_error option \<Rightarrow> string \<Rightarrow> string" where
  "fail_message err fallbackMessage =
     (let message = (case err of Some (RPCError m) \<Rightarrow> m | _ \<Rightarrow> fallbackMessage)
      in if message = [] then defaultNodeErrorMessage else message)"

definition Context_Fail :: "go_error option \<Rightarrow> string \<Rightarrow> 'w Context \<Rightarrow> 'w Context" where
  "Context_Fail err fallbackMessage c =
     c \<lparr> c_Response := NewErrorResponse (UnixMilli (c_Now c)) (m_RequestID (c_Request c)) (m_Method (c_Request c))
           (fail_message err fallbackMessage) \<rparr>"

text \<open>An endpoint either fails with an error and a fallback text or succeeds with a method name and a payload.\<close>

type_synonym 'w endpoint_fn = "Payload option \<Rightarrow> 'w \<Rightarrow> ((go_error option \<times> string) + (string \<times> Payload option)) \<times> 'w"

definition endpointHandler :: "'w endpoint_fn \<Rightarrow> 'w Handler" where
  "endpointHandler f = Handler (\<lambda>c. case f (m_Payload (c_Request c)) (c_World c) of
       (Inl (Some (Panic p), _), _) \<Rightarrow> Inl (Panic p)
     | (Inl (err, fallback), w) \<Rightarrow> Inr (Context_Fail err fallback (c \<lparr> c_World := w \<rparr>), False)
     | (Inr (method, payload), w) \<Rightarrow> Inr (Succeed method payload (c \<lparr> c_World := w \<rparr>), False)) (\<lambda>c. c)"

section \<open>Routes\<close>

record 'w WebsocketNode =
  wn_groupId :: string
  wn_handlerChain :: "(string, 'w Handler list) gomap"
  wn_routes :: "(string, string list) gomap"

record WebsocketHandlerGroup =
  hg_groupId :: string
  hg_routePrefix :: "string list"

definition nodeGroupHandlerPrefix :: string where "nodeGroupHandlerPrefix = ''group.''"
definition nodeGroupRoot :: string where "nodeGroupRoot = ''root''"

definition NewWebsocketNode :: "'w WebsocketNode" where
  "NewWebsocketNode = \<lparr> wn_groupId = nodeGroupHandlerPrefix @ nodeGroupRoot, wn_handlerChain = [], wn_routes = [] \<rparr>"

definition Node_handle :: "string \<Rightarrow> 'w Handler \<Rightarrow> 'w WebsocketNode \<Rightarrow> 'w WebsocketNode result" where
  "Node_handle method handler wn =
     (if method = [] then Inl (Panic ''Websocket method cannot be empty'')
      else Inr (wn \<lparr> wn_handlerChain := gm_put method [handler] (wn_handlerChain wn) \<rparr>))"

definition Node_Handle :: "string \<Rightarrow> 'w Handler \<Rightarrow> 'w WebsocketNode \<Rightarrow> 'w WebsocketNode result" where
  "Node_Handle method handler wn =
     mapE (\<lambda>wn'. wn' \<lparr> wn_routes := gm_put method [wn_groupId wn', method] (wn_routes wn') \<rparr>) (Node_handle method handler wn)"

definition Node_use :: "string \<Rightarrow> 'w Handler \<Rightarrow> 'w WebsocketNode \<Rightarrow> 'w WebsocketNode" where
  "Node_use groupId middleware wn =
     wn \<lparr> wn_handlerChain := gm_put groupId (gm_index [] (wn_handlerChain wn) groupId @ [middleware]) (wn_handlerChain wn) \<rparr>"

definition Node_Use :: "'w Handler \<Rightarrow> 'w WebsocketNode \<Rightarrow> 'w WebsocketNode" where
  "Node_Use middleware wn = Node_use (wn_groupId wn) middleware wn"

definition Node_NewGroup :: "string \<Rightarrow> 'w WebsocketNode \<Rightarrow> WebsocketHandlerGroup" where
  "Node_NewGroup name wn = \<lparr> hg_groupId = nodeGroupHandlerPrefix @ name, hg_routePrefix = [wn_groupId wn] \<rparr>"

text \<open>Routes are values here. The slices of the code share no elements as long as groups are nested at most four deep; the
  router nests them once.\<close>

definition Group_NewGroup :: "string \<Rightarrow> WebsocketHandlerGroup \<Rightarrow> WebsocketHandlerGroup" where
  "Group_NewGroup name hg = \<lparr> hg_groupId = hg_groupId hg @ CHR ''.'' # name, hg_routePrefix = hg_routePrefix hg @ [hg_groupId hg] \<rparr>"

definition Group_Handle :: "WebsocketHandlerGroup \<Rightarrow> string \<Rightarrow> 'w Handler \<Rightarrow> 'w WebsocketNode \<Rightarrow> 'w WebsocketNode result" where
  "Group_Handle hg method handler wn =
     Node_handle method handler
       (wn \<lparr> wn_routes := gm_put method (hg_routePrefix hg @ [hg_groupId hg, method]) (wn_routes wn) \<rparr>)"

definition Group_Use :: "WebsocketHandlerGroup \<Rightarrow> 'w Handler \<Rightarrow> 'w WebsocketNode \<Rightarrow> 'w WebsocketNode" where
  "Group_Use hg middleware wn = Node_use (hg_groupId hg) middleware wn"

section \<open>Processing a frame\<close>

text \<open>What the connection is asked to write: a response, an error response (after which the processing loop goes on even
  if it cannot be written), nothing, or the process ends by a panic.\<close>

datatype reply = Reply string | ErrorReply string | NoReply | Crash string

definition sendErrorResponse :: "rat \<Rightarrow> uint64 \<Rightarrow> string \<Rightarrow> string \<Rightarrow> reply" where
  "sendErrorResponse now requestID method message =
     (case MarshalJSON (NewErrorResponse (UnixMilli now) requestID method message) of
        Inl _ \<Rightarrow> NoReply
      | Inr responseBytes \<Rightarrow> ErrorReply responseBytes)"

definition prepareRawNotification :: "rat \<Rightarrow> string \<Rightarrow> Payload option \<Rightarrow> string result" where
  "prepareRawNotification now method params =
     wrapE ''failed to marshal notification'' (MarshalJSON (NewEvent (UnixMilli now) 0 method params))"

definition routeHandlers :: "'w WebsocketNode \<Rightarrow> string list \<Rightarrow> 'w Handler list" where
  "routeHandlers wn methodRoute = concat (map (gm_index [] (wn_handlerChain wn)) methodRoute)"

definition unknownMethod :: "rat \<Rightarrow> Message \<Rightarrow> reply" where
  "unknownMethod now req = sendErrorResponse now (m_RequestID req) (m_Method req) (''unknown method: '' @ m_Method req)"

definition newContext :: "rat \<Rightarrow> Message \<Rightarrow> SafeStorage \<Rightarrow> 'w \<Rightarrow> 'w Context" where
  "newContext now req safeStorage world =
     \<lparr> c_Request = req, c_Response = zero_message, c_Storage = safeStorage, c_World = world, c_Now = now \<rparr>"

text \<open>One turn of the loop in \<^verbatim>\<open>processRequests\<close>.\<close>

definition processRequest :: "'w WebsocketNode \<Rightarrow> rat \<Rightarrow> string \<Rightarrow> SafeStorage \<times> 'w \<Rightarrow> reply \<times> SafeStorage \<times> 'w" where
  "processRequest wn now messageBytes = (\<lambda>(safeStorage, world).
     case UnmarshalJSON messageBytes zero_message of
       (Inl _, req) \<Rightarrow> (sendErrorResponse now (m_RequestID req) [] ''invalid message format'', safeStorage, world)
     | (Inr _, req) \<Rightarrow>
         (let methodRoute = gm_index [] (wn_routes wn) (m_Method req); handlers = routeHandlers wn methodRoute in
          if methodRoute = [] then (unknownMethod now req, safeStorage, world)
          else if handlers = [] then (unknownMethod now req, safeStorage, world)
          else case Next handlers (newContext now req safeStorage world) of
            Inl e \<Rightarrow> (Crash (case e of Panic p \<Rightarrow> p | _ \<Rightarrow> []), safeStorage, world)
          | Inr ctx \<Rightarrow>
              ((case MarshalJSON (c_Response ctx) of
                  Inl _ \<Rightarrow> sendErrorResponse now (m_RequestID req) (m_Method req) defaultNodeErrorMessage
                | Inr responseBytes \<Rightarrow> Reply responseBytes), c_Storage ctx, c_World ctx)))"

text \<open>The loop over the frames of a connection, each with the time at which it is taken up; an empty frame
  (the closed channel) and a panic end it.\<close>

fun processRequests :: "'w WebsocketNode \<Rightarrow> (rat \<times> string) list \<Rightarrow> SafeStorage \<times> 'w \<Rightarrow> reply list \<times> SafeStorage \<times> 'w" where
  "processRequests wn [] s = ([], s)"
| "processRequests wn ((now, messageBytes) # rest) s =
     (if messageBytes = [] then ([], s)
      else case processRequest wn now messageBytes s of
        (Crash p, s') \<Rightarrow> ([Crash p], s')
      | (r, s') \<Rightarrow> (case processRequests wn rest s' of (rs, s'') \<Rightarrow> (r # rs, s'')))"

section \<open>The router of the clearnode\<close>

definition ChannelV1Group :: string where "ChannelV1Group = ''channels.v1''"
definition AppSessionsV1Group :: string where "AppSessionsV1Group = ''app_sessions.v1''"
definition AppsV1Group :: string where "AppsV1Group = ''apps.v1''"
definition UserV1Group :: string where "UserV1Group = ''user.v1''"
definition NodeV1Group :: string where "NodeV1Group = ''node.v1''"

lemmas group_defs = ChannelV1Group_def AppSessionsV1Group_def AppsV1Group_def UserV1Group_def NodeV1Group_def
  nodeGroupHandlerPrefix_def nodeGroupRoot_def

record RPCRouterConfig =
  rr_NodeVersion :: string
  rr_MinChallenge :: uint32
  rr_MaxChallenge :: uint32
  rr_AppRegistryEnabled :: bool
  rr_MaxParticipants :: int
  rr_MaxSessionDataLen :: int
  rr_MaxAppMetadataLen :: int
  rr_MaxRebalanceSignedUpdates :: int
  rr_MaxSessionKeyIDs :: int
  rr_RateLimitPerSec :: rat
  rr_RateLimitBurst :: rat

text \<open>The endpoints of \<^verbatim>\<open>clearnode/api\<close>; each is modelled on its decoded request in the theories of the endpoints.\<close>

record 'w RouterEndpoints =
  re_SubmitDepositState :: "'w endpoint_fn"
  re_SubmitAppState :: "'w endpoint_fn"
  re_CreateAppSession :: "'w endpoint_fn"
  re_GetAppDefinition :: "'w endpoint_fn"
  re_GetAppSessions :: "'w endpoint_fn"
  re_AppSubmitSessionKeyState :: "'w endpoint_fn"
  re_AppGetLastKeyStates :: "'w endpoint_fn"
  re_RebalanceAppSessions :: "'w endpoint_fn"
  re_GetChannels :: "'w endpoint_fn"
  re_GetEscrowChannel :: "'w endpoint_fn"
  re_GetHomeChannel :: "'w endpoint_fn"
  re_GetLatestState :: "'w endpoint_fn"
  re_RequestCreation :: "'w endpoint_fn"
  re_SubmitState :: "'w endpoint_fn"
  re_SubmitSessionKeyState :: "'w endpoint_fn"
  re_GetLastKeyStates :: "'w endpoint_fn"
  re_Ping :: "'w endpoint_fn"
  re_GetAssets :: "'w endpoint_fn"
  re_GetConfig :: "'w endpoint_fn"
  re_GetApps :: "'w endpoint_fn"
  re_SubmitAppVersion :: "'w endpoint_fn"
  re_GetBalances :: "'w endpoint_fn"
  re_GetTransactions :: "'w endpoint_fn"
  re_GetActionAllowances :: "'w endpoint_fn"

text \<open>The observability middleware only measures and logs around \<^verbatim>\<open>Next\<close>.\<close>

definition observabilityHandler :: "'w Handler" where
  "observabilityHandler = Handler (\<lambda>c. Inr (c, True)) (\<lambda>c. c)"

definition rateLimitStorageKey :: string where "rateLimitStorageKey = ''rate_limiter''"

definition storedBucket :: "SafeStorage \<Rightarrow> tokenBucket option" where
  "storedBucket s = (case Storage_Get s rateLimitStorageKey of Some (AnyBucket b) \<Rightarrow> Some b | _ \<Rightarrow> None)"

definition rateLimitHandler :: "rat \<Rightarrow> rat \<Rightarrow> 'w Handler" where
  "rateLimitHandler rateLimitPerSec rateLimitBurst = Handler (\<lambda>c.
     let (ok, bucket) = RateLimitMiddleware rateLimitPerSec rateLimitBurst (c_Now c) (storedBucket (c_Storage c));
         c' = c \<lparr> c_Storage := (case bucket of None \<Rightarrow> c_Storage c
                 | Some b \<Rightarrow> Storage_Set rateLimitStorageKey (AnyBucket b) (c_Storage c)) \<rparr>
     in Inr (if ok then (c', True) else (Context_Fail None ''rate limit exceeded'' c', False))) (\<lambda>c. c)"

definition disabledHandler :: "'w Handler" where
  "disabledHandler = Handler (\<lambda>c. Inr (Context_Fail None ''apps.v1 group is disabled'' c, False)) (\<lambda>c. c)"

definition registerAll :: "WebsocketHandlerGroup \<Rightarrow> (string \<times> 'w endpoint_fn) list \<Rightarrow> 'w WebsocketNode \<Rightarrow> 'w WebsocketNode result" where
  "registerAll hg table wn = foldE (\<lambda>(method, f) wn. Group_Handle hg method (endpointHandler f) wn) table wn"

definition appSessionMethods :: "RPCRouterConfig \<Rightarrow> 'w RouterEndpoints \<Rightarrow> (string \<times> 'w endpoint_fn) list" where
  "appSessionMethods cfg e =
     [(''app_sessions.v1.submit_deposit_state'', re_SubmitDepositState e),
      (''app_sessions.v1.submit_app_state'', re_SubmitAppState e),
      (''app_sessions.v1.create_app_session'', re_CreateAppSession e),
      (''app_sessions.v1.get_app_definition'', re_GetAppDefinition e),
      (''app_sessions.v1.get_app_sessions'', re_GetAppSessions e),
      (''app_sessions.v1.submit_session_key_state'', re_AppSubmitSessionKeyState e),
      (''app_sessions.v1.get_last_key_states'', re_AppGetLastKeyStates e)] @
     (if 2 \<le> rr_MaxRebalanceSignedUpdates cfg
      then [(''app_sessions.v1.rebalance_app_sessions'', re_RebalanceAppSessions e)] else [])"

definition channelMethods :: "'w RouterEndpoints \<Rightarrow> (string \<times> 'w endpoint_fn) list" where
  "channelMethods e =
     [(''channels.v1.get_channels'', re_GetChannels e),
      (''channels.v1.get_escrow_channel'', re_GetEscrowChannel e),
      (''channels.v1.get_home_channel'', re_GetHomeChannel e),
      (''channels.v1.get_latest_state'', re_GetLatestState e),
      (''channels.v1.request_creation'', re_RequestCreation e),
      (''channels.v1.submit_state'', re_SubmitState e),
      (''channels.v1.submit_session_key_state'', re_SubmitSessionKeyState e),
      (''channels.v1.get_last_key_states'', re_GetLastKeyStates e)]"

definition nodeMethods :: "'w RouterEndpoints \<Rightarrow> (string \<times> 'w endpoint_fn) list" where
  "nodeMethods e =
     [(''node.v1.ping'', re_Ping e), (''node.v1.get_assets'', re_GetAssets e), (''node.v1.get_config'', re_GetConfig e)]"

definition appsMethods :: "'w RouterEndpoints \<Rightarrow> (string \<times> 'w endpoint_fn) list" where
  "appsMethods e = [(''apps.v1.get_apps'', re_GetApps e), (''apps.v1.submit_app_version'', re_SubmitAppVersion e)]"

definition userMethods :: "'w RouterEndpoints \<Rightarrow> (string \<times> 'w endpoint_fn) list" where
  "userMethods e =
     [(''user.v1.get_balances'', re_GetBalances e), (''user.v1.get_transactions'', re_GetTransactions e),
      (''user.v1.get_action_allowances'', re_GetActionAllowances e)]"

lemmas method_tables = appSessionMethods_def channelMethods_def nodeMethods_def appsMethods_def userMethods_def

definition NewRPCRouter :: "RPCRouterConfig \<Rightarrow> 'w RouterEndpoints \<Rightarrow> 'w WebsocketNode result" where
  "NewRPCRouter cfg e =
     (let node = Node_Use (rateLimitHandler (rr_RateLimitPerSec cfg) (rr_RateLimitBurst cfg))
                   (Node_Use observabilityHandler NewWebsocketNode);
          group = (\<lambda>name. Node_NewGroup name node) in
      bindE (registerAll (group AppSessionsV1Group) (appSessionMethods cfg e) node) (\<lambda>n1.
      bindE (registerAll (group ChannelV1Group) (channelMethods e) n1) (\<lambda>n2.
      bindE (registerAll (group NodeV1Group) (nodeMethods e) n2) (\<lambda>n3.
      bindE (registerAll (group AppsV1Group) (appsMethods e)
        (if rr_AppRegistryEnabled cfg then n3 else Group_Use (group AppsV1Group) disabledHandler n3)) (\<lambda>n4.
      registerAll (group UserV1Group) (userMethods e) n4)))))"

end
