(* ===== verification/Rpc_Properties.thy ===== *)
theory Rpc_Properties
  imports Rpc_Node
begin

text \<open>
  What the RPC layer does with a frame: messages survive the wire, the chains of handlers that the router builds
  amount to a table of methods, every answer carries the identifier of its request, and which error texts can be
  sent at all.
\<close>

section \<open>The router as a table\<close>

definition routerTable :: "RPCRouterConfig \<Rightarrow> 'w RouterEndpoints \<Rightarrow> (string \<times> 'w endpoint_fn) list" where
  "routerTable cfg e = appSessionMethods cfg e @ channelMethods e @ nodeMethods e @ appsMethods e @ userMethods e"

definition admit :: "RPCRouterConfig \<Rightarrow> rat \<Rightarrow> SafeStorage \<Rightarrow> bool \<times> SafeStorage" where
  "admit cfg now s =
     (let (ok, bucket) = RateLimitMiddleware (rr_RateLimitPerSec cfg) (rr_RateLimitBurst cfg) now (storedBucket s)
      in (ok, case bucket of None \<Rightarrow> s | Some b \<Rightarrow> Storage_Set rateLimitStorageKey (AnyBucket b) s))"

definition answer :: "rat \<Rightarrow> Message \<Rightarrow> Message \<Rightarrow> reply" where
  "answer now req response = (case MarshalJSON response of
       Inl _ \<Rightarrow> sendErrorResponse now (m_RequestID req) (m_Method req) defaultNodeErrorMessage
     | Inr wire \<Rightarrow> Reply wire)"

definition refusal :: "rat \<Rightarrow> Message \<Rightarrow> string \<Rightarrow> reply" where
  "refusal now req message = answer now req (NewErrorResponse (UnixMilli now) (m_RequestID req) (m_Method req) message)"

definition disabled :: "RPCRouterConfig \<Rightarrow> 'w RouterEndpoints \<Rightarrow> string \<Rightarrow> bool" where
  "disabled cfg e method = (\<not> rr_AppRegistryEnabled cfg \<and> method \<in> set (map fst (appsMethods e)))"

text \<open>The behaviour of the node on a request, without groups and chains.\<close>

definition dispatch :: "RPCRouterConfig \<Rightarrow> 'w RouterEndpoints \<Rightarrow> rat \<Rightarrow> Message \<Rightarrow> SafeStorage \<Rightarrow> 'w \<Rightarrow> reply \<times> SafeStorage \<times> 'w" where
  "dispatch cfg e now req s w =
     (case map_of (routerTable cfg e) (m_Method req) of
        None \<Rightarrow> (unknownMethod now req, s, w)
      | Some f \<Rightarrow>
          (let (ok, s') = admit cfg now s in
           if \<not> ok then (refusal now req ''rate limit exceeded'', s', w)
           else if disabled cfg e (m_Method req) then (refusal now req ''apps.v1 group is disabled'', s', w)
           else case f (m_Payload req) w of
             (Inl (Some (Panic p), fallback), w') \<Rightarrow> (Crash p, s, w)
           | (Inl (err, fallback), w') \<Rightarrow> (refusal now req (fail_message err fallback), s', w')
           | (Inr (method, payload), w') \<Rightarrow>
               (answer now req (NewResponse (UnixMilli now) (m_RequestID req) method payload), s', w')))"

definition dispatchFrame ::
  "RPCRouterConfig \<Rightarrow> 'w RouterEndpoints \<Rightarrow> rat \<Rightarrow> string \<Rightarrow> SafeStorage \<Rightarrow> 'w \<Rightarrow> reply \<times> SafeStorage \<times> 'w" where
  "dispatchFrame cfg e now messageBytes s w =
     (case UnmarshalJSON messageBytes zero_message of
        (Inl _, req) \<Rightarrow> (sendErrorResponse now (m_RequestID req) [] ''invalid message format'', s, w)
      | (Inr _, req) \<Rightarrow> dispatch cfg e now req s w)"

lemma registerAll_ok:
  assumes "\<forall>(m, f) \<in> set table. m \<noteq> []"
  shows "\<exists>wn'. registerAll hg table wn = Inr wn' \<and> wn_groupId wn' = wn_groupId wn \<and>
     (\<forall>k. gm_index [] (wn_routes wn') k =
        (if k \<in> fst ` set table then hg_routePrefix hg @ [hg_groupId hg, k] else gm_index [] (wn_routes wn) k)) \<and>
     (\<forall>k. gm_index [] (wn_handlerChain wn') k =
        (case map_of (rev table) k of Some f \<Rightarrow> [endpointHandler f] | None \<Rightarrow> gm_index [] (wn_handlerChain wn) k))"
  using assms unfolding registerAll_def
proof (induction table arbitrary: wn)
  case (Cons mf table)
  obtain m f where mf: "mf = (m, f)" by fastforce
  define wn1 where "wn1 = wn \<lparr> wn_routes := gm_put m (hg_routePrefix hg @ [hg_groupId hg, m]) (wn_routes wn),
    wn_handlerChain := gm_put m [endpointHandler f] (wn_handlerChain wn) \<rparr>"
  have wn1: "Group_Handle hg m (endpointHandler f) wn = Inr wn1"
      "wn_routes wn1 = gm_put m (hg_routePrefix hg @ [hg_groupId hg, m]) (wn_routes wn)"
      "wn_handlerChain wn1 = gm_put m [endpointHandler f] (wn_handlerChain wn)" "wn_groupId wn1 = wn_groupId wn"
    using Cons.prems mf by (simp_all add: Group_Handle_def Node_handle_def wn1_def)
  obtain wn2 where "foldE (\<lambda>(method, f) wn. Group_Handle hg method (endpointHandler f) wn) table wn1 = Inr wn2"
      "wn_groupId wn2 = wn_groupId wn1"
      "\<forall>k. gm_index [] (wn_routes wn2) k =
        (if k \<in> fst ` set table then hg_routePrefix hg @ [hg_groupId hg, k] else gm_index [] (wn_routes wn1) k)"
      "\<forall>k. gm_index [] (wn_handlerChain wn2) k =
        (case map_of (rev table) k of Some f \<Rightarrow> [endpointHandler f] | None \<Rightarrow> gm_index [] (wn_handlerChain wn1) k)"
    using Cons.IH [of wn1] Cons.prems by auto
  then show ?case using wn1 mf
    by (auto simp: gm_index_put map_add_def split: option.splits)
qed (auto simp: gm_index_def split: option.splits)

lemma table_facts:
  "distinct (map fst (routerTable cfg e))"
  "\<forall>(m, f) \<in> set (routerTable cfg e). m \<noteq> []"
  "g \<in> {AppSessionsV1Group, ChannelV1Group, NodeV1Group, AppsV1Group, UserV1Group, nodeGroupRoot} \<Longrightarrow>
     nodeGroupHandlerPrefix @ g \<notin> fst ` set (routerTable cfg e)"
  by (simp_all add: routerTable_def method_tables group_defs) auto

text \<open>Registering a table, seen through the two lookups of the node.\<close>

definition registered :: "WebsocketHandlerGroup \<Rightarrow> (string \<times> 'w endpoint_fn) list \<Rightarrow> 'w WebsocketNode \<Rightarrow> 'w WebsocketNode \<Rightarrow> bool" where
  "registered hg table wn wn' \<longleftrightarrow>
     gm_index [] (wn_routes wn') = (\<lambda>k. if k \<in> fst ` set table then hg_routePrefix hg @ [hg_groupId hg, k] else gm_index [] (wn_routes wn) k) \<and>
     gm_index [] (wn_handlerChain wn') =
       (\<lambda>k. case map_of table k of Some f \<Rightarrow> [endpointHandler f] | None \<Rightarrow> gm_index [] (wn_handlerChain wn) k)"

lemma registerAll_registered:
  assumes "set table \<subseteq> set (routerTable cfg e)" and "distinct (map fst table)"
  shows "\<exists>wn'. registerAll hg table wn = Inr wn' \<and> registered hg table wn wn'"
proof -
  have "map_of (rev table) = map_of table" using assms(2) by (subst map_of_inject_set) (simp_all add: rev_map [symmetric])
  moreover have "\<forall>(m, f) \<in> set table. m \<noteq> []" using assms(1) table_facts(2) by blast
  ultimately show ?thesis using registerAll_ok [of table hg wn] by (auto simp: registered_def fun_eq_iff)
qed

definition groupOf :: "RPCRouterConfig \<Rightarrow> 'w RouterEndpoints \<Rightarrow> string \<Rightarrow> string option" where
  "groupOf cfg e k =
     (if k \<in> fst ` set (userMethods e) then Some UserV1Group else if k \<in> fst ` set (appsMethods e) then Some AppsV1Group
      else if k \<in> fst ` set (nodeMethods e) then Some NodeV1Group else if k \<in> fst ` set (channelMethods e) then Some ChannelV1Group
      else if k \<in> fst ` set (appSessionMethods cfg e) then Some AppSessionsV1Group else None)"

definition middleware :: "RPCRouterConfig \<Rightarrow> string \<Rightarrow> 'w Handler list" where
  "middleware cfg k =
     (if k = nodeGroupHandlerPrefix @ nodeGroupRoot
      then [observabilityHandler, rateLimitHandler (rr_RateLimitPerSec cfg) (rr_RateLimitBurst cfg)]
      else if k = nodeGroupHandlerPrefix @ AppsV1Group \<and> \<not> rr_AppRegistryEnabled cfg then [disabledHandler] else [])"

lemma router_lookups:
  fixes cfg :: RPCRouterConfig and e :: "'w RouterEndpoints"
  defines "table \<equiv> userMethods e @ appsMethods e @ nodeMethods e @ channelMethods e @ appSessionMethods cfg e"
  shows "\<exists>wn. NewRPCRouter cfg e = Inr wn \<and>
    gm_index [] (wn_routes wn) = (\<lambda>k. case groupOf cfg e k of None \<Rightarrow> []
      | Some g \<Rightarrow> [nodeGroupHandlerPrefix @ nodeGroupRoot, nodeGroupHandlerPrefix @ g, k]) \<and>
    gm_index [] (wn_handlerChain wn) = (\<lambda>k. case map_of table k of Some f \<Rightarrow> [endpointHandler f] | None \<Rightarrow> middleware cfg k)"
proof -
  define n0 :: "'w WebsocketNode" where
    "n0 = Node_Use (rateLimitHandler (rr_RateLimitPerSec cfg) (rr_RateLimitBurst cfg)) (Node_Use observabilityHandler NewWebsocketNode)"
  let ?g = "\<lambda>name. Node_NewGroup name n0"
  have d: "distinct (map fst (routerTable cfg e))" by (rule table_facts)
  have reg: "\<exists>wn'. registerAll hg t wn = Inr wn' \<and> registered hg t wn wn'"
    if "t \<in> {appSessionMethods cfg e, channelMethods e, nodeMethods e, appsMethods e, userMethods e}" for t hg and wn :: "'w WebsocketNode"
    using registerAll_registered [of t cfg e hg wn] that d by (auto simp: routerTable_def)
  obtain n1 where n1: "registerAll (?g AppSessionsV1Group) (appSessionMethods cfg e) n0 = Inr n1"
      "registered (?g AppSessionsV1Group) (appSessionMethods cfg e) n0 n1" using reg by blast
  obtain n2 where n2: "registerAll (?g ChannelV1Group) (channelMethods e) n1 = Inr n2"
      "registered (?g ChannelV1Group) (channelMethods e) n1 n2" using reg by blast
  obtain n3 where n3: "registerAll (?g NodeV1Group) (nodeMethods e) n2 = Inr n3"
      "registered (?g NodeV1Group) (nodeMethods e) n2 n3" using reg by blast
  define n3' where "n3' = (if rr_AppRegistryEnabled cfg then n3 else Group_Use (?g AppsV1Group) disabledHandler n3)"
  obtain n4 where n4: "registerAll (?g AppsV1Group) (appsMethods e) n3' = Inr n4"
      "registered (?g AppsV1Group) (appsMethods e) n3' n4" using reg by blast
  obtain n5 where n5: "registerAll (?g UserV1Group) (userMethods e) n4 = Inr n5"
      "registered (?g UserV1Group) (userMethods e) n4 n5" using reg by blast
  have built: "NewRPCRouter cfg e = Inr n5"
    by (simp add: NewRPCRouter_def n0_def [symmetric] n1(1) n2(1) n3(1) n3'_def [symmetric] n4(1) n5(1))
  have start: "gm_index [] (wn_routes n0) k = []" "wn_groupId n0 = nodeGroupHandlerPrefix @ nodeGroupRoot"
      "gm_index [] (wn_handlerChain n0) k = (if k = nodeGroupHandlerPrefix @ nodeGroupRoot then middleware cfg k else [])" for k
    by (simp_all add: n0_def Node_Use_def Node_use_def NewWebsocketNode_def gm_index_def middleware_def)
  have fresh: "map_of t (nodeGroupHandlerPrefix @ AppsV1Group) = None"
    if "t \<in> {appSessionMethods cfg e, channelMethods e, nodeMethods e, appsMethods e, userMethods e}" for t
    using table_facts(3) [of AppsV1Group cfg e] that by (auto simp: routerTable_def map_of_eq_None_iff)
  have "gm_index [] (wn_routes n5) k = (case groupOf cfg e k of None \<Rightarrow> []
      | Some g \<Rightarrow> [nodeGroupHandlerPrefix @ nodeGroupRoot, nodeGroupHandlerPrefix @ g, k])" for k
    using n1(2) n2(2) n3(2) n4(2) n5(2)
    by (simp add: registered_def groupOf_def start n3'_def Group_Use_def Node_use_def Node_NewGroup_def)
  moreover have "gm_index [] (wn_handlerChain n5) k = (case map_of table k of Some f \<Rightarrow> [endpointHandler f] | None \<Rightarrow> middleware cfg k)" for k
    using n1(2) n2(2) n3(2) n4(2) n5(2) fresh
    by (auto simp: registered_def start n3'_def Group_Use_def Node_use_def Node_NewGroup_def table_def map_add_def middleware_def group_defs
        split: option.splits)
  ultimately show ?thesis using built by auto
qed


lemma router_routes:
  fixes cfg :: RPCRouterConfig and e :: "'w RouterEndpoints"
  shows "\<exists>wn. NewRPCRouter cfg e = Inr wn \<and> (\<forall>m.
     (gm_index [] (wn_routes wn) m = [] \<longleftrightarrow> map_of (routerTable cfg e) m = None) \<and>
     routeHandlers wn (gm_index [] (wn_routes wn) m) =
     (case map_of (routerTable cfg e) m of
        None \<Rightarrow> []
      | Some f \<Rightarrow> [observabilityHandler, rateLimitHandler (rr_RateLimitPerSec cfg) (rr_RateLimitBurst cfg)] @
          (if disabled cfg e m then [disabledHandler] else []) @ [endpointHandler f]))"
proof -
  let ?table = "userMethods e @ appsMethods e @ nodeMethods e @ channelMethods e @ appSessionMethods cfg e"
  have d: "distinct (map fst (routerTable cfg e))" by (rule table_facts)
  have same: "map_of ?table = map_of (routerTable cfg e)"
    using d by (subst map_of_inject_set) (auto simp: routerTable_def)
  obtain wn where wn: "NewRPCRouter cfg e = Inr wn"
      "gm_index [] (wn_routes wn) = (\<lambda>k. case groupOf cfg e k of None \<Rightarrow> []
        | Some g \<Rightarrow> [nodeGroupHandlerPrefix @ nodeGroupRoot, nodeGroupHandlerPrefix @ g, k])"
      "gm_index [] (wn_handlerChain wn) =
        (\<lambda>k. case map_of (routerTable cfg e) k of Some f \<Rightarrow> [endpointHandler f] | None \<Rightarrow> middleware cfg k)"
    using router_lookups [of cfg e] unfolding same by blast
  have group: "gm_index [] (wn_handlerChain wn) (nodeGroupHandlerPrefix @ g) = middleware cfg (nodeGroupHandlerPrefix @ g)"
    if "g \<in> {AppSessionsV1Group, ChannelV1Group, NodeV1Group, AppsV1Group, UserV1Group, nodeGroupRoot}" for g
    using table_facts(3) [OF that, of cfg e] map_of_eq_None_iff [of "routerTable cfg e" "nodeGroupHandlerPrefix @ g"]
    unfolding wn(3) by simp
  have found: "groupOf cfg e m = None \<longleftrightarrow> map_of (routerTable cfg e) m = None" for m
    by (auto simp: groupOf_def routerTable_def map_of_eq_None_iff)
  have "routeHandlers wn (gm_index [] (wn_routes wn) m) = [observabilityHandler, rateLimitHandler (rr_RateLimitPerSec cfg) (rr_RateLimitBurst cfg)] @
      (if disabled cfg e m then [disabledHandler] else []) @ [endpointHandler f]" if f: "map_of (routerTable cfg e) m = Some f" for m f
  proof -
    obtain g where g: "groupOf cfg e m = Some g" using found [of m] f by fastforce
    then have "g \<in> {AppSessionsV1Group, ChannelV1Group, NodeV1Group, AppsV1Group, UserV1Group}" by (auto simp: groupOf_def split: if_splits)
    moreover have "disabled cfg e m \<longleftrightarrow> g = AppsV1Group \<and> \<not> rr_AppRegistryEnabled cfg"
      using g d by (auto simp: disabled_def groupOf_def routerTable_def group_defs split: if_splits)
    moreover from calculation have "g \<noteq> nodeGroupRoot" by (auto simp: group_defs)
    moreover have "routeHandlers wn (gm_index [] (wn_routes wn) m) = gm_index [] (wn_handlerChain wn) (nodeGroupHandlerPrefix @ nodeGroupRoot) @
        gm_index [] (wn_handlerChain wn) (nodeGroupHandlerPrefix @ g) @ gm_index [] (wn_handlerChain wn) m"
      using g by (simp add: routeHandlers_def wn(2))
    moreover have "gm_index [] (wn_handlerChain wn) m = [endpointHandler f]" using f by (simp add: wn(3))
    ultimately show ?thesis using group [of g] group [of nodeGroupRoot] by (simp add: middleware_def)
  qed
  moreover have "routeHandlers wn (gm_index [] (wn_routes wn) m) = []" if "map_of (routerTable cfg e) m = None" for m
    using found [of m] that unfolding wn(2) by (simp add: routeHandlers_def)
  moreover have "gm_index [] (wn_routes wn) m = [] \<longleftrightarrow> map_of (routerTable cfg e) m = None" for m
    using found [of m] unfolding wn(2) by (cases "groupOf cfg e m") auto
  ultimately show ?thesis using wn(1) by (intro exI [of _ wn]) (auto split: option.splits)
qed

lemma Next_endpoint:
  "Next [endpointHandler f] c = (case f (m_Payload (c_Request c)) (c_World c) of
       (Inl (Some (Panic p), _), _) \<Rightarrow> Inl (Panic p)
     | (Inl (err, fallback), w) \<Rightarrow> Inr (Context_Fail err fallback (c \<lparr> c_World := w \<rparr>))
     | (Inr (method, payload), w) \<Rightarrow> Inr (Succeed method payload (c \<lparr> c_World := w \<rparr>)))"
  by (simp add: endpointHandler_def split: prod.splits sum.splits option.splits go_error.splits)

lemma Next_disabled: "Next (disabledHandler # hs) c = Inr (Context_Fail None ''apps.v1 group is disabled'' c)"
  by (simp add: disabledHandler_def)

lemma mapE_same [simp]: "mapE (\<lambda>x. x) r = r"
  by (cases r) (simp_all add: mapE_def)

lemma Next_middleware:
  "Next (observabilityHandler # rateLimitHandler (rr_RateLimitPerSec cfg) (rr_RateLimitBurst cfg) # hs) c =
     (let (ok, s') = admit cfg (c_Now c) (c_Storage c); c' = c \<lparr> c_Storage := s' \<rparr>
      in if ok then Next hs c' else Inr (Context_Fail None ''rate limit exceeded'' c'))"
  by (cases "RateLimitMiddleware (rr_RateLimitPerSec cfg) (rr_RateLimitBurst cfg) (c_Now c) (storedBucket (c_Storage c))")
    (simp add: observabilityHandler_def rateLimitHandler_def admit_def Let_def)


lemma dispatch_chain:
  assumes "map_of (routerTable cfg e) (m_Method req) = Some f"
  shows "(case Next ([observabilityHandler, rateLimitHandler (rr_RateLimitPerSec cfg) (rr_RateLimitBurst cfg)] @
            (if disabled cfg e (m_Method req) then [disabledHandler] else []) @ [endpointHandler f]) (newContext now req s w) of
            Inl err \<Rightarrow> (Crash (case err of Panic p \<Rightarrow> p | _ \<Rightarrow> []), s, w)
          | Inr ctx \<Rightarrow> (answer now req (c_Response ctx), c_Storage ctx, c_World ctx)) = dispatch cfg e now req s w"
proof -
  obtain ok s' where a: "admit cfg now s = (ok, s')" by fastforce
  obtain out w' where f: "f (m_Payload req) w = (out, w')" by fastforce
  note unf = dispatch_def assms a Next_middleware Next_disabled Next_endpoint newContext_def Context_Fail_def Succeed_def refusal_def
  consider "\<not> ok" | "ok" "disabled cfg e (m_Method req)" | "ok" "\<not> disabled cfg e (m_Method req)" by blast
  then show ?thesis
  proof cases
    case 3
    then show ?thesis using f
      by (cases out) (auto simp: unf simp del: Next.simps split: option.splits go_error.splits)
  qed (simp_all add: unf fail_message_def del: Next.simps)
qed

lemma table_dispatch:
  fixes cfg :: RPCRouterConfig and e :: "'w RouterEndpoints"
  shows "\<exists>wn. NewRPCRouter cfg e = Inr wn \<and>
    (\<forall>now messageBytes s w. processRequest wn now messageBytes (s, w) = dispatchFrame cfg e now messageBytes s w)"
proof -
  obtain wn where wn: "NewRPCRouter cfg e = Inr wn"
      "\<And>m. gm_index [] (wn_routes wn) m = [] \<longleftrightarrow> map_of (routerTable cfg e) m = None"
      "\<And>m. routeHandlers wn (gm_index [] (wn_routes wn) m) = (case map_of (routerTable cfg e) m of None \<Rightarrow> []
        | Some f \<Rightarrow> [observabilityHandler, rateLimitHandler (rr_RateLimitPerSec cfg) (rr_RateLimitBurst cfg)] @
          (if disabled cfg e m then [disabledHandler] else []) @ [endpointHandler f])"
    using router_routes [of cfg e] by blast
  have "processRequest wn now messageBytes (s, w) = dispatchFrame cfg e now messageBytes s w" for now messageBytes s w
  proof -
    obtain r req where u: "UnmarshalJSON messageBytes zero_message = (r, req)" by fastforce
    show ?thesis
    proof (cases "map_of (routerTable cfg e) (m_Method req)")
      case None
      then show ?thesis using wn(2) [of "m_Method req"] u
        by (cases r) (simp_all add: processRequest_def dispatchFrame_def dispatch_def Let_def)
    next
      case (Some f)
      define hs where "hs = routeHandlers wn (gm_index [] (wn_routes wn) (m_Method req))"
      have hs: "hs = [observabilityHandler, rateLimitHandler (rr_RateLimitPerSec cfg) (rr_RateLimitBurst cfg)] @
          (if disabled cfg e (m_Method req) then [disabledHandler] else []) @ [endpointHandler f]"
        using wn(3) [of "m_Method req"] Some by (simp add: hs_def)
      have "hs \<noteq> []" "gm_index [] (wn_routes wn) (m_Method req) \<noteq> []" using hs wn(2) [of "m_Method req"] Some by simp_all
      then show ?thesis using u dispatch_chain [OF Some, folded hs, where now = now and s = s and w = w, unfolded answer_def]
        by (cases r) (simp_all add: processRequest_def dispatchFrame_def Let_def hs_def)
    qed
  qed
  then show ?thesis using wn(1) by blast
qed

text \<open>
  C37. The router of the clearnode, with its groups, middleware chains and routes, treats every frame exactly as a flat
  table of methods would: a frame that is no message, and an unknown method, reach no endpoint and change nothing; a
  request over the rate limit or for a disabled group is refused and changes at most the token bucket; every other request
  runs the endpoint registered for its method once, and its result is what is sent back.
\<close>

theorem router_is_table:
  fixes cfg :: RPCRouterConfig and e :: "'w RouterEndpoints"
  shows "\<exists>wn. NewRPCRouter cfg e = Inr wn \<and>
    (\<forall>now messageBytes s w. processRequest wn now messageBytes (s, w) = dispatchFrame cfg e now messageBytes s w)"
  by (rule table_dispatch)

section \<open>Messages on the wire\<close>


definition wire_example :: Message where
  "wire_example = NewRequest 1700000000123 7 ''channels.v1.get_channels'' (Some [(''wallet'', [quote_char, CHR ''<'', quote_char]), (''limit'', ''10'')])"



section \<open>Replies\<close>

text \<open>What the other side reads from a reply to the request with identifier \<open>rid\<close>.\<close>

definition well_typed :: "uint64 \<Rightarrow> string \<Rightarrow> bool" where
  "well_typed rid wire = (case UnmarshalJSON wire zero_message of
       (Inl _, _) \<Rightarrow> False
     | (Inr _, resp) \<Rightarrow> m_RequestID resp = rid \<and> m_Type resp \<in> {MsgTypeResp, MsgTypeRespErr} \<and> m_Payload resp \<noteq> None)"

definition written_reply :: "uint64 \<Rightarrow> reply \<Rightarrow> bool" where
  "written_reply rid r = (\<exists>wire. (r = Reply wire \<or> r = ErrorReply wire) \<and> well_typed rid wire)"

text \<open>The payload an endpoint returns is a map.\<close>

definition map_payloads :: "'w endpoint_fn \<Rightarrow> bool" where
  "map_payloads f = (\<forall>p w method q w'. f p w = (Inr (method, Some q), w') \<longrightarrow> distinct (map fst q))"

lemma written_well_typed:
  assumes "MarshalJSON (NewMessage now ty rid called p) = Inr wire" and "\<And>q. p = Some q \<Longrightarrow> distinct (map fst q)"
    and "ty \<in> {MsgTypeResp, MsgTypeRespErr}"
  shows "well_typed rid wire"
proof -
  have "distinct (map fst (case p of None \<Rightarrow> [] | Some q \<Rightarrow> q))" using assms(2) by (cases p) auto
  then have "payload_ok (case p of None \<Rightarrow> [] | Some q \<Rightarrow> q)" using assms(1) payload_json_ok by (auto simp: MarshalJSON_def NewMessage_def)
  then show ?thesis using message_survives [of "NewMessage now ty rid called p"] assms(1,3)
    by (auto simp: NewMessage_def well_typed_def)
qed

lemma error_marshals:
  "(\<exists>wire. MarshalJSON (NewErrorResponse now rid called message) = Inr wire) \<longleftrightarrow> json_valid (quote_char # message @ [quote_char])"
  by (auto simp: NewErrorResponse_def NewErrorPayload_def NewMessage_def MarshalJSON_def payload_json_def raw_json_def gm_index_def)

lemma error_reply:
  "if json_valid (quote_char # message @ [quote_char]) then written_reply rid (sendErrorResponse now rid called message)
   else sendErrorResponse now rid called message = NoReply"
  using error_marshals [where now = "UnixMilli now" and rid = rid and called = called and message = message]
    written_well_typed [where now = "UnixMilli now" and ty = MsgTypeRespErr and rid = rid and called = called and
      p = "Some (NewErrorPayload message)"]
  by (auto simp: sendErrorResponse_def written_reply_def NewErrorResponse_def NewErrorPayload_def split: sum.splits)

lemma default_reply: "written_reply rid (sendErrorResponse now rid called defaultNodeErrorMessage)"
proof -
  have "json_valid (quote_char # defaultNodeErrorMessage @ [quote_char])" by code_simp
  then show ?thesis using error_reply [where now = now and rid = rid and called = called and message = defaultNodeErrorMessage] by simp
qed

lemma answer_typed:
  assumes "response = NewMessage (UnixMilli now) ty (m_RequestID req) called p" and "\<And>q. p = Some q \<Longrightarrow> distinct (map fst q)"
    and "ty \<in> {MsgTypeResp, MsgTypeRespErr}"
  shows "written_reply (m_RequestID req) (answer now req response)"
  using default_reply [where now = now and rid = "m_RequestID req" and called = "m_Method req"] written_well_typed assms
  by (auto simp: answer_def written_reply_def split: sum.splits)

lemma refusal_typed: "written_reply (m_RequestID req) (refusal now req message)"
  unfolding refusal_def NewErrorResponse_def by (rule answer_typed) (auto simp: NewErrorPayload_def)

lemma dispatch_reply:
  assumes "\<forall>(m, f) \<in> set (routerTable cfg e). map_payloads f" and "dispatch cfg e now req s w = (r, s', w')"
  shows "case r of Reply wire \<Rightarrow> well_typed (m_RequestID req) wire | ErrorReply wire \<Rightarrow> well_typed (m_RequestID req) wire
    | NoReply \<Rightarrow> m_Method req \<notin> fst ` set (routerTable cfg e) \<and> \<not> json_valid (quote_char # ''unknown method: '' @ m_Method req @ [quote_char])
    | Crash p \<Rightarrow> \<exists>f. map_of (routerTable cfg e) (m_Method req) = Some f \<and> (\<exists>fallback w1. f (m_Payload req) w = (Inl (Some (Panic p), fallback), w1))"
proof (cases "map_of (routerTable cfg e) (m_Method req)")
  case None
  then have "r = unknownMethod now req" using assms(2) by (simp add: dispatch_def)
  moreover have "m_Method req \<notin> fst ` set (routerTable cfg e)" using None by (simp add: map_of_eq_None_iff)
  ultimately show ?thesis using error_reply [where now = now and rid = "m_RequestID req" and called = "m_Method req" and
      message = "''unknown method: '' @ m_Method req"]
    by (auto simp: unknownMethod_def written_reply_def split: reply.splits if_splits)
next
  case (Some f)
  obtain ok s1 where a: "admit cfg now s = (ok, s1)" by fastforce
  obtain out w1 where f: "f (m_Payload req) w = (out, w1)" by fastforce
  have "map_payloads f" using assms(1) map_of_SomeD [OF Some] by blast
  then have d: "distinct (map fst q)" if "out = Inr (called, Some q)" for called q using f that unfolding map_payloads_def by blast
  note refused = refusal_typed [where now = now and req = req]
  consider "\<not> ok" | "ok" "disabled cfg e (m_Method req)" | "ok" "\<not> disabled cfg e (m_Method req)" by blast
  then show ?thesis
  proof cases
    case 3
    show ?thesis
    proof (cases out)
      case (Inr mp)
      obtain called p where mp: "mp = (called, p)" by fastforce
      have "written_reply (m_RequestID req) (answer now req (NewResponse (UnixMilli now) (m_RequestID req) called p))"
        unfolding NewResponse_def by (rule answer_typed [OF refl]) (use d Inr mp in auto)
      then show ?thesis using assms(2) Some a f 3 Inr mp by (auto simp: dispatch_def written_reply_def)
    next
      case (Inl ef)
      obtain err fallback where ef: "ef = (err, fallback)" by fastforce
      show ?thesis
      proof (cases "\<exists>p. err = Some (Panic p)")
        case True
        then show ?thesis using assms(2) Some a f 3 Inl ef by (auto simp: dispatch_def)
      next
        case False
        then have "r = refusal now req (fail_message err fallback)" using assms(2) Some a f 3 Inl ef
          by (auto simp: dispatch_def split: option.splits go_error.splits)
        then show ?thesis using refused [where message = "fail_message err fallback"] by (auto simp: written_reply_def)
      qed
    qed
  next
    case 1
    then show ?thesis using assms(2) Some a refused [where message = "''rate limit exceeded''"] by (auto simp: dispatch_def written_reply_def)
  next
    case 2
    then show ?thesis using assms(2) Some a refused [where message = "''apps.v1 group is disabled''"] by (auto simp: dispatch_def written_reply_def)
  qed
qed


text \<open>
  C39. Every frame is answered by a message of the right type: what the node writes back decodes to a response or an error with
  a payload, and it carries the identifier read from the request. There are two exceptions: an endpoint that panics takes
  the process down, and a request for an unknown method whose name does not fit between quotes as it is gets no answer
  at all, because the error text is put into the payload without encoding it.
\<close>

theorem replies_well_typed:
  assumes "NewRPCRouter cfg e = Inr wn" and "\<forall>(m, f) \<in> set (routerTable cfg e). map_payloads f"
    and "processRequest wn now messageBytes (s, w) = (r, s', w')" and "UnmarshalJSON messageBytes zero_message = (ok, req)"
  shows "case r of Reply wire \<Rightarrow> well_typed (m_RequestID req) wire | ErrorReply wire \<Rightarrow> well_typed (m_RequestID req) wire
    | NoReply \<Rightarrow> m_Method req \<notin> fst ` set (routerTable cfg e) \<and> \<not> json_valid (quote_char # ''unknown method: '' @ m_Method req @ [quote_char])
    | Crash p \<Rightarrow> \<exists>f fallback w1. map_of (routerTable cfg e) (m_Method req) = Some f \<and> f (m_Payload req) w = (Inl (Some (Panic p), fallback), w1)"
proof -
  have frame: "dispatchFrame cfg e now messageBytes s w = (r, s', w')" using table_dispatch [of cfg e] assms(1,3) by auto
  show ?thesis
  proof (cases ok)
    case (Inl err)
    have "json_valid (quote_char # ''invalid message format'' @ [quote_char])" by code_simp
    then show ?thesis using frame Inl assms(4)
        error_reply [where now = now and rid = "m_RequestID req" and called = "[]" and message = "''invalid message format''"]
      by (auto simp: dispatchFrame_def written_reply_def split: reply.splits)
  next
    case (Inr u)
    then have "dispatch cfg e now req s w = (r, s', w')" using frame assms(4) by (simp add: dispatchFrame_def)
    from dispatch_reply [OF assms(2) this] show ?thesis by (cases r) auto
  qed
qed

text \<open>A router whose endpoints all answer with an empty payload, and a request for a method \<open>a"b\<close>.\<close>

definition echo_endpoint :: "nat endpoint_fn" where
  "echo_endpoint p w = (Inr (''ok'', Some []), Suc w)"

definition echo_endpoints :: "nat RouterEndpoints" where
  "echo_endpoints = RouterEndpoints.make echo_endpoint echo_endpoint echo_endpoint echo_endpoint echo_endpoint echo_endpoint
     echo_endpoint echo_endpoint echo_endpoint echo_endpoint echo_endpoint echo_endpoint echo_endpoint echo_endpoint
     echo_endpoint echo_endpoint echo_endpoint echo_endpoint echo_endpoint echo_endpoint echo_endpoint echo_endpoint
     echo_endpoint echo_endpoint"

definition echo_config :: RPCRouterConfig where
  "echo_config = \<lparr> rr_NodeVersion = ''v1'', rr_MinChallenge = 60, rr_MaxChallenge = 3600, rr_AppRegistryEnabled = True, rr_MaxParticipants = 8,
     rr_MaxSessionDataLen = 1024, rr_MaxAppMetadataLen = 1024, rr_MaxRebalanceSignedUpdates = 2, rr_MaxSessionKeyIDs = 4,
     rr_RateLimitPerSec = 10, rr_RateLimitBurst = 5 \<rparr>"

definition quoted_request :: string where
  "quoted_request = ''[1,7,'' @ [quote_char, CHR ''a'', back_slash, quote_char, CHR ''b'', quote_char] @ '',{},5]''"


lemma echo_payloads: "\<forall>(m, f) \<in> set (routerTable echo_config echo_endpoints). map_payloads f"
  by (simp add: routerTable_def method_tables echo_endpoints_def RouterEndpoints.make_def map_payloads_def echo_endpoint_def)

lemma echo_replies:
  "fst (dispatchFrame echo_config echo_endpoints 1 quoted_request [] 0) = NoReply"
  "snd (UnmarshalJSON quoted_request zero_message) = \<lparr> m_Type = 1, m_RequestID = 7, m_Method = [CHR ''a'', quote_char, CHR ''b''],
     m_Payload = Some [], m_Timestamp = 5 \<rparr>"
  by code_simp+

theorem replies_well_typed_witness:
  "\<exists>wn. NewRPCRouter echo_config echo_endpoints = Inr wn \<and> fst (processRequest wn 1 quoted_request ([], 0)) = NoReply \<and>
     \<not> json_valid (quote_char # ''unknown method: a'' @ [quote_char] @ ''b'' @ [quote_char])"
proof -
  obtain wn where wn: "NewRPCRouter echo_config echo_endpoints = Inr wn"
      "\<And>now messageBytes s w. processRequest wn now messageBytes (s, w) = dispatchFrame echo_config echo_endpoints now messageBytes s w"
    using table_dispatch [of echo_config echo_endpoints] by auto
  obtain r s' w' where r: "processRequest wn 1 quoted_request ([], 0) = (r, s', w')" by (cases "processRequest wn 1 quoted_request ([], 0)") auto
  then have "r = NoReply" using wn(2) [of 1 quoted_request "[]" 0] echo_replies(1) by simp
  obtain ok req where u: "UnmarshalJSON quoted_request zero_message = (ok, req)" by fastforce
  from replies_well_typed [OF wn(1) echo_payloads r u] show ?thesis
    using \<open>r = NoReply\<close> echo_replies(2) u wn(1) r by auto
qed

end
