(* ===== verification/Rpc_Connection.thy ===== *)
theory Rpc_Connection
  imports Rpc_Node
begin

text \<open>
  \<^verbatim>\<open>src/pkg/rpc/connection.go\<close>, \<^verbatim>\<open>connection_hub.go\<close> and \<^verbatim>\<open>ServeHTTP\<close> of \<^verbatim>\<open>node.go\<close>: the life of one connection.
  Its goroutines (reader, writer, close watcher, the one that waits for the three, and the request processor of the
  node) are interleaved: an \<open>event\<close> says which of them takes its next step and what the socket or the timer answers.
  Each step is what the goroutine does between two blocking operations. A channel is the list of what it holds.
\<close>

section \<open>The connection hub\<close>

record ConnectionHub =
  hub_connections :: "(string, string) gomap"
  hub_authMapping :: "(string, (string, bool) gomap) gomap"
  hub_sourceMap :: "(string, uint32) gomap"

definition NewConnectionHub :: ConnectionHub where
  "NewConnectionHub = \<lparr> hub_connections = [], hub_authMapping = [], hub_sourceMap = [] \<rparr>"

definition gm_delete :: "'k \<Rightarrow> ('k, 'v) gomap \<Rightarrow> ('k, 'v) gomap" where
  "gm_delete k m = filter (\<lambda>(k', _). k' \<noteq> k) m"

definition getSourceID :: "string \<Rightarrow> string" where "getSourceID origin = origin"

text \<open>A connection is represented by its origin; the call of \<open>observeConnections\<close> is left out.\<close>

definition Hub_Add :: "string \<Rightarrow> string \<Rightarrow> ConnectionHub \<Rightarrow> ConnectionHub result" where
  "Hub_Add connID origin hub =
     (if gm_get (hub_connections hub) connID \<noteq> None then Inl (Err ''connection with ID already exists'')
      else Inr (hub \<lparr> hub_connections := gm_put connID origin (hub_connections hub),
                      hub_sourceMap := gm_put (getSourceID origin) (gm_index 0 (hub_sourceMap hub) (getSourceID origin) + 1)
                        (hub_sourceMap hub) \<rparr>))"

definition Hub_Get :: "ConnectionHub \<Rightarrow> string \<Rightarrow> string option" where
  "Hub_Get hub connID = gm_get (hub_connections hub) connID"

definition dropSource :: "string \<Rightarrow> (string, uint32) gomap \<Rightarrow> (string, uint32) gomap" where
  "dropSource sourceID m =
     (case gm_get m sourceID of
        None \<Rightarrow> m
      | Some count \<Rightarrow> if count = 0 then m else if count - 1 = 0 then gm_delete sourceID m else gm_put sourceID (count - 1) m)"

definition Hub_Remove :: "string \<Rightarrow> ConnectionHub \<Rightarrow> ConnectionHub" where
  "Hub_Remove connID hub =
     (case gm_get (hub_connections hub) connID of
        None \<Rightarrow> hub
      | Some origin \<Rightarrow> hub \<lparr> hub_connections := gm_delete connID (hub_connections hub),
                            hub_sourceMap := dropSource (getSourceID origin) (hub_sourceMap hub) \<rparr>)"

text \<open>\<^verbatim>\<open>Publish\<close>: the connections of the user to which the response is written. Nothing in the repository fills \<open>authMapping\<close>.\<close>

definition Hub_Publish :: "string \<Rightarrow> ConnectionHub \<Rightarrow> string list" where
  "Hub_Publish userID hub =
     (case gm_get (hub_authMapping hub) userID of
        None \<Rightarrow> []
      | Some connIDs \<Rightarrow> filter (\<lambda>connID. gm_get (hub_connections hub) connID \<noteq> None) (map fst connIDs))"

section \<open>A connection\<close>

record WebsocketConnectionConfig =
  wc_ConnectionID :: string
  wc_Origin :: string
  wc_WriteTimeout :: int
  wc_WriteBufferSize :: int
  wc_ProcessBufferSize :: int
  wc_PingInterval :: int
  wc_PongTimeout :: int

text \<open>Durations are in milliseconds.\<close>

definition defaultWsConnWriteTimeout :: int where "defaultWsConnWriteTimeout = 5000"
definition defaultWsConnProcessBufferSize :: int where "defaultWsConnProcessBufferSize = 64"
definition defaultWsConnWriteBufferSize :: int where "defaultWsConnWriteBufferSize = 64"
definition defaultWsConnPingInterval :: int where "defaultWsConnPingInterval = 5000"
definition defaultWsConnPongTimeout :: int where "defaultWsConnPongTimeout = 10000"

text \<open>
  \<open>cn_pending\<close> is the counter of the wait group, \<open>cn_closures\<close> the calls of \<open>handleClosure\<close>, \<open>cn_closeSignal\<close> the buffered
  close channel. \<open>cn_received\<close>, \<open>cn_taken\<close>, \<open>cn_queued\<close> and \<open>cn_sent\<close> record the frames that passed each point.
\<close>

record WebsocketConnection =
  cn_connectionID :: string
  cn_origin :: string
  cn_writeTimeout :: int
  cn_pingInterval :: int
  cn_pongTimeout :: int
  cn_writeCap :: nat
  cn_processCap :: nat
  cn_ctx :: bool
  cn_cancelled :: bool
  cn_reader :: bool
  cn_writer :: bool
  cn_watcher :: bool
  cn_waiter :: bool
  cn_pending :: nat
  cn_closureErr :: "string option"
  cn_closures :: "string option list"
  cn_writeSink :: "string list"
  cn_processSink :: "string list"
  cn_processClosed :: bool
  cn_closeSignal :: bool
  cn_wsClosed :: bool
  cn_received :: "string list"
  cn_taken :: "string list"
  cn_queued :: "string list"
  cn_sent :: "string list"

definition NewWebsocketConnection :: "WebsocketConnectionConfig \<Rightarrow> WebsocketConnection result" where
  "NewWebsocketConnection config =
     (if wc_ConnectionID config = [] then Inl (Err ''connection ID cannot be empty'')
      else let positive = (\<lambda>n d :: int. if n \<le> 0 then d else n) in
        Inr \<lparr> cn_connectionID = wc_ConnectionID config,
              cn_origin = (if wc_Origin config = [] then ''unknown'' else wc_Origin config),
              cn_writeTimeout = positive (wc_WriteTimeout config) defaultWsConnWriteTimeout,
              cn_pingInterval = positive (wc_PingInterval config) defaultWsConnPingInterval,
              cn_pongTimeout = positive (wc_PongTimeout config) defaultWsConnPongTimeout,
              cn_writeCap = nat (positive (wc_WriteBufferSize config) defaultWsConnWriteBufferSize),
              cn_processCap = nat (positive (wc_ProcessBufferSize config) defaultWsConnProcessBufferSize),
              cn_ctx = False, cn_cancelled = False, cn_reader = False, cn_writer = False, cn_watcher = False, cn_waiter = False,
              cn_pending = 0, cn_closureErr = None, cn_closures = [], cn_writeSink = [], cn_processSink = [],
              cn_processClosed = False, cn_closeSignal = False, cn_wsClosed = False,
              cn_received = [], cn_taken = [], cn_queued = [], cn_sent = [] \<rparr>)"

text \<open>The second call only invokes its own closure handler, which is the \<open>True\<close> of the result.\<close>

definition Serve :: "WebsocketConnection \<Rightarrow> bool \<times> WebsocketConnection" where
  "Serve conn =
     (if cn_ctx conn then (True, conn)
      else (False, conn \<lparr> cn_ctx := True, cn_reader := True, cn_writer := True, cn_watcher := True, cn_waiter := True,
              cn_pending := 3 \<rparr>))"

definition childHandleClosure :: "string option \<Rightarrow> WebsocketConnection \<Rightarrow> WebsocketConnection" where
  "childHandleClosure err conn =
     conn \<lparr> cn_closureErr := (if err \<noteq> None \<and> cn_closureErr conn = None then err else cn_closureErr conn),
            cn_cancelled := True, cn_pending := cn_pending conn - 1 \<rparr>"

text \<open>A send to the close channel, of capacity 1, that does not block.\<close>

definition signalClose :: "WebsocketConnection \<Rightarrow> WebsocketConnection" where
  "signalClose conn = conn \<lparr> cn_closeSignal := True \<rparr>"

text \<open>\<^verbatim>\<open>ReadMessage\<close> returns a frame, an unexpected error or a normal closure.\<close>

datatype read_outcome = Frame string | Unexpected string | NormalClosure

definition readMessages :: "read_outcome \<Rightarrow> WebsocketConnection \<Rightarrow> WebsocketConnection" where
  "readMessages outcome conn =
     (case outcome of
        Unexpected err \<Rightarrow> (childHandleClosure (Some err) conn) \<lparr> cn_reader := False, cn_processClosed := True \<rparr>
      | NormalClosure \<Rightarrow> (childHandleClosure None conn) \<lparr> cn_reader := False, cn_processClosed := True \<rparr>
      | Frame messageBytes \<Rightarrow>
          if messageBytes = [] then conn
          else if length (cn_processSink conn) < cn_processCap conn
          then conn \<lparr> cn_processSink := cn_processSink conn @ [messageBytes], cn_received := cn_received conn @ [messageBytes] \<rparr>
          else (signalClose conn) \<lparr> cn_reader := False, cn_processClosed := True \<rparr>)"

text \<open>The writer picks a ready case of its \<^verbatim>\<open>select\<close>: the context, the ping timer (with the result of the ping) or the
  next response (with the result of writing it).\<close>

datatype write_choice = WriterDone | PingTick bool | WriteNext bool

definition writeMessages :: "write_choice \<Rightarrow> WebsocketConnection \<Rightarrow> WebsocketConnection option" where
  "writeMessages choice conn =
     (case choice of
        WriterDone \<Rightarrow> if cn_cancelled conn then Some ((childHandleClosure None conn) \<lparr> cn_writer := False \<rparr>) else None
      | PingTick ok \<Rightarrow> Some (if ok then conn else (childHandleClosure None conn) \<lparr> cn_writer := False \<rparr>)
      | WriteNext ok \<Rightarrow>
          (case cn_writeSink conn of
             [] \<Rightarrow> None
           | messageBytes # rest \<Rightarrow>
               (let conn' = conn \<lparr> cn_writeSink := rest \<rparr> in
                Some (if messageBytes = [] then conn' else if \<not> ok then conn'
                      else conn' \<lparr> cn_sent := cn_sent conn @ [messageBytes] \<rparr>))))"

definition waitForConnClose :: "WebsocketConnection \<Rightarrow> WebsocketConnection option" where
  "waitForConnClose conn =
     (if cn_cancelled conn \<or> cn_closeSignal conn then Some ((childHandleClosure None conn) \<lparr> cn_watcher := False \<rparr>) else None)"

text \<open>The goroutine that waits for the three, calls \<open>handleClosure\<close> and closes the socket.\<close>

definition awaitGoroutines :: "WebsocketConnection \<Rightarrow> WebsocketConnection option" where
  "awaitGoroutines conn =
     (if cn_pending conn = 0
      then Some (conn \<lparr> cn_waiter := False, cn_closures := cn_closures conn @ [cn_closureErr conn], cn_wsClosed := True \<rparr>)
      else None)"

text \<open>\<^verbatim>\<open>WriteRawResponse\<close>: the response is queued, or the timer fires first.\<close>

definition WriteRawResponse :: "bool \<Rightarrow> string \<Rightarrow> WebsocketConnection \<Rightarrow> (bool \<times> WebsocketConnection) option" where
  "WriteRawResponse timeout message conn =
     (if timeout then Some (False, signalClose conn)
      else if length (cn_writeSink conn) < cn_writeCap conn
      then Some (True, conn \<lparr> cn_writeSink := cn_writeSink conn @ [message], cn_queued := cn_queued conn @ [message] \<rparr>)
      else None)"

section \<open>Serving a connection\<close>

text \<open>
  \<^verbatim>\<open>ServeHTTP\<close>: the connection, the hub, the processor of its requests with its storage, the world of the endpoints and the
  wait group of the two goroutines it starts. \<open>sv_cancelled\<close> says that their context is done (that of the connection,
  \<open>cn_cancelled\<close>, derives from it), \<open>sv_finished\<close> that it has returned.
\<close>

record 'w server =
  sv_conn :: WebsocketConnection
  sv_hub :: ConnectionHub
  sv_processor :: bool
  sv_storage :: SafeStorage
  sv_world :: 'w
  sv_pending :: nat
  sv_cancelled :: bool
  sv_finished :: bool

text \<open>The part of the configuration of the node that concerns connections. The write timeout is not handed on.\<close>

record WebsocketNodeConfig =
  nc_WsConnWriteTimeout :: int
  nc_WsConnWriteBufferSize :: int
  nc_WsConnProcessBufferSize :: int

definition connConfig :: "WebsocketNodeConfig \<Rightarrow> string \<Rightarrow> string \<Rightarrow> WebsocketConnectionConfig" where
  "connConfig cfg connectionID origin =
     \<lparr> wc_ConnectionID = connectionID, wc_Origin = origin, wc_WriteTimeout = 0,
       wc_WriteBufferSize = nc_WsConnWriteBufferSize cfg, wc_ProcessBufferSize = nc_WsConnProcessBufferSize cfg,
       wc_PingInterval = 0, wc_PongTimeout = 0 \<rparr>"

definition startServe :: "WebsocketNodeConfig \<Rightarrow> string \<Rightarrow> string \<Rightarrow> ConnectionHub \<Rightarrow> 'w \<Rightarrow> 'w server result" where
  "startServe cfg connectionID origin hub w =
     bindE (NewWebsocketConnection (connConfig cfg connectionID origin)) (\<lambda>connection.
     bindE (Hub_Add (cn_connectionID connection) (cn_origin connection) hub) (\<lambda>hub'.
     Inr \<lparr> sv_conn = snd (Serve connection), sv_hub = hub', sv_processor = True, sv_storage = NewSafeStorage, sv_world = w,
           sv_pending = 2, sv_cancelled = False, sv_finished = False \<rparr>))"

definition cancelServe :: "'w server \<Rightarrow> 'w server" where
  "cancelServe sv = sv \<lparr> sv_conn := (sv_conn sv) \<lparr> cn_cancelled := True \<rparr>, sv_cancelled := True \<rparr>"

text \<open>The closure handler of both goroutines cancels their context.\<close>

definition serveHandleClosure :: "'w server \<Rightarrow> 'w server" where
  "serveHandleClosure sv = (cancelServe sv) \<lparr> sv_pending := sv_pending sv - 1 \<rparr>"

datatype event =
    Cancel
  | Read read_outcome
  | Write write_choice
  | Watch
  | Await
  | ProcessorDone
  | Process rat bool
  | Finish

text \<open>The next frame is handled and its reply queued: \<open>timeout\<close> says whether the write times out. A closed and drained
  channel and a response that cannot be queued end the loop, an error response that cannot be queued does not; a panic
  ends the process.\<close>

definition processNext :: "'w WebsocketNode \<Rightarrow> rat \<Rightarrow> bool \<Rightarrow> 'w server \<Rightarrow> 'w server option" where
  "processNext wn now timeout sv =
     (let conn = sv_conn sv in
      case cn_processSink conn of
        [] \<Rightarrow> if cn_processClosed conn then Some (serveHandleClosure (sv \<lparr> sv_processor := False \<rparr>)) else None
      | messageBytes # rest \<Rightarrow>
          (let conn1 = conn \<lparr> cn_processSink := rest, cn_taken := cn_taken conn @ [messageBytes] \<rparr>;
               (r, s, w) = processRequest wn now messageBytes (sv_storage sv, sv_world sv);
               next_turn = (\<lambda>c. sv \<lparr> sv_conn := c, sv_storage := s, sv_world := w \<rparr>) in
           case r of
             Crash p \<Rightarrow> None
           | NoReply \<Rightarrow> Some (next_turn conn1)
           | ErrorReply responseBytes \<Rightarrow> map_option (\<lambda>(_, c). next_turn c) (WriteRawResponse timeout responseBytes conn1)
           | Reply responseBytes \<Rightarrow>
               map_option (\<lambda>(ok, c). if ok then next_turn c else serveHandleClosure ((next_turn c) \<lparr> sv_processor := False \<rparr>))
                 (WriteRawResponse timeout responseBytes conn1)))"

definition finishServe :: "'w server \<Rightarrow> 'w server option" where
  "finishServe sv =
     (if sv_pending sv = 0
      then Some (sv \<lparr> sv_hub := Hub_Remove (cn_connectionID (sv_conn sv)) (sv_hub sv),
                      sv_conn := (sv_conn sv) \<lparr> cn_wsClosed := True \<rparr>, sv_finished := True \<rparr>)
      else None)"

text \<open>One step of the interleaving; \<open>None\<close> when the goroutine is blocked or has ended.\<close>

definition step :: "'w WebsocketNode \<Rightarrow> event \<Rightarrow> 'w server \<Rightarrow> 'w server option" where
  "step wn ev sv =
     (let conn = sv_conn sv; put = (\<lambda>c. sv \<lparr> sv_conn := c \<rparr>) in
      case ev of
        Cancel \<Rightarrow> Some (cancelServe sv)
      | Read outcome \<Rightarrow> if cn_reader conn then Some (put (readMessages outcome conn)) else None
      | Write choice \<Rightarrow> if cn_writer conn then map_option put (writeMessages choice conn) else None
      | Watch \<Rightarrow> if cn_watcher conn then map_option put (waitForConnClose conn) else None
      | Await \<Rightarrow> if cn_waiter conn then map_option (\<lambda>c. serveHandleClosure (put c)) (awaitGoroutines conn) else None
      | ProcessorDone \<Rightarrow>
          if sv_processor sv \<and> sv_cancelled sv then Some (serveHandleClosure (sv \<lparr> sv_processor := False \<rparr>)) else None
      | Process now timeout \<Rightarrow> if sv_processor sv then processNext wn now timeout sv else None
      | Finish \<Rightarrow> if sv_finished sv then None else finishServe sv)"

text \<open>A run: every event of the list takes a step.\<close>

fun run_events :: "('e \<Rightarrow> 's \<Rightarrow> 's option) \<Rightarrow> 'e list \<Rightarrow> 's \<Rightarrow> 's option" where
  "run_events move [] s = Some s"
| "run_events move (ev # evs) s = Option.bind (move ev s) (run_events move evs)"

locale machine_invariant =
  fixes move :: "'e \<Rightarrow> 's \<Rightarrow> 's option" and inv :: "'s \<Rightarrow> bool"
  assumes move_keeps: "inv s \<Longrightarrow> move ev s = Some s' \<Longrightarrow> inv s'"
begin

lemma run_keeps: "run_events move evs s = Some s' \<Longrightarrow> inv s \<Longrightarrow> inv s'"
  by (induction evs arbitrary: s) (auto simp: bind_eq_Some_conv dest: move_keeps)

end

lemma run_append: "run_events move (evs @ evs') s = Option.bind (run_events move evs s) (run_events move evs')"
  by (induction evs arbitrary: s) (auto split: Option.bind_splits)

end
