(* ===== verification/Connection_Properties.thy ===== *)
theory Connection_Properties
  imports Rpc_Connection
begin

text \<open>
  Closing a connection. The wait group of a connection counts its goroutines; when the socket closes, everything is
  released, and when the queue of incoming frames overflows, the reader leaves without reporting, so that the closure handler
  is never called and the connection stays in the hub.
\<close>

section \<open>Invariants of a served connection\<close>

definition running :: "bool \<Rightarrow> nat" where "running b = (if b then 1 else 0)"

lemma running_simps [simp]: "running True = 1" "running False = 0"
  by (simp_all add: running_def)

text \<open>The wait groups count the goroutines, the closure handler was called once when the waiting goroutine is through, and a
  goroutine that ended has cancelled the contexts.\<close>

definition counted :: "'w server \<Rightarrow> bool" where
  "counted sv = (let c = sv_conn sv in
     cn_pending c = running (cn_reader c) + running (cn_writer c) + running (cn_watcher c) \<and>
     (\<not> (cn_reader c \<and> cn_writer c \<and> cn_watcher c) \<longrightarrow> cn_cancelled c) \<and>
     sv_pending sv = running (cn_waiter c) + running (sv_processor sv) \<and>
     length (cn_closures c) = 1 - running (cn_waiter c) \<and> cn_wsClosed c = (\<not> cn_waiter c) \<and>
     (\<not> cn_waiter c \<longrightarrow> cn_pending c = 0 \<and> sv_cancelled sv) \<and> (sv_finished sv \<longrightarrow> sv_pending sv = 0))"

text \<open>The reader is gone and still counted.\<close>

definition leaked :: "'w server \<Rightarrow> bool" where
  "leaked sv = (let c = sv_conn sv in
     \<not> cn_reader c \<and> cn_waiter c \<and> cn_pending c = Suc (running (cn_writer c) + running (cn_watcher c)) \<and>
     sv_pending sv = Suc (running (sv_processor sv)) \<and> cn_closures c = [] \<and> \<not> cn_wsClosed c \<and> \<not> sv_finished sv)"

definition registered_as :: "string \<Rightarrow> string \<Rightarrow> 'w server \<Rightarrow> bool" where
  "registered_as connID origin sv =
     (cn_connectionID (sv_conn sv) = connID \<and> (\<not> sv_finished sv \<longrightarrow> Hub_Get (sv_hub sv) connID = Some origin))"

text \<open>The part of a connection that its queues do not touch.\<close>

definition life :: "WebsocketConnection \<Rightarrow> string \<times> (bool \<times> bool \<times> bool \<times> bool \<times> bool) \<times> nat \<times> string option list \<times> bool" where
  "life c = (cn_connectionID c, (cn_reader c, cn_writer c, cn_watcher c, cn_waiter c, cn_cancelled c), cn_pending c, cn_closures c, cn_wsClosed c)"

lemma life_simps [simp]:
  "life (c \<lparr> cn_processSink := x, cn_taken := y \<rparr>) = life c"
  "life (c \<lparr> cn_processSink := x, cn_received := y \<rparr>) = life c"
  "life (c \<lparr> cn_writeSink := x, cn_queued := y \<rparr>) = life c"
  "life (c \<lparr> cn_writeSink := x, cn_sent := y \<rparr>) = life c"
  "life (c \<lparr> cn_writeSink := x \<rparr>) = life c"
  "life (signalClose c) = life c"
  by (simp_all add: life_def signalClose_def)

lemma WriteRawResponse_life: "WriteRawResponse timeout m c = Some (ok, c') \<Longrightarrow> life c' = life c"
  by (auto simp: WriteRawResponse_def split: if_splits)

text \<open>Processing a frame, or a step of the writer, leaves the goroutines alone or ends its own.\<close>

lemma processNext_effect:
  assumes "processNext wn now timeout sv = Some sv'"
  shows "(life (sv_conn sv') = life (sv_conn sv) \<and> sv_processor sv' = sv_processor sv \<and> sv_pending sv' = sv_pending sv \<and> sv_cancelled sv' = sv_cancelled sv \<or>
      life (sv_conn sv') = life ((sv_conn sv) \<lparr> cn_cancelled := True \<rparr>) \<and> \<not> sv_processor sv' \<and> sv_pending sv' = sv_pending sv - 1 \<and> sv_cancelled sv') \<and>
    sv_hub sv' = sv_hub sv \<and> sv_finished sv' = sv_finished sv"
proof (cases "cn_processSink (sv_conn sv)")
  case Nil
  then have "sv' = serveHandleClosure (sv \<lparr> sv_processor := False \<rparr>)" using assms by (simp add: processNext_def split: if_splits)
  then show ?thesis by (simp add: serveHandleClosure_def cancelServe_def)
next
  case (Cons m rest)
  obtain r s w where r: "processRequest wn now m (sv_storage sv, sv_world sv) = (r, s, w)"
    by (cases "processRequest wn now m (sv_storage sv, sv_world sv)") auto
  have closed: "life (c \<lparr> cn_cancelled := True \<rparr>) = life (c' \<lparr> cn_cancelled := True \<rparr>)" if "life c = life c'" for c c'
    using that by (simp add: life_def)
  let ?c = "(sv_conn sv) \<lparr> cn_processSink := rest, cn_taken := cn_taken (sv_conn sv) @ [m] \<rparr>"
  consider wire ok c where "r = Reply wire \<or> r = ErrorReply wire \<and> ok" "WriteRawResponse timeout wire ?c = Some (ok, c)"
      "sv' = (if ok then sv \<lparr> sv_conn := c, sv_storage := s, sv_world := w \<rparr>
              else serveHandleClosure (sv \<lparr> sv_conn := c, sv_storage := s, sv_world := w, sv_processor := False \<rparr>))"
    | wire ok c where "WriteRawResponse timeout wire ?c = Some (ok, c)" "sv' = sv \<lparr> sv_conn := c, sv_storage := s, sv_world := w \<rparr>"
    | "sv' = sv \<lparr> sv_conn := ?c, sv_storage := s, sv_world := w \<rparr>"
    using assms Cons r by (cases r) (auto simp: processNext_def Let_def)
  then show ?thesis
  proof cases
    case (1 wire ok c)
    then show ?thesis using WriteRawResponse_life [OF 1(2)] closed [of c "sv_conn sv"] by (cases ok) (simp_all add: serveHandleClosure_def cancelServe_def)
  next
    case (2 wire ok c)
    then show ?thesis using WriteRawResponse_life [OF 2(1)] by simp
  qed simp
qed


text \<open>The steps, by what they do to the goroutines: nothing, cancel the context, end one of the three goroutines with or
  without a report, end the waiting goroutine, end the processor, finish.\<close>

datatype effect = Idle | Cancels | Reports "WebsocketConnection \<Rightarrow> WebsocketConnection" "string option" | Lost | Awaited | Processed | Finished

definition reader_ends :: "WebsocketConnection \<Rightarrow> WebsocketConnection" where "reader_ends c = c \<lparr> cn_reader := False \<rparr>"
definition writer_ends :: "WebsocketConnection \<Rightarrow> WebsocketConnection" where "writer_ends c = c \<lparr> cn_writer := False \<rparr>"
definition watcher_ends :: "WebsocketConnection \<Rightarrow> WebsocketConnection" where "watcher_ends c = c \<lparr> cn_watcher := False \<rparr>"

lemmas ends_defs = reader_ends_def writer_ends_def watcher_ends_def

definition has_effect :: "effect \<Rightarrow> 'w server \<Rightarrow> 'w server \<Rightarrow> bool" where
  "has_effect eff sv sv' = (let c = sv_conn sv; l = life (sv_conn sv');
       same = (sv_cancelled sv' = sv_cancelled sv);
       rest = (sv_processor sv' = sv_processor sv \<and> sv_pending sv' = sv_pending sv \<and> sv_hub sv' = sv_hub sv \<and> sv_finished sv' = sv_finished sv) in
     case eff of
       Idle \<Rightarrow> l = life c \<and> rest \<and> same
     | Cancels \<Rightarrow> l = life (c \<lparr> cn_cancelled := True \<rparr>) \<and> rest \<and> sv_cancelled sv'
     | Reports f err \<Rightarrow> rest \<and> same \<and> (f = reader_ends \<and> cn_reader c \<or> f = writer_ends \<and> cn_writer c \<or> f = watcher_ends \<and> cn_watcher c) \<and>
         l = life (f (childHandleClosure err c))
     | Lost \<Rightarrow> rest \<and> same \<and> cn_reader c \<and> l = life (reader_ends c)
     | Awaited \<Rightarrow> cn_waiter c \<and> cn_pending c = 0 \<and> sv_processor sv' = sv_processor sv \<and> sv_pending sv' = sv_pending sv - 1 \<and>
         sv_hub sv' = sv_hub sv \<and> sv_finished sv' = sv_finished sv \<and> sv_cancelled sv' \<and>
         l = life (c \<lparr> cn_waiter := False, cn_closures := cn_closures c @ [cn_closureErr c], cn_wsClosed := True, cn_cancelled := True \<rparr>)
     | Processed \<Rightarrow> sv_processor sv \<and> \<not> sv_processor sv' \<and> sv_pending sv' = sv_pending sv - 1 \<and> sv_hub sv' = sv_hub sv \<and>
         sv_finished sv' = sv_finished sv \<and> sv_cancelled sv' \<and> l = life (c \<lparr> cn_cancelled := True \<rparr>)
     | Finished \<Rightarrow> sv_pending sv = 0 \<and> sv_processor sv' = sv_processor sv \<and> sv_pending sv' = sv_pending sv \<and> sv_finished sv' \<and> same \<and>
         l = life (c \<lparr> cn_wsClosed := True \<rparr>) \<and> sv_hub sv' = Hub_Remove (cn_connectionID c) (sv_hub sv))"

lemma read_effect:
  assumes "cn_reader (sv_conn sv)"
  shows "has_effect (case outcome of Unexpected err \<Rightarrow> Reports reader_ends (Some err) | NormalClosure \<Rightarrow> Reports reader_ends None
      | Frame m \<Rightarrow> if m = [] \<or> length (cn_processSink (sv_conn sv)) < cn_processCap (sv_conn sv) then Idle else Lost)
    sv (sv \<lparr> sv_conn := readMessages outcome (sv_conn sv) \<rparr>)"
  using assms
  by (cases outcome) (simp_all add: has_effect_def readMessages_def reader_ends_def life_def childHandleClosure_def signalClose_def Let_def)

lemma write_effect:
  assumes "cn_writer (sv_conn sv)" and "writeMessages choice (sv_conn sv) = Some c"
  shows "\<exists>eff. eff \<in> {Idle, Reports writer_ends None} \<and> has_effect eff sv (sv \<lparr> sv_conn := c \<rparr>)"
proof -
  have "life c = life (sv_conn sv) \<or> life c = life (writer_ends (childHandleClosure None (sv_conn sv)))"
  proof (cases choice)
    case (WriteNext ok)
    then show ?thesis using assms(2) by (cases "cn_writeSink (sv_conn sv)") (auto simp: writeMessages_def Let_def split: if_splits)
  qed (use assms(2) in \<open>auto simp: writeMessages_def writer_ends_def split: if_splits\<close>)
  then show ?thesis
  proof
    assume "life c = life (sv_conn sv)"
    then show ?thesis by (intro exI [of _ Idle]) (simp add: has_effect_def Let_def)
  next
    assume "life c = life (writer_ends (childHandleClosure None (sv_conn sv)))"
    then show ?thesis using assms(1) by (intro exI [of _ "Reports writer_ends None"]) (simp add: has_effect_def Let_def)
  qed
qed

lemma step_effect:
  assumes "step wn ev sv = Some sv'"
  shows "\<exists>eff. has_effect eff sv sv' \<and> (eff = Lost \<longrightarrow> (\<exists>m. ev = Read (Frame m)))"
proof (cases ev)
  case Cancel
  then show ?thesis using assms by (intro exI [of _ Cancels]) (auto simp: step_def cancelServe_def has_effect_def Let_def)
next
  case (Read outcome)
  then have "cn_reader (sv_conn sv)" "sv' = sv \<lparr> sv_conn := readMessages outcome (sv_conn sv) \<rparr>"
    using assms by (auto simp: step_def Let_def split: if_splits)
  then show ?thesis using read_effect [of sv outcome] Read by (cases outcome) (auto split: if_splits)
next
  case (Write choice)
  then obtain c where "cn_writer (sv_conn sv)" "writeMessages choice (sv_conn sv) = Some c" "sv' = sv \<lparr> sv_conn := c \<rparr>"
    using assms by (auto simp: step_def Let_def split: if_splits)
  then show ?thesis using write_effect [of sv choice c] by auto
next
  case Watch
  then have "cn_watcher (sv_conn sv)" "sv' = sv \<lparr> sv_conn := watcher_ends (childHandleClosure None (sv_conn sv)) \<rparr>"
    using assms by (auto simp: step_def waitForConnClose_def watcher_ends_def Let_def split: if_splits)
  then show ?thesis by (intro exI [of _ "Reports watcher_ends None"]) (simp add: has_effect_def Let_def)
next
  case Await
  then show ?thesis using assms
    by (intro exI [of _ Awaited]) (auto simp: step_def awaitGoroutines_def serveHandleClosure_def cancelServe_def has_effect_def life_def Let_def split: if_splits)
next
  case ProcessorDone
  then show ?thesis using assms
    by (intro exI [of _ Processed]) (auto simp: step_def serveHandleClosure_def cancelServe_def has_effect_def Let_def split: if_splits)
next
  case (Process now timeout)
  then have "sv_processor sv" "processNext wn now timeout sv = Some sv'" using assms by (auto simp: step_def Let_def split: if_splits)
  then show ?thesis using processNext_effect [of wn now timeout sv sv']
    by (auto simp: has_effect_def Let_def intro: exI [of _ Idle] exI [of _ Processed])
next
  case Finish
  then show ?thesis using assms
    by (intro exI [of _ Finished]) (auto simp: step_def finishServe_def has_effect_def Let_def split: if_splits)
qed


text \<open>The invariants as statements about that part alone.\<close>

type_synonym lifeline = "string \<times> (bool \<times> bool \<times> bool \<times> bool \<times> bool) \<times> nat \<times> string option list \<times> bool"

fun life_counted :: "lifeline \<Rightarrow> bool \<times> nat \<times> bool \<times> bool \<Rightarrow> bool" where
  "life_counted (i, (r, w, t, a, x), p, cl, ws) (pr, q, fin, done) \<longleftrightarrow>
     p = running r + running w + running t \<and> (\<not> (r \<and> w \<and> t) \<longrightarrow> x) \<and> q = running a + running pr \<and>
     length cl = 1 - running a \<and> ws = (\<not> a) \<and> (\<not> a \<longrightarrow> p = 0 \<and> done) \<and> (fin \<longrightarrow> q = 0)"

fun life_leaked :: "lifeline \<Rightarrow> bool \<times> nat \<times> bool \<times> bool \<Rightarrow> bool" where
  "life_leaked (i, (r, w, t, a, x), p, cl, ws) (pr, q, fin, done) \<longleftrightarrow>
     \<not> r \<and> a \<and> p = Suc (running w + running t) \<and> q = Suc (running pr) \<and> cl = [] \<and> \<not> ws \<and> \<not> fin"

lemma counted_iff: "counted sv = life_counted (life (sv_conn sv)) (sv_processor sv, sv_pending sv, sv_finished sv, sv_cancelled sv)"
  by (simp add: counted_def life_def Let_def)

lemma leaked_iff: "leaked sv = life_leaked (life (sv_conn sv)) (sv_processor sv, sv_pending sv, sv_finished sv, sv_cancelled sv)"
  by (simp add: leaked_def life_def Let_def)

lemma life_effect:
  assumes "has_effect eff sv sv'" and "life (sv_conn sv) = (i, (r, w, t, a, x), p, cl, ws)"
  shows "case eff of
      Idle \<Rightarrow> life (sv_conn sv') = (i, (r, w, t, a, x), p, cl, ws)
    | Cancels \<Rightarrow> life (sv_conn sv') = (i, (r, w, t, a, True), p, cl, ws)
    | Reports f err \<Rightarrow> life (sv_conn sv') \<in> {(i, (False, w, t, a, True), p - 1, cl, ws) |_. r} \<union>
        {(i, (r, False, t, a, True), p - 1, cl, ws) |_. w} \<union> {(i, (r, w, False, a, True), p - 1, cl, ws) |_. t}
    | Lost \<Rightarrow> r \<and> life (sv_conn sv') = (i, (False, w, t, a, x), p, cl, ws)
    | Awaited \<Rightarrow> a \<and> p = 0 \<and> life (sv_conn sv') = (i, (r, w, t, False, True), p, cl @ [cn_closureErr (sv_conn sv)], True)
    | Processed \<Rightarrow> life (sv_conn sv') = (i, (r, w, t, a, True), p, cl, ws)
    | Finished \<Rightarrow> life (sv_conn sv') = (i, (r, w, t, a, x), p, cl, True)"
proof (cases eff)
  case (Reports f err)
  have f: "f = reader_ends \<and> r \<or> f = writer_ends \<and> w \<or> f = watcher_ends \<and> t" "life (sv_conn sv') = life (f (childHandleClosure err (sv_conn sv)))"
    using assms Reports by (auto simp: has_effect_def life_def Let_def)
  from f(1) show ?thesis
    by (elim disjE conjE) (use assms(2) f(2) Reports in \<open>simp_all add: life_def childHandleClosure_def ends_defs\<close>)
qed (use assms in \<open>simp_all add: has_effect_def life_def reader_ends_def Let_def\<close>)

lemma effect_rest:
  assumes "has_effect eff sv sv'"
  shows "(sv_processor sv', sv_pending sv', sv_finished sv') =
    (case eff of Awaited \<Rightarrow> (sv_processor sv, sv_pending sv - 1, sv_finished sv) | Processed \<Rightarrow> (False, sv_pending sv - 1, sv_finished sv)
     | Finished \<Rightarrow> (sv_processor sv, 0, True) | _ \<Rightarrow> (sv_processor sv, sv_pending sv, sv_finished sv)) \<and>
    (sv_cancelled sv \<or> eff \<in> {Cancels, Awaited, Processed} \<longrightarrow> sv_cancelled sv') \<and> (eff = Processed \<longrightarrow> sv_processor sv) \<and> (eff = Finished \<longrightarrow> sv_pending sv = 0)"
  using assms by (cases eff) (simp_all add: has_effect_def Let_def)

lemma effect_counted:
  assumes "counted sv" and "has_effect eff sv sv'" and "eff \<noteq> Lost"
  shows "counted sv'"
proof -
  obtain i r w t a x p cl ws where l: "life (sv_conn sv) = (i, (r, w, t, a, x), p, cl, ws)" by (metis prod.exhaust)
  show ?thesis using assms(1,3) life_effect [OF assms(2) l] effect_rest [OF assms(2)] l unfolding counted_iff
    by (cases eff) (auto simp: running_def split: if_splits)
qed

lemma effect_leaked:
  assumes "leaked sv" and "has_effect eff sv sv'"
  shows "leaked sv'"
proof -
  obtain i r w t a x p cl ws where l: "life (sv_conn sv) = (i, (r, w, t, a, x), p, cl, ws)" by (metis prod.exhaust)
  show ?thesis using assms(1) life_effect [OF assms(2) l] effect_rest [OF assms(2)] l unfolding leaked_iff
    by (cases eff) (auto simp: running_def split: if_splits)
qed

lemma lost_leaks:
  assumes "counted sv" and "has_effect Lost sv sv'"
  shows "leaked sv'"
proof -
  obtain i r w t a x p cl ws where l: "life (sv_conn sv) = (i, (r, w, t, a, x), p, cl, ws)" by (metis prod.exhaust)
  show ?thesis using assms(1) life_effect [OF assms(2) l] effect_rest [OF assms(2)] l unfolding leaked_iff counted_iff
    by (auto simp: running_def split: if_splits)
qed

lemma effect_registered:
  assumes "registered_as connID origin sv" and "has_effect eff sv sv'"
  shows "registered_as connID origin sv'"
proof -
  obtain i r w t a x p cl ws where l: "life (sv_conn sv) = (i, (r, w, t, a, x), p, cl, ws)" by (metis prod.exhaust)
  have "fst (life (sv_conn sv')) = i" using life_effect [OF assms(2) l] by (cases eff) auto
  then have "cn_connectionID (sv_conn sv') = cn_connectionID (sv_conn sv)" using l by (simp add: life_def)
  moreover have "\<not> sv_finished sv' \<Longrightarrow> sv_hub sv' = sv_hub sv \<and> \<not> sv_finished sv"
    using assms(2) by (cases eff) (simp_all add: has_effect_def Let_def)
  ultimately show ?thesis using assms(1) by (auto simp: registered_as_def)
qed

definition served :: "'w server \<Rightarrow> bool" where
  "served sv = (counted sv \<or> leaked sv)"

interpretation serving: machine_invariant "step wn" served for wn
proof
  fix sv ev sv' assume "served sv" "step wn ev sv = Some sv'"
  moreover from this obtain eff where "has_effect eff sv sv'" using step_effect by blast
  ultimately show "served sv'" using effect_counted effect_leaked lost_leaks unfolding served_def by blast
qed

interpretation leaking: machine_invariant "step wn" leaked for wn
  by unfold_locales (use step_effect effect_leaked in blast)

interpretation registering: machine_invariant "step wn" "registered_as connID origin" for wn connID origin
  by unfold_locales (use step_effect effect_registered in blast)

lemma started:
  assumes "startServe cfg connID origin hub w = Inr sv"
  shows "counted sv \<and> (\<exists>source. registered_as connID source sv)"
proof -
  obtain c where c: "NewWebsocketConnection (connConfig cfg connID origin) = Inr c" using assms by (auto simp: startServe_def)
  then have fresh: "cn_connectionID c = connID" "\<not> cn_ctx c" "cn_closures c = []" "\<not> cn_wsClosed c"
    by (auto simp: NewWebsocketConnection_def connConfig_def Let_def split: if_splits)
  have "sv_conn sv = snd (Serve c)" "sv_processor sv" "sv_pending sv = 2" "\<not> sv_finished sv"
      "Hub_Get (sv_hub sv) (cn_connectionID c) = Some (cn_origin c)"
    using assms c by (auto simp: startServe_def Hub_Add_def Hub_Get_def split: if_splits)
  then show ?thesis using fresh by (simp add: counted_def registered_as_def Serve_def)
qed

section \<open>Releasing a connection\<close>

text \<open>Once the reader has ended with a report, the other goroutines can end one after the other.\<close>

lemma release_writer:
  assumes "counted sv" and "\<not> cn_reader (sv_conn sv)" and "\<not> sv_finished sv"
  shows "\<exists>evs sv'. run_events (step wn) evs sv = Some sv' \<and> counted sv' \<and> \<not> sv_finished sv' \<and>
    \<not> cn_reader (sv_conn sv') \<and> \<not> cn_writer (sv_conn sv')"
proof (cases "cn_writer (sv_conn sv)")
  case True
  let ?sv = "sv \<lparr> sv_conn := writer_ends (childHandleClosure None (sv_conn sv)) \<rparr>"
  have "cn_cancelled (sv_conn sv)" using assms by (simp add: counted_def Let_def)
  then have "step wn (Write WriterDone) sv = Some ?sv" using True by (simp add: step_def writeMessages_def writer_ends_def Let_def)
  moreover have "has_effect (Reports writer_ends None) sv ?sv" using True by (simp add: has_effect_def Let_def)
  then have "counted ?sv" using effect_counted assms(1) by blast
  ultimately show ?thesis using assms(2,3)
    by (intro exI [of _ "[Write WriterDone]"] exI [of _ ?sv]) (simp add: writer_ends_def childHandleClosure_def)
qed (use assms in \<open>auto intro!: exI [of _ "[]"]\<close>)

lemma release_watcher:
  assumes "counted sv" and "\<not> cn_reader (sv_conn sv)" and "\<not> sv_finished sv" and "\<not> cn_writer (sv_conn sv)"
  shows "\<exists>evs sv'. run_events (step wn) evs sv = Some sv' \<and> counted sv' \<and> \<not> sv_finished sv' \<and> cn_pending (sv_conn sv') = 0"
proof (cases "cn_watcher (sv_conn sv)")
  case True
  let ?sv = "sv \<lparr> sv_conn := watcher_ends (childHandleClosure None (sv_conn sv)) \<rparr>"
  have "cn_cancelled (sv_conn sv)" "cn_pending (sv_conn sv) = 1" using assms True by (simp_all add: counted_def Let_def)
  then have "step wn Watch sv = Some ?sv" using True by (simp add: step_def waitForConnClose_def watcher_ends_def Let_def)
  moreover have "has_effect (Reports watcher_ends None) sv ?sv" using True by (simp add: has_effect_def Let_def)
  then have "counted ?sv" using effect_counted assms(1) by blast
  ultimately show ?thesis using assms \<open>cn_pending (sv_conn sv) = 1\<close>
    by (intro exI [of _ "[Watch]"] exI [of _ ?sv]) (simp add: watcher_ends_def childHandleClosure_def)
next
  case False
  then show ?thesis using assms by (intro exI [of _ "[]"]) (simp add: counted_def Let_def)
qed

lemma release_waiter:
  assumes "counted sv" and "\<not> sv_finished sv" and "cn_pending (sv_conn sv) = 0"
  shows "\<exists>evs sv'. run_events (step wn) evs sv = Some sv' \<and> counted sv' \<and> \<not> sv_finished sv' \<and>
    sv_cancelled sv' \<and> \<not> cn_waiter (sv_conn sv')"
proof (cases "cn_waiter (sv_conn sv)")
  case True
  then obtain sv' where s: "step wn Await sv = Some sv'" using assms(3) by (simp add: step_def awaitGoroutines_def Let_def)
  then have "sv_finished sv' = sv_finished sv" "\<not> cn_waiter (sv_conn sv')" "sv_cancelled sv'"
    using True assms(3) by (auto simp: step_def awaitGoroutines_def serveHandleClosure_def cancelServe_def Let_def)
  moreover obtain eff where "has_effect eff sv sv'" "eff \<noteq> Lost" using step_effect [OF s] by auto
  then have "counted sv'" using effect_counted assms(1) by blast
  ultimately show ?thesis using s assms(2) by (intro exI [of _ "[Await]"] exI [of _ sv']) simp
next
  case False
  have "sv_cancelled sv" using assms(1) False by (simp add: counted_def Let_def)
  then show ?thesis using assms False by (intro exI [of _ "[]"]) simp
qed

lemma release_server:
  assumes "counted sv" and "\<not> sv_finished sv" and "sv_cancelled sv" and "\<not> cn_waiter (sv_conn sv)"
  shows "\<exists>evs sv'. run_events (step wn) evs sv = Some sv' \<and> counted sv' \<and> sv_finished sv' \<and>
    Hub_Get (sv_hub sv') (cn_connectionID (sv_conn sv)) = None"
proof -
  obtain evs sv1 where e: "run_events (step wn) evs sv = Some sv1" "counted sv1" "\<not> sv_finished sv1" "sv_pending sv1 = 0"
      "cn_connectionID (sv_conn sv1) = cn_connectionID (sv_conn sv)"
  proof (cases "sv_processor sv")
    case True
    let ?sv = "serveHandleClosure (sv \<lparr> sv_processor := False \<rparr>)"
    have s: "step wn ProcessorDone sv = Some ?sv" using True assms(3) by (simp add: step_def)
    then obtain eff where "has_effect eff sv ?sv" "eff \<noteq> Lost" using step_effect [OF s] by auto
    then have "counted ?sv" using effect_counted assms(1) by blast
    moreover have "sv_pending sv = 1" using assms(1,4) True by (simp add: counted_def Let_def)
    ultimately show ?thesis using that [of "[ProcessorDone]" ?sv] s assms(2) by (simp add: serveHandleClosure_def cancelServe_def)
  next
    case False
    then have "sv_pending sv = 0" using assms(1,4) by (simp add: counted_def Let_def)
    then show ?thesis using that [of "[]" sv] assms by simp
  qed
  obtain sv2 where s: "step wn Finish sv1 = Some sv2" using e(3,4) by (simp add: step_def finishServe_def)
  then have f: "sv_finished sv2" "sv_hub sv2 = Hub_Remove (cn_connectionID (sv_conn sv1)) (sv_hub sv1)"
    using e(3,4) by (auto simp: step_def finishServe_def)
  obtain eff where "has_effect eff sv1 sv2" "eff \<noteq> Lost" using step_effect [OF s] by auto
  then have "counted sv2" using effect_counted e(2) by blast
  moreover have "Hub_Get (sv_hub sv2) (cn_connectionID (sv_conn sv)) = None"
    using f(2) e(5) by (auto simp: Hub_Remove_def Hub_Get_def gm_get_def gm_delete_def map_of_eq_None_iff split: option.splits)
  ultimately show ?thesis using e(1) s f(1) by (intro exI [of _ "evs @ [Finish]"] exI [of _ sv2]) (simp add: run_append)
qed


lemma release_all:
  assumes "counted sv" and "\<not> cn_reader (sv_conn sv)" and "\<not> sv_finished sv" and "registered_as connID origin sv"
  shows "\<exists>evs sv'. run_events (step wn) evs sv = Some sv' \<and> sv_finished sv' \<and> length (cn_closures (sv_conn sv')) = 1 \<and>
    cn_wsClosed (sv_conn sv') \<and> Hub_Get (sv_hub sv') connID = None"
proof -
  obtain e1 s1 where 1: "run_events (step wn) e1 sv = Some s1" "counted s1" "\<not> sv_finished s1" "\<not> cn_reader (sv_conn s1)" "\<not> cn_writer (sv_conn s1)"
    using release_writer [OF assms(1-3)] by blast
  obtain e2 s2 where 2: "run_events (step wn) e2 s1 = Some s2" "counted s2" "\<not> sv_finished s2" "cn_pending (sv_conn s2) = 0"
    using release_watcher [OF 1(2,4,3,5)] by blast
  obtain e3 s3 where 3: "run_events (step wn) e3 s2 = Some s3" "counted s3" "\<not> sv_finished s3" "sv_cancelled s3" "\<not> cn_waiter (sv_conn s3)"
    using release_waiter [OF 2(2-4)] by blast
  obtain e4 s4 where 4: "run_events (step wn) e4 s3 = Some s4" "counted s4" "sv_finished s4" "Hub_Get (sv_hub s4) (cn_connectionID (sv_conn s3)) = None"
    using release_server [OF 3(2-5)] by blast
  have run3: "run_events (step wn) (e1 @ e2 @ e3) sv = Some s3" using 1(1) 2(1) 3(1) by (simp add: run_append)
  have "cn_connectionID (sv_conn s3) = connID" using registering.run_keeps [OF run3 assms(4)] by (simp add: registered_as_def)
  moreover have "length (cn_closures (sv_conn s4)) = 1" "cn_wsClosed (sv_conn s4)"
    using 4(2,3) by (auto simp: counted_def Let_def running_def split: if_splits)
  moreover have "run_events (step wn) ((e1 @ e2 @ e3) @ e4) sv = Some s4" by (subst run_append) (simp only: run3 bind.bind_lunit 4(1))
  ultimately show ?thesis using 4(3,4) by blast
qed

text \<open>
  C40. How a connection ends, over every interleaving of its goroutines with those of the node. When the reader stops because
  the socket closed or failed, everything can still end: the closure handler is called exactly once, the socket is closed and
  the connection leaves the hub. When the reader stops because the queue of incoming frames is full, nothing of this
  ever happens, whatever steps follow: the reader returns without reporting its end, so the wait group never reaches zero.
\<close>

theorem connection_release:
  assumes "startServe cfg connID origin hub w = Inr sv0" and "run_events (step wn) evs sv0 = Some sv"
    and "step wn (Read outcome) sv = Some sv1" and "\<not> cn_reader (sv_conn sv1)"
  shows "case outcome of
      Frame m \<Rightarrow> cn_processCap (sv_conn sv) \<le> length (cn_processSink (sv_conn sv)) \<and>
        (\<forall>evs' sv2. run_events (step wn) evs' sv1 = Some sv2 \<longrightarrow> \<not> sv_finished sv2 \<and> cn_closures (sv_conn sv2) = [] \<and>
           \<not> cn_wsClosed (sv_conn sv2) \<and> Hub_Get (sv_hub sv2) connID \<noteq> None)
    | _ \<Rightarrow> \<exists>evs' sv2. run_events (step wn) evs' sv1 = Some sv2 \<and> sv_finished sv2 \<and> length (cn_closures (sv_conn sv2)) = 1 \<and>
        cn_wsClosed (sv_conn sv2) \<and> Hub_Get (sv_hub sv2) connID = None"
proof -
  obtain source where reg0: "registered_as connID source sv0" and c0: "counted sv0" using started [OF assms(1)] by blast
  have reader: "cn_reader (sv_conn sv)" and sv1: "sv1 = sv \<lparr> sv_conn := readMessages outcome (sv_conn sv) \<rparr>"
    using assms(3) by (auto simp: step_def Let_def split: if_splits)
  have "served sv" using serving.run_keeps [OF assms(2)] c0 by (simp add: served_def)
  then have c: "counted sv" using reader by (auto simp: served_def leaked_def Let_def)
  have reg: "registered_as connID source sv1"
    using registering.run_keeps [OF assms(2) reg0] registering.move_keeps [OF _ assms(3)] by blast
  note eff = read_effect [OF reader, of outcome, folded sv1]
  show ?thesis
  proof (cases outcome)
    case (Frame m)
    have full: "m \<noteq> []" "\<not> length (cn_processSink (sv_conn sv)) < cn_processCap (sv_conn sv)"
      using assms(4) reader sv1 Frame by (auto simp: readMessages_def split: if_splits)
    then have l: "leaked sv1" using lost_leaks [OF c] eff Frame by simp
    have "\<not> sv_finished sv2 \<and> cn_closures (sv_conn sv2) = [] \<and> \<not> cn_wsClosed (sv_conn sv2) \<and>
        Hub_Get (sv_hub sv2) connID \<noteq> None" if "run_events (step wn) evs' sv1 = Some sv2" for evs' sv2
      using leaking.run_keeps [OF that l] registering.run_keeps [OF that reg] by (simp add: leaked_def registered_as_def Let_def)
    then show ?thesis using Frame full(2) by simp
  next
    case (Unexpected err)
    then have "counted sv1" "\<not> sv_finished sv1" using effect_counted [OF c eff] eff c reader
      by (auto simp: has_effect_def counted_def Let_def running_def split: if_splits)
    from release_all [OF this(1) assms(4) this(2) reg] show ?thesis using Unexpected by simp
  next
    case NormalClosure
    then have "counted sv1" "\<not> sv_finished sv1" using effect_counted [OF c eff] eff c reader
      by (auto simp: has_effect_def counted_def Let_def running_def split: if_splits)
    from release_all [OF this(1) assms(4) this(2) reg] show ?thesis using NormalClosure by simp
  qed
qed

text \<open>A connection with room for one frame: the second frame, sent before the first is taken up, leaves it stuck.\<close>

definition flood_config :: WebsocketNodeConfig where
  "flood_config = \<lparr> nc_WsConnWriteTimeout = 0, nc_WsConnWriteBufferSize = 1, nc_WsConnProcessBufferSize = 1 \<rparr>"

definition flood_start :: "nat server" where
  "flood_start = (case startServe flood_config ''c1'' ''app'' NewConnectionHub 0 of Inr sv \<Rightarrow> sv)"

definition flood_node :: "nat WebsocketNode" where "flood_node = NewWebsocketNode"

definition flooded :: "nat server" where
  "flooded = the (run_events (step flood_node) [Read (Frame ''x'')] flood_start)"

lemma flood_connection:
  "startServe flood_config ''c1'' ''app'' NewConnectionHub 0 = Inr flood_start"
  "cn_reader (sv_conn flood_start)" "cn_processSink (sv_conn flood_start) = []" "cn_processCap (sv_conn flood_start) = 1"
  by (simp_all add: flood_start_def startServe_def connConfig_def NewWebsocketConnection_def Serve_def flood_config_def Hub_Add_def NewConnectionHub_def gm_get_def Let_def)

theorem connection_release_witness:
  "\<exists>sv1. step flood_node (Read (Frame ''y'')) flooded = Some sv1 \<and> (\<forall>evs' sv2. run_events (step flood_node) evs' sv1 = Some sv2 \<longrightarrow>
     \<not> sv_finished sv2 \<and> cn_closures (sv_conn sv2) = [] \<and> Hub_Get (sv_hub sv2) ''c1'' \<noteq> None)"
proof -
  have r: "run_events (step flood_node) [Read (Frame ''x'')] flood_start = Some flooded"
    and f: "cn_reader (sv_conn flooded)" "cn_processSink (sv_conn flooded) = [''x'']" "cn_processCap (sv_conn flooded) = 1"
    using flood_connection(2-4) by (simp_all add: flooded_def step_def readMessages_def Let_def)
  then obtain sv1 where s: "step flood_node (Read (Frame ''y'')) flooded = Some sv1" "\<not> cn_reader (sv_conn sv1)"
    by (simp add: step_def readMessages_def signalClose_def Let_def)
  show ?thesis using s(1) connection_release [OF flood_connection(1) r s] by auto
qed

end
