(* ===== verification/Rpc_Dialer.thy ===== *)
theory Rpc_Dialer
  imports Connection_Properties
begin

text \<open>
  \<^verbatim>\<open>src/pkg/rpc/dialer.go\<close>: the client side of a connection. The goroutines of the dialer (reader, closer, the one that
  waits for both) and the callers are interleaved by events, as in \<open>Rpc_Connection\<close>, from one \<^verbatim>\<open>Dial\<close> until the connection ends.
  Every call makes one response channel, of capacity one; it is named by the position of the call in \<open>di_calls\<close>.
\<close>

section \<open>The dialer\<close>

record WebsocketDialerConfig =
  dc_HandshakeTimeout :: int
  dc_PingTimeout :: int
  dc_EventChanSize :: nat

definition DefaultWebsocketDialerConfig :: WebsocketDialerConfig where
  "DefaultWebsocketDialerConfig = \<lparr> dc_HandshakeTimeout = 5000, dc_PingTimeout = 15000, dc_EventChanSize = 100 \<rparr>"

datatype call_phase = Sending | Waiting | Cleaning "Message option" | Returned "Message result"

record call =
  ca_req :: Message
  ca_phase :: call_phase
  ca_buffer :: "Message option"
  ca_closed :: bool

record WebsocketDialer =
  di_cfg :: WebsocketDialerConfig
  di_dialled :: bool
  di_done :: bool
  di_closer :: bool
  di_reader :: bool
  di_waiter :: bool
  di_pending :: nat
  di_closureErr :: "go_error option"
  di_closures :: "go_error option list"
  di_eventCh :: "Message list"
  di_responseSinks :: "(uint64, nat) gomap"
  di_calls :: "call list"
  di_routing :: "(Message \<times> nat option) option"
  di_panic :: "string option"

definition NewWebsocketDialer :: "WebsocketDialerConfig \<Rightarrow> WebsocketDialer" where
  "NewWebsocketDialer cfg =
     \<lparr> di_cfg = (if dc_PingTimeout cfg \<le> 0 then cfg \<lparr> dc_PingTimeout := dc_PingTimeout DefaultWebsocketDialerConfig \<rparr> else cfg),
       di_dialled = False, di_done = False, di_closer = False, di_reader = False, di_waiter = False, di_pending = 0,
       di_closureErr = None, di_closures = [], di_eventCh = [], di_responseSinks = [], di_calls = [], di_routing = None,
       di_panic = None \<rparr>"

definition IsConnected :: "WebsocketDialer \<Rightarrow> bool" where
  "IsConnected d = (di_dialled d \<and> \<not> di_done d)"

text \<open>\<open>handshake\<close> is the error of connecting, \<open>deadline\<close> that of setting the first read deadline.\<close>

definition Dial :: "go_error option \<Rightarrow> go_error option \<Rightarrow> WebsocketDialer \<Rightarrow> WebsocketDialer result" where
  "Dial handshake deadline d =
     (if IsConnected d then Inl (Err ''already connected'')
      else case handshake of
        Some err \<Rightarrow> Inl (wrap_error ''error dialing websocket server'' err)
      | None \<Rightarrow>
          (case deadline of
             Some err \<Rightarrow> Inl err
           | None \<Rightarrow> Inr (d \<lparr> di_dialled := True, di_done := False, di_closer := True, di_reader := True, di_waiter := True,
               di_pending := 2, di_closureErr := None, di_eventCh := [] \<rparr>)))"

definition dialHandleClosure :: "go_error option \<Rightarrow> WebsocketDialer \<Rightarrow> WebsocketDialer" where
  "dialHandleClosure err d =
     d \<lparr> di_closureErr := (if err \<noteq> None \<and> di_closureErr d = None then err else di_closureErr d),
         di_done := True, di_pending := di_pending d - 1 \<rparr>"

section \<open>Reading and routing\<close>

definition close_sinks :: "nat list \<Rightarrow> call list \<Rightarrow> call list" where
  "close_sinks ks cs = map (\<lambda>k. if k \<in> set ks then (cs ! k) \<lparr> ca_closed := True \<rparr> else cs ! k) [0..<length cs]"

definition closeOnContextDone :: "go_error option \<Rightarrow> WebsocketDialer \<Rightarrow> WebsocketDialer option" where
  "closeOnContextDone err d =
     (if di_closer d \<and> di_done d
      then Some (dialHandleClosure err (d \<lparr> di_closer := False, di_responseSinks := [],
             di_calls := close_sinks (map snd (di_responseSinks d)) (di_calls d) \<rparr>))
      else None)"

datatype dial_read = Incoming string | TimedOut go_error | ReadFailed go_error

definition dialReadMessages :: "dial_read \<Rightarrow> WebsocketDialer \<Rightarrow> WebsocketDialer option" where
  "dialReadMessages outcome d =
     (if \<not> di_reader d \<or> di_routing d \<noteq> None then None
      else Some (if di_done d then dialHandleClosure None (d \<lparr> di_reader := False \<rparr>)
        else case outcome of
          TimedOut err \<Rightarrow> dialHandleClosure (Some (wrap_error ''websocket connection timeout'' err)) (d \<lparr> di_reader := False \<rparr>)
        | ReadFailed err \<Rightarrow> dialHandleClosure (Some (wrap_error ''error reading message'' err)) (d \<lparr> di_reader := False \<rparr>)
        | Incoming messageBytes \<Rightarrow>
            (case UnmarshalJSON messageBytes zero_message of
               (Inl _, _) \<Rightarrow> d
             | (Inr _, msg) \<Rightarrow> d \<lparr> di_routing := Some (msg, gm_get (di_responseSinks d) (m_RequestID msg)) \<rparr>)))"

text \<open>The \<^verbatim>\<open>select\<close> that hands the message on, outside the lock: the context may be done, the send may be possible, and only
  when neither holds is the message dropped. A send to a channel that was closed meanwhile panics.\<close>

definition routeMessage :: "bool \<Rightarrow> WebsocketDialer \<Rightarrow> WebsocketDialer option" where
  "routeMessage stop d =
     (case di_routing d of
        None \<Rightarrow> None
      | Some (msg, target) \<Rightarrow>
          (let d' = d \<lparr> di_routing := None \<rparr>; dropped = (if di_done d then None else Some d') in
           if stop then if di_done d then Some (dialHandleClosure None (d' \<lparr> di_reader := False \<rparr>)) else None
           else case target of
             None \<Rightarrow> if length (di_eventCh d) < dc_EventChanSize (di_cfg d) then Some (d' \<lparr> di_eventCh := di_eventCh d @ [msg] \<rparr>)
                     else dropped
           | Some k \<Rightarrow>
               (let c = di_calls d ! k in
                if ca_closed c then Some (d \<lparr> di_panic := Some ''send on closed channel'' \<rparr>)
                else if ca_buffer c = None then Some (d' \<lparr> di_calls := (di_calls d)[k := c \<lparr> ca_buffer := Some msg \<rparr>] \<rparr>)
                else dropped)))"

definition awaitDialer :: "WebsocketDialer \<Rightarrow> WebsocketDialer option" where
  "awaitDialer d =
     (if di_waiter d \<and> di_pending d = 0 then Some (d \<lparr> di_waiter := False, di_closures := di_closures d @ [di_closureErr d] \<rparr>) else None)"

section \<open>Calls\<close>

definition startCall :: "Message \<Rightarrow> WebsocketDialer \<Rightarrow> WebsocketDialer" where
  "startCall req d =
     (let c = \<lparr> ca_req = req, ca_phase = Sending, ca_buffer = None, ca_closed = False \<rparr> in
      if \<not> IsConnected d then d \<lparr> di_calls := di_calls d @ [c \<lparr> ca_phase := Returned (Inl (Err ''not connected to server'')) \<rparr>] \<rparr>
      else d \<lparr> di_calls := di_calls d @ [c], di_responseSinks := gm_put (m_RequestID req) (length (di_calls d)) (di_responseSinks d) \<rparr>)"

definition set_phase :: "nat \<Rightarrow> call_phase \<Rightarrow> WebsocketDialer \<Rightarrow> WebsocketDialer" where
  "set_phase k ph d = d \<lparr> di_calls := (di_calls d)[k := (di_calls d ! k) \<lparr> ca_phase := ph \<rparr>] \<rparr>"

definition dropSink :: "nat \<Rightarrow> WebsocketDialer \<Rightarrow> WebsocketDialer" where
  "dropSink k d = d \<lparr> di_responseSinks := gm_delete (m_RequestID (ca_req (di_calls d ! k))) (di_responseSinks d) \<rparr>"

text \<open>A request that cannot be encoded leaves its channel registered.\<close>

definition sendCall :: "nat \<Rightarrow> go_error option \<Rightarrow> WebsocketDialer \<Rightarrow> WebsocketDialer option" where
  "sendCall k failure d =
     (if k < length (di_calls d) \<and> ca_phase (di_calls d ! k) = Sending
      then Some (case MarshalJSON (ca_req (di_calls d ! k)) of
          Inl err \<Rightarrow> set_phase k (Returned (Inl (wrap_error ''error marshaling request'' err))) d
        | Inr reqJSON \<Rightarrow>
            (case failure of
               Some err \<Rightarrow> set_phase k (Returned (Inl (wrap_error ''error sending request'' err))) (dropSink k d)
             | None \<Rightarrow> set_phase k Waiting d))
      else None)"

datatype wake_reason = CallCancelled | ConnectionDone | Answered

definition wakeCall :: "nat \<Rightarrow> wake_reason \<Rightarrow> WebsocketDialer \<Rightarrow> WebsocketDialer option" where
  "wakeCall k reason d =
     (let c = di_calls d ! k in
      if k < length (di_calls d) \<and> ca_phase c = Waiting
      then case reason of
        CallCancelled \<Rightarrow> Some (set_phase k (Cleaning None) d)
      | ConnectionDone \<Rightarrow> if di_done d then Some (set_phase k (Cleaning None) d) else None
      | Answered \<Rightarrow>
          (case ca_buffer c of
             Some res \<Rightarrow> Some (d \<lparr> di_calls := (di_calls d)[k := c \<lparr> ca_buffer := None, ca_phase := Cleaning (Some res) \<rparr>] \<rparr>)
           | None \<Rightarrow> if ca_closed c then Some (set_phase k (Cleaning None) d) else None)
      else None)"

definition returnCall :: "nat \<Rightarrow> WebsocketDialer \<Rightarrow> WebsocketDialer option" where
  "returnCall k d =
     (if k < length (di_calls d)
      then case ca_phase (di_calls d ! k) of
        Cleaning res \<Rightarrow> Some (set_phase k (Returned (case res of None \<Rightarrow> Inl (Err ''no response received'') | Some m \<Rightarrow> Inr m)) (dropSink k d))
      | _ \<Rightarrow> None
      else None)"

section \<open>Runs\<close>

datatype dialer_event =
    ParentCancel
  | CloseConn "go_error option"
  | ReadNext dial_read
  | Route bool
  | AwaitBoth
  | StartCall Message
  | SendCall nat "go_error option"
  | WakeCall nat wake_reason
  | ReturnCall nat

definition dialer_step :: "dialer_event \<Rightarrow> WebsocketDialer \<Rightarrow> WebsocketDialer option" where
  "dialer_step ev d =
     (if di_panic d \<noteq> None then None
      else case ev of
        ParentCancel \<Rightarrow> Some (d \<lparr> di_done := True \<rparr>)
      | CloseConn err \<Rightarrow> closeOnContextDone err d
      | ReadNext outcome \<Rightarrow> dialReadMessages outcome d
      | Route stop \<Rightarrow> routeMessage stop d
      | AwaitBoth \<Rightarrow> awaitDialer d
      | StartCall req \<Rightarrow> Some (startCall req d)
      | SendCall k failure \<Rightarrow> sendCall k failure d
      | WakeCall k reason \<Rightarrow> wakeCall k reason d
      | ReturnCall k \<Rightarrow> returnCall k d)"

section \<open>Answers belong to their calls\<close>

definition answered :: "call \<Rightarrow> bool" where
  "answered c = (\<forall>m. ca_buffer c = Some m \<or> ca_phase c = Cleaning (Some m) \<or> ca_phase c = Returned (Inr m) \<longrightarrow>
     m_RequestID m = m_RequestID (ca_req c))"

text \<open>What is registered, on its way or delivered carries the identifier of the request.\<close>

definition owned :: "Message list \<Rightarrow> uint64 \<Rightarrow> nat \<Rightarrow> bool" where
  "owned reqs rid k = (k < length reqs \<and> m_RequestID (reqs ! k) = rid)"

definition matched :: "WebsocketDialer \<Rightarrow> bool" where
  "matched d = (let reqs = map ca_req (di_calls d) in
     (\<forall>rid k. gm_get (di_responseSinks d) rid = Some k \<longrightarrow> owned reqs rid k) \<and>
     (\<forall>msg k. di_routing d = Some (msg, Some k) \<longrightarrow> owned reqs (m_RequestID msg) k) \<and>
     list_all answered (di_calls d))"

lemma gm_get_delete: "gm_get (gm_delete k m) k' = (if k' = k then None else gm_get m k')"
  by (induction m) (auto simp: gm_get_def gm_delete_def)

lemma answered_update:
  assumes "list_all answered cs" and "answered c"
  shows "list_all answered (cs[k := c])"
  using assms set_update_subset_insert [of cs k c] by (auto simp: list_all_iff)

lemma reqs_update: "ca_req c = ca_req (cs ! k) \<Longrightarrow> map ca_req (cs[k := c]) = map ca_req cs"
  by (cases "k < length cs") (simp_all add: map_update list_update_same_conv list_update_beyond)

lemma matched_phase:
  assumes "matched d" and "k < length (di_calls d)"
    and "\<And>m. ph = Cleaning (Some m) \<or> ph = Returned (Inr m) \<Longrightarrow> m_RequestID m = m_RequestID (ca_req (di_calls d ! k))"
  shows "matched (set_phase k ph d)"
proof -
  have "answered ((di_calls d ! k) \<lparr> ca_phase := ph \<rparr>)"
    using assms by (auto simp: matched_def Let_def list_all_length answered_def)
  then show ?thesis using assms(1) by (simp add: matched_def set_phase_def Let_def reqs_update answered_update)
qed

lemma matched_drop: "matched d \<Longrightarrow> matched (dropSink k d)"
  by (simp add: matched_def dropSink_def gm_get_delete Let_def)

lemma matched_closure:
  "matched (dialHandleClosure err d) = matched d" "matched (d \<lparr> di_reader := b \<rparr>) = matched d"
  "matched (d \<lparr> di_done := b \<rparr>) = matched d"
  by (simp_all add: matched_def dialHandleClosure_def)

lemma matched_unrouted: "matched d \<Longrightarrow> matched (d \<lparr> di_routing := None \<rparr>)"
  by (simp add: matched_def Let_def)

lemma dropSink_call [simp]: "di_calls (dropSink k d) = di_calls d"
  by (simp add: dropSink_def)

lemma matched_read: "dialReadMessages outcome d = Some d' \<Longrightarrow> matched d \<Longrightarrow> matched d'"
  by (auto simp: dialReadMessages_def matched_closure split: if_splits dial_read.splits prod.splits sum.splits)
    (auto simp: matched_def Let_def)

lemma matched_close:
  assumes "closeOnContextDone err d = Some d'" and "matched d"
  shows "matched d'"
proof -
  let ?cs = "close_sinks (map snd (di_responseSinks d)) (di_calls d)"
  have d': "d' = dialHandleClosure err (d \<lparr> di_closer := False, di_responseSinks := [], di_calls := ?cs \<rparr>)"
    using assms(1) by (simp add: closeOnContextDone_def split: if_splits)
  have "map ca_req ?cs = map ca_req (di_calls d)" by (rule nth_equalityI) (simp_all add: close_sinks_def)
  moreover have "list_all answered ?cs" using assms(2)
    by (auto simp: matched_def Let_def list_all_length close_sinks_def answered_def)
  ultimately have "matched (d \<lparr> di_closer := False, di_responseSinks := [], di_calls := ?cs \<rparr>)"
    using assms(2) by (simp add: matched_def gm_get_def Let_def)
  then show ?thesis unfolding d' by (simp only: matched_closure)
qed

lemma matched_route:
  assumes "routeMessage stop d = Some d'" and "matched d"
  shows "matched d'"
proof -
  obtain msg target where r: "di_routing d = Some (msg, target)" using assms(1) by (auto simp: routeMessage_def split: option.splits)
  note m = matched_unrouted [OF assms(2)]
  show ?thesis
  proof (cases "stop \<or> target = None")
    case True
    then show ?thesis using assms(1) r m
      by (auto simp: routeMessage_def Let_def matched_closure split: if_splits) (simp add: matched_def)
  next
    case False
    then obtain k where k: "target = Some k" by auto
    let ?c = "(di_calls d ! k) \<lparr> ca_buffer := Some msg \<rparr>"
    have "owned (map ca_req (di_calls d)) (m_RequestID msg) k" using assms(2) r k by (simp add: matched_def Let_def)
    then have "answered ?c" using assms(2) by (auto simp: matched_def Let_def list_all_length answered_def owned_def)
    then have "matched (d \<lparr> di_routing := None, di_calls := (di_calls d)[k := ?c] \<rparr>)"
      using m by (simp add: matched_def Let_def reqs_update answered_update)
    moreover have "matched (d \<lparr> di_panic := Some ''send on closed channel'' \<rparr>)" using assms(2) by (simp add: matched_def)
    ultimately show ?thesis using assms(1) r k False m by (auto simp: routeMessage_def Let_def split: if_splits)
  qed
qed

lemma owned_later: "owned reqs rid k \<Longrightarrow> owned (reqs @ [req]) rid k"
  by (simp add: owned_def nth_append)

lemma matched_start:
  assumes "matched d"
  shows "matched (startCall req d)"
proof -
  have "owned (map ca_req (di_calls d) @ [req]) (m_RequestID req) (length (di_calls d))" by (simp add: owned_def nth_append)
  then show ?thesis using assms owned_later by (auto simp: startCall_def matched_def Let_def answered_def)
qed

lemma matched_send: "sendCall k failure d = Some d' \<Longrightarrow> matched d \<Longrightarrow> matched d'"
  by (auto simp: sendCall_def split: if_splits sum.splits option.splits intro!: matched_phase matched_drop)

lemma matched_wake:
  assumes "wakeCall k reason d = Some d'" and "matched d"
  shows "matched d'"
proof -
  let ?c = "di_calls d ! k"
  have k: "k < length (di_calls d)" using assms(1) by (auto simp: wakeCall_def Let_def split: if_splits)
  have a: "answered ?c" using assms(2) k by (simp add: matched_def Let_def list_all_length)
  have "matched (d \<lparr> di_calls := (di_calls d)[k := ?c \<lparr> ca_buffer := None, ca_phase := Cleaning (Some res) \<rparr>] \<rparr>)"
    if "ca_buffer ?c = Some res" for res
  proof -
    have "answered (?c \<lparr> ca_buffer := None, ca_phase := Cleaning (Some res) \<rparr>)" using a that by (simp add: answered_def)
    then show ?thesis using assms(2) by (simp add: matched_def Let_def reqs_update answered_update)
  qed
  then show ?thesis using assms k
    by (cases reason) (auto simp: wakeCall_def Let_def intro!: matched_phase split: if_splits option.splits)
qed

lemma matched_return:
  assumes "returnCall k d = Some d'" and "matched d"
  shows "matched d'"
proof -
  have k: "k < length (di_calls d)" using assms(1) by (auto simp: returnCall_def split: if_splits)
  then have "answered (di_calls d ! k)" using assms(2) by (simp add: matched_def Let_def list_all_length)
  then show ?thesis using assms k
    by (auto simp: returnCall_def answered_def split: call_phase.splits option.splits intro!: matched_phase matched_drop)
qed

interpretation answering: machine_invariant dialer_step matched
proof
  fix d ev d' assume "matched d" "dialer_step ev d = Some d'"
  moreover have "awaitDialer d = Some d' \<Longrightarrow> matched d'"
    using \<open>matched d\<close> by (auto simp: awaitDialer_def matched_def split: if_splits)
  ultimately show "matched d'"
    by (cases ev) (auto simp: dialer_step_def matched_closure matched_start
      intro: matched_read matched_close matched_route matched_send matched_wake matched_return split: if_splits)
qed

lemma dial_matched: "Dial handshake deadline (NewWebsocketDialer cfg) = Inr d \<Longrightarrow> matched d"
  by (auto simp: Dial_def NewWebsocketDialer_def matched_def Let_def gm_get_def IsConnected_def split: option.splits)

text \<open>Whatever the interleaving, a call that succeeds returns a message with the identifier of its request.\<close>

theorem call_answered:
  assumes "Dial handshake deadline (NewWebsocketDialer cfg) = Inr d0" and "run_events dialer_step evs d0 = Some d"
    and "c \<in> set (di_calls d)" and "ca_phase c = Returned (Inr res)"
  shows "m_RequestID res = m_RequestID (ca_req c)"
proof -
  have "matched d" by (rule answering.run_keeps [OF assms(2) dial_matched [OF assms(1)]])
  then show ?thesis using assms(3,4) by (auto simp: matched_def Let_def list_all_iff answered_def)
qed

text \<open>The closer empties the map of channels after the reader has looked one up: the reader can then send on a closed
  channel, which panics.\<close>

definition ping_call :: Message where
  "ping_call = NewRequest 5 7 ''node.v1.ping'' None"

definition ping_reply :: string where
  "ping_reply = ''[2,7,'' @ [quote_char] @ ''node.v1.ping'' @ [quote_char] @ '',{},6]''"

lemma ping_wire:
  "MarshalJSON ping_call = Inr (''[1,7,'' @ [quote_char] @ ''node.v1.ping'' @ [quote_char] @ '',{},5]'')"
  "UnmarshalJSON ping_reply zero_message = (Inr (), NewResponse 6 7 ''node.v1.ping'' None)"
  by code_simp+

lemma ping_identifiers: "m_RequestID ping_call = 7" "m_RequestID (NewResponse now 7 method p) = 7"
  by (simp_all add: ping_call_def NewRequest_def NewResponse_def NewMessage_def)

theorem dialer_panics:
  "Option.bind (case Dial None None (NewWebsocketDialer DefaultWebsocketDialerConfig) of Inr d \<Rightarrow> Some d | Inl _ \<Rightarrow> None)
     (\<lambda>d. map_option di_panic (run_events dialer_step [StartCall ping_call, SendCall 0 None, ReadNext (Incoming ping_reply),
        ParentCancel, CloseConn None, Route False] d)) = Some (Some ''send on closed channel'')"
  by (simp add: Dial_def NewWebsocketDialer_def IsConnected_def DefaultWebsocketDialerConfig_def dialer_step_def startCall_def
      sendCall_def set_phase_def dialReadMessages_def closeOnContextDone_def close_sinks_def dialHandleClosure_def routeMessage_def
      ping_wire ping_identifiers gm_get_def Let_def)

end
