(* ===== verification/Spec2Isabelle.thy ===== *)
theory Spec2Isabelle
  imports Advancer_Properties Core_Properties Contract_State Worker_Properties Event_Properties
    Service_Properties Key_Properties Session_Payouts Client_Properties Sdk_Properties
    Rpc_Properties Connection_Properties Rpc_Dialer
begin

text \<open>
  \<^bold>\<open>Nitrolite clearnode: a verification library.\<close>

  A clearnode keeps, for every user and asset, an off-chain balance backed by an on-chain channel between the user
  and the node. Users submit signed \<^emph>\<open>states\<close>; the node checks that a state is a legal successor of the last one,
  countersigns and stores it. Transfers, app sessions (shared accounts under a signature quorum), cross-chain
  escrow and the actions sent to the contracts are all expressed as transitions between states. Events of the
  contracts come back through listeners and reactors and update the same database.

  \<^bold>\<open>Parts of the program and the theories that model them\<close> (paths under \<^verbatim>\<open>src/\<close>)

  \<^item> \<open>Prelude\<close>: results of fallible Go code (\<open>Inl\<close> an error, a Go panic is the error \<open>Panic\<close>), the
    loops and string and map functions of the standard library that the sources use.
  \<^item> \<open>Externals\<close>: code outside the repository as the record \<open>'d libs\<close> (shopspring decimals of
    type \<open>'d\<close>, keccak256, ABI coding, ECDSA and hex coding of go-ethereum), the documented laws as locales
    (\<open>decimal_spec\<close>, \<open>abi_spec\<close>, \<open>ecdsa_spec\<close>) and a concrete instance \<open>ref_libs\<close> that satisfies them.
  \<^item> \<open>Core_Types\<close>, \<open>Core_Utils\<close>, \<open>Core_State\<close>: \<^verbatim>\<open>pkg/core/types.go\<close>, \<^verbatim>\<open>utils.go\<close>:
    states, ledgers, transitions, identifiers, amounts, the successor state and every \<^verbatim>\<open>Apply\<close> method.
  \<^item> \<open>State_Advancer\<close>: \<^verbatim>\<open>pkg/core/state_advancer.go\<close>, with the abstract effect of a
    transition on a ledger (\<open>home_effect\<close>) and the runs of a wallet (\<open>wallet_run\<close>).
  \<^item> \<open>Signing\<close>, \<open>State_Packer\<close>, \<open>Channel_Signer\<close>: \<^verbatim>\<open>pkg/sign\<close>, \<^verbatim>\<open>pkg/core/state_packer.go\<close>,
    \<^verbatim>\<open>channel_signer.go\<close>, \<^verbatim>\<open>session_key.go\<close>.
  \<^item> \<open>App_Core\<close>: \<^verbatim>\<open>pkg/app\<close>. \<open>Action_Gateway\<close>: \<^verbatim>\<open>clearnode/action_gateway\<close>.
    \<open>Memory_Store\<close>: \<^verbatim>\<open>clearnode/store/memory\<close>.
  \<^item> \<open>Database\<close>, \<open>DB_State\<close>, \<open>DB_App\<close>, \<open>DB_Keys\<close>, \<open>DB_Actions\<close>: \<^verbatim>\<open>clearnode/store/database\<close>. The
    database is a record of tables, each a list of rows in insertion order; a method that writes is a function
    \<open>('d, 'a) db_op\<close> from the database to a result and the new database, and a transaction that
    fails leaves the database as it was.
  \<^item> \<open>Rpc_Types\<close>: wire types of \<^verbatim>\<open>pkg/rpc\<close>. \<open>Channel_Api\<close>, \<open>App_Session_Api\<close>, \<open>Node_Api\<close>: the endpoints of
    \<^verbatim>\<open>clearnode/api\<close>, from the parsed request to the response, and the rate limiter.
  \<^item> \<open>Rpc_Json\<close>, \<open>Json_Laws\<close>: what the code uses of \<^verbatim>\<open>encoding/json\<close> (scanning, compaction, quoting, arrays and maps of
    raw texts) and its laws. \<open>Rpc_Message\<close>: \<^verbatim>\<open>pkg/rpc/message.go\<close>, \<^verbatim>\<open>error.go\<close>. \<open>Rpc_Node\<close>: \<^verbatim>\<open>context.go\<close>, routing
    and request processing of \<^verbatim>\<open>node.go\<close>, and \<^verbatim>\<open>clearnode/api/rpc_router.go\<close>. A handler is what it does before and
    after \<^verbatim>\<open>Next\<close>; the endpoints are a parameter of the router, since they are modelled on decoded requests.
    \<open>Rpc_Connection\<close>: \<^verbatim>\<open>connection.go\<close>, \<^verbatim>\<open>connection_hub.go\<close> and \<^verbatim>\<open>ServeHTTP\<close>. A list of events says in which order
    the goroutines of a connection run and what the socket and the timers answer. \<open>Rpc_Dialer\<close>: \<^verbatim>\<open>dialer.go\<close>, the
    client side, in the same way.
  \<^item> \<open>Event_Handlers\<close>: \<^verbatim>\<open>clearnode/event_handlers/service.go\<close>. \<open>Chain_Reactor\<close>,
    \<open>Chain_Listener\<close>, \<open>Contract_State\<close>: \<^verbatim>\<open>pkg/blockchain/evm\<close> without the generated
    bindings. \<open>Blockchain_Worker\<close>: \<^verbatim>\<open>clearnode/blockchain_worker.go\<close>.
  \<^item> \<open>Contract_Client\<close>: \<^verbatim>\<open>blockchain_client.go\<close>, \<^verbatim>\<open>locking_client.go\<close> and \<^verbatim>\<open>client_opts.go\<close> of
    \<^verbatim>\<open>pkg/blockchain/evm\<close>. The generated bindings are the record \<open>evm\<close>, a parameter; a client method returns its result
    and the contract calls it sent, each with the transaction options in force.
  \<^item> \<open>Sdk_Client\<close>: the channel and app session operations of \<^verbatim>\<open>sdk/go\<close>. The node is reached through the record
    \<open>RpcClient\<close>; \<open>node_rpc\<close> joins a client with the modelled node.

  \<^bold>\<open>What is shown\<close>

  \<^item> \<open>Advancer_Properties\<close> (C1 to C6): an accepted state is exactly the effect of its transition; runs stay
    solvent; nobody credits himself; cross-chain deposits settle.
  \<^item> \<open>Core_Properties\<close> (C7 to C12): identifiers and packed states separate what they should, signatures
    and session keys recover to the wallet that authorised them, signer bitmaps and amount conversion are exact.
  \<^item> \<open>Worker_Properties\<close> (C13 to C15): draining the action queue ends, settles every action and is bounded.
  \<^item> \<open>Listener_Properties\<close>, \<open>Event_Properties\<close> (C16, C19 to C21): the reconciliation covers the block range,
    events are applied atomically and once, listener restarts do not change the outcome, and the event
    handlers refine the abstract channel life cycle.
  \<^item> \<open>Store_Relations\<close>, \<open>Node_Invariants\<close> (C17, C18): a locale per group of store methods states what a
    relation on databases must satisfy; every endpoint, handler and worker pass then keeps it. Its instances
    give append-only history and the uniqueness constraints for every run of the node.
  \<^item> \<open>Channel_Properties\<close> (C22 to C24): the wire format, what an accepted state has passed, conservation
    of funds in a transfer.
  \<^item> \<open>Service_Properties\<close>, \<open>Key_Properties\<close> (C25 to C30): signed bytes and submitted contract state agree, amounts of
    a verified asset catalogue convert, page limits, admission of gated actions, the rate limiter, rotation of session keys.
  \<^item> \<open>Session_Ledger\<close>, \<open>Session_Properties\<close>, \<open>Session_Payouts\<close> (C31 to C33): the ledger of an app session as numbers; a
    quorum stands behind every update, operating redistributes, and withdrawals and closing pay out what leaves the session.
  \<^item> \<open>Client_Properties\<close>, \<open>Sdk_Properties\<close> (C34 to C36): which contract calls the client sends and with how much value;
    an SDK client cannot go on after its channel was closed; what an honest client builds, the node accepts.
  \<^item> \<open>Rpc_Properties\<close> (C37 to C39): the router with its groups and middleware behaves as one table of methods; messages
    survive the wire; which frames are answered, and with what. \<open>Connection_Properties\<close> (C40): how a connection ends.
    \<open>Rpc_Dialer\<close>: a call returns only a message with the identifier of its request; the reader can panic while the connection closes.

  \<^bold>\<open>Conventions\<close>

  \<^item> Errors keep the fixed part of their text, not the formatted values. An \<^verbatim>\<open>Apply\<close> method that fails returns the
    error only; its callers drop the receiver then. Logging and metrics are left out.
  \<^item> Machine integers are words of their width, with wrap-around; block numbers, versions and weights
    included. Token counts of the rate limiter are rationals in place of floats.
  \<^item> \<open>now\<close> is the clock, in seconds. Go maps are association lists; where the order of iteration matters
    the code sorts, and so does the model.
  \<^item> The database follows SQL over the schema of the migrations (primary keys, unique indexes, defaults of gorm,
    \<^verbatim>\<open>First\<close> by primary key). Rounding of NUMERIC columns, padding of CHAR columns and failing connections
    are not modelled.
  \<^item> Loops that need not end are \<open>partial_function (option)\<close>, \<open>None\<close> being non-termination; C13 and C16 show
    that they end.

  \<^bold>\<open>Not modelled\<close>: the typed wrappers of \<^verbatim>\<open>pkg/rpc/client.go\<close>, dialling again on a dialer whose first connection is still closing, sockets and the HTTP upgrade, start-up
  (\<^verbatim>\<open>main.go\<close>, \<^verbatim>\<open>runtime.go\<close>), how \<^verbatim>\<open>encoding/json\<close> maps structs to objects, generated bindings, logging and metrics, KMS signers, the read-only queries of the Go SDK, \<^verbatim>\<open>cerebro\<close> and the stress tests.
\<close>

end
